(* ===== verification/Prelude.thy ===== *)
theory Prelude
  imports Main "HOL-Library.Word"
begin

text \<open>
  Shared vocabulary of the development: bytes and Python strings, the built-in exceptions
  the code raises or lets through, results that are either an exception or a value
  (\<open>py_error + 'a\<close>), Python truthiness of optional strings and lists, and the generic
  lemmas on lists, options and results that the component theories use.

  A Python \<open>str\<close> is a list of Unicode code points (\<open>pystr = nat list\<close>), because the
  code encodes strings to Latin-1 and decodes them as UTF-8 and both may fail; a literal
  is written \<open>lit ''abc''\<close>. A Python \<open>bytes\<close> is a list of 8-bit words.
\<close>

named_theorems result_simps \<open>evaluation of the result and effect combinators\<close>
named_theorems wire_laws \<open>what a message coder reads back of what it wrote\<close>

type_synonym byte = "8 word"
type_synonym bytes = "byte list"
type_synonym pystr = "nat list"

abbreviation lit :: "string \<Rightarrow> pystr" where
  "lit s \<equiv> map of_char s"

section \<open>Built-in exceptions and results\<close>

text \<open>
  The exceptions of Python and of its standard library that occur. \<open>KeyError None\<close> is a
  failed subscript whose key is not a string; \<open>DecodeError\<close> is what the protobuf runtime
  raises for bytes that are no message of the expected type.
\<close>

datatype py_error =
    ValueError pystr
  | KeyError "pystr option"
  | IndexError
  | TypeError
  | AttributeError pystr
  | RuntimeError pystr
  | NotImplementedError
  | UnboundLocalError pystr
  | UnicodeEncodeError
  | UnicodeDecodeError
  | DecodeError
  | FileNotFoundError pystr
  | OSError pystr
  | ConnectionError pystr
  | TimeoutError

type_synonym 'a result = "py_error + 'a"

fun bind_res :: "'e + 'a \<Rightarrow> ('a \<Rightarrow> 'e + 'b) \<Rightarrow> 'e + 'b" where
  "bind_res (Inl e) f = Inl e"
| "bind_res (Inr x) f = f x"

declare bind_res.simps [result_simps]

lemma bind_res_Inr_iff [simp]:
  "bind_res m f = Inr y \<longleftrightarrow> (\<exists>x. m = Inr x \<and> f x = Inr y)"
  by (cases m) auto

lemma bind_res_Inl_iff:
  "bind_res m f = Inl e \<longleftrightarrow> m = Inl e \<or> (\<exists>x. m = Inr x \<and> f x = Inl e)"
  by (cases m) auto

lemma bind_res_assoc: "bind_res (bind_res m f) g = bind_res m (\<lambda>x. bind_res (f x) g)"
  by (cases m) auto

lemma bind_res_cong [fundef_cong]:
  "m = m' \<Longrightarrow> (\<And>x. m' = Inr x \<Longrightarrow> f x = g x) \<Longrightarrow> bind_res m f = bind_res m' g"
  by (cases m') auto

text \<open>A list comprehension whose element expression may raise: left to right, first failure wins.\<close>

fun map_res :: "('a \<Rightarrow> 'e + 'b) \<Rightarrow> 'a list \<Rightarrow> 'e + 'b list" where
  "map_res f [] = Inr []"
| "map_res f (x # xs) = bind_res (f x) (\<lambda>y. bind_res (map_res f xs) (\<lambda>ys. Inr (y # ys)))"

lemma map_res_cong [fundef_cong]:
  "xs = ys \<Longrightarrow> (\<And>x. x \<in> set ys \<Longrightarrow> f x = g x) \<Longrightarrow> map_res f xs = map_res g ys"
  by (induction ys arbitrary: xs) auto

lemma map_res_Inr_iff: "map_res f xs = Inr ys \<longleftrightarrow> list_all2 (\<lambda>x y. f x = Inr y) xs ys"
  by (induction xs arbitrary: ys) (auto simp: list_all2_Cons1)

lemma map_res_total: "(\<And>x. x \<in> set xs \<Longrightarrow> f x = Inr (g x)) \<Longrightarrow> map_res f xs = Inr (map g xs)"
  by (induction xs) auto

lemma map_res_length: "map_res f xs = Inr ys \<Longrightarrow> length ys = length xs"
  by (simp add: map_res_Inr_iff list_all2_lengthD)

lemma map_res_Inl_D:
  "map_res f xs = Inl e \<Longrightarrow>
    \<exists>ys x zs. xs = ys @ x # zs \<and> f x = Inl e \<and> (\<forall>y \<in> set ys. \<exists>v. f y = Inr v)"
proof (induction xs)
  case Nil
  then show ?case by simp
next
  case (Cons a xs)
  show ?case
  proof (cases "f a")
    case (Inl d)
    with Cons.prems show ?thesis
      by (intro exI [of _ "[]"] exI [of _ a] exI [of _ xs]) simp
  next
    case (Inr v)
    with Cons.prems have "map_res f xs = Inl e" by (auto simp: bind_res_Inl_iff)
    with Cons.IH obtain ys x zs where "xs = ys @ x # zs" "f x = Inl e"
      "\<forall>y \<in> set ys. \<exists>v. f y = Inr v" by blast
    with Inr show ?thesis
      by (intro exI [of _ "a # ys"] exI [of _ x] exI [of _ zs]) simp
  qed
qed

text \<open>Requiring a condition: the \<open>if not c: raise e\<close> guard.\<close>

definition require :: "bool \<Rightarrow> 'e \<Rightarrow> 'e + unit" where
  "require c e = (if c then Inr () else Inl e)"

lemma require_simps [simp]:
  "require True e = Inr ()" "require False e = Inl e"
  by (simp_all add: require_def)

lemma require_Inr_iff [simp]: "require c e = Inr u \<longleftrightarrow> c"
  by (simp add: require_def)

lemma bind_require [simp]: "bind_res (require c e) f = (if c then f () else Inl e)"
  by (simp add: require_def)

definition of_option :: "'e \<Rightarrow> 'a option \<Rightarrow> 'e + 'a" where
  "of_option e x = (case x of None \<Rightarrow> Inl e | Some v \<Rightarrow> Inr v)"

lemma of_option_simps [simp, result_simps]:
  "of_option e None = Inl e" "of_option e (Some v) = Inr v"
  by (simp_all add: of_option_def)

lemma of_option_Inr_iff [simp]: "of_option e x = Inr v \<longleftrightarrow> x = Some v"
  by (cases x) auto

section \<open>Truthiness\<close>

text \<open>
  \<open>if x\<close> on an optional string, bytes or list is false for \<open>None\<close> and for the empty
  value; \<open>x or y\<close> is \<open>y\<close> in that case.
\<close>

fun truthy :: "'a list option \<Rightarrow> bool" where
  "truthy None = False"
| "truthy (Some xs) = (xs \<noteq> [])"

definition or_else :: "'a list option \<Rightarrow> 'a list \<Rightarrow> 'a list" where
  "or_else x d = (if truthy x then the x else d)"

lemma truthy_iff: "truthy x \<longleftrightarrow> (\<exists>y ys. x = Some (y # ys))"
  by (cases x) (auto simp: neq_Nil_conv)

lemma truthy_cases:
  obtains (none) "x = None" | (empty) "x = Some []" | (some) a as where "x = Some (a # as)"
  by (cases x; cases "the x") auto

lemma or_else_simps [simp]:
  "or_else None d = d" "or_else (Some []) d = d" "or_else (Some (y # ys)) d = y # ys"
  by (simp_all add: or_else_def)

lemma or_else_nonempty: "d \<noteq> [] \<Longrightarrow> or_else x d \<noteq> []"
  by (cases x) (auto simp: or_else_def)

section \<open>Lists\<close>

text \<open>Subscripts of a Python list with a non-negative index.\<close>

definition nth_res :: "'a list \<Rightarrow> nat \<Rightarrow> 'a result" where
  "nth_res xs i = (if i < length xs then Inr (xs ! i) else Inl IndexError)"

lemma nth_res_Inr_iff [simp]: "nth_res xs i = Inr x \<longleftrightarrow> i < length xs \<and> x = xs ! i"
  by (auto simp: nth_res_def)

lemma nth_res_0 [simp]: "nth_res (x # xs) 0 = Inr x" "nth_res [] i = Inl IndexError"
  by (simp_all add: nth_res_def)

text \<open>The first element a predicate accepts, as a \<open>for \<dots>: if \<dots>: return\<close> loop finds it.\<close>

lemma find_append: "find P (xs @ ys) = (case find P xs of None \<Rightarrow> find P ys | Some x \<Rightarrow> Some x)"
  by (induction xs) auto

lemma find_Some_D: "find P xs = Some x \<Longrightarrow> x \<in> set xs \<and> P x"
  by (induction xs) (auto split: if_splits)

lemma find_Some_split:
  "find P xs = Some x \<Longrightarrow> \<exists>ys zs. xs = ys @ x # zs \<and> P x \<and> (\<forall>y \<in> set ys. \<not> P y)"
proof (induction xs)
  case Nil
  then show ?case by simp
next
  case (Cons a xs)
  show ?case
  proof (cases "P a")
    case True
    with Cons.prems show ?thesis by (intro exI [of _ "[]"] exI [of _ xs]) auto
  next
    case False
    with Cons obtain ys zs where "xs = ys @ x # zs" "P x" "\<forall>y \<in> set ys. \<not> P y" by auto
    with False show ?thesis by (intro exI [of _ "a # ys"] exI [of _ zs]) auto
  qed
qed

lemma find_filter: "find P (filter Q xs) = find (\<lambda>x. Q x \<and> P x) xs"
  by (induction xs) auto

lemma map_of_zip_upt:
  "distinct xs \<Longrightarrow> i < length xs \<Longrightarrow> map_of (zip xs [0..<length xs]) (xs ! i) = Some i"
  by (simp add: map_of_zip_nth)

end
