(* ===== verification/Py_Text.thy ===== *)
theory Py_Text
  imports Prelude
begin

text \<open>
  What the code uses of Python's text and bytes library: Latin-1 and UTF-8
  (\<open>str.encode('latin1')\<close>, \<open>bytes.decode('utf-8')\<close>), case conversion, \<open>bytes.split\<close>,
  \<open>hexdigest\<close>, the decimal rendering of integers in f-strings and
  \<open>base64.b64decode\<close>. Each comes with the laws the component theories rest on: UTF-8
  decoding inverts encoding and accepts nothing else, hex and base64 are inverted.
\<close>

section \<open>Latin-1\<close>

definition latin1_encode :: "pystr \<Rightarrow> bytes result" where
  "latin1_encode s = (if \<forall>c \<in> set s. c < 256 then Inr (map of_nat s) else Inl UnicodeEncodeError)"

definition bytes_nats :: "bytes \<Rightarrow> nat list" where
  "bytes_nats bs = map unat bs"

lemma bytes_nats_simps [simp]:
  "bytes_nats [] = []" "bytes_nats (b # bs) = unat b # bytes_nats bs"
  "bytes_nats (as @ bs) = bytes_nats as @ bytes_nats bs"
  by (simp_all add: bytes_nats_def)

lemma bytes_nats_bound: "n \<in> set (bytes_nats bs) \<Longrightarrow> n < 256"
  by (auto simp: bytes_nats_def intro: less_le_trans [OF unsigned_less])

lemma of_nat_bytes_nats [simp]: "map of_nat (bytes_nats bs) = bs"
  by (simp add: bytes_nats_def o_def)

lemma unat_of_nat_byte: "n < 256 \<Longrightarrow> unat (of_nat n :: byte) = n"
  by (simp add: unat_of_nat)

lemma bytes_nats_of_nat: "\<forall>c \<in> set s. c < 256 \<Longrightarrow> bytes_nats (map of_nat s) = s"
  by (induction s) (auto simp: unat_of_nat_byte)

lemma bytes_nats_inject: "bytes_nats as = bytes_nats bs \<Longrightarrow> as = bs"
  by (metis of_nat_bytes_nats)

lemma latin1_encode_Inr_iff:
  "latin1_encode s = Inr bs \<longleftrightarrow> bytes_nats bs = s"
  by (auto simp: latin1_encode_def bytes_nats_of_nat dest: bytes_nats_bound)

lemma latin1_encode_Inl_iff:
  "latin1_encode s = Inl e \<longleftrightarrow> e = UnicodeEncodeError \<and> (\<exists>c \<in> set s. 256 \<le> c)"
  by (auto simp: latin1_encode_def not_less)

section \<open>UTF-8\<close>

definition scalar :: "nat \<Rightarrow> bool" where
  "scalar c \<longleftrightarrow> c < 0x110000 \<and> \<not> (0xD800 \<le> c \<and> c < 0xE000)"

definition utf8_char :: "nat \<Rightarrow> nat list" where
  "utf8_char c =
    (if c < 0x80 then [c]
     else if c < 0x800 then [0xC0 + c div 64, 0x80 + c mod 64]
     else if c < 0x10000 then [0xE0 + c div 4096, 0x80 + c div 64 mod 64, 0x80 + c mod 64]
     else [0xF0 + c div 262144, 0x80 + c div 4096 mod 64, 0x80 + c div 64 mod 64, 0x80 + c mod 64])"

definition cont :: "nat \<Rightarrow> bool" where
  "cont b \<longleftrightarrow> 0x80 \<le> b \<and> b < 0xC0"

text \<open>The next code point of a byte sequence, strict: no overlong form, no surrogate.\<close>

fun utf8_next :: "nat list \<Rightarrow> (nat \<times> nat list) option" where
  "utf8_next [] = None"
| "utf8_next (b0 # bs) =
    (if b0 < 0x80 then Some (b0, bs)
     else if b0 < 0xC0 then None
     else if b0 < 0xE0 then
       (case bs of b1 # r \<Rightarrow>
          let c = (b0 - 0xC0) * 64 + (b1 - 0x80)
          in if cont b1 \<and> 0x80 \<le> c then Some (c, r) else None
        | _ \<Rightarrow> None)
     else if b0 < 0xF0 then
       (case bs of b1 # b2 # r \<Rightarrow>
          let c = (b0 - 0xE0) * 4096 + (b1 - 0x80) * 64 + (b2 - 0x80)
          in if cont b1 \<and> cont b2 \<and> 0x800 \<le> c \<and> scalar c then Some (c, r) else None
        | _ \<Rightarrow> None)
     else
       (case bs of b1 # b2 # b3 # r \<Rightarrow>
          let c = (b0 - 0xF0) * 262144 + (b1 - 0x80) * 4096 + (b2 - 0x80) * 64 + (b3 - 0x80)
          in if cont b1 \<and> cont b2 \<and> cont b3 \<and> 0x10000 \<le> c \<and> scalar c then Some (c, r)
             else None
        | _ \<Rightarrow> None))"

lemma utf8_next_shorter: "utf8_next bs = Some (c, r) \<Longrightarrow> length r < length bs"
  by (cases bs) (auto simp: Let_def split: if_splits list.splits)

function utf8_decode_nats :: "nat list \<Rightarrow> nat list option" where
  "utf8_decode_nats bs =
    (if bs = [] then Some []
     else case utf8_next bs of
       None \<Rightarrow> None
     | Some (c, r) \<Rightarrow> map_option (\<lambda>s. c # s) (utf8_decode_nats r))"
  by pat_completeness auto
termination
  by (relation "measure length") (auto dest: utf8_next_shorter)

declare utf8_decode_nats.simps [simp del]

definition utf8_decode :: "bytes \<Rightarrow> pystr result" where
  "utf8_decode bs = of_option UnicodeDecodeError (utf8_decode_nats (bytes_nats bs))"

definition utf8_encode :: "pystr \<Rightarrow> nat list" where
  "utf8_encode s = concat (map utf8_char s)"

lemma div_64_chain:
  "(c::nat) div 4096 = c div 64 div 64" "(c::nat) div 262144 = c div 64 div 64 div 64"
  by (simp_all flip: div_mult2_eq)

lemma digits_64:
  fixes c :: nat
  shows "c div 64 * 64 + c mod 64 = c"
    and "c div 4096 * 4096 + c div 64 mod 64 * 64 + c mod 64 = c"
    and "c div 262144 * 262144 + c div 4096 mod 64 * 4096 + c div 64 mod 64 * 64 + c mod 64 = c"
proof -
  have 1: "n div 64 * 64 + n mod 64 = n" for n :: nat by simp
  show "c div 64 * 64 + c mod 64 = c" by simp
  show "c div 4096 * 4096 + c div 64 mod 64 * 64 + c mod 64 = c"
    using 1 [of c] 1 [of "c div 64"] unfolding div_64_chain by linarith
  show "c div 262144 * 262144 + c div 4096 mod 64 * 4096 + c div 64 mod 64 * 64 + c mod 64 = c"
    using 1 [of c] 1 [of "c div 64"] 1 [of "c div 64 div 64"] unfolding div_64_chain by linarith
qed

lemma undigits_64:
  fixes a b d e c :: nat
  shows "a * 64 + b = c \<Longrightarrow> b < 64 \<Longrightarrow> c div 64 = a \<and> c mod 64 = b"
    and "a * 4096 + b * 64 + d = c \<Longrightarrow> b < 64 \<Longrightarrow> d < 64 \<Longrightarrow>
      c div 4096 = a \<and> c div 64 mod 64 = b \<and> c mod 64 = d"
    and "a * 262144 + b * 4096 + d * 64 + e = c \<Longrightarrow> b < 64 \<Longrightarrow> d < 64 \<Longrightarrow> e < 64 \<Longrightarrow>
      c div 262144 = a \<and> c div 4096 mod 64 = b \<and> c div 64 mod 64 = d \<and> c mod 64 = e"
proof -
  have two: "x * 64 + y = n \<Longrightarrow> y < 64 \<Longrightarrow> n div 64 = x \<and> n mod 64 = y" for x y n :: nat
    by auto
  then show "a * 64 + b = c \<Longrightarrow> b < 64 \<Longrightarrow> c div 64 = a \<and> c mod 64 = b" .
  have three: "x * 4096 + y * 64 + z = n \<Longrightarrow> y < 64 \<Longrightarrow> z < 64 \<Longrightarrow>
      n div 64 = x * 64 + y \<and> n mod 64 = z" for x y z n :: nat
    using two [of "x * 64 + y" z n] by (simp add: algebra_simps)
  show "a * 4096 + b * 64 + d = c \<Longrightarrow> b < 64 \<Longrightarrow> d < 64 \<Longrightarrow>
      c div 4096 = a \<and> c div 64 mod 64 = b \<and> c mod 64 = d"
    using three [of a b d c] two [of a b "c div 64"] by (simp add: div_64_chain)
  assume c: "a * 262144 + b * 4096 + d * 64 + e = c" and lt: "b < 64" "d < 64" "e < 64"
  have "c div 64 = a * 4096 + b * 64 + d \<and> c mod 64 = e"
    using two [of "a * 4096 + b * 64 + d" e c] c lt by (simp add: algebra_simps)
  then show "c div 262144 = a \<and> c div 4096 mod 64 = b \<and> c div 64 mod 64 = d \<and> c mod 64 = e"
    using three [of a b d "c div 64"] two [of a b "c div 64 div 64"] lt
    by (simp add: div_64_chain)
qed

lemma utf8_next_char:
  assumes "scalar c"
  shows "utf8_next (utf8_char c @ r) = Some (c, r)"
proof -
  consider "c < 0x80" | "0x80 \<le> c" "c < 0x800" | "0x800 \<le> c" "c < 0x10000"
    | "0x10000 \<le> c" "c < 0x110000"
    using assms by (force simp: scalar_def)
  then show ?thesis
  proof cases
    case 1
    then show ?thesis by (simp add: utf8_char_def)
  next
    case 2
    moreover from 2 have "c div 64 < 32" by (simp add: div_less_iff_less_mult)
    ultimately show ?thesis by (simp add: utf8_char_def cont_def digits_64 Let_def)
  next
    case 3
    moreover from 3 have "c div 4096 < 16" by (simp add: div_less_iff_less_mult)
    ultimately show ?thesis using assms by (simp add: utf8_char_def cont_def digits_64 Let_def)
  next
    case 4
    with assms show ?thesis by (simp add: utf8_char_def cont_def digits_64 Let_def)
  qed
qed

lemma cont_digit: "cont b \<Longrightarrow> \<exists>d < 64. b = 0x80 + d"
  by (rule exI [of _ "b - 0x80"]) (auto simp: cont_def)

lemma utf8_next_Some:
  assumes "utf8_next bs = Some (c, r)" "\<forall>b \<in> set bs. b < 256"
  shows "scalar c \<and> bs = utf8_char c @ r"
proof -
  from assms(1) obtain b0 bs' where bs: "bs = b0 # bs'" by (cases bs) auto
  have b0: "b0 < 256" using assms(2) bs by simp
  consider "b0 < 0x80" | "0xC0 \<le> b0" "b0 < 0xE0" | "0xE0 \<le> b0" "b0 < 0xF0" | "0xF0 \<le> b0"
    using assms(1) bs by (auto split: if_splits)
  then show ?thesis
  proof cases
    case 1
    with assms(1) bs show ?thesis by (auto simp: scalar_def utf8_char_def)
  next
    case 2
    with assms(1) bs obtain d where d: "d < 64" "bs = b0 # (0x80 + d) # r"
      "c = (b0 - 0xC0) * 64 + d" "0x80 \<le> c"
      by (auto simp: Let_def split: if_splits list.splits dest!: cont_digit)
    with 2 have "c < 0x800" by simp
    with 2 d undigits_64(1) [OF d(3) [symmetric]] show ?thesis
      by (simp add: scalar_def utf8_char_def)
  next
    case 3
    with assms(1) bs obtain d e where d: "d < 64" "e < 64" "bs = b0 # (0x80 + d) # (0x80 + e) # r"
      "c = (b0 - 0xE0) * 4096 + d * 64 + e" "0x800 \<le> c" "scalar c"
      by (auto simp: Let_def split: if_splits list.splits dest!: cont_digit)
    with 3 have "c < 0x10000" by simp
    with 3 d undigits_64(2) [OF d(4) [symmetric]] show ?thesis by (simp add: utf8_char_def)
  next
    case 4
    with assms(1) bs obtain d e g where d: "d < 64" "e < 64" "g < 64"
      "bs = b0 # (0x80 + d) # (0x80 + e) # (0x80 + g) # r"
      "c = (b0 - 0xF0) * 262144 + d * 4096 + e * 64 + g" "0x10000 \<le> c" "scalar c"
      by (auto simp: Let_def split: if_splits list.splits dest!: cont_digit)
    with 4 undigits_64(3) [OF d(5) [symmetric]] show ?thesis by (simp add: utf8_char_def)
  qed
qed

lemma utf8_decode_nats_Nil [simp]: "utf8_decode_nats [] = Some []"
  by (subst utf8_decode_nats.simps) simp

lemma utf8_char_nonempty: "utf8_char c \<noteq> []"
  by (simp add: utf8_char_def)

lemma utf8_decode_encode: "\<forall>c \<in> set s. scalar c \<Longrightarrow> utf8_decode_nats (utf8_encode s) = Some s"
proof (induction s)
  case Nil
  then show ?case by (simp add: utf8_encode_def)
next
  case (Cons c s)
  have "utf8_encode (c # s) = utf8_char c @ utf8_encode s" by (simp add: utf8_encode_def)
  with Cons show ?case
    by (subst utf8_decode_nats.simps) (simp add: utf8_next_char utf8_char_nonempty)
qed

lemma utf8_decode_sound:
  "utf8_decode_nats bs = Some s \<Longrightarrow> \<forall>b \<in> set bs. b < 256 \<Longrightarrow>
    utf8_encode s = bs \<and> (\<forall>c \<in> set s. scalar c)"
proof (induction bs arbitrary: s rule: utf8_decode_nats.induct)
  case (1 bs)
  show ?case
  proof (cases "bs = []")
    case True
    with "1.prems" show ?thesis by (simp add: utf8_encode_def)
  next
    case False
    with "1.prems"(1) obtain c r s' where n: "utf8_next bs = Some (c, r)"
      and d: "utf8_decode_nats r = Some s'" and s: "s = c # s'"
      by (subst (asm) utf8_decode_nats.simps) (auto split: option.splits)
    from utf8_next_Some [OF n "1.prems"(2)] have c: "scalar c" "bs = utf8_char c @ r" by auto
    with "1.prems"(2) have "\<forall>b \<in> set r. b < 256" by simp
    with "1.IH" [OF False n refl d] c s show ?thesis by (simp add: utf8_encode_def)
  qed
qed

lemma utf8_encode_ascii: "\<forall>c \<in> set s. c < 0x80 \<Longrightarrow> utf8_encode s = s"
  by (induction s) (auto simp: utf8_encode_def utf8_char_def)

lemma utf8_decode_ascii: "\<forall>c \<in> set s. c < 0x80 \<Longrightarrow> utf8_decode_nats s = Some s"
proof -
  assume a: "\<forall>c \<in> set s. c < 0x80"
  then have "\<forall>c \<in> set s. scalar c" by (force simp: scalar_def)
  with utf8_decode_encode [of s] utf8_encode_ascii [OF a] show ?thesis by simp
qed

lemma utf8_decode_Inr_iff:
  "utf8_decode bs = Inr s \<longleftrightarrow> utf8_encode s = bytes_nats bs \<and> (\<forall>c \<in> set s. scalar c)"
  using utf8_decode_sound [of "bytes_nats bs" s] utf8_decode_encode [of s]
  by (auto simp: utf8_decode_def dest: bytes_nats_bound)

section \<open>Case conversion\<close>

text \<open>
  \<open>str.lower\<close> and \<open>str.upper\<close>. On ASCII strings they are computed; the Unicode case
  tables are a parameter \<open>uni\<close> (what the interpreter's tables give for the whole string).
\<close>

definition ascii :: "pystr \<Rightarrow> bool" where
  "ascii s \<longleftrightarrow> (\<forall>c \<in> set s. c < 128)"

definition py_lower :: "(pystr \<Rightarrow> pystr) \<Rightarrow> pystr \<Rightarrow> pystr" where
  "py_lower uni s = (if ascii s then map (\<lambda>c. if 65 \<le> c \<and> c \<le> 90 then c + 32 else c) s else uni s)"

definition py_upper :: "(pystr \<Rightarrow> pystr) \<Rightarrow> pystr \<Rightarrow> pystr" where
  "py_upper uni s = (if ascii s then map (\<lambda>c. if 97 \<le> c \<and> c \<le> 122 then c - 32 else c) s else uni s)"

lemma ascii_lower: "ascii s \<Longrightarrow> ascii (py_lower u s)"
  by (auto simp: ascii_def py_lower_def)

lemma upper_lower: "ascii s \<Longrightarrow> py_upper u (py_lower v s) = py_upper u s"
  by (induction s) (auto simp: ascii_def py_lower_def py_upper_def)

section \<open>Decimal and hexadecimal rendering\<close>

fun dec_nat :: "nat \<Rightarrow> pystr" where
  "dec_nat n = (if n < 10 then [48 + n] else dec_nat (n div 10) @ [48 + n mod 10])"

declare dec_nat.simps [simp del]

lemma dec_nat_small: "n < 10 \<Longrightarrow> dec_nat n = [48 + n]"
  by (simp add: dec_nat.simps)

lemma dec_nat_step: "10 \<le> n \<Longrightarrow> dec_nat n = dec_nat (n div 10) @ [48 + n mod 10]"
  by (subst dec_nat.simps) simp

definition str_int :: "int \<Rightarrow> pystr" where
  "str_int i = (if i < 0 then lit ''-'' @ dec_nat (nat (- i)) else dec_nat (nat i))"

definition hex_digit :: "nat \<Rightarrow> nat" where
  "hex_digit d = (if d < 10 then 48 + d else 87 + d)"

definition hexlify :: "bytes \<Rightarrow> pystr" where
  "hexlify bs = concat (map (\<lambda>b. [hex_digit (unat b div 16), hex_digit (unat b mod 16)]) bs)"

lemma hex_digit_inject: "a < 16 \<Longrightarrow> b < 16 \<Longrightarrow> hex_digit a = hex_digit b \<Longrightarrow> a = b"
  by (auto simp: hex_digit_def split: if_splits)

lemma length_hexlify [simp]: "length (hexlify bs) = 2 * length bs"
  by (induction bs) (simp_all add: hexlify_def)

lemma hexlify_ascii: "ascii (hexlify bs)"
proof -
  have "hex_digit d < 128" if "d < 16" for d using that by (simp add: hex_digit_def)
  moreover have "unat b div 16 < 16" for b :: byte
    using unsigned_less [where 'a = nat and w = b] by (simp add: div_less_iff_less_mult)
  ultimately show ?thesis by (auto simp: ascii_def hexlify_def)
qed

lemma hexlify_inject: "hexlify as = hexlify bs \<Longrightarrow> as = bs"
proof (induction as arbitrary: bs)
  case Nil
  then have "length bs = 0" using length_hexlify [of bs] by (simp add: hexlify_def)
  then show ?case by simp
next
  case (Cons a as)
  from Cons.prems obtain b bs' where bs: "bs = b # bs'"
    by (cases bs) (auto simp: hexlify_def)
  have lt: "unat x div 16 < 16" for x :: byte
    using unsigned_less [where 'a = nat and w = x] by (simp add: div_less_iff_less_mult)
  from Cons.prems bs have "hex_digit (unat a div 16) = hex_digit (unat b div 16)"
    "hex_digit (unat a mod 16) = hex_digit (unat b mod 16)" and tl: "hexlify as = hexlify bs'"
    by (auto simp: hexlify_def)
  then have "unat a div 16 = unat b div 16" "unat a mod 16 = unat b mod 16"
    using hex_digit_inject lt by simp_all
  then have "unat a = unat b" by (metis div_mult_mod_eq)
  then have "a = b" by (simp add: word_unat_eq_iff)
  with Cons.IH [OF tl] bs show ?case by simp
qed

section \<open>Splitting lines\<close>

fun split_on :: "'a \<Rightarrow> 'a list \<Rightarrow> 'a list list" where
  "split_on c [] = [[]]"
| "split_on c (x # xs) =
    (if x = c then [] # split_on c xs
     else (case split_on c xs of [] \<Rightarrow> [[x]] | y # ys \<Rightarrow> (x # y) # ys))"

lemma split_on_nonempty: "split_on c xs \<noteq> []"
  by (induction xs) (auto split: list.splits)

lemma split_on_line: "c \<notin> set l \<Longrightarrow> split_on c (l @ c # r) = l # split_on c r"
  by (induction l) auto

lemma split_on_last: "c \<notin> set l \<Longrightarrow> split_on c l = [l]"
  by (induction l) auto

definition unlines :: "'a \<Rightarrow> 'a list list \<Rightarrow> 'a list" where
  "unlines c ls = concat (map (\<lambda>l. l @ [c]) ls)"

lemma split_on_unlines:
  "\<forall>l \<in> set ls. c \<notin> set l \<Longrightarrow> c \<notin> set t \<Longrightarrow> split_on c (unlines c ls @ t) = ls @ [t]"
  by (induction ls) (auto simp: unlines_def split_on_line split_on_last)

section \<open>Base64\<close>

definition b64_value :: "nat \<Rightarrow> nat option" where
  "b64_value c =
    (if 65 \<le> c \<and> c \<le> 90 then Some (c - 65)
     else if 97 \<le> c \<and> c \<le> 122 then Some (c - 71)
     else if 48 \<le> c \<and> c \<le> 57 then Some (c + 4)
     else if c = 43 then Some 62
     else if c = 47 then Some 63
     else None)"

text \<open>
  \<open>binascii.a2b_base64\<close> in its default, lenient mode: characters outside the alphabet are
  skipped, a pad sequence in the right position ends the input, and the input must end on
  a group boundary. The state is the position in the group of four, the bits left over and
  the number of pads seen.
\<close>

fun b64_loop :: "nat list \<Rightarrow> nat \<Rightarrow> nat \<Rightarrow> nat \<Rightarrow> nat list result" where
  "b64_loop [] q left pads =
    (if q = 0 then Inr [] else Inl (ValueError (lit ''Incorrect padding'')))"
| "b64_loop (c # cs) q left pads =
    (if c = 61 then
       (if 2 \<le> q \<and> 4 \<le> q + pads + 1 then Inr []
        else b64_loop cs q left (if 2 \<le> q then pads + 1 else pads))
     else case b64_value c of
       None \<Rightarrow> b64_loop cs q left pads
     | Some v \<Rightarrow>
        (if q = 0 then b64_loop cs 1 v 0
         else if q = 1 then
           bind_res (b64_loop cs 2 (v mod 16) 0) (\<lambda>r. Inr ((left * 4 + v div 16) # r))
         else if q = 2 then
           bind_res (b64_loop cs 3 (v mod 4) 0) (\<lambda>r. Inr ((left * 16 + v div 4) # r))
         else bind_res (b64_loop cs 0 0 0) (\<lambda>r. Inr ((left * 64 + v) # r))))"

definition b64decode :: "bytes \<Rightarrow> bytes result" where
  "b64decode bs = bind_res (b64_loop (bytes_nats bs) 0 0 0) (\<lambda>r. Inr (map of_nat r))"

text \<open>The standard encoding, as the specification the decoder is checked against.\<close>

definition b64_char :: "nat \<Rightarrow> nat" where
  "b64_char v =
    (if v < 26 then v + 65 else if v < 52 then v + 71 else if v < 62 then v - 4
     else if v = 62 then 43 else 47)"

fun b64_encode :: "nat list \<Rightarrow> nat list" where
  "b64_encode [] = []"
| "b64_encode [a] = [b64_char (a div 4), b64_char (a mod 4 * 16), 61, 61]"
| "b64_encode [a, b] =
    [b64_char (a div 4), b64_char (a mod 4 * 16 + b div 16), b64_char (b mod 16 * 4), 61]"
| "b64_encode (a # b # c # r) =
    b64_char (a div 4) # b64_char (a mod 4 * 16 + b div 16) #
    b64_char (b mod 16 * 4 + c div 64) # b64_char (c mod 64) # b64_encode r"

lemma b64_value_char: "v < 64 \<Longrightarrow> b64_value (b64_char v) = Some v"
  by (auto simp: b64_value_def b64_char_def)

lemma b64_char_props: "v < 64 \<Longrightarrow> b64_char v \<noteq> 61 \<and> b64_char v \<noteq> 10 \<and> b64_char v < 128"
  by (auto simp: b64_char_def)

lemma b64_loop_char:
  "v < 64 \<Longrightarrow> b64_loop (b64_char v # cs) q left pads =
    (if q = 0 then b64_loop cs 1 v 0
     else if q = 1 then
       bind_res (b64_loop cs 2 (v mod 16) 0) (\<lambda>r. Inr ((left * 4 + v div 16) # r))
     else if q = 2 then
       bind_res (b64_loop cs 3 (v mod 4) 0) (\<lambda>r. Inr ((left * 16 + v div 4) # r))
     else bind_res (b64_loop cs 0 0 0) (\<lambda>r. Inr ((left * 64 + v) # r)))"
  by (simp add: b64_value_char b64_char_props)

lemma byte_digits:
  fixes a b :: nat
  shows "a < 256 \<Longrightarrow> a div 4 < 64" "a mod 4 * 16 < 64" "a mod 16 * 4 < 64" "a mod 64 < 64"
    "b < 256 \<Longrightarrow> a mod 4 * 16 + b div 16 < 64" "b < 256 \<Longrightarrow> a mod 16 * 4 + b div 64 < 64"
    "b < 256 \<Longrightarrow> (a mod 4 * 16 + b div 16) mod 16 = b div 16"
    "b < 256 \<Longrightarrow> (a mod 4 * 16 + b div 16) div 16 = a mod 4"
    "b < 256 \<Longrightarrow> (a mod 16 * 4 + b div 64) mod 4 = b div 64"
    "b < 256 \<Longrightarrow> (a mod 16 * 4 + b div 64) div 4 = a mod 16"
    "b < 256 \<Longrightarrow> b div 16 mod 16 = b div 16" "b < 256 \<Longrightarrow> b div 16 div 16 = 0"
    "b < 256 \<Longrightarrow> b div 64 mod 4 = b div 64" "b < 256 \<Longrightarrow> b div 64 div 4 = 0"
proof -
  have m: "a mod 4 < 4" "a mod 16 < 16" by simp_all
  then show "a mod 4 * 16 < 64" "a mod 16 * 4 < 64" by linarith+
  show "a < 256 \<Longrightarrow> a div 4 < 64" by (simp add: div_less_iff_less_mult)
  assume "b < 256"
  then have "b div 16 < 16" "b div 64 < 4" by (simp_all add: div_less_iff_less_mult)
  with m show "a mod 4 * 16 + b div 16 < 64" "a mod 16 * 4 + b div 64 < 64"
    "(a mod 4 * 16 + b div 16) mod 16 = b div 16" "(a mod 4 * 16 + b div 16) div 16 = a mod 4"
    "(a mod 16 * 4 + b div 64) mod 4 = b div 64" "(a mod 16 * 4 + b div 64) div 4 = a mod 16"
    "b div 16 mod 16 = b div 16" "b div 16 div 16 = 0" "b div 64 mod 4 = b div 64"
    "b div 64 div 4 = 0"
    by simp_all
qed simp

lemma b64_loop_encode: "\<forall>b \<in> set bs. b < 256 \<Longrightarrow> b64_loop (b64_encode bs) 0 0 0 = Inr bs"
proof (induction bs rule: b64_encode.induct)
  case 1
  then show ?case by simp
next
  case (2 a)
  then show ?case by (simp add: b64_loop_char byte_digits del: b64_loop.simps(2)) (simp add: b64_loop.simps)
next
  case (3 a b)
  then show ?case by (simp add: b64_loop_char byte_digits del: b64_loop.simps(2)) (simp add: b64_loop.simps)
next
  case (4 a b c r)
  then show ?case by (simp add: b64_loop_char byte_digits del: b64_loop.simps(2))
qed

lemma b64_encode_chars: "\<forall>b \<in> set bs. b < 256 \<Longrightarrow> \<forall>c \<in> set (b64_encode bs). c \<noteq> 10 \<and> c < 256"
proof (induction bs rule: b64_encode.induct)
  case (2 a)
  then show ?case using b64_char_props [OF byte_digits(1) [of a]] b64_char_props [OF byte_digits(2) [of a]]
    by simp
next
  case (3 a b)
  then show ?case using b64_char_props [OF byte_digits(1) [of a]]
      b64_char_props [OF byte_digits(5) [of b a]] b64_char_props [OF byte_digits(3) [of b]]
    by simp
next
  case (4 a b c r)
  then show ?case using b64_char_props [OF byte_digits(1) [of a]]
      b64_char_props [OF byte_digits(5) [of b a]] b64_char_props [OF byte_digits(6) [of c b]]
      b64_char_props [OF byte_digits(4) [of c]]
    by simp
qed simp

end
