(* ===== verification/Proto_Enums.thy ===== *)
theory Proto_Enums
  imports Py_Text
begin

text \<open>
  The enumerations of the Fabric protocol that the code names, as the tables of the
  generated descriptors (\<open>EnumDescriptor(values=[...])\<close> in \<open>src/snakeskin/protos\<close>):
  a list of value names and numbers in descriptor order. \<open>enum_Value\<close> and \<open>enum_Name\<close>
  are the documented lookups \<open>E.Value(name)\<close> and \<open>E.Name(number)\<close> of the generated
  wrapper, which raise \<open>ValueError\<close> on what the table does not list; an attribute
  \<open>E.NAME\<close> is \<open>enum_number\<close> of a listed name.
\<close>

type_synonym enum_desc = "(string \<times> int) list"

definition enum_Value :: "enum_desc \<Rightarrow> pystr \<Rightarrow> int result" where
  "enum_Value E name =
    (case find (\<lambda>v. lit (fst v) = name) E of
       Some v \<Rightarrow> Inr (snd v)
     | None \<Rightarrow> Inl (ValueError (lit ''Enum has no value defined for name '' @ name)))"

definition enum_Name :: "enum_desc \<Rightarrow> int \<Rightarrow> pystr result" where
  "enum_Name E i =
    (case find (\<lambda>v. snd v = i) E of
       Some v \<Rightarrow> Inr (lit (fst v))
     | None \<Rightarrow> Inl (ValueError (lit ''Enum has no name defined for value '' @ str_int i)))"

definition Status :: enum_desc where
  "Status =
    [(''UNKNOWN'', 0),
     (''SUCCESS'', 200),
     (''BAD_REQUEST'', 400),
     (''FORBIDDEN'', 403),
     (''NOT_FOUND'', 404),
     (''REQUEST_ENTITY_TOO_LARGE'', 413),
     (''INTERNAL_SERVER_ERROR'', 500),
     (''NOT_IMPLEMENTED'', 501),
     (''SERVICE_UNAVAILABLE'', 503)]"

definition HeaderType :: enum_desc where
  "HeaderType =
    [(''MESSAGE'', 0),
     (''CONFIG'', 1),
     (''CONFIG_UPDATE'', 2),
     (''ENDORSER_TRANSACTION'', 3),
     (''ORDERER_TRANSACTION'', 4),
     (''DELIVER_SEEK_INFO'', 5),
     (''CHAINCODE_PACKAGE'', 6),
     (''PEER_ADMIN_OPERATION'', 8),
     (''TOKEN_TRANSACTION'', 9)]"

definition BlockMetadataIndex :: enum_desc where
  "BlockMetadataIndex =
    [(''SIGNATURES'', 0),
     (''LAST_CONFIG'', 1),
     (''TRANSACTIONS_FILTER'', 2),
     (''ORDERER'', 3)]"

definition SeekInfo_SeekBehavior :: enum_desc where
  "SeekInfo_SeekBehavior =
    [(''BLOCK_UNTIL_READY'', 0),
     (''FAIL_IF_NOT_READY'', 1)]"

definition ChaincodeSpec_Type :: enum_desc where
  "ChaincodeSpec_Type =
    [(''UNDEFINED'', 0),
     (''GOLANG'', 1),
     (''NODE'', 2),
     (''CAR'', 3),
     (''JAVA'', 4)]"

definition MSPRole_MSPRoleType :: enum_desc where
  "MSPRole_MSPRoleType =
    [(''MEMBER'', 0),
     (''ADMIN'', 1),
     (''CLIENT'', 2),
     (''PEER'', 3)]"

definition MSPPrincipal_Classification :: enum_desc where
  "MSPPrincipal_Classification =
    [(''ROLE'', 0),
     (''ORGANIZATION_UNIT'', 1),
     (''IDENTITY'', 2),
     (''ANONYMITY'', 3),
     (''COMBINED'', 4)]"

definition TxValidationCode :: enum_desc where
  "TxValidationCode =
    [(''VALID'', 0),
     (''NIL_ENVELOPE'', 1),
     (''BAD_PAYLOAD'', 2),
     (''BAD_COMMON_HEADER'', 3),
     (''BAD_CREATOR_SIGNATURE'', 4),
     (''INVALID_ENDORSER_TRANSACTION'', 5),
     (''INVALID_CONFIG_TRANSACTION'', 6),
     (''UNSUPPORTED_TX_PAYLOAD'', 7),
     (''BAD_PROPOSAL_TXID'', 8),
     (''DUPLICATE_TXID'', 9),
     (''ENDORSEMENT_POLICY_FAILURE'', 10),
     (''MVCC_READ_CONFLICT'', 11),
     (''PHANTOM_READ_CONFLICT'', 12),
     (''UNKNOWN_TX_TYPE'', 13),
     (''TARGET_CHAIN_NOT_FOUND'', 14),
     (''MARSHAL_TX_ERROR'', 15),
     (''NIL_TXACTION'', 16),
     (''EXPIRED_CHAINCODE'', 17),
     (''CHAINCODE_VERSION_CONFLICT'', 18),
     (''BAD_HEADER_EXTENSION'', 19),
     (''BAD_CHANNEL_HEADER'', 20),
     (''BAD_RESPONSE_PAYLOAD'', 21),
     (''BAD_RWSET'', 22),
     (''ILLEGAL_WRITESET'', 23),
     (''INVALID_WRITESET'', 24),
     (''NOT_VALIDATED'', 254),
     (''INVALID_OTHER_REASON'', 255)]"

definition Policy_PolicyType :: enum_desc where
  "Policy_PolicyType =
    [(''UNKNOWN'', 0),
     (''SIGNATURE'', 1),
     (''MSP'', 2),
     (''IMPLICIT_META'', 3)]"

text \<open>The members the code refers to by attribute.\<close>

definition Status_SUCCESS :: int where
  "Status_SUCCESS = 200"

definition TxValidationCode_VALID :: int where
  "TxValidationCode_VALID = 0"

definition SIGNATURES :: nat where
  "SIGNATURES = 0"

definition LAST_CONFIG :: nat where
  "LAST_CONFIG = 1"

definition TRANSACTIONS_FILTER :: nat where
  "TRANSACTIONS_FILTER = 2"

definition MSPPrincipal_ROLE :: int where
  "MSPPrincipal_ROLE = 0"

lemmas enum_defs =
  Status_def HeaderType_def BlockMetadataIndex_def SeekInfo_SeekBehavior_def ChaincodeSpec_Type_def
  MSPRole_MSPRoleType_def MSPPrincipal_Classification_def TxValidationCode_def Policy_PolicyType_def

text \<open>The attributes are the numbers the tables list under the same names.\<close>

lemma enum_members:
  "enum_Value Status (lit ''SUCCESS'') = Inr Status_SUCCESS"
  "enum_Value TxValidationCode (lit ''VALID'') = Inr TxValidationCode_VALID"
  "enum_Value BlockMetadataIndex (lit ''SIGNATURES'') = Inr (int SIGNATURES)"
  "enum_Value BlockMetadataIndex (lit ''LAST_CONFIG'') = Inr (int LAST_CONFIG)"
  "enum_Value BlockMetadataIndex (lit ''TRANSACTIONS_FILTER'') = Inr (int TRANSACTIONS_FILTER)"
  "enum_Value MSPPrincipal_Classification (lit ''ROLE'') = Inr MSPPrincipal_ROLE"
  by (simp_all add: enum_Value_def enum_defs Status_SUCCESS_def TxValidationCode_VALID_def
      SIGNATURES_def LAST_CONFIG_def TRANSACTIONS_FILTER_def MSPPrincipal_ROLE_def)

text \<open>Names and numbers of a table without repetitions determine each other.\<close>

definition enum_wf :: "enum_desc \<Rightarrow> bool" where
  "enum_wf E \<longleftrightarrow> distinct (map (lit \<circ> fst) E) \<and> distinct (map snd E)"

lemma enum_Value_Inr_D: "enum_Value E name = Inr i \<Longrightarrow> \<exists>n. (n, i) \<in> set E \<and> lit n = name"
  by (auto simp: enum_Value_def split: option.splits dest!: find_Some_D)

lemma find_unique:
  assumes "distinct (map f xs)" "x \<in> set xs"
  shows "find (\<lambda>y. f y = f x) xs = Some x"
  using assms by (induction xs) auto

lemma enum_Value_mem: "enum_wf E \<Longrightarrow> (n, i) \<in> set E \<Longrightarrow> enum_Value E (lit n) = Inr i"
  using find_unique [of "lit \<circ> fst" E "(n, i)"] by (simp add: enum_Value_def enum_wf_def)

lemma enum_Name_mem: "enum_wf E \<Longrightarrow> (n, i) \<in> set E \<Longrightarrow> enum_Name E i = Inr (lit n)"
  using find_unique [of snd E "(n, i)"] by (simp add: enum_Name_def enum_wf_def)

lemma enum_Name_Value: "enum_wf E \<Longrightarrow> enum_Value E name = Inr i \<Longrightarrow> enum_Name E i = Inr name"
  by (auto dest!: enum_Value_Inr_D simp: enum_Name_mem)

lemma enums_wf:
  "enum_wf Status" "enum_wf HeaderType" "enum_wf ChaincodeSpec_Type" "enum_wf MSPRole_MSPRoleType"
  "enum_wf SeekInfo_SeekBehavior" "enum_wf TxValidationCode"
  by (simp_all add: enum_wf_def enum_defs)

end
