(* ===== verification/Proto_Messages.thy ===== *)
theory Proto_Messages
  imports Proto_Enums
begin

text \<open>
  The protocol messages the code builds and reads, one record per message descriptor of
  \<open>src/snakeskin/protos/*_pb2.py\<close>, with the descriptor's fields in its order and a short
  prefix per message. Integers of any wire type are \<open>int\<close>, enum fields carry their
  number, repeated fields are lists and map fields lists of entries. A singular message
  field that is not set reads as the default message, so it is the message itself; only
  \<open>ChaincodeSpec.input\<close>, which the code sets to \<open>None\<close>, is an option.
\<close>

record Timestamp =
  ts_seconds :: int
  ts_nanos :: int

record LastConfig =
  lc_index :: int

record MetadataSignature =
  mds_signature_header :: bytes
  mds_signature :: bytes

record Metadata =
  md_value :: bytes
  md_signatures :: "MetadataSignature list"

record Header =
  hdr_channel_header :: bytes
  hdr_signature_header :: bytes

record ChannelHeader =
  ch_type :: int
  ch_version :: int
  ch_timestamp :: Timestamp
  ch_channel_id :: pystr
  ch_tx_id :: pystr
  ch_epoch :: int
  ch_extension :: bytes
  ch_tls_cert_hash :: bytes

record SignatureHeader =
  sh_creator :: bytes
  sh_nonce :: bytes

record Payload =
  pl_header :: Header
  pl_data :: bytes

record Envelope =
  env_payload :: bytes
  env_signature :: bytes

record BlockHeader =
  bh_number :: int
  bh_previous_hash :: bytes
  bh_data_hash :: bytes

record BlockData =
  bd_data :: "bytes list"

record BlockMetadata =
  bm_metadata :: "bytes list"

record Block =
  blk_header :: BlockHeader
  blk_data :: BlockData
  blk_metadata :: BlockMetadata

record ConfigSignature =
  csig_signature_header :: bytes
  csig_signature :: bytes

record ConfigUpdateEnvelope =
  cue_config_update :: bytes
  cue_signatures :: "ConfigSignature list"

record Policy =
  pol_type :: int
  pol_value :: bytes

record ConfigValue =
  cv_version :: int
  cv_value :: bytes
  cv_mod_policy :: pystr

record ConfigPolicy =
  cp_version :: int
  cp_policy :: Policy
  cp_mod_policy :: pystr

text \<open>A configuration group nests groups by name; its maps are lists of entries.\<close>

datatype ConfigGroup =
  ConfigGroup (cg_version: int) (cg_groups: "(pystr \<times> ConfigGroup) list")
    (cg_values: "(pystr \<times> ConfigValue) list") (cg_policies: "(pystr \<times> ConfigPolicy) list")
    (cg_mod_policy: pystr)

record ConfigUpdate =
  cu_channel_id :: pystr
  cu_read_set :: ConfigGroup
  cu_write_set :: ConfigGroup
  cu_isolated_data :: "(pystr \<times> bytes) list"

record Config =
  cfg_sequence :: int
  cfg_channel_group :: ConfigGroup

record ConfigEnvelope =
  cenv_config :: Config
  cenv_last_update :: Envelope

record SerializedIdentity =
  sid_mspid :: pystr
  sid_id_bytes :: bytes

record MSPRole =
  mr_msp_identifier :: pystr
  mr_role :: int

record MSPPrincipal =
  mpr_principal_classification :: int
  mpr_principal :: bytes

text \<open>
  A signature policy is one of a reference to an identity by index and an \<open>n\<close>-out-of
  combination of rules (the oneof \<open>Type\<close>; the builder always sets one of the two).
\<close>

datatype SignaturePolicy =
    SignedBy int
  | NOutOf int "SignaturePolicy list"

record SignaturePolicyEnvelope =
  spe_version :: int
  spe_rule :: SignaturePolicy
  spe_identities :: "MSPPrincipal list"

text \<open>
  A seek position is one of the (empty) messages \<open>SeekNewest\<close> and \<open>SeekOldest\<close> and a
  \<open>SeekSpecified\<close> with its block number.
\<close>

datatype SeekPosition =
    SeekNewest
  | SeekOldest
  | SeekSpecified int

record SeekInfo =
  si_start :: SeekPosition
  si_stop :: SeekPosition
  si_behavior :: int

record BroadcastResponse =
  br_status :: int
  br_info :: pystr

record ChaincodeEvent =
  ce_chaincode_id :: pystr
  ce_tx_id :: pystr
  ce_event_name :: pystr
  ce_payload :: bytes

record FilteredChaincodeAction =
  fca_chaincode_event :: ChaincodeEvent

record FilteredTransactionActions =
  fta_chaincode_actions :: "FilteredChaincodeAction list"

record FilteredTransaction =
  ft_txid :: pystr
  ft_type :: int
  ft_tx_validation_code :: int
  ft_transaction_actions :: FilteredTransactionActions

record FilteredBlockProto =
  fb_channel_id :: pystr
  fb_number :: int
  fb_filtered_transactions :: "FilteredTransaction list"

text \<open>
  A delivery response is one of a status, a block and a filtered block. Reading a member
  that is not the one set gives its default: \<open>0\<close> or the empty message. The orderer's
  response has the first two members.
\<close>

datatype DeliverResponse =
    DeliverStatus int
  | DeliverBlock Block
  | DeliverFilteredBlock FilteredBlockProto

definition default_Block :: Block where
  "default_Block =
    \<lparr>blk_header = \<lparr>bh_number = 0, bh_previous_hash = [], bh_data_hash = []\<rparr>,
     blk_data = \<lparr>bd_data = []\<rparr>, blk_metadata = \<lparr>bm_metadata = []\<rparr>\<rparr>"

definition default_FilteredBlock :: FilteredBlockProto where
  "default_FilteredBlock = \<lparr>fb_channel_id = [], fb_number = 0, fb_filtered_transactions = []\<rparr>"

fun dr_status :: "DeliverResponse \<Rightarrow> int" where
  "dr_status (DeliverStatus s) = s"
| "dr_status _ = 0"

fun dr_block :: "DeliverResponse \<Rightarrow> Block" where
  "dr_block (DeliverBlock b) = b"
| "dr_block _ = default_Block"

fun dr_filtered_block :: "DeliverResponse \<Rightarrow> FilteredBlockProto" where
  "dr_filtered_block (DeliverFilteredBlock b) = b"
| "dr_filtered_block _ = default_FilteredBlock"

record ChaincodeID =
  ccid_path :: pystr
  ccid_name :: pystr
  ccid_version :: pystr

record ChaincodeInput =
  cci_args :: "bytes list"
  cci_decorations :: "(pystr \<times> bytes) list"

record ChaincodeSpecProto =
  ccs_type :: int
  ccs_chaincode_id :: ChaincodeID
  ccs_input :: "ChaincodeInput option"
  ccs_timeout :: int

record ChaincodeInvocationSpec =
  cis_chaincode_spec :: ChaincodeSpecProto

record ChaincodeDeploymentSpec =
  cds_chaincode_spec :: ChaincodeSpecProto
  cds_code_package :: bytes
  cds_exec_env :: int

record SignedProposal =
  sp_proposal_bytes :: bytes
  sp_signature :: bytes

record Proposal =
  prop_header :: bytes
  prop_payload :: bytes
  prop_extension :: bytes

record ChaincodeHeaderExtension =
  che_payload_visibility :: bytes
  che_chaincode_id :: ChaincodeID

record ChaincodeProposalPayload =
  cpp_input :: bytes
  cpp_TransientMap :: "(pystr \<times> bytes) list"

record Response =
  rsp_status :: int
  rsp_message :: pystr
  rsp_payload :: bytes

record Endorsement =
  end_endorser :: bytes
  end_signature :: bytes

record ProposalResponse =
  pr_version :: int
  pr_timestamp :: Timestamp
  pr_response :: Response
  pr_payload :: bytes
  pr_endorsement :: Endorsement

record ProposalResponsePayload =
  prp_proposal_hash :: bytes
  prp_extension :: bytes

record TransactionAction =
  ta_header :: bytes
  ta_payload :: bytes

record Transaction =
  tx_actions :: "TransactionAction list"

record ChaincodeEndorsedAction =
  cea_proposal_response_payload :: bytes
  cea_endorsements :: "Endorsement list"

record ChaincodeActionPayload =
  cap_chaincode_proposal_payload :: bytes
  cap_action :: ChaincodeEndorsedAction

record ChaincodeInfo =
  cinf_name :: pystr
  cinf_version :: pystr
  cinf_path :: pystr
  cinf_input :: pystr
  cinf_escc :: pystr
  cinf_vscc :: pystr
  cinf_id :: bytes

record ChaincodeQueryResponse =
  cqr_chaincodes :: "ChaincodeInfo list"

text \<open>Assigning \<open>m[key] = value\<close> in a map field.\<close>

fun map_field_set :: "(pystr \<times> bytes) list \<Rightarrow> pystr \<Rightarrow> bytes \<Rightarrow> (pystr \<times> bytes) list" where
  "map_field_set [] k v = [(k, v)]"
| "map_field_set ((k', v') # m) k v = (if k' = k then (k, v) # m else (k', v') # map_field_set m k v)"

lemma map_of_map_field_set: "map_of (map_field_set m k v) = (map_of m)(k \<mapsto> v)"
  by (induction m k v rule: map_field_set.induct) auto

lemma map_field_set_new: "k \<notin> fst ` set m \<Longrightarrow> map_field_set m k v = m @ [(k, v)]"
  by (induction m k v rule: map_field_set.induct) auto

end
