(* ===== verification/Proto_Runtime.thy ===== *)
theory Proto_Runtime
  imports Proto_Messages
begin

text \<open>
  The protobuf runtime (\<open>google.protobuf\<close>) is not part of the repository: it is a
  parameter of every definition that serialises or parses. A \<open>coder\<close> is the pair
  \<open>SerializeToString\<close>/\<open>FromString\<close> of one message type (parsing fails with
  \<open>DecodeError\<close>), a \<open>runtime\<close> holds the coders of the message types the code uses and
  the checks of assigned \<open>int32\<close> and \<open>uint64\<close> fields.
  \<open>runtime_ok\<close> is the documented behaviour the round-trip theorems rely on: parsing what
  was serialised gives the message back, and a number in range is accepted unchanged while
  one out of range raises \<open>ValueError\<close>.
\<close>

record 'm coder =
  ser :: "'m \<Rightarrow> bytes"
  des :: "bytes \<Rightarrow> 'm option"

definition FromString :: "'m coder \<Rightarrow> bytes \<Rightarrow> 'm result" where
  "FromString c bs = of_option DecodeError (des c bs)"

definition coder_ok :: "'m coder \<Rightarrow> bool" where
  "coder_ok c \<longleftrightarrow> (\<forall>m. des c (ser c m) = Some m)"

lemma FromString_ser [simp]: "coder_ok c \<Longrightarrow> FromString c (ser c m) = Inr m"
  by (simp add: FromString_def coder_ok_def)

lemma ser_inject: "coder_ok c \<Longrightarrow> ser c m = ser c m' \<longleftrightarrow> m = m'"
  unfolding coder_ok_def by (metis option.inject)

lemma FromString_Inr_iff [simp]: "FromString c bs = Inr m \<longleftrightarrow> des c bs = Some m"
  by (simp add: FromString_def)

record runtime =
  pb_SeekInfo :: "SeekInfo coder"
  pb_SerializedIdentity :: "SerializedIdentity coder"
  pb_ChaincodeHeaderExtension :: "ChaincodeHeaderExtension coder"
  pb_ChannelHeader :: "ChannelHeader coder"
  pb_SignatureHeader :: "SignatureHeader coder"
  pb_Header :: "Header coder"
  pb_ChaincodeInvocationSpec :: "ChaincodeInvocationSpec coder"
  pb_ChaincodeProposalPayload :: "ChaincodeProposalPayload coder"
  pb_Proposal :: "Proposal coder"
  pb_Payload :: "Payload coder"
  pb_Envelope :: "Envelope coder"
  pb_Transaction :: "Transaction coder"
  pb_ChaincodeActionPayload :: "ChaincodeActionPayload coder"
  pb_ConfigUpdateEnvelope :: "ConfigUpdateEnvelope coder"
  pb_ConfigUpdate :: "ConfigUpdate coder"
  pb_ConfigEnvelope :: "ConfigEnvelope coder"
  pb_SignaturePolicyEnvelope :: "SignaturePolicyEnvelope coder"
  pb_MSPRole :: "MSPRole coder"
  pb_ChaincodeDeploymentSpec :: "ChaincodeDeploymentSpec coder"
  pb_Block :: "Block coder"
  pb_ChaincodeQueryResponse :: "ChaincodeQueryResponse coder"
  pb_ProposalResponsePayload :: "ProposalResponsePayload coder"
  pb_Metadata :: "Metadata coder"
  pb_LastConfig :: "LastConfig coder"
  pb_int32 :: "int \<Rightarrow> int result"
  pb_uint64 :: "int \<Rightarrow> int result"

definition int32_ok :: "(int \<Rightarrow> int result) \<Rightarrow> bool" where
  "int32_ok f \<longleftrightarrow>
    (\<forall>i. f i = (if - (2 ^ 31) \<le> i \<and> i < 2 ^ 31 then Inr i
                else Inl (ValueError (lit ''Value out of range''))))"

definition uint64_ok :: "(int \<Rightarrow> int result) \<Rightarrow> bool" where
  "uint64_ok f \<longleftrightarrow>
    (\<forall>i. f i = (if 0 \<le> i \<and> i < 2 ^ 64 then Inr i
                else Inl (ValueError (lit ''Value out of range''))))"

definition runtime_ok :: "runtime \<Rightarrow> bool" where
  "runtime_ok pb \<longleftrightarrow>
     coder_ok (pb_SeekInfo pb) \<and>
     coder_ok (pb_SerializedIdentity pb) \<and>
     coder_ok (pb_ChaincodeHeaderExtension pb) \<and>
     coder_ok (pb_ChannelHeader pb) \<and>
     coder_ok (pb_SignatureHeader pb) \<and>
     coder_ok (pb_Header pb) \<and>
     coder_ok (pb_ChaincodeInvocationSpec pb) \<and>
     coder_ok (pb_ChaincodeProposalPayload pb) \<and>
     coder_ok (pb_Proposal pb) \<and>
     coder_ok (pb_Payload pb) \<and>
     coder_ok (pb_Envelope pb) \<and>
     coder_ok (pb_Transaction pb) \<and>
     coder_ok (pb_ChaincodeActionPayload pb) \<and>
     coder_ok (pb_ConfigUpdateEnvelope pb) \<and>
     coder_ok (pb_ConfigUpdate pb) \<and>
     coder_ok (pb_ConfigEnvelope pb) \<and>
     coder_ok (pb_SignaturePolicyEnvelope pb) \<and>
     coder_ok (pb_MSPRole pb) \<and>
     coder_ok (pb_ChaincodeDeploymentSpec pb) \<and>
     coder_ok (pb_Block pb) \<and>
     coder_ok (pb_ChaincodeQueryResponse pb) \<and>
     coder_ok (pb_ProposalResponsePayload pb) \<and>
     coder_ok (pb_Metadata pb) \<and>
     coder_ok (pb_LastConfig pb) \<and>
     int32_ok (pb_int32 pb) \<and> uint64_ok (pb_uint64 pb)"

lemma runtime_okD [simp]:
  assumes "runtime_ok pb"
  shows "coder_ok (pb_SeekInfo pb)"
    and "coder_ok (pb_SerializedIdentity pb)"
    and "coder_ok (pb_ChaincodeHeaderExtension pb)"
    and "coder_ok (pb_ChannelHeader pb)"
    and "coder_ok (pb_SignatureHeader pb)"
    and "coder_ok (pb_Header pb)"
    and "coder_ok (pb_ChaincodeInvocationSpec pb)"
    and "coder_ok (pb_ChaincodeProposalPayload pb)"
    and "coder_ok (pb_Proposal pb)"
    and "coder_ok (pb_Payload pb)"
    and "coder_ok (pb_Envelope pb)"
    and "coder_ok (pb_Transaction pb)"
    and "coder_ok (pb_ChaincodeActionPayload pb)"
    and "coder_ok (pb_ConfigUpdateEnvelope pb)"
    and "coder_ok (pb_ConfigUpdate pb)"
    and "coder_ok (pb_ConfigEnvelope pb)"
    and "coder_ok (pb_SignaturePolicyEnvelope pb)"
    and "coder_ok (pb_MSPRole pb)"
    and "coder_ok (pb_ChaincodeDeploymentSpec pb)"
    and "coder_ok (pb_Block pb)"
    and "coder_ok (pb_ChaincodeQueryResponse pb)"
    and "coder_ok (pb_ProposalResponsePayload pb)"
    and "coder_ok (pb_Metadata pb)"
    and "coder_ok (pb_LastConfig pb)"
    and "int32_ok (pb_int32 pb)"
    and "uint64_ok (pb_uint64 pb)"
  using assms by (simp_all add: runtime_ok_def)

lemma uint64_range: "uint64_ok f \<Longrightarrow> 0 \<le> i \<Longrightarrow> i < 2 ^ 64 \<Longrightarrow> f i = Inr i"
  unfolding uint64_ok_def by (simp only: simp_thms if_True)

lemma uint64_Inr_iff: "uint64_ok f \<Longrightarrow> f i = Inr j \<longleftrightarrow> j = i \<and> 0 \<le> i \<and> i < 2 ^ 64"
  unfolding uint64_ok_def by auto

lemma int32_Inr_iff:
  "int32_ok f \<Longrightarrow> f i = Inr j \<longleftrightarrow> j = i \<and> - (2 ^ 31) \<le> i \<and> i < 2 ^ 31"
  unfolding int32_ok_def by auto

end
