(* ===== verification/Constants.thy ===== *)
theory Constants
  imports Proto_Runtime
begin

text \<open>
  The constants of \<open>src/snakeskin/constants.py\<close>: each Python \<open>Enum\<close> is a datatype with
  the members' names and a function giving their \<open>.value\<close>; calling the class with a
  value (\<open>TransactionType(3)\<close>) is the partial inverse, which raises \<open>ValueError\<close>.
\<close>

datatype ChaincodeLanguage = GOLANG | JAVA | NODE

fun ChaincodeLanguage_value :: "ChaincodeLanguage \<Rightarrow> pystr" where
  "ChaincodeLanguage_value GOLANG = lit ''GOLANG''"
| "ChaincodeLanguage_value JAVA = lit ''JAVA''"
| "ChaincodeLanguage_value NODE = lit ''NODE''"

datatype PolicyExpression = And | Or | OutOf

fun PolicyExpression_value :: "PolicyExpression \<Rightarrow> pystr" where
  "PolicyExpression_value And = lit ''AND''"
| "PolicyExpression_value Or = lit ''OR''"
| "PolicyExpression_value OutOf = lit ''NOf''"

datatype PolicyRole = Role_Peer | Role_Member | Role_Admin | Role_Client

fun PolicyRole_value :: "PolicyRole \<Rightarrow> pystr" where
  "PolicyRole_value Role_Peer = lit ''PEER''"
| "PolicyRole_value Role_Member = lit ''MEMBER''"
| "PolicyRole_value Role_Admin = lit ''ADMIN''"
| "PolicyRole_value Role_Client = lit ''CLIENT''"

datatype ChaincodeProposalType = Install | Instantiate | Invoke | Upgrade | Query

fun ChaincodeProposalType_value :: "ChaincodeProposalType \<Rightarrow> pystr" where
  "ChaincodeProposalType_value Install = lit ''install''"
| "ChaincodeProposalType_value Instantiate = lit ''deploy''"
| "ChaincodeProposalType_value Invoke = lit ''invoke''"
| "ChaincodeProposalType_value Upgrade = lit ''upgrade''"
| "ChaincodeProposalType_value Query = lit ''query''"

datatype TransactionType =
    TT_Message
  | TT_Config
  | TT_ConfigUpdate
  | TT_EndorserTransaction
  | TT_OrdererTransaction
  | TT_DeliverSeekInfo
  | TT_ChaincodePackage
  | TT_PeerAdminOperation
  | TT_TokenTransaction

fun TransactionType_value :: "TransactionType \<Rightarrow> int" where
  "TransactionType_value TT_Message = 0"
| "TransactionType_value TT_Config = 1"
| "TransactionType_value TT_ConfigUpdate = 2"
| "TransactionType_value TT_EndorserTransaction = 3"
| "TransactionType_value TT_OrdererTransaction = 4"
| "TransactionType_value TT_DeliverSeekInfo = 5"
| "TransactionType_value TT_ChaincodePackage = 6"
| "TransactionType_value TT_PeerAdminOperation = 8"
| "TransactionType_value TT_TokenTransaction = 9"

definition TransactionType_members :: "TransactionType list" where
  "TransactionType_members =
    [TT_Message, TT_Config, TT_ConfigUpdate, TT_EndorserTransaction, TT_OrdererTransaction,
     TT_DeliverSeekInfo, TT_ChaincodePackage, TT_PeerAdminOperation, TT_TokenTransaction]"

definition TransactionType_of :: "int \<Rightarrow> TransactionType result" where
  "TransactionType_of i =
    (case find (\<lambda>t. TransactionType_value t = i) TransactionType_members of
       Some t \<Rightarrow> Inr t
     | None \<Rightarrow> Inl (ValueError (str_int i @ lit '' is not a valid TransactionType'')))"

datatype SeekBehavior = BlockUntilReady | FailIfNotReady

fun SeekBehavior_value :: "SeekBehavior \<Rightarrow> pystr" where
  "SeekBehavior_value BlockUntilReady = lit ''BLOCK_UNTIL_READY''"
| "SeekBehavior_value FailIfNotReady = lit ''FAIL_IF_NOT_READY''"

datatype DeliveredBlockType = Original_Block | Decoded_Block | Filtered_Block

fun DeliveredBlockType_value :: "DeliveredBlockType \<Rightarrow> pystr" where
  "DeliveredBlockType_value Original_Block = lit ''ORIGINAL''"
| "DeliveredBlockType_value Decoded_Block = lit ''DECODED''"
| "DeliveredBlockType_value Filtered_Block = lit ''FILTERED''"

text \<open>\<open>sys.maxsize\<close> of a 64-bit interpreter.\<close>

definition INDEFINITE_STOP_POSITION :: int where
  "INDEFINITE_STOP_POSITION = 9223372036854775807"

lemma TransactionType_member: "t \<in> set TransactionType_members"
  by (cases t) (simp_all add: TransactionType_members_def)

lemma TransactionType_value_inject:
  "TransactionType_value s = TransactionType_value t \<longleftrightarrow> s = t"
  by (cases s; cases t) simp_all

lemma TransactionType_of_value [simp]: "TransactionType_of (TransactionType_value t) = Inr t"
  by (cases t) (simp_all add: TransactionType_of_def TransactionType_members_def)

lemma TransactionType_of_Inr_iff: "TransactionType_of i = Inr t \<longleftrightarrow> i = TransactionType_value t"
proof
  assume "TransactionType_of i = Inr t"
  then show "i = TransactionType_value t"
    by (auto simp: TransactionType_of_def split: option.splits dest!: find_Some_D)
qed simp

text \<open>
  The members of \<open>TransactionType\<close> are exactly the header types of the protocol, so every
  channel header of a known type is decoded.
\<close>

lemma TransactionType_HeaderType:
  "TransactionType_value ` set TransactionType_members = snd ` set HeaderType"
  by (simp add: TransactionType_members_def HeaderType_def)

lemma TransactionType_of_total:
  "(\<exists>t. TransactionType_of i = Inr t) \<longleftrightarrow> i \<in> snd ` set HeaderType"
  using TransactionType_member
  by (auto simp: TransactionType_of_Inr_iff simp flip: TransactionType_HeaderType)

lemma SeekBehavior_Value:
  "enum_Value SeekInfo_SeekBehavior (SeekBehavior_value b) =
    Inr (case b of BlockUntilReady \<Rightarrow> 0 | FailIfNotReady \<Rightarrow> 1)"
  by (cases b) (simp_all add: enum_Value_def SeekInfo_SeekBehavior_def)

lemma ChaincodeLanguage_Value:
  "enum_Value ChaincodeSpec_Type (ChaincodeLanguage_value l) =
    Inr (case l of GOLANG \<Rightarrow> 1 | NODE \<Rightarrow> 2 | JAVA \<Rightarrow> 4)"
  by (cases l) (simp_all add: enum_Value_def ChaincodeSpec_Type_def)

end
