(* ===== verification/Crypto_Suite.thy ===== *)
theory Crypto_Suite
  imports Proto_Runtime
begin

text \<open>
  The cryptography of \<open>src/snakeskin/_hfc/crypto.py\<close> and \<open>src/snakeskin/crypto.py\<close>: the
  \<open>Ecies\<close> suite (ECDSA signatures kept in their low-s form, and the ECIES encryption
  scheme). The primitives come from the packages \<open>cryptography\<close>, \<open>pycryptodomex\<close> and
  \<open>hkdf\<close> and are a parameter, the record \<open>crypto_lib\<close>; keys are opaque handles.
  An operation that draws randomness takes a seed, the number of the draw.
\<close>

datatype priv_key = PrivateKey nat
datatype pub_key = PublicKey nat

datatype curve = SECP256R1 | SECP384R1
datatype hash_alg = Sha256 | Sha384 | Sha3_256 | Sha3_384

fun curve_key_size :: "curve \<Rightarrow> nat" where
  "curve_key_size SECP256R1 = 256"
| "curve_key_size SECP384R1 = 384"

fun digest_size :: "hash_alg \<Rightarrow> nat" where
  "digest_size Sha256 = 32"
| "digest_size Sha3_256 = 32"
| "digest_size Sha384 = 48"
| "digest_size Sha3_384 = 48"

record crypto_lib =
  lib_sign :: "nat \<Rightarrow> priv_key \<Rightarrow> bytes \<Rightarrow> hash_alg \<Rightarrow> bytes"
  lib_verify :: "pub_key \<Rightarrow> bytes \<Rightarrow> bytes \<Rightarrow> hash_alg \<Rightarrow> bool result"
  decode_dss_signature :: "bytes \<Rightarrow> (int \<times> int) result"
  encode_dss_signature :: "int \<Rightarrow> int \<Rightarrow> bytes"
  lib_generate_private_key :: "nat \<Rightarrow> curve \<Rightarrow> priv_key"
  public_key :: "priv_key \<Rightarrow> pub_key"
  key_size :: "priv_key \<Rightarrow> nat"
  encode_point :: "pub_key \<Rightarrow> bytes"
  from_encoded_point :: "curve \<Rightarrow> bytes \<Rightarrow> pub_key result"
  ecdh_exchange :: "priv_key \<Rightarrow> pub_key \<Rightarrow> bytes result"
  hkdf_expand :: "hash_alg \<Rightarrow> bytes \<Rightarrow> nat \<Rightarrow> bytes"
  hmac_digest :: "hash_alg \<Rightarrow> bytes \<Rightarrow> bytes \<Rightarrow> bytes"
  aes_random_iv :: "nat \<Rightarrow> bytes"
  aes_cfb_encrypt :: "bytes \<Rightarrow> bytes \<Rightarrow> bytes \<Rightarrow> bytes"
  aes_cfb_decrypt :: "bytes \<Rightarrow> bytes \<Rightarrow> bytes \<Rightarrow> bytes result"
  lib_hash :: "hash_alg \<Rightarrow> bytes \<Rightarrow> bytes"
  get_random_bytes :: "nat \<Rightarrow> nat \<Rightarrow> bytes"
  lib_csr :: "bytes \<Rightarrow> bytes list \<Rightarrow> priv_key \<Rightarrow> hash_alg \<Rightarrow> bytes"

section \<open>The suite object\<close>

definition DEFAULT_NONCE_SIZE :: nat where
  "DEFAULT_NONCE_SIZE = 24"

definition CURVE_P_256_Size :: int where
  "CURVE_P_256_Size = 256"

definition CURVE_P_384_Size :: int where
  "CURVE_P_384_Size = 384"

definition AES_KEY_LENGTH :: nat where
  "AES_KEY_LENGTH = 32"

definition HMAC_KEY_LENGTH :: nat where
  "HMAC_KEY_LENGTH = 32"

definition IV_LENGTH :: nat where
  "IV_LENGTH = 16"

text \<open>The hash algorithm is a text, of which two are known.\<close>

datatype hash_name = SHA2 | SHA3 | OtherHash pystr

record Ecies =
  order :: int
  half_order :: int
  curve :: curve
  sign_hash_algorithm :: hash_alg
  hash_fn :: hash_alg

text \<open>\<open>Ecies.__init__\<close>: any security level but 256 selects P-384.\<close>

definition Ecies_init :: "int \<Rightarrow> hash_name \<Rightarrow> Ecies" where
  "Ecies_init security_level hash_algorithm =
    (let n = (if security_level = CURVE_P_256_Size
              then 115792089210356248762697446949407573529996955224135760342422259061068512044369
              else 39402006196394479212279040100143613805079739270465446667946905279627659399113263569398956308152294913554433653942643)
     in \<lparr>order = n,
         half_order = n div 2,
         curve = (if security_level = CURVE_P_256_Size then SECP256R1 else SECP384R1),
         sign_hash_algorithm = (if security_level = CURVE_P_256_Size then Sha256 else Sha384),
         hash_fn =
           (if hash_algorithm = SHA2 then Sha256
            else if hash_algorithm = SHA3 \<and> security_level = CURVE_P_256_Size then Sha3_256
            else Sha3_384)\<rparr>)"

text \<open>The property \<open>hash\<close>: the hash function, here applied.\<close>

definition ecies_hash :: "crypto_lib \<Rightarrow> Ecies \<Rightarrow> bytes \<Rightarrow> bytes" where
  "ecies_hash L E = lib_hash L (hash_fn E)"

text \<open>The factory function; \<open>crypto.py\<close> calls it with its defaults, P-256 and SHA-2.\<close>

definition ecies :: "int \<Rightarrow> hash_name \<Rightarrow> Ecies" where
  "ecies security_level hash_algorithm = Ecies_init security_level hash_algorithm"

definition generate_nonce_bytes :: "crypto_lib \<Rightarrow> nat \<Rightarrow> nat \<Rightarrow> bytes" where
  "generate_nonce_bytes L seed len = get_random_bytes L seed len"

definition ecies_generate_private_key :: "crypto_lib \<Rightarrow> Ecies \<Rightarrow> nat \<Rightarrow> priv_key" where
  "ecies_generate_private_key L E seed = lib_generate_private_key L seed (curve E)"

definition ecies_generate_csr ::
  "crypto_lib \<Rightarrow> Ecies \<Rightarrow> priv_key \<Rightarrow> bytes \<Rightarrow> bytes list option \<Rightarrow> bytes" where
  "ecies_generate_csr L E private_key subject_name extensions =
    lib_csr L subject_name (case extensions of None \<Rightarrow> [] | Some e \<Rightarrow> e) private_key (sign_hash_algorithm E)"

section \<open>Signatures\<close>

definition prevent_malleability :: "crypto_lib \<Rightarrow> Ecies \<Rightarrow> bytes \<Rightarrow> bytes result" where
  "prevent_malleability L E sig =
    bind_res (decode_dss_signature L sig) (\<lambda>(r, s).
      let s' = (if s > half_order E then order E - s else s)
      in Inr (encode_dss_signature L r s'))"

definition check_malleability :: "crypto_lib \<Rightarrow> Ecies \<Rightarrow> bytes \<Rightarrow> bool result" where
  "check_malleability L E sig =
    bind_res (decode_dss_signature L sig) (\<lambda>(r, s). Inr (\<not> s > half_order E))"

definition ecies_sign :: "crypto_lib \<Rightarrow> Ecies \<Rightarrow> nat \<Rightarrow> priv_key \<Rightarrow> bytes \<Rightarrow> bytes result" where
  "ecies_sign L E seed private_key message =
    (let signer = lib_sign L seed private_key message (sign_hash_algorithm E)
     in prevent_malleability L E signer)"

text \<open>\<open>lib_verify\<close> returns \<open>False\<close> where the library raises \<open>InvalidSignature\<close>.\<close>

definition ecies_verify :: "crypto_lib \<Rightarrow> Ecies \<Rightarrow> pub_key \<Rightarrow> bytes \<Rightarrow> bytes \<Rightarrow> bool result" where
  "ecies_verify L E pk message signature =
    bind_res (check_malleability L E signature) (\<lambda>ok.
      if \<not> ok then Inr False
      else lib_verify L pk signature message (sign_hash_algorithm E))"

section \<open>Encryption\<close>

definition derive_keys :: "crypto_lib \<Rightarrow> Ecies \<Rightarrow> bytes \<Rightarrow> bytes \<times> bytes" where
  "derive_keys L E z =
    (let hkdf_output = hkdf_expand L (hash_fn E) z (AES_KEY_LENGTH + HMAC_KEY_LENGTH)
     in (take AES_KEY_LENGTH hkdf_output,
         take HMAC_KEY_LENGTH (drop AES_KEY_LENGTH hkdf_output)))"

text \<open>The exchange raises for a public key on another curve.\<close>

definition ecies_encrypt :: "crypto_lib \<Rightarrow> Ecies \<Rightarrow> nat \<Rightarrow> pub_key \<Rightarrow> bytes \<Rightarrow> bytes result" where
  "ecies_encrypt L E seed pk plain_text =
    (let ephemeral_private_key = ecies_generate_private_key L E seed;
         rb = encode_point L (public_key L ephemeral_private_key)
     in bind_res (ecdh_exchange L ephemeral_private_key pk) (\<lambda>z.
        let (aes_key, hmac_key) = derive_keys L E z;
            iv = aes_random_iv L (Suc seed);
            em = iv @ aes_cfb_encrypt L aes_key iv plain_text;
            d = hmac_digest L (hash_fn E) hmac_key em
        in Inr (rb @ em @ d)))"

text \<open>The three parts the decryption slices its input into, by the curve's key size.\<close>

definition rb_len :: "nat \<Rightarrow> nat" where
  "rb_len key_len = (key_len + 7) div 8 * 2 + 1"

definition d_len :: "nat \<Rightarrow> nat" where
  "d_len key_len = key_len div 8"

definition ecies_decrypt :: "crypto_lib \<Rightarrow> Ecies \<Rightarrow> priv_key \<Rightarrow> bytes \<Rightarrow> bytes result" where
  "ecies_decrypt L E private_key cipher_text =
    (let key_len = key_size L private_key in
     if key_len \<noteq> curve_key_size (curve E) then Inl (ValueError (lit ''Invalid key. Input security level '' @ str_int (int key_len) @
       lit '' does not match the current security level '' @
       str_int (int (curve_key_size (curve E)))))
     else
       (let ct_len = length cipher_text in
        if ct_len \<le> rb_len key_len + d_len key_len
        then Inl (ValueError (lit ''Illegal cipherText length: cipher text length '' @
          str_int (int ct_len) @ lit '' must be > rb length plus d_len '' @
          str_int (int (rb_len key_len + d_len key_len))))
        else
          (let rb = take (rb_len key_len) cipher_text;
               em = drop (rb_len key_len) (take (ct_len - d_len key_len) cipher_text);
               d = drop (ct_len - d_len key_len) cipher_text
           in bind_res (from_encoded_point L (curve E) rb) (\<lambda>ephemeral_public_key.
              bind_res (ecdh_exchange L private_key ephemeral_public_key) (\<lambda>z.
              let (aes_key, hmac_key) = derive_keys L E z;
                  recovered_d = hmac_digest L (hash_fn E) hmac_key em
              in if recovered_d \<noteq> d then Inl (ValueError (lit ''Hmac verify failed.''))
                 else aes_cfb_decrypt L aes_key (take IV_LENGTH em) (drop IV_LENGTH em))))))"

section \<open>What is assumed of the primitives\<close>

text \<open>
  The documented behaviour of the signature primitives for a group of the given order:
  DER encoding of \<open>(r, s)\<close> is inverted by decoding, a fresh signature decodes to a pair
  with \<open>0 < s < order\<close> and verifies under the matching public key, and verification does
  not distinguish \<open>s\<close> from \<open>order - s\<close> (the malleability of ECDSA).
\<close>

definition signature_laws :: "crypto_lib \<Rightarrow> int \<Rightarrow> bool" where
  "signature_laws L n \<longleftrightarrow>
    (\<forall>r s. 0 < s \<and> s < n \<longrightarrow> decode_dss_signature L (encode_dss_signature L r s) = Inr (r, s)) \<and>
    (\<forall>seed k m h. \<exists>r s. 0 < s \<and> s < n \<and> lib_sign L seed k m h = encode_dss_signature L r s) \<and>
    (\<forall>seed k m h. lib_verify L (public_key L k) (lib_sign L seed k m h) m h = Inr True) \<and>
    (\<forall>pk r s m h. 0 < s \<and> s < n \<longrightarrow>
      lib_verify L pk (encode_dss_signature L r (n - s)) m h =
      lib_verify L pk (encode_dss_signature L r s) m h)"

text \<open>
  The behaviour of the encryption primitives for one curve and hash: an ephemeral key's
  point has the fixed length of the curve and is decoded to the same key, both sides of a
  Diffie-Hellman exchange between keys of one size agree, the authentication code has the
  hash's length, the key derivation gives as many bytes as it is asked for, and AES in CFB mode
  is inverted with the same 32-byte key and 16-byte vector.
\<close>

definition encryption_laws :: "crypto_lib \<Rightarrow> curve \<Rightarrow> hash_alg \<Rightarrow> bool" where
  "encryption_laws L c h \<longleftrightarrow>
    (\<forall>seed. length (encode_point L (public_key L (lib_generate_private_key L seed c))) =
        rb_len (curve_key_size c)) \<and>
    (\<forall>seed. from_encoded_point L c (encode_point L (public_key L (lib_generate_private_key L seed c))) =
        Inr (public_key L (lib_generate_private_key L seed c))) \<and>
    (\<forall>seed. key_size L (lib_generate_private_key L seed c) = curve_key_size c) \<and>
    (\<forall>k k'. key_size L k = key_size L k' \<longrightarrow>
      (\<exists>z. ecdh_exchange L k (public_key L k') = Inr z \<and> ecdh_exchange L k' (public_key L k) = Inr z)) \<and>
    (\<forall>key m. length (hmac_digest L h key m) = digest_size h) \<and>
    (\<forall>seed. length (aes_random_iv L seed) = IV_LENGTH) \<and>
    (\<forall>z. length (hkdf_expand L h z (AES_KEY_LENGTH + HMAC_KEY_LENGTH)) = AES_KEY_LENGTH + HMAC_KEY_LENGTH) \<and>
    (\<forall>key iv m. length key = AES_KEY_LENGTH \<and> length iv = IV_LENGTH \<longrightarrow>
      aes_cfb_decrypt L key iv (aes_cfb_encrypt L key iv m) = Inr m)"

section \<open>Low-s arithmetic\<close>

text \<open>
  What the malleability rule needs of a group: an odd order and its integer half. Of
  \<open>s\<close> and \<open>order - s\<close> exactly one is in the lower half, and the normalisation picks it.
\<close>

locale low_s =
  fixes n :: int and half :: int
  assumes half: "half = n div 2"
    and odd: "odd n"
    and positive: "0 < n"
begin

definition norm :: "int \<Rightarrow> int" where
  "norm s = (if s > half then n - s else s)"

lemma twice_half: "n = 2 * half + 1"
  using half odd by (simp add: odd_two_times_div_two_succ)

lemma norm_low: "0 < s \<Longrightarrow> s < n \<Longrightarrow> 0 < norm s \<and> norm s \<le> half \<and> norm s < n"
  using twice_half unfolding norm_def by auto

lemma norm_cases: "norm s = s \<or> norm s = n - s"
  by (auto simp: norm_def)

lemma norm_complement: "0 < s \<Longrightarrow> s < n \<Longrightarrow> norm (n - s) = norm s"
  using twice_half unfolding norm_def by auto

lemma exactly_one_low: "s \<le> half \<longleftrightarrow> \<not> (n - s \<le> half)"
  using twice_half by auto

end

interpretation p256: low_s "order (Ecies_init 256 h)" "half_order (Ecies_init 256 h)"
  by unfold_locales (simp_all add: Ecies_init_def CURVE_P_256_Size_def)

interpretation p384: low_s "order (Ecies_init 384 h)" "half_order (Ecies_init 384 h)"
  by unfold_locales (simp_all add: Ecies_init_def CURVE_P_256_Size_def)

text \<open>Both curves of the suite; any level but 256 is P-384.\<close>

lemma Ecies_init_low_s: "low_s (order (Ecies_init lv h)) (half_order (Ecies_init lv h))"
proof (cases "lv = 256")
  case True
  then show ?thesis using p256.low_s_axioms by simp
next
  case False
  then have "Ecies_init lv h = Ecies_init 384 h"
    by (simp add: Ecies_init_def CURVE_P_256_Size_def)
  then show ?thesis using p384.low_s_axioms by simp
qed

section \<open>Signatures: low-s form, verification, non-malleability\<close>

lemma prevent_malleability_encoded:
  assumes L: "signature_laws L (order E)" and E: "low_s (order E) (half_order E)"
    and s: "0 < s" "s < order E"
  shows "prevent_malleability L E (encode_dss_signature L r s) =
    Inr (encode_dss_signature L r (low_s.norm (order E) (half_order E) s))"
  using L s unfolding prevent_malleability_def signature_laws_def
  by (simp add: low_s.norm_def [OF E])

lemma check_malleability_encoded:
  assumes L: "signature_laws L (order E)" and s: "0 < s" "s < order E"
  shows "check_malleability L E (encode_dss_signature L r s) = Inr (s \<le> half_order E)"
  using L s unfolding check_malleability_def signature_laws_def by (simp add: not_less)

lemma ecies_sign_form:
  assumes L: "signature_laws L (order E)" and E: "low_s (order E) (half_order E)"
  obtains r s where "0 < s" "s < order E"
    "lib_sign L seed k m (sign_hash_algorithm E) = encode_dss_signature L r s"
    "ecies_sign L E seed k m =
      Inr (encode_dss_signature L r (low_s.norm (order E) (half_order E) s))"
proof -
  from L obtain r s where rs: "0 < s" "s < order E"
    "lib_sign L seed k m (sign_hash_algorithm E) = encode_dss_signature L r s"
    unfolding signature_laws_def by meson
  moreover have "ecies_sign L E seed k m =
      Inr (encode_dss_signature L r (low_s.norm (order E) (half_order E) s))"
    using rs prevent_malleability_encoded [OF L E rs(1,2)] by (simp add: ecies_sign_def)
  ultimately show ?thesis by (rule that)
qed

lemma verify_norm:
  assumes L: "signature_laws L (order E)" and E: "low_s (order E) (half_order E)"
    and s: "0 < s" "s < order E"
  shows "lib_verify L pk (encode_dss_signature L r (low_s.norm (order E) (half_order E) s)) m h =
    lib_verify L pk (encode_dss_signature L r s) m h"
proof -
  have "low_s.norm (order E) (half_order E) s = s \<or>
      low_s.norm (order E) (half_order E) s = order E - s"
    by (rule low_s.norm_cases [OF E])
  with L s show ?thesis unfolding signature_laws_def by metis
qed

lemma ecies_sign_accepted:
  assumes L: "signature_laws L (order E)" and low: "low_s (order E) (half_order E)"
    and sig: "ecies_sign L E seed k m = Inr sig"
  shows "ecies_verify L E (public_key L k) m sig = Inr True"
proof -
  obtain r s where rs: "0 < s" "s < order E"
    "lib_sign L seed k m (sign_hash_algorithm E) = encode_dss_signature L r s"
    and form: "ecies_sign L E seed k m =
      Inr (encode_dss_signature L r (low_s.norm (order E) (half_order E) s))"
    using ecies_sign_form [OF L low] by blast
  let ?s = "low_s.norm (order E) (half_order E) s"
  have n: "0 < ?s \<and> ?s \<le> half_order E \<and> ?s < order E"
    by (rule low_s.norm_low [OF low rs(1,2)])
  have "lib_verify L (public_key L k) (encode_dss_signature L r s) m (sign_hash_algorithm E) = Inr True"
    using L rs(3) unfolding signature_laws_def by metis
  then have "ecies_verify L E (public_key L k) m (encode_dss_signature L r ?s) = Inr True"
    using check_malleability_encoded [OF L, of ?s r] n verify_norm [OF L low rs(1,2)]
    by (simp add: ecies_verify_def)
  with sig form show ?thesis by simp
qed

text \<open>
  C24. Signing with the suite and verifying with the matching public key: the signature
  \<open>Ecies.sign\<close> returns decodes to a pair whose \<open>s\<close> lies in the lower half of the group,
  and \<open>Ecies.verify\<close> accepts it, for both security levels and hash families.
\<close>

theorem ecies_sign_verify:
  assumes E: "E = Ecies_init level hash_name" and L: "signature_laws L (order E)"
  shows "\<exists>sig r s. ecies_sign L E seed k m = Inr sig \<and>
    decode_dss_signature L sig = Inr (r, s) \<and> 0 < s \<and> s \<le> half_order E \<and>
    ecies_verify L E (public_key L k) m sig = Inr True"
proof -
  have low: "low_s (order E) (half_order E)" unfolding E by (rule Ecies_init_low_s)
  obtain r s where rs: "0 < s" "s < order E"
    and sig: "ecies_sign L E seed k m =
      Inr (encode_dss_signature L r (low_s.norm (order E) (half_order E) s))"
    using ecies_sign_form [OF L low] by blast
  let ?s = "low_s.norm (order E) (half_order E) s"
  have n: "0 < ?s \<and> ?s \<le> half_order E \<and> ?s < order E"
    by (rule low_s.norm_low [OF low rs])
  then have "decode_dss_signature L (encode_dss_signature L r ?s) = Inr (r, ?s)"
    using L unfolding signature_laws_def by blast
  with sig n ecies_sign_accepted [OF L low sig] show ?thesis by blast
qed

text \<open>
  Signatures the suite accepts are not malleable: of the two signatures \<open>(r, s)\<close> and
  \<open>(r, order - s)\<close>, which ECDSA verification does not tell apart, \<open>Ecies.verify\<close>
  answers \<open>False\<close> for at least one, whatever key and message.
\<close>

theorem ecies_verify_not_malleable:
  assumes E: "E = Ecies_init level hash_name" and L: "signature_laws L (order E)"
    and s: "0 < s" "s < order E"
  shows "ecies_verify L E pk m (encode_dss_signature L r s) = Inr False \<or>
    ecies_verify L E pk m (encode_dss_signature L r (order E - s)) = Inr False"
proof -
  have low: "low_s (order E) (half_order E)" unfolding E by (rule Ecies_init_low_s)
  have "0 < order E - s" "order E - s < order E" using s by simp_all
  note checks = check_malleability_encoded [OF L s] check_malleability_encoded [OF L this]
  show ?thesis
    using low_s.exactly_one_low [OF low, of s] by (auto simp: ecies_verify_def checks)
qed

section \<open>Encryption round trip\<close>

lemma ecies_encrypt_parts:
  assumes L: "encryption_laws L (curve E) (hash_fn E)" and k: "key_size L k = curve_key_size (curve E)"
  obtains ek z em where "ek = lib_generate_private_key L seed (curve E)"
    "ecdh_exchange L k (public_key L ek) = Inr z"
    "em = aes_random_iv L (Suc seed) @
      aes_cfb_encrypt L (fst (derive_keys L E z)) (aes_random_iv L (Suc seed)) m"
    "ecies_encrypt L E seed (public_key L k) m =
      Inr (encode_point L (public_key L ek) @ em @ hmac_digest L (hash_fn E) (snd (derive_keys L E z)) em)"
proof -
  let ?ek = "lib_generate_private_key L seed (curve E)"
  from L k obtain z where "ecdh_exchange L k (public_key L ?ek) = Inr z" "ecdh_exchange L ?ek (public_key L k) = Inr z"
    unfolding encryption_laws_def by metis
  then show ?thesis
    using that unfolding ecies_encrypt_def ecies_generate_private_key_def by (simp add: Let_def case_prod_beta)
qed

text \<open>
  C39. Decrypting what was encrypted for a key gives the plaintext back, whenever the hash's
  digest has the length the slicing assumes (an eighth of the curve's key size) and the
  key is on the suite's curve.
\<close>

theorem ecies_decrypt_encrypt:
  assumes L: "encryption_laws L (curve E) (hash_fn E)"
    and k: "key_size L k = curve_key_size (curve E)"
    and d: "d_len (curve_key_size (curve E)) = digest_size (hash_fn E)"
  shows "\<exists>c. ecies_encrypt L E seed (public_key L k) m = Inr c \<and> ecies_decrypt L E k c = Inr m"
proof -
  obtain ek z em where ek: "ek = lib_generate_private_key L seed (curve E)"
    and z: "ecdh_exchange L k (public_key L ek) = Inr z"
    and em: "em = aes_random_iv L (Suc seed) @
      aes_cfb_encrypt L (fst (derive_keys L E z)) (aes_random_iv L (Suc seed)) m"
    and c: "ecies_encrypt L E seed (public_key L k) m =
      Inr (encode_point L (public_key L ek) @ em @ hmac_digest L (hash_fn E) (snd (derive_keys L E z)) em)"
    using ecies_encrypt_parts [OF L k] by metis
  have len: "length (encode_point L (public_key L ek)) = rb_len (key_size L k)"
    "length (hmac_digest L (hash_fn E) (snd (derive_keys L E z)) em) = d_len (key_size L k)"
    "length (aes_random_iv L (Suc seed)) = IV_LENGTH"
    using L k d ek unfolding encryption_laws_def by auto
  moreover have "0 < length em" using em len by (simp add: IV_LENGTH_def)
  moreover have "from_encoded_point L (curve E) (encode_point L (public_key L ek)) =
      Inr (public_key L ek)"
    using L ek unfolding encryption_laws_def by blast
  moreover have "length (fst (derive_keys L E z)) = AES_KEY_LENGTH"
    using L unfolding encryption_laws_def by (simp add: derive_keys_def Let_def)
  moreover have "length key = AES_KEY_LENGTH \<Longrightarrow> length iv = IV_LENGTH \<Longrightarrow>
      aes_cfb_decrypt L key iv (aes_cfb_encrypt L key iv m) = Inr m" for key iv
    using L unfolding encryption_laws_def by blast
  ultimately have "ecies_decrypt L E k
      (encode_point L (public_key L ek) @ em @ hmac_digest L (hash_fn E) (snd (derive_keys L E z)) em) = Inr m"
    unfolding ecies_decrypt_def using k em z by (simp add: Let_def case_prod_beta)
  with c show ?thesis by blast
qed

text \<open>
  The premise on the digest length holds for P-256 with either known hash and for P-384 with
  SHA-3; with the default SHA-2 the suite hashes with SHA-256 on both curves.
\<close>

lemma digest_length_matches:
  "h = SHA2 \<or> h = SHA3 \<Longrightarrow>
    d_len (curve_key_size (curve (Ecies_init 256 h))) = digest_size (hash_fn (Ecies_init 256 h))"
  "d_len (curve_key_size (curve (Ecies_init 384 SHA3))) = digest_size (hash_fn (Ecies_init 384 SHA3))"
  by (auto simp: Ecies_init_def CURVE_P_256_Size_def d_len_def)

text \<open>
  C38. At security level 384 with the default hash family the suite cannot decrypt its own
  ciphertexts: encryption appends a 32-byte authentication code, decryption slices off 48
  bytes, and every such decryption raises \<open>ValueError\<close>.
\<close>

theorem ecies_384_sha2_decrypt_fails:
  assumes L: "encryption_laws L SECP384R1 Sha256" and k: "key_size L k = 384"
  shows "\<exists>c msg. ecies_encrypt L (Ecies_init 384 SHA2) seed (public_key L k) m = Inr c \<and>
    ecies_decrypt L (Ecies_init 384 SHA2) k c = Inl (ValueError msg)"
proof -
  define E where "E = Ecies_init 384 SHA2"
  have E: "curve E = SECP384R1" "hash_fn E = Sha256"
    by (simp_all add: E_def Ecies_init_def CURVE_P_256_Size_def)
  have ks: "key_size L k = curve_key_size (curve E)" by (simp add: E(1) k)
  from ecies_encrypt_parts [OF L [folded E] ks, of seed m] obtain ek z rest where
    ek: "ek = lib_generate_private_key L seed SECP384R1" and z: "ecdh_exchange L k (public_key L ek) = Inr z" and
    enc: "ecies_encrypt L E seed (public_key L k) m = Inr (encode_point L (public_key L ek) @ rest)"
    unfolding E by metis
  define c where "c = encode_point L (public_key L ek) @ rest"
  have rb: "length (encode_point L (public_key L ek)) = rb_len 384"
    "from_encoded_point L SECP384R1 (encode_point L (public_key L ek)) = Inr (public_key L ek)"
    using L unfolding encryption_laws_def ek by auto
  have mac: "length (hmac_digest L Sha256 key em) = 32" for key em
    using L unfolding encryption_laws_def by simp
  have "hmac_digest L Sha256 key em \<noteq> drop (length c - d_len 384) c"
    if "rb_len 384 + d_len 384 < length c" for key em
  proof
    assume "hmac_digest L Sha256 key em = drop (length c - d_len 384) c"
    then have "length (drop (length c - d_len 384) c) = 32" using mac by metis
    with that show False by (simp add: d_len_def)
  qed
  then have "\<exists>msg. ecies_decrypt L E k c = Inl (ValueError msg)"
    unfolding ecies_decrypt_def using k E rb z
    by (auto simp: c_def Let_def not_le case_prod_beta)
  with enc show ?thesis by (auto simp: E_def c_def)
qed

section \<open>Primitives that satisfy the laws\<close>

text \<open>
  Signatures written in unary, of which verification compares the first number with the
  length of the message; keys of one pair per curve, numbered 0 and 1.
\<close>

definition unary :: "int \<Rightarrow> int \<Rightarrow> bytes" where
  "unary r s = replicate (nat r) 1 @ [0] @ replicate (nat (- r)) 1 @ [0] @ replicate (nat s) 1"

definition of_unary :: "bytes \<Rightarrow> int \<times> int" where
  "of_unary bs =
    (let a = takeWhile (\<lambda>x. x = 1) bs; bs' = drop (Suc (length a)) bs;
         b = takeWhile (\<lambda>x. x = 1) bs'; c = drop (Suc (length b)) bs'
     in (int (length a) - int (length b), int (length c)))"

lemma of_unary [simp]: "0 \<le> s \<Longrightarrow> of_unary (unary r s) = (r, s)"
  by (cases "0 \<le> r") (simp_all add: of_unary_def unary_def takeWhile_append)

definition example_crypto :: crypto_lib where
  "example_crypto =
    \<lparr>lib_sign = (\<lambda>seed k m h. unary (int (length m)) (1 + int seed mod 1000)),
     lib_verify = (\<lambda>pk sig m h. Inr (fst (of_unary sig) = int (length m))),
     decode_dss_signature = (\<lambda>sig. Inr (of_unary sig)),
     encode_dss_signature = unary,
     lib_generate_private_key = (\<lambda>seed c. PrivateKey (if c = SECP256R1 then 0 else 1)),
     public_key = (\<lambda>k. case k of PrivateKey n \<Rightarrow> PublicKey n),
     key_size = (\<lambda>k. case k of PrivateKey n \<Rightarrow> if n = 0 then 256 else 384),
     encode_point = (\<lambda>pk. case pk of PublicKey n \<Rightarrow>
       if n = 0 then replicate 65 4 else replicate 97 4),
     from_encoded_point = (\<lambda>c bs. Inr (PublicKey (if c = SECP256R1 then 0 else 1))),
     ecdh_exchange = (\<lambda>k pk. case (k, pk) of (PrivateKey a, PublicKey b) \<Rightarrow>
       if (a = 0) = (b = 0) then Inr [of_nat (a + b)]
       else Inl (ValueError (lit ''public_key and private_key are on different curves''))),
     hkdf_expand = (\<lambda>h z n. replicate n (sum_list z)),
     hmac_digest = (\<lambda>h key m. replicate (digest_size h) (sum_list key + sum_list m)),
     aes_random_iv = (\<lambda>seed. replicate 16 (of_nat seed)),
     aes_cfb_encrypt = (\<lambda>key iv m. map (\<lambda>b. b + 1) m),
     aes_cfb_decrypt = (\<lambda>key iv m. if length iv = 16 then Inr (map (\<lambda>b. b - 1) m)
       else Inl (ValueError (lit ''Incorrect IV length''))),
     lib_hash = (\<lambda>h m. replicate (digest_size h) (sum_list m)),
     get_random_bytes = (\<lambda>seed n. replicate n (of_nat seed)),
     lib_csr = (\<lambda>subject extensions k h. subject @ concat extensions)\<rparr>"

lemma example_signature_laws: "1000 < n \<Longrightarrow> signature_laws example_crypto n"
proof -
  assume n: "1000 < n"
  have "\<exists>r s. 0 < s \<and> s < n \<and> lib_sign example_crypto seed k m h = encode_dss_signature example_crypto r s"
    for seed k m h
  proof (intro exI conjI)
    show "lib_sign example_crypto seed k m h =
        encode_dss_signature example_crypto (int (length m)) (1 + int seed mod 1000)"
      by (simp add: example_crypto_def)
    have "0 \<le> int seed mod 1000" "int seed mod 1000 < 1000" by simp_all
    with n show "0 < 1 + int seed mod 1000" "1 + int seed mod 1000 < n" by linarith+
  qed
  moreover have "lib_verify example_crypto pk (lib_sign example_crypto seed k m h) m h = Inr True" for pk seed k m h
    by (simp add: example_crypto_def)
  ultimately show ?thesis
    unfolding signature_laws_def by (simp add: example_crypto_def)
qed

lemma example_encryption_laws: "encryption_laws example_crypto c h"
  unfolding encryption_laws_def
  by (cases c) (auto simp: example_crypto_def rb_len_def IV_LENGTH_def comp_def add.commute split: priv_key.split)

text \<open>The default suite, by its factory.\<close>

definition example_ecies :: Ecies where
  "example_ecies = ecies CURVE_P_256_Size SHA2"

lemma example_ecies_init: "example_ecies = Ecies_init CURVE_P_256_Size SHA2"
  by (simp add: example_ecies_def ecies_def)

theorem ecies_sign_verify_witness:
  "\<exists>sig. ecies_sign example_crypto example_ecies 3 (PrivateKey 0) [1, 2] = Inr sig \<and>
    ecies_verify example_crypto example_ecies (public_key example_crypto (PrivateKey 0)) [1, 2] sig = Inr True"
proof -
  have "signature_laws example_crypto (order example_ecies)"
    by (rule example_signature_laws) (simp add: example_ecies_init Ecies_init_def CURVE_P_256_Size_def)
  from ecies_sign_verify [OF example_ecies_init this] show ?thesis by blast
qed

theorem ecies_verify_not_malleable_witness:
  "ecies_verify example_crypto example_ecies (PublicKey 0) [1, 2] (unary 2 5) = Inr False \<or>
    ecies_verify example_crypto example_ecies (PublicKey 0) [1, 2] (unary 2 (order example_ecies - 5)) = Inr False"
proof -
  have o: "1000 < order example_ecies" by (simp add: example_ecies_init Ecies_init_def CURVE_P_256_Size_def)
  have "signature_laws example_crypto (order example_ecies)" using o by (rule example_signature_laws)
  moreover have "0 < (5 :: int)" "5 < order example_ecies" using o by simp_all
  ultimately have "ecies_verify example_crypto example_ecies (PublicKey 0) [1, 2] (encode_dss_signature example_crypto 2 5) =
      Inr False \<or> ecies_verify example_crypto example_ecies (PublicKey 0) [1, 2]
        (encode_dss_signature example_crypto 2 (order example_ecies - 5)) = Inr False"
    by (rule ecies_verify_not_malleable [OF example_ecies_init])
  moreover have "encode_dss_signature example_crypto = unary" by (simp add: example_crypto_def)
  ultimately show ?thesis by simp
qed

theorem ecies_decrypt_encrypt_witness:
  "\<exists>c. ecies_encrypt example_crypto example_ecies 3 (public_key example_crypto (PrivateKey 0)) [7, 8] = Inr c \<and>
    ecies_decrypt example_crypto example_ecies (PrivateKey 0) c = Inr [7, 8]"
proof (rule ecies_decrypt_encrypt [OF example_encryption_laws])
  show "key_size example_crypto (PrivateKey 0) = curve_key_size (curve example_ecies)"
    by (simp add: example_crypto_def example_ecies_init Ecies_init_def CURVE_P_256_Size_def)
  show "d_len (curve_key_size (curve example_ecies)) = digest_size (hash_fn example_ecies)"
    using digest_length_matches(1) [of SHA2] by (simp add: example_ecies_init CURVE_P_256_Size_def)
qed

theorem ecies_384_sha2_decrypt_fails_witness:
  "\<exists>c msg. ecies_encrypt example_crypto (Ecies_init 384 SHA2) 3 (public_key example_crypto (PrivateKey 1)) [7] = Inr c \<and>
    ecies_decrypt example_crypto (Ecies_init 384 SHA2) (PrivateKey 1) c = Inl (ValueError msg)"
  by (rule ecies_384_sha2_decrypt_fails [OF example_encryption_laws]) (simp add: example_crypto_def)

end
