(* ===== verification/Models.thy ===== *)
theory Models
  imports Constants Crypto_Suite
begin

text \<open>
  The network models of \<open>src/snakeskin/models/__init__.py\<close>: users, peers, orderers,
  channels and chaincode specifications. A Python dataclass is a record of its fields and
  its \<open>__post_init__\<close> an operation on it; \<open>open(path, 'rb').read()\<close> is a parameter
  \<open>fs\<close> from paths to contents or the exception raised, and loading a PEM key a parameter
  \<open>load_pem\<close>.
\<close>

section \<open>gRPC-connected models\<close>

text \<open>
  A connection is what is passed to \<open>aiogrpc\<close>: \<open>secure_channel(endpoint, creds, opts)\<close>
  with the arguments of \<open>ssl_channel_credentials\<close>, or \<open>insecure_channel(endpoint, opts)\<close>.
\<close>

record ssl_creds =
  root_certificates :: bytes
  client_identity :: "(bytes \<times> bytes) option"

datatype grpc_channel =
    SecureChannel pystr ssl_creds "(pystr \<times> pystr) list"
  | InsecureChannel pystr "(pystr \<times> pystr) list"

record ConnectedModel =
  endpoint :: pystr
  ssl_target_name :: "pystr option"
  tls_ca_cert_path :: "pystr option"
  tls_ca_cert :: "bytes option"
  client_cert_path :: "pystr option"
  client_cert :: "bytes option"
  client_key_path :: "pystr option"
  client_key :: "bytes option"
  grpc_channel :: "grpc_channel option"

text \<open>A field that is empty is filled from its path, if there is one.\<close>

definition load_field ::
  "(pystr \<Rightarrow> bytes result) \<Rightarrow> bytes option \<Rightarrow> pystr option \<Rightarrow> bytes option result" where
  "load_field fs value path =
    (if \<not> truthy value \<and> truthy path
     then bind_res (fs (the path)) (\<lambda>content. Inr (Some content))
     else Inr value)"

definition open_channel :: "'a ConnectedModel_scheme \<Rightarrow> grpc_channel" where
  "open_channel m =
    (let opts = (if truthy (ssl_target_name m)
                 then [(lit ''grpc.ssl_target_name_override'', the (ssl_target_name m))] else [])
     in if truthy (tls_ca_cert m) then
          SecureChannel (endpoint m)
            \<lparr>root_certificates = the (tls_ca_cert m),
             client_identity =
               (if truthy (client_cert m) \<and> truthy (client_key m)
                then Some (the (client_key m), the (client_cert m)) else None)\<rparr>
            opts
        else InsecureChannel (endpoint m) opts)"

definition ConnectedModel_post_init ::
  "(pystr \<Rightarrow> bytes result) \<Rightarrow> 'a ConnectedModel_scheme \<Rightarrow> 'a ConnectedModel_scheme result" where
  "ConnectedModel_post_init fs m =
    bind_res (load_field fs (tls_ca_cert m) (tls_ca_cert_path m)) (\<lambda>ca.
    bind_res (load_field fs (client_cert m) (client_cert_path m)) (\<lambda>cert.
    bind_res (load_field fs (client_key m) (client_key_path m)) (\<lambda>key.
      let m' = m\<lparr>tls_ca_cert := ca, client_cert := cert, client_key := key\<rparr>
      in Inr (m'\<lparr>grpc_channel := Some (open_channel m')\<rparr>))))"

text \<open>
  Peers and orderers add a name; their gRPC stubs (\<open>endorser\<close>, \<open>deliver\<close>,
  \<open>discovery\<close>, \<open>broadcaster\<close>) are all bound to the model's channel.
\<close>

record Peer = ConnectedModel +
  peer_name :: "pystr option"

record Orderer = ConnectedModel +
  orderer_name :: "pystr option"

definition Peer_init :: "(pystr \<Rightarrow> bytes result) \<Rightarrow> Peer \<Rightarrow> Peer result" where
  "Peer_init fs p = ConnectedModel_post_init fs p"

definition Orderer_init :: "(pystr \<Rightarrow> bytes result) \<Rightarrow> Orderer \<Rightarrow> Orderer result" where
  "Orderer_init fs p = ConnectedModel_post_init fs p"

section \<open>Users\<close>

text \<open>
  A crypto suite as the rest of the code uses it: nonces, a digest and signatures. The
  default one is the \<open>Ecies\<close> instance of \<open>crypto.py\<close>.
\<close>

record crypto_suite =
  generate_nonce :: "nat \<Rightarrow> nat \<Rightarrow> bytes"
  hash_digest :: "bytes \<Rightarrow> bytes"
  sign_message :: "nat \<Rightarrow> priv_key \<Rightarrow> bytes \<Rightarrow> bytes result"

definition ecies_suite :: "crypto_lib \<Rightarrow> Ecies \<Rightarrow> crypto_suite" where
  "ecies_suite L E =
    \<lparr>generate_nonce = get_random_bytes L,
     hash_digest = ecies_hash L E,
     sign_message = ecies_sign L E\<rparr>"

definition CryptoSuite_default :: "crypto_lib \<Rightarrow> crypto_suite" where
  "CryptoSuite_default L = ecies_suite L (ecies CURVE_P_256_Size SHA2)"

text \<open>
  The class attribute \<open>CryptoSuite.default\<close> and its setter. The field default of
  \<open>User.crypto_suite\<close> reads the attribute once, when \<open>models/__init__.py\<close> is imported.
\<close>

record CryptoSuite =
  default_suite :: crypto_suite

definition set_default :: "crypto_suite \<Rightarrow> CryptoSuite \<Rightarrow> CryptoSuite" where
  "set_default s C = C\<lparr>default_suite := s\<rparr>"

record User =
  msp_id :: pystr
  user_name :: "pystr option"
  cert_path :: "pystr option"
  key_path :: "pystr option"
  cert :: "bytes option"
  key :: "bytes option"
  user_suite :: crypto_suite
  private_key :: "priv_key option"

definition User_load_cert :: "(pystr \<Rightarrow> bytes result) \<Rightarrow> User \<Rightarrow> User result" where
  "User_load_cert fs u =
    (if \<not> truthy (cert u) then
       if \<not> truthy (cert_path u)
       then Inl (ValueError (lit ''Must provide either cert or cert_path''))
       else bind_res (fs (the (cert_path u))) (\<lambda>b. Inr (u\<lparr>cert := Some b\<rparr>))
     else Inr u)"

definition User_load_key :: "(pystr \<Rightarrow> bytes result) \<Rightarrow> User \<Rightarrow> User result" where
  "User_load_key fs u =
    (if \<not> truthy (key u) then
       if \<not> truthy (key_path u)
       then Inl (ValueError (lit ''Must provide either key or key_path''))
       else bind_res (fs (the (key_path u))) (\<lambda>b. Inr (u\<lparr>key := Some b\<rparr>))
     else Inr u)"

definition User_post_init ::
  "(pystr \<Rightarrow> bytes result) \<Rightarrow> (bytes \<Rightarrow> priv_key result) \<Rightarrow> User \<Rightarrow> User result" where
  "User_post_init fs load_pem u =
    bind_res (User_load_cert fs u) (\<lambda>u1.
    bind_res (User_load_key fs u1) (\<lambda>u2.
    bind_res (load_pem (the (key u2))) (\<lambda>k. Inr (u2\<lparr>private_key := Some k\<rparr>))))"

section \<open>Channels and chaincode specifications\<close>

record Channel =
  channel_name :: pystr

record ChaincodeSpec =
  cc_name :: "pystr option"
  cc_version :: "pystr option"
  cc_language :: ChaincodeLanguage
  cc_path :: "pystr option"
  cc_args :: "pystr list option"

section \<open>Construction\<close>

lemma load_field_Inr_iff:
  "load_field fs v p = Inr v' \<longleftrightarrow>
    (if \<not> truthy v \<and> truthy p then \<exists>c. fs (the p) = Inr c \<and> v' = Some c else v' = v)"
  by (auto simp: load_field_def)

lemma open_channel_secure_iff:
  "(\<exists>e c os. open_channel m = SecureChannel e c os) \<longleftrightarrow> truthy (tls_ca_cert m)"
  by (auto simp: open_channel_def Let_def)

lemma load_field_idem:
  "load_field fs v p = Inr v' \<Longrightarrow> load_field fs v' p = Inr v'"
  by (auto simp: load_field_def split: if_splits)

text \<open>
  A connected model that was built keeps its endpoint and holds a channel to it that
  is encrypted exactly when there is a CA certificate (the given one or else the contents
  of the given file), and that authenticates the client exactly when it is encrypted and
  both a client certificate and a client key are there.
\<close>

theorem ConnectedModel_channel:
  assumes "ConnectedModel_post_init fs m = Inr m'"
  shows "endpoint m' = endpoint m \<and>
    (truthy (tls_ca_cert m) \<longrightarrow> tls_ca_cert m' = tls_ca_cert m) \<and>
    (\<forall>c cs p ps. tls_ca_cert m = None \<and> tls_ca_cert_path m = Some (p # ps) \<and>
      fs (p # ps) = Inr (c # cs) \<longrightarrow> tls_ca_cert m' = Some (c # cs)) \<and>
    (\<exists>opts. grpc_channel m' =
      Some (case tls_ca_cert m' of
          Some (c # cs) \<Rightarrow>
            SecureChannel (endpoint m)
              \<lparr>root_certificates = c # cs,
               client_identity =
                 (case (client_key m', client_cert m') of
                    (Some (k # ks), Some (x # xs)) \<Rightarrow> Some (k # ks, x # xs)
                  | _ \<Rightarrow> None)\<rparr> opts
        | _ \<Rightarrow> InsecureChannel (endpoint m) opts))"
proof -
  from assms obtain ca ct ky where ca: "load_field fs (tls_ca_cert m) (tls_ca_cert_path m) = Inr ca"
    and m': "m' = m\<lparr>tls_ca_cert := ca, client_cert := ct, client_key := ky,
      grpc_channel := Some (open_channel (m\<lparr>tls_ca_cert := ca, client_cert := ct, client_key := ky\<rparr>))\<rparr>"
    unfolding ConnectedModel_post_init_def Let_def by auto
  then have "endpoint m' = endpoint m" "truthy (tls_ca_cert m) \<longrightarrow> tls_ca_cert m' = tls_ca_cert m"
    "\<forall>c cs p ps. tls_ca_cert m = None \<and> tls_ca_cert_path m = Some (p # ps) \<and>
      fs (p # ps) = Inr (c # cs) \<longrightarrow> tls_ca_cert m' = Some (c # cs)"
    by (auto simp: load_field_Inr_iff)
  moreover have "\<exists>opts. grpc_channel m' =
      Some (case tls_ca_cert m' of
          Some (c # cs) \<Rightarrow>
            SecureChannel (endpoint m)
              \<lparr>root_certificates = c # cs,
               client_identity =
                 (case (client_key m', client_cert m') of
                    (Some (k # ks), Some (x # xs)) \<Rightarrow> Some (k # ks, x # xs)
                  | _ \<Rightarrow> None)\<rparr> opts
        | _ \<Rightarrow> InsecureChannel (endpoint m) opts)"
    unfolding m'
    by (cases ca rule: truthy_cases; cases ky rule: truthy_cases; cases ct rule: truthy_cases;
        simp add: open_channel_def Let_def)
  ultimately show ?thesis by blast
qed

text \<open>The concrete model the theorem is applied to.\<close>

definition example_fs :: "pystr \<Rightarrow> bytes result" where
  "example_fs p = (if p = lit ''/ca.pem'' then Inr [7, 8] else Inl (FileNotFoundError p))"

definition example_model :: ConnectedModel where
  "example_model =
    \<lparr>endpoint = lit ''host:7051'', ssl_target_name = None, tls_ca_cert_path = Some (lit ''/ca.pem''),
     tls_ca_cert = None, client_cert_path = None, client_cert = Some [1], client_key_path = None,
     client_key = Some [2], grpc_channel = None\<rparr>"

theorem ConnectedModel_channel_witness:
  "\<exists>m' opts. ConnectedModel_post_init example_fs example_model = Inr m' \<and>
    grpc_channel m' = Some (SecureChannel (lit ''host:7051'')
      \<lparr>root_certificates = [7, 8], client_identity = Some ([2], [1])\<rparr> opts)"
proof -
  define m' where "m' = example_model\<lparr>tls_ca_cert := Some [7, 8],
    grpc_channel := Some (open_channel (example_model\<lparr>tls_ca_cert := Some [7, 8]\<rparr>))\<rparr>"
  have "ConnectedModel_post_init example_fs example_model = Inr m'"
    by (simp add: m'_def ConnectedModel_post_init_def example_model_def load_field_def example_fs_def)
  with ConnectedModel_channel [OF this] show ?thesis
    by (intro exI [of _ m']) (auto simp: m'_def example_model_def)
qed

lemma User_load_cert_Inr_iff:
  "User_load_cert fs u = Inr u' \<longleftrightarrow>
    (\<exists>c. (if truthy (cert u) then cert u = Some c
         else truthy (cert_path u) \<and> fs (the (cert_path u)) = Inr c) \<and> u' = u\<lparr>cert := Some c\<rparr>)"
proof (cases "cert u" rule: truthy_cases)
  case (some a as)
  then have "u\<lparr>cert := Some (a # as)\<rparr> = u" by (cases u) simp
  with some show ?thesis by (auto simp: User_load_cert_def)
qed (auto simp: User_load_cert_def)

lemma User_load_key_Inr_iff:
  "User_load_key fs u = Inr u' \<longleftrightarrow>
    (\<exists>k. (if truthy (key u) then key u = Some k
         else truthy (key_path u) \<and> fs (the (key_path u)) = Inr k) \<and> u' = u\<lparr>key := Some k\<rparr>)"
proof (cases "key u" rule: truthy_cases)
  case (some a as)
  then have "u\<lparr>key := Some (a # as)\<rparr> = u" by (cases u) simp
  with some show ?thesis by (auto simp: User_load_key_def)
qed (auto simp: User_load_key_def)

text \<open>
  A user is built exactly when both its certificate and its key are given or can be
  read from the given paths and the key is a loadable PEM key. A built user keeps all its
  other fields and holds the certificate, the key and the loaded private key.
\<close>

theorem User_post_init_Inr_iff:
  "User_post_init fs load_pem u = Inr u' \<longleftrightarrow>
    (\<exists>c k pk.
      (if truthy (cert u) then cert u = Some c
       else truthy (cert_path u) \<and> fs (the (cert_path u)) = Inr c) \<and>
      (if truthy (key u) then key u = Some k
       else truthy (key_path u) \<and> fs (the (key_path u)) = Inr k) \<and>
      load_pem k = Inr pk \<and>
      u' = u\<lparr>cert := Some c, key := Some k, private_key := Some pk\<rparr>)"
    (is "_ \<longleftrightarrow> (\<exists>c k pk. ?C c \<and> ?K k \<and> _ k pk \<and> _ c k pk)")
proof
  assume "User_post_init fs load_pem u = Inr u'"
  then obtain u1 u2 pk where u: "User_load_cert fs u = Inr u1" "User_load_key fs u1 = Inr u2"
    "load_pem (the (key u2)) = Inr pk" "u' = u2\<lparr>private_key := Some pk\<rparr>"
    unfolding User_post_init_def by force
  from u(1) obtain c where c: "?C c" "u1 = u\<lparr>cert := Some c\<rparr>"
    unfolding User_load_cert_Inr_iff by blast
  have sel: "key u1 = key u" "key_path u1 = key_path u" using c(2) by simp_all
  from u(2) obtain k where k: "?K k" "u2 = u1\<lparr>key := Some k\<rparr>"
    unfolding User_load_key_Inr_iff sel by blast
  from u(3,4) c k have "load_pem k = Inr pk"
    "u' = u\<lparr>cert := Some c, key := Some k, private_key := Some pk\<rparr>" by simp_all
  with c k show "\<exists>c k pk. ?C c \<and> ?K k \<and> load_pem k = Inr pk \<and>
      u' = u\<lparr>cert := Some c, key := Some k, private_key := Some pk\<rparr>" by blast
next
  assume "\<exists>c k pk. ?C c \<and> ?K k \<and> load_pem k = Inr pk \<and>
      u' = u\<lparr>cert := Some c, key := Some k, private_key := Some pk\<rparr>"
  then obtain c k pk where c: "?C c" and k: "?K k" and pk: "load_pem k = Inr pk"
    and u': "u' = u\<lparr>cert := Some c, key := Some k, private_key := Some pk\<rparr>" by blast
  from c have "User_load_cert fs u = Inr (u\<lparr>cert := Some c\<rparr>)"
    unfolding User_load_cert_Inr_iff by blast
  moreover from k have "User_load_key fs (u\<lparr>cert := Some c\<rparr>) = Inr (u\<lparr>cert := Some c, key := Some k\<rparr>)"
    unfolding User_load_key_Inr_iff by (intro exI [of _ k]) simp
  ultimately show "User_post_init fs load_pem u = Inr u'"
    by (simp add: User_post_init_def pk u')
qed

end
