(* ===== verification/Transactions.thy ===== *)
theory Transactions
  imports Models
begin

text \<open>
  The transaction models of \<open>src/snakeskin/models/transaction.py\<close>: the context a
  transaction is made in, a generated transaction, an endorsed one with the answers of its
  peers, and a transaction as a peer's event hub reports it.
\<close>

record TXContext =
  txc_identity :: SerializedIdentity
  txc_nonce :: bytes
  txc_tx_id :: pystr
  txc_epoch :: int

record EndorsedTX =
  etx_peer_responses :: "ProposalResponse list"
  etx_proposal :: Proposal
  etx_header :: Header
  etx_tx_context :: TXContext

record GeneratedTX =
  gtx_tx_context :: TXContext
  gtx_proposal :: Proposal
  gtx_signed_proposal :: SignedProposal
  gtx_header :: Header

record FilteredTX =
  ftx_tx_id :: pystr
  ftx_type :: TransactionType
  ftx_tx_validation_code :: int
  ftx_actions :: FilteredTransactionActions

abbreviation status_of :: "ProposalResponse \<Rightarrow> int" where
  "status_of r \<equiv> rsp_status (pr_response r)"

definition error_responses :: "EndorsedTX \<Rightarrow> ProposalResponse list" where
  "error_responses t = filter (\<lambda>r. status_of r \<noteq> 200) (etx_peer_responses t)"

definition success_responses :: "EndorsedTX \<Rightarrow> ProposalResponse list" where
  "success_responses t = filter (\<lambda>r. status_of r = 200) (etx_peer_responses t)"

definition fully_endorsed :: "EndorsedTX \<Rightarrow> bool" where
  "fully_endorsed t = list_all (\<lambda>r. status_of r = 200) (etx_peer_responses t)"

definition response_payload :: "EndorsedTX \<Rightarrow> bytes result" where
  "response_payload t =
    (case success_responses t of
       resp # _ \<Rightarrow> Inr (rsp_payload (pr_response resp))
     | [] \<Rightarrow> Inl (ValueError
         (lit ''Could not find a response payload in any of the peer responses'')))"

definition EndorsedTX_tx_id :: "EndorsedTX \<Rightarrow> pystr" where
  "EndorsedTX_tx_id t = txc_tx_id (etx_tx_context t)"

definition GeneratedTX_tx_id :: "GeneratedTX \<Rightarrow> pystr" where
  "GeneratedTX_tx_id t = txc_tx_id (gtx_tx_context t)"

definition FilteredTX_from_proto :: "FilteredTransaction \<Rightarrow> FilteredTX result" where
  "FilteredTX_from_proto f =
    bind_res (TransactionType_of (ft_type f)) (\<lambda>t.
      Inr \<lparr>ftx_tx_id = ft_txid f, ftx_type = t,
           ftx_tx_validation_code = ft_tx_validation_code f,
           ftx_actions = ft_transaction_actions f\<rparr>)"

section \<open>Success and failure\<close>

lemma fully_endorsed_iff: "fully_endorsed t \<longleftrightarrow> (\<forall>r \<in> set (etx_peer_responses t). status_of r = 200)"
  by (simp add: fully_endorsed_def list_all_iff)

lemma fully_endorsed_errors: "fully_endorsed t \<longleftrightarrow> error_responses t = []"
  by (auto simp: fully_endorsed_iff error_responses_def filter_empty_conv)

lemma first_filtered:
  "filter P xs = y # ys \<Longrightarrow> \<exists>us vs. xs = us @ y # vs \<and> (\<forall>u \<in> set us. \<not> P u) \<and> P y"
  by (auto simp: filter_eq_Cons_iff)

text \<open>
  The answers of the peers are split without loss into the successful and the failed
  ones, in the order of the peers. The response payload is that of the first successful
  answer, and asking for it raises exactly when no peer succeeded.
\<close>

theorem response_payload_first:
  "(\<exists>us r vs. etx_peer_responses t = us @ r # vs \<and> (\<forall>u \<in> set us. status_of u \<noteq> 200) \<and>
      status_of r = 200 \<and> response_payload t = Inr (rsp_payload (pr_response r))) \<or>
   ((\<forall>r \<in> set (etx_peer_responses t). status_of r \<noteq> 200) \<and>
      response_payload t = Inl (ValueError
        (lit ''Could not find a response payload in any of the peer responses'')))"
proof (cases "success_responses t")
  case Nil
  then show ?thesis by (auto simp: response_payload_def success_responses_def filter_empty_conv)
next
  case (Cons r rs)
  then obtain us vs where "etx_peer_responses t = us @ r # vs" "\<forall>u \<in> set us. status_of u \<noteq> 200"
    "status_of r = 200"
    unfolding success_responses_def by (blast dest: first_filtered)
  with Cons show ?thesis
    by (intro disjI1 exI [of _ us] exI [of _ r] exI [of _ vs]) (simp add: response_payload_def)
qed

lemma FilteredTX_from_proto_total:
  "(\<exists>t. FilteredTX_from_proto f = Inr t) \<longleftrightarrow> ft_type f \<in> snd ` set HeaderType"
  by (simp add: FilteredTX_from_proto_def TransactionType_of_total)

text \<open>A transaction that one peer refused and another one endorsed.\<close>

definition two_answers :: EndorsedTX where
  "two_answers =
    \<lparr>etx_peer_responses =
       [\<lparr>pr_version = 1, pr_timestamp = \<lparr>ts_seconds = 0, ts_nanos = 0\<rparr>,
         pr_response = \<lparr>rsp_status = 500, rsp_message = lit ''no'', rsp_payload = [8]\<rparr>,
         pr_payload = [], pr_endorsement = \<lparr>end_endorser = [], end_signature = []\<rparr>\<rparr>,
        \<lparr>pr_version = 1, pr_timestamp = \<lparr>ts_seconds = 0, ts_nanos = 0\<rparr>,
         pr_response = \<lparr>rsp_status = 200, rsp_message = [], rsp_payload = [9]\<rparr>,
         pr_payload = [], pr_endorsement = \<lparr>end_endorser = [], end_signature = []\<rparr>\<rparr>],
     etx_proposal = \<lparr>prop_header = [], prop_payload = [], prop_extension = []\<rparr>,
     etx_header = \<lparr>hdr_channel_header = [], hdr_signature_header = []\<rparr>,
     etx_tx_context = \<lparr>txc_identity = \<lparr>sid_mspid = [], sid_id_bytes = []\<rparr>, txc_nonce = [],
       txc_tx_id = lit ''ab'', txc_epoch = 0\<rparr>\<rparr>"

theorem response_payload_first_witness:
  "response_payload two_answers = Inr [9]"
  using response_payload_first [of two_answers]
  by (auto simp: two_answers_def Cons_eq_append_conv)

end
