(* ===== verification/Errors.thy ===== *)
theory Errors
  imports Transactions
begin

text \<open>
  The errors of \<open>src/snakeskin/errors.py\<close>. An exception is a built-in one (\<open>Py\<close>), one of
  the module's classes with the attributes its \<open>__init__\<close> sets, or a \<open>grpc.RpcError\<close> of the
  gRPC library with its code and details (both as they print). The text of the module's
  exceptions is \<open>exn_str\<close>; \<open>isinstance\<close> tests are predicates that follow the class
  hierarchy.
\<close>

datatype exn =
    Py py_error
  | RpcError pystr pystr
  | BlockchainError pystr
  | TrasactionCommitError pystr pystr BroadcastResponse
  | TransactionProposalError pystr EndorsedTX
  | BlockRetrievalError pystr "int option"
  | BlockchainConnectionError pystr pystr
  | TransactionValidationError int

section \<open>The class hierarchy\<close>

fun is_ConnectionError :: "exn \<Rightarrow> bool" where
  "is_ConnectionError (Py (ConnectionError m)) = True"
| "is_ConnectionError (BlockchainConnectionError c d) = True"
| "is_ConnectionError _ = False"

fun is_BlockRetrievalError :: "exn \<Rightarrow> bool" where
  "is_BlockRetrievalError (BlockRetrievalError m s) = True"
| "is_BlockRetrievalError _ = False"

fun is_BlockchainConnectionError :: "exn \<Rightarrow> bool" where
  "is_BlockchainConnectionError (BlockchainConnectionError c d) = True"
| "is_BlockchainConnectionError _ = False"

fun is_BlockchainError :: "exn \<Rightarrow> bool" where
  "is_BlockchainError (Py e) = False"
| "is_BlockchainError (RpcError c d) = False"
| "is_BlockchainError _ = True"

section \<open>Attributes and messages\<close>

text \<open>\<open>response_message\<close> and \<open>status\<close> of the two transaction errors.\<close>

definition commit_response_message :: "BroadcastResponse \<Rightarrow> pystr" where
  "commit_response_message r = br_info r"

definition commit_status :: "BroadcastResponse \<Rightarrow> int" where
  "commit_status r = br_status r"

definition proposal_response_message :: "EndorsedTX \<Rightarrow> pystr" where
  "proposal_response_message t =
    (case find (\<lambda>r. rsp_message (pr_response r) \<noteq> []) (error_responses t) of
       Some r \<Rightarrow> rsp_message (pr_response r)
     | None \<Rightarrow> lit ''<no error message>'')"

definition proposal_status :: "EndorsedTX \<Rightarrow> int" where
  "proposal_status t = (case error_responses t of r # _ \<Rightarrow> status_of r | [] \<Rightarrow> 0)"

definition transaction_error_str :: "pystr \<Rightarrow> pystr \<Rightarrow> int \<Rightarrow> pystr \<Rightarrow> pystr" where
  "transaction_error_str msg tx_id status response_message =
    msg @ lit '' for tx '' @ tx_id @ lit '' (status: '' @ str_int status @ lit ''): '' @ response_message"

definition block_retrieval_str :: "pystr \<Rightarrow> int option \<Rightarrow> pystr" where
  "block_retrieval_str msg status =
    (case status of
       None \<Rightarrow> msg
     | Some s \<Rightarrow> if s = 0 then msg else msg @ lit '': status ('' @ str_int s @ lit '')'')"

fun exn_str :: "exn \<Rightarrow> pystr option" where
  "exn_str (BlockchainError m) = Some m"
| "exn_str (TrasactionCommitError m tx_id r) =
    Some (transaction_error_str m tx_id (commit_status r) (commit_response_message r))"
| "exn_str (TransactionProposalError m t) =
    Some (transaction_error_str m (EndorsedTX_tx_id t) (proposal_status t) (proposal_response_message t))"
| "exn_str (BlockRetrievalError m s) = Some (block_retrieval_str m s)"
| "exn_str (BlockchainConnectionError c d) =
    Some (lit ''Blockchain communication failure ('' @ c @ lit ''): '' @ d)"
| "exn_str (TransactionValidationError c) =
    (case enum_Name TxValidationCode c of
       Inl e \<Rightarrow> None
     | Inr n \<Rightarrow> Some (lit ''Transaction failed validations, with the following code: '' @ n))"
| "exn_str (Py e) = None"
| "exn_str (RpcError c d) = None"

text \<open>
  Raising \<open>TransactionValidationError(code)\<close>: its \<open>__init__\<close> looks the code's name up and
  raises \<open>ValueError\<close> for a code the enum does not list.
\<close>

definition new_TransactionValidationError :: "int \<Rightarrow> exn" where
  "new_TransactionValidationError code =
    (case enum_Name TxValidationCode code of
       Inl e \<Rightarrow> Py e
     | Inr n \<Rightarrow> TransactionValidationError code)"

text \<open>What leaves a \<open>with handle_conn_errors():\<close> block when \<open>e\<close> is raised in it.\<close>

fun conn_error :: "exn \<Rightarrow> exn" where
  "conn_error (RpcError code details) = BlockchainConnectionError code details"
| "conn_error e = e"

lemma conn_error_not_Rpc [simp]: "conn_error e \<noteq> RpcError c d"
  by (cases e) auto

lemma conn_error_idem [simp]: "conn_error (conn_error e) = conn_error e"
  by (cases e) auto

lemma hierarchy:
  "is_BlockchainConnectionError e \<Longrightarrow> is_ConnectionError e \<and> is_BlockchainError e"
  "is_BlockRetrievalError e \<Longrightarrow> is_BlockchainError e \<and> \<not> is_ConnectionError e"
  by (cases e; simp)+

lemma is_BlockchainConnectionError_iff:
  "is_BlockchainConnectionError e \<longleftrightarrow> (\<exists>c d. e = BlockchainConnectionError c d)"
  by (cases e) auto

text \<open>
  C36. The error of a transaction that not every peer endorsed reports the status of the
  first failed answer, which is not 200, and as its message the first non-empty message
  among the failed answers, or a fixed text when they are all empty.
\<close>

theorem proposal_error_reports_first_failure:
  assumes "\<not> fully_endorsed t"
  shows "(\<exists>us r vs. etx_peer_responses t = us @ r # vs \<and> (\<forall>u \<in> set us. status_of u = 200) \<and>
      proposal_status t = status_of r \<and> proposal_status t \<noteq> 200) \<and>
    ((\<exists>us r vs. etx_peer_responses t = us @ r # vs \<and> status_of r \<noteq> 200 \<and>
        rsp_message (pr_response r) \<noteq> [] \<and>
        (\<forall>u \<in> set us. status_of u = 200 \<or> rsp_message (pr_response u) = []) \<and>
        proposal_response_message t = rsp_message (pr_response r)) \<or>
     ((\<forall>r \<in> set (etx_peer_responses t). status_of r = 200 \<or> rsp_message (pr_response r) = []) \<and>
        proposal_response_message t = lit ''<no error message>''))"
    (is "?status \<and> ?message")
proof
  from assms obtain r rs where r: "error_responses t = r # rs"
    by (cases "error_responses t") (auto simp: fully_endorsed_errors)
  then show ?status
    unfolding error_responses_def proposal_status_def
    using first_filtered [of "\<lambda>r. status_of r \<noteq> 200"] by fastforce
  let ?P = "\<lambda>r. status_of r \<noteq> 200 \<and> rsp_message (pr_response r) \<noteq> []"
  have msg: "proposal_response_message t =
      (case find ?P (etx_peer_responses t) of
         Some r \<Rightarrow> rsp_message (pr_response r) | None \<Rightarrow> lit ''<no error message>'')"
    by (simp only: proposal_response_message_def error_responses_def find_filter)
  show ?message
  proof (cases "find ?P (etx_peer_responses t)")
    case None
    then have "\<forall>r \<in> set (etx_peer_responses t). status_of r = 200 \<or> rsp_message (pr_response r) = []"
      unfolding find_None_iff by blast
    with None msg show ?thesis by simp
  next
    case (Some r)
    with msg have "proposal_response_message t = rsp_message (pr_response r)" by simp
    with find_Some_split [OF Some] show ?thesis by blast
  qed
qed

text \<open>A transaction one of whose three peers failed.\<close>

definition example_response :: "int \<Rightarrow> string \<Rightarrow> ProposalResponse" where
  "example_response status msg =
    \<lparr>pr_version = 1, pr_timestamp = \<lparr>ts_seconds = 0, ts_nanos = 0\<rparr>,
     pr_response = \<lparr>rsp_status = status, rsp_message = lit msg, rsp_payload = [1]\<rparr>,
     pr_payload = [2], pr_endorsement = \<lparr>end_endorser = [3], end_signature = [4]\<rparr>\<rparr>"

definition example_endorsed :: EndorsedTX where
  "example_endorsed =
    \<lparr>etx_peer_responses =
       [example_response 200 [], example_response 500 [], example_response 503 ''busy''],
     etx_proposal = \<lparr>prop_header = [], prop_payload = [], prop_extension = []\<rparr>,
     etx_header = \<lparr>hdr_channel_header = [], hdr_signature_header = []\<rparr>,
     etx_tx_context = \<lparr>txc_identity = \<lparr>sid_mspid = [], sid_id_bytes = []\<rparr>, txc_nonce = [],
       txc_tx_id = lit ''ab'', txc_epoch = 0\<rparr>\<rparr>"

theorem proposal_error_reports_first_failure_witness:
  "\<not> fully_endorsed example_endorsed \<and> proposal_status example_endorsed \<noteq> 200 \<and>
   exn_str (TransactionProposalError (lit ''Failed'') example_endorsed) =
     Some (lit ''Failed for tx ab (status: 500): busy'')"
proof -
  have n: "\<not> fully_endorsed example_endorsed"
    by (simp add: fully_endorsed_def example_endorsed_def example_response_def)
  have "proposal_status example_endorsed = 500" "proposal_response_message example_endorsed = lit ''busy''"
    by (simp_all add: proposal_status_def proposal_response_message_def error_responses_def
        example_endorsed_def example_response_def)
  moreover have "str_int 500 = lit ''500''" by code_simp
  ultimately have "exn_str (TransactionProposalError (lit ''Failed'') example_endorsed) =
     Some (lit ''Failed for tx ab (status: 500): busy'')"
    by (simp add: transaction_error_str_def EndorsedTX_tx_id_def example_endorsed_def)
  with n proposal_error_reports_first_failure [OF n] show ?thesis by blast
qed

end
