(* ===== verification/Wire_Codec.thy ===== *)
theory Wire_Codec
  imports Prelude
begin

text \<open>
  A self-delimiting byte encoding of finite trees of integers, byte strings and text, with
  a decoder that inverts it. It is the ground on which \<open>Reference_Runtime\<close> builds a
  concrete serialisation library that satisfies the documented round-trip law: the
  theorems that assume the law are applied there at concrete inputs.
\<close>

datatype wire =
    WInt int
  | WBytes bytes
  | WText pystr
  | WSeq "wire list"

section \<open>Naturals and integers\<close>

function enc_nat :: "nat \<Rightarrow> bytes" where
  "enc_nat n = (if n = 0 then [255] else of_nat (n mod 255) # enc_nat (n div 255))"
  by pat_completeness auto
termination
  by (relation "measure id") auto

declare enc_nat.simps [simp del]

fun dec_nat_bytes :: "bytes \<Rightarrow> (nat \<times> bytes) option" where
  "dec_nat_bytes [] = None"
| "dec_nat_bytes (b # bs) =
    (if b = 255 then Some (0, bs)
     else case dec_nat_bytes bs of
       None \<Rightarrow> None
     | Some (n, r) \<Rightarrow> Some (unat b + 255 * n, r))"

lemma small_byte: "m < 255 \<Longrightarrow> (of_nat m :: byte) \<noteq> 255 \<and> unat (of_nat m :: byte) = m"
  by (simp add: unat_of_nat word_unat_eq_iff)

lemma dec_enc_nat [simp]: "dec_nat_bytes (enc_nat n @ r) = Some (n, r)"
proof (induction n rule: enc_nat.induct)
  case (1 n)
  show ?case
  proof (cases "n = 0")
    case True
    then show ?thesis by (simp add: enc_nat.simps)
  next
    case False
    then have "n mod 255 < 255" by simp
    note small = small_byte [OF this]
    show ?thesis
      using False "1.IH" small by (subst enc_nat.simps) simp
  qed
qed

definition nat_of_int :: "int \<Rightarrow> nat" where
  "nat_of_int i = (if 0 \<le> i then 2 * nat i else 2 * nat (- i) - 1)"

definition int_of_nat :: "nat \<Rightarrow> int" where
  "int_of_nat n = (if even n then int (n div 2) else - int (Suc n div 2))"

lemma int_of_nat_of_int [simp]: "int_of_nat (nat_of_int i) = i"
proof (cases "0 \<le> i")
  case False
  then obtain k where "nat (- i) = Suc k" by (cases "nat (- i)") auto
  with False show ?thesis by (simp add: int_of_nat_def nat_of_int_def)
qed (simp add: int_of_nat_def nat_of_int_def)

fun dec_nats :: "nat \<Rightarrow> bytes \<Rightarrow> (nat list \<times> bytes) option" where
  "dec_nats 0 bs = Some ([], bs)"
| "dec_nats (Suc k) bs =
    (case dec_nat_bytes bs of
       None \<Rightarrow> None
     | Some (n, r) \<Rightarrow> map_option (\<lambda>(ns, r'). (n # ns, r')) (dec_nats k r))"

lemma dec_nats_enc [simp]:
  "dec_nats (length ns) (concat (map enc_nat ns) @ r) = Some (ns, r)"
  by (induction ns) auto

section \<open>Trees\<close>

fun enc_wire :: "wire \<Rightarrow> bytes" where
  "enc_wire (WInt i) = 0 # enc_nat (nat_of_int i)"
| "enc_wire (WBytes bs) = 1 # enc_nat (length bs) @ bs"
| "enc_wire (WText s) = 2 # enc_nat (length s) @ concat (map enc_nat s)"
| "enc_wire (WSeq ws) = 3 # enc_nat (length ws) @ concat (map enc_wire ws)"

text \<open>The decoder spends one unit of fuel per level of nesting.\<close>

fun dec_wire :: "nat \<Rightarrow> bytes \<Rightarrow> (wire \<times> bytes) option"
  and dec_many :: "nat \<Rightarrow> nat \<Rightarrow> bytes \<Rightarrow> (wire list \<times> bytes) option"
where
  "dec_wire 0 bs = None"
| "dec_wire (Suc f) [] = None"
| "dec_wire (Suc f) (t # bs) =
    (case dec_nat_bytes bs of
       None \<Rightarrow> None
     | Some (n, r) \<Rightarrow>
        if t = 0 then Some (WInt (int_of_nat n), r)
        else if t = 1 then (if n \<le> length r then Some (WBytes (take n r), drop n r) else None)
        else if t = 2 then map_option (\<lambda>(s, r'). (WText s, r')) (dec_nats n r)
        else map_option (\<lambda>(ws, r'). (WSeq ws, r')) (dec_many f n r))"
| "dec_many f 0 bs = Some ([], bs)"
| "dec_many f (Suc n) bs =
    (case dec_wire f bs of
       None \<Rightarrow> None
     | Some (w, r) \<Rightarrow> map_option (\<lambda>(ws, r'). (w # ws, r')) (dec_many f n r))"

fun depth :: "wire \<Rightarrow> nat" where
  "depth (WSeq ws) = Suc (fold max (map depth ws) 0)"
| "depth w = 1"

lemma fold_max_ge: "(a::nat) \<le> fold max xs a" "x \<in> set xs \<Longrightarrow> x \<le> fold max xs a"
proof (induction xs arbitrary: a)
  case (Cons y xs)
  { case 1 show ?case using Cons.IH(1) [of "max y a"] by simp }
  { case 2 then show ?case using Cons.IH [of "max y a"] by auto }
qed auto

lemma dec_many_enc:
  "(\<And>w r. w \<in> set ws \<Longrightarrow> dec_wire f (enc_wire w @ r) = Some (w, r)) \<Longrightarrow>
    dec_many f (length ws) (concat (map enc_wire ws) @ r) = Some (ws, r)"
  by (induction ws) auto

lemma dec_enc_wire: "depth w \<le> f \<Longrightarrow> dec_wire f (enc_wire w @ r) = Some (w, r)"
proof (induction w arbitrary: f r)
  case (WSeq ws)
  then obtain g where f: "f = Suc g" and g: "fold max (map depth ws) 0 \<le> g"
    by (cases f) auto
  have "dec_wire g (enc_wire w @ r') = Some (w, r')" if "w \<in> set ws" for w r'
    using WSeq.IH [OF that, of g r'] fold_max_ge(2) [of "depth w" "map depth ws" 0] that g
    by (auto intro: order_trans)
  then show ?case using f by (simp add: dec_many_enc)
qed (case_tac f; auto)+

lemma enc_wire_long: "depth w \<le> length (enc_wire w)"
proof (induction w)
  case (WSeq ws)
  have "fold max ds a \<le> max a (sum_list ds)" for ds :: "nat list" and a
  proof (induction ds arbitrary: a)
    case (Cons d ds)
    show ?case using Cons.IH [of "max d a"] by (auto simp: max_def split: if_splits)
  qed simp
  then have "fold max (map depth ws) 0 \<le> sum_list (map depth ws)"
    using max_0L by metis
  also have "\<dots> \<le> sum_list (map (\<lambda>w. length (enc_wire w)) ws)"
    using WSeq.IH by (intro sum_list_mono) auto
  finally show ?case by (simp add: length_concat o_def)
qed simp_all

definition wire_decode :: "bytes \<Rightarrow> wire option" where
  "wire_decode bs = map_option fst (dec_wire (length bs) bs)"

theorem wire_decode_encode [simp]: "wire_decode (enc_wire w) = Some w"
  using dec_enc_wire [OF enc_wire_long, of w "[]"] by (simp add: wire_decode_def)

end
