(* ===== verification/Reference_Runtime.thy ===== *)
theory Reference_Runtime
  imports Proto_Runtime Wire_Codec
begin

text \<open>
  A concrete serialisation library: every message type is written as a tree of its fields
  and the tree as bytes (\<open>Wire_Codec\<close>). It is not the protobuf wire format, which belongs
  to the runtime outside the repository; it shows that the documented behaviour assumed of
  the runtime (\<open>runtime_ok\<close>) can hold, and it is what the theorems that assume it are
  applied to at concrete inputs.
\<close>

section \<open>Reading parts of trees\<close>

fun un_int :: "wire \<Rightarrow> int option" where
  "un_int (WInt i) = Some i"
| "un_int _ = None"

fun un_bytes :: "wire \<Rightarrow> bytes option" where
  "un_bytes (WBytes b) = Some b"
| "un_bytes _ = None"

fun un_text :: "wire \<Rightarrow> pystr option" where
  "un_text (WText s) = Some s"
| "un_text _ = None"

fun un_list :: "(wire \<Rightarrow> 'a option) \<Rightarrow> wire \<Rightarrow> 'a list option" where
  "un_list f (WSeq ws) = those (map f ws)"
| "un_list f _ = None"

fun wire_of_option :: "('a \<Rightarrow> wire) \<Rightarrow> 'a option \<Rightarrow> wire" where
  "wire_of_option f None = WSeq []"
| "wire_of_option f (Some x) = WSeq [f x]"

fun un_option :: "(wire \<Rightarrow> 'a option) \<Rightarrow> wire \<Rightarrow> 'a option option" where
  "un_option f (WSeq []) = Some None"
| "un_option f (WSeq [w]) = map_option Some (f w)"
| "un_option f _ = None"

lemma those_map_inverse: "(\<And>x. x \<in> set xs \<Longrightarrow> g (f x) = Some x) \<Longrightarrow> those (map (g \<circ> f) xs) = Some xs"
  by (induction xs) auto

lemma un_list_map [simp]:
  "(\<And>x. x \<in> set xs \<Longrightarrow> g (f x) = Some x) \<Longrightarrow> un_list g (WSeq (map f xs)) = Some xs"
  by (simp add: those_map_inverse)

lemma un_option_map [simp]:
  "(\<And>x. g (f x) = Some x) \<Longrightarrow> un_option g (wire_of_option f x) = Some x"
  by (cases x) simp_all

declare un_list.simps(1) [simp del]

fun wire_of_entry :: "pystr \<times> bytes \<Rightarrow> wire" where
  "wire_of_entry (k, v) = WSeq [WText k, WBytes v]"

fun entry_of_wire :: "wire \<Rightarrow> (pystr \<times> bytes) option" where
  "entry_of_wire (WSeq [WText k, WBytes v]) = Some (k, v)"
| "entry_of_wire _ = None"

lemma entry_of_wire [wire_laws]: "entry_of_wire (wire_of_entry e) = Some e"
  by (cases e) simp

section \<open>Messages\<close>

fun wire_of_SeekPosition :: "SeekPosition \<Rightarrow> wire" where
  "wire_of_SeekPosition SeekNewest = WText []"
| "wire_of_SeekPosition SeekOldest = WBytes []"
| "wire_of_SeekPosition (SeekSpecified n) = WInt n"

fun SeekPosition_of_wire :: "wire \<Rightarrow> SeekPosition option" where
  "SeekPosition_of_wire (WText s) = Some SeekNewest"
| "SeekPosition_of_wire (WBytes b) = Some SeekOldest"
| "SeekPosition_of_wire (WInt n) = Some (SeekSpecified n)"
| "SeekPosition_of_wire (WSeq ws) = None"

lemma SeekPosition_of_wire [wire_laws]: "SeekPosition_of_wire (wire_of_SeekPosition p) = Some p"
  by (cases p) simp_all

definition wire_of_SeekInfo :: "SeekInfo \<Rightarrow> wire" where
  "wire_of_SeekInfo m =
    WSeq [wire_of_SeekPosition (si_start m),
      wire_of_SeekPosition (si_stop m),
      WInt (si_behavior m)]"

definition SeekInfo_of_wire :: "wire \<Rightarrow> SeekInfo option" where
  "SeekInfo_of_wire w = (case w of WSeq [w0, w1, w2] \<Rightarrow>
      Option.bind (SeekPosition_of_wire w0) (\<lambda>x0.
      Option.bind (SeekPosition_of_wire w1) (\<lambda>x1.
      Option.bind (un_int w2) (\<lambda>x2.
      Some \<lparr>si_start = x0, si_stop = x1, si_behavior = x2\<rparr>)))
    | _ \<Rightarrow> None)"

lemma SeekInfo_of_wire [wire_laws]: "SeekInfo_of_wire (wire_of_SeekInfo m) = Some m"
  by (simp add: SeekInfo_of_wire_def wire_of_SeekInfo_def wire_laws)

definition wire_of_SerializedIdentity :: "SerializedIdentity \<Rightarrow> wire" where
  "wire_of_SerializedIdentity m =
    WSeq [WText (sid_mspid m),
      WBytes (sid_id_bytes m)]"

definition SerializedIdentity_of_wire :: "wire \<Rightarrow> SerializedIdentity option" where
  "SerializedIdentity_of_wire w = (case w of WSeq [w0, w1] \<Rightarrow>
      Option.bind (un_text w0) (\<lambda>x0.
      Option.bind (un_bytes w1) (\<lambda>x1.
      Some \<lparr>sid_mspid = x0, sid_id_bytes = x1\<rparr>))
    | _ \<Rightarrow> None)"

lemma SerializedIdentity_of_wire [wire_laws]: "SerializedIdentity_of_wire (wire_of_SerializedIdentity m) = Some m"
  by (simp add: SerializedIdentity_of_wire_def wire_of_SerializedIdentity_def wire_laws)

definition wire_of_ChaincodeID :: "ChaincodeID \<Rightarrow> wire" where
  "wire_of_ChaincodeID m =
    WSeq [WText (ccid_path m),
      WText (ccid_name m),
      WText (ccid_version m)]"

definition ChaincodeID_of_wire :: "wire \<Rightarrow> ChaincodeID option" where
  "ChaincodeID_of_wire w = (case w of WSeq [w0, w1, w2] \<Rightarrow>
      Option.bind (un_text w0) (\<lambda>x0.
      Option.bind (un_text w1) (\<lambda>x1.
      Option.bind (un_text w2) (\<lambda>x2.
      Some \<lparr>ccid_path = x0, ccid_name = x1, ccid_version = x2\<rparr>)))
    | _ \<Rightarrow> None)"

lemma ChaincodeID_of_wire [wire_laws]: "ChaincodeID_of_wire (wire_of_ChaincodeID m) = Some m"
  by (simp add: ChaincodeID_of_wire_def wire_of_ChaincodeID_def wire_laws)

definition wire_of_ChaincodeHeaderExtension :: "ChaincodeHeaderExtension \<Rightarrow> wire" where
  "wire_of_ChaincodeHeaderExtension m =
    WSeq [WBytes (che_payload_visibility m),
      wire_of_ChaincodeID (che_chaincode_id m)]"

definition ChaincodeHeaderExtension_of_wire :: "wire \<Rightarrow> ChaincodeHeaderExtension option" where
  "ChaincodeHeaderExtension_of_wire w = (case w of WSeq [w0, w1] \<Rightarrow>
      Option.bind (un_bytes w0) (\<lambda>x0.
      Option.bind (ChaincodeID_of_wire w1) (\<lambda>x1.
      Some \<lparr>che_payload_visibility = x0, che_chaincode_id = x1\<rparr>))
    | _ \<Rightarrow> None)"

lemma ChaincodeHeaderExtension_of_wire [wire_laws]: "ChaincodeHeaderExtension_of_wire (wire_of_ChaincodeHeaderExtension m) = Some m"
  by (simp add: ChaincodeHeaderExtension_of_wire_def wire_of_ChaincodeHeaderExtension_def wire_laws)

definition wire_of_Timestamp :: "Timestamp \<Rightarrow> wire" where
  "wire_of_Timestamp m =
    WSeq [WInt (ts_seconds m),
      WInt (ts_nanos m)]"

definition Timestamp_of_wire :: "wire \<Rightarrow> Timestamp option" where
  "Timestamp_of_wire w = (case w of WSeq [w0, w1] \<Rightarrow>
      Option.bind (un_int w0) (\<lambda>x0.
      Option.bind (un_int w1) (\<lambda>x1.
      Some \<lparr>ts_seconds = x0, ts_nanos = x1\<rparr>))
    | _ \<Rightarrow> None)"

lemma Timestamp_of_wire [wire_laws]: "Timestamp_of_wire (wire_of_Timestamp m) = Some m"
  by (simp add: Timestamp_of_wire_def wire_of_Timestamp_def wire_laws)

definition wire_of_ChannelHeader :: "ChannelHeader \<Rightarrow> wire" where
  "wire_of_ChannelHeader m =
    WSeq [WInt (ch_type m),
      WInt (ch_version m),
      wire_of_Timestamp (ch_timestamp m),
      WText (ch_channel_id m),
      WText (ch_tx_id m),
      WInt (ch_epoch m),
      WBytes (ch_extension m),
      WBytes (ch_tls_cert_hash m)]"

definition ChannelHeader_of_wire :: "wire \<Rightarrow> ChannelHeader option" where
  "ChannelHeader_of_wire w = (case w of WSeq [w0, w1, w2, w3, w4, w5, w6, w7] \<Rightarrow>
      Option.bind (un_int w0) (\<lambda>x0.
      Option.bind (un_int w1) (\<lambda>x1.
      Option.bind (Timestamp_of_wire w2) (\<lambda>x2.
      Option.bind (un_text w3) (\<lambda>x3.
      Option.bind (un_text w4) (\<lambda>x4.
      Option.bind (un_int w5) (\<lambda>x5.
      Option.bind (un_bytes w6) (\<lambda>x6.
      Option.bind (un_bytes w7) (\<lambda>x7.
      Some \<lparr>ch_type = x0, ch_version = x1, ch_timestamp = x2, ch_channel_id = x3, ch_tx_id = x4, ch_epoch = x5, ch_extension = x6, ch_tls_cert_hash = x7\<rparr>))))))))
    | _ \<Rightarrow> None)"

lemma ChannelHeader_of_wire [wire_laws]: "ChannelHeader_of_wire (wire_of_ChannelHeader m) = Some m"
  by (simp add: ChannelHeader_of_wire_def wire_of_ChannelHeader_def wire_laws)

definition wire_of_SignatureHeader :: "SignatureHeader \<Rightarrow> wire" where
  "wire_of_SignatureHeader m =
    WSeq [WBytes (sh_creator m),
      WBytes (sh_nonce m)]"

definition SignatureHeader_of_wire :: "wire \<Rightarrow> SignatureHeader option" where
  "SignatureHeader_of_wire w = (case w of WSeq [w0, w1] \<Rightarrow>
      Option.bind (un_bytes w0) (\<lambda>x0.
      Option.bind (un_bytes w1) (\<lambda>x1.
      Some \<lparr>sh_creator = x0, sh_nonce = x1\<rparr>))
    | _ \<Rightarrow> None)"

lemma SignatureHeader_of_wire [wire_laws]: "SignatureHeader_of_wire (wire_of_SignatureHeader m) = Some m"
  by (simp add: SignatureHeader_of_wire_def wire_of_SignatureHeader_def wire_laws)

definition wire_of_Header :: "Header \<Rightarrow> wire" where
  "wire_of_Header m =
    WSeq [WBytes (hdr_channel_header m),
      WBytes (hdr_signature_header m)]"

definition Header_of_wire :: "wire \<Rightarrow> Header option" where
  "Header_of_wire w = (case w of WSeq [w0, w1] \<Rightarrow>
      Option.bind (un_bytes w0) (\<lambda>x0.
      Option.bind (un_bytes w1) (\<lambda>x1.
      Some \<lparr>hdr_channel_header = x0, hdr_signature_header = x1\<rparr>))
    | _ \<Rightarrow> None)"

lemma Header_of_wire [wire_laws]: "Header_of_wire (wire_of_Header m) = Some m"
  by (simp add: Header_of_wire_def wire_of_Header_def wire_laws)

definition wire_of_ChaincodeInput :: "ChaincodeInput \<Rightarrow> wire" where
  "wire_of_ChaincodeInput m =
    WSeq [WSeq (map WBytes (cci_args m)),
      WSeq (map wire_of_entry (cci_decorations m))]"

definition ChaincodeInput_of_wire :: "wire \<Rightarrow> ChaincodeInput option" where
  "ChaincodeInput_of_wire w = (case w of WSeq [w0, w1] \<Rightarrow>
      Option.bind (un_list un_bytes w0) (\<lambda>x0.
      Option.bind (un_list entry_of_wire w1) (\<lambda>x1.
      Some \<lparr>cci_args = x0, cci_decorations = x1\<rparr>))
    | _ \<Rightarrow> None)"

lemma ChaincodeInput_of_wire [wire_laws]: "ChaincodeInput_of_wire (wire_of_ChaincodeInput m) = Some m"
  by (simp add: ChaincodeInput_of_wire_def wire_of_ChaincodeInput_def wire_laws)

definition wire_of_ChaincodeSpecProto :: "ChaincodeSpecProto \<Rightarrow> wire" where
  "wire_of_ChaincodeSpecProto m =
    WSeq [WInt (ccs_type m),
      wire_of_ChaincodeID (ccs_chaincode_id m),
      wire_of_option wire_of_ChaincodeInput (ccs_input m),
      WInt (ccs_timeout m)]"

definition ChaincodeSpecProto_of_wire :: "wire \<Rightarrow> ChaincodeSpecProto option" where
  "ChaincodeSpecProto_of_wire w = (case w of WSeq [w0, w1, w2, w3] \<Rightarrow>
      Option.bind (un_int w0) (\<lambda>x0.
      Option.bind (ChaincodeID_of_wire w1) (\<lambda>x1.
      Option.bind (un_option ChaincodeInput_of_wire w2) (\<lambda>x2.
      Option.bind (un_int w3) (\<lambda>x3.
      Some \<lparr>ccs_type = x0, ccs_chaincode_id = x1, ccs_input = x2, ccs_timeout = x3\<rparr>))))
    | _ \<Rightarrow> None)"

lemma ChaincodeSpecProto_of_wire [wire_laws]: "ChaincodeSpecProto_of_wire (wire_of_ChaincodeSpecProto m) = Some m"
  by (simp add: ChaincodeSpecProto_of_wire_def wire_of_ChaincodeSpecProto_def wire_laws)

definition wire_of_ChaincodeInvocationSpec :: "ChaincodeInvocationSpec \<Rightarrow> wire" where
  "wire_of_ChaincodeInvocationSpec m =
    WSeq [wire_of_ChaincodeSpecProto (cis_chaincode_spec m)]"

definition ChaincodeInvocationSpec_of_wire :: "wire \<Rightarrow> ChaincodeInvocationSpec option" where
  "ChaincodeInvocationSpec_of_wire w = (case w of WSeq [w0] \<Rightarrow>
      Option.bind (ChaincodeSpecProto_of_wire w0) (\<lambda>x0.
      Some \<lparr>cis_chaincode_spec = x0\<rparr>)
    | _ \<Rightarrow> None)"

lemma ChaincodeInvocationSpec_of_wire [wire_laws]: "ChaincodeInvocationSpec_of_wire (wire_of_ChaincodeInvocationSpec m) = Some m"
  by (simp add: ChaincodeInvocationSpec_of_wire_def wire_of_ChaincodeInvocationSpec_def wire_laws)

definition wire_of_ChaincodeProposalPayload :: "ChaincodeProposalPayload \<Rightarrow> wire" where
  "wire_of_ChaincodeProposalPayload m =
    WSeq [WBytes (cpp_input m),
      WSeq (map wire_of_entry (cpp_TransientMap m))]"

definition ChaincodeProposalPayload_of_wire :: "wire \<Rightarrow> ChaincodeProposalPayload option" where
  "ChaincodeProposalPayload_of_wire w = (case w of WSeq [w0, w1] \<Rightarrow>
      Option.bind (un_bytes w0) (\<lambda>x0.
      Option.bind (un_list entry_of_wire w1) (\<lambda>x1.
      Some \<lparr>cpp_input = x0, cpp_TransientMap = x1\<rparr>))
    | _ \<Rightarrow> None)"

lemma ChaincodeProposalPayload_of_wire [wire_laws]: "ChaincodeProposalPayload_of_wire (wire_of_ChaincodeProposalPayload m) = Some m"
  by (simp add: ChaincodeProposalPayload_of_wire_def wire_of_ChaincodeProposalPayload_def wire_laws)

definition wire_of_Proposal :: "Proposal \<Rightarrow> wire" where
  "wire_of_Proposal m =
    WSeq [WBytes (prop_header m),
      WBytes (prop_payload m),
      WBytes (prop_extension m)]"

definition Proposal_of_wire :: "wire \<Rightarrow> Proposal option" where
  "Proposal_of_wire w = (case w of WSeq [w0, w1, w2] \<Rightarrow>
      Option.bind (un_bytes w0) (\<lambda>x0.
      Option.bind (un_bytes w1) (\<lambda>x1.
      Option.bind (un_bytes w2) (\<lambda>x2.
      Some \<lparr>prop_header = x0, prop_payload = x1, prop_extension = x2\<rparr>)))
    | _ \<Rightarrow> None)"

lemma Proposal_of_wire [wire_laws]: "Proposal_of_wire (wire_of_Proposal m) = Some m"
  by (simp add: Proposal_of_wire_def wire_of_Proposal_def wire_laws)

definition wire_of_Payload :: "Payload \<Rightarrow> wire" where
  "wire_of_Payload m =
    WSeq [wire_of_Header (pl_header m),
      WBytes (pl_data m)]"

definition Payload_of_wire :: "wire \<Rightarrow> Payload option" where
  "Payload_of_wire w = (case w of WSeq [w0, w1] \<Rightarrow>
      Option.bind (Header_of_wire w0) (\<lambda>x0.
      Option.bind (un_bytes w1) (\<lambda>x1.
      Some \<lparr>pl_header = x0, pl_data = x1\<rparr>))
    | _ \<Rightarrow> None)"

lemma Payload_of_wire [wire_laws]: "Payload_of_wire (wire_of_Payload m) = Some m"
  by (simp add: Payload_of_wire_def wire_of_Payload_def wire_laws)

definition wire_of_Envelope :: "Envelope \<Rightarrow> wire" where
  "wire_of_Envelope m =
    WSeq [WBytes (env_payload m),
      WBytes (env_signature m)]"

definition Envelope_of_wire :: "wire \<Rightarrow> Envelope option" where
  "Envelope_of_wire w = (case w of WSeq [w0, w1] \<Rightarrow>
      Option.bind (un_bytes w0) (\<lambda>x0.
      Option.bind (un_bytes w1) (\<lambda>x1.
      Some \<lparr>env_payload = x0, env_signature = x1\<rparr>))
    | _ \<Rightarrow> None)"

lemma Envelope_of_wire [wire_laws]: "Envelope_of_wire (wire_of_Envelope m) = Some m"
  by (simp add: Envelope_of_wire_def wire_of_Envelope_def wire_laws)

definition wire_of_TransactionAction :: "TransactionAction \<Rightarrow> wire" where
  "wire_of_TransactionAction m =
    WSeq [WBytes (ta_header m),
      WBytes (ta_payload m)]"

definition TransactionAction_of_wire :: "wire \<Rightarrow> TransactionAction option" where
  "TransactionAction_of_wire w = (case w of WSeq [w0, w1] \<Rightarrow>
      Option.bind (un_bytes w0) (\<lambda>x0.
      Option.bind (un_bytes w1) (\<lambda>x1.
      Some \<lparr>ta_header = x0, ta_payload = x1\<rparr>))
    | _ \<Rightarrow> None)"

lemma TransactionAction_of_wire [wire_laws]: "TransactionAction_of_wire (wire_of_TransactionAction m) = Some m"
  by (simp add: TransactionAction_of_wire_def wire_of_TransactionAction_def wire_laws)

definition wire_of_Transaction :: "Transaction \<Rightarrow> wire" where
  "wire_of_Transaction m =
    WSeq [WSeq (map wire_of_TransactionAction (tx_actions m))]"

definition Transaction_of_wire :: "wire \<Rightarrow> Transaction option" where
  "Transaction_of_wire w = (case w of WSeq [w0] \<Rightarrow>
      Option.bind (un_list TransactionAction_of_wire w0) (\<lambda>x0.
      Some \<lparr>tx_actions = x0\<rparr>)
    | _ \<Rightarrow> None)"

lemma Transaction_of_wire [wire_laws]: "Transaction_of_wire (wire_of_Transaction m) = Some m"
  by (simp add: Transaction_of_wire_def wire_of_Transaction_def wire_laws)

definition wire_of_Endorsement :: "Endorsement \<Rightarrow> wire" where
  "wire_of_Endorsement m =
    WSeq [WBytes (end_endorser m),
      WBytes (end_signature m)]"

definition Endorsement_of_wire :: "wire \<Rightarrow> Endorsement option" where
  "Endorsement_of_wire w = (case w of WSeq [w0, w1] \<Rightarrow>
      Option.bind (un_bytes w0) (\<lambda>x0.
      Option.bind (un_bytes w1) (\<lambda>x1.
      Some \<lparr>end_endorser = x0, end_signature = x1\<rparr>))
    | _ \<Rightarrow> None)"

lemma Endorsement_of_wire [wire_laws]: "Endorsement_of_wire (wire_of_Endorsement m) = Some m"
  by (simp add: Endorsement_of_wire_def wire_of_Endorsement_def wire_laws)

definition wire_of_ChaincodeEndorsedAction :: "ChaincodeEndorsedAction \<Rightarrow> wire" where
  "wire_of_ChaincodeEndorsedAction m =
    WSeq [WBytes (cea_proposal_response_payload m),
      WSeq (map wire_of_Endorsement (cea_endorsements m))]"

definition ChaincodeEndorsedAction_of_wire :: "wire \<Rightarrow> ChaincodeEndorsedAction option" where
  "ChaincodeEndorsedAction_of_wire w = (case w of WSeq [w0, w1] \<Rightarrow>
      Option.bind (un_bytes w0) (\<lambda>x0.
      Option.bind (un_list Endorsement_of_wire w1) (\<lambda>x1.
      Some \<lparr>cea_proposal_response_payload = x0, cea_endorsements = x1\<rparr>))
    | _ \<Rightarrow> None)"

lemma ChaincodeEndorsedAction_of_wire [wire_laws]: "ChaincodeEndorsedAction_of_wire (wire_of_ChaincodeEndorsedAction m) = Some m"
  by (simp add: ChaincodeEndorsedAction_of_wire_def wire_of_ChaincodeEndorsedAction_def wire_laws)

definition wire_of_ChaincodeActionPayload :: "ChaincodeActionPayload \<Rightarrow> wire" where
  "wire_of_ChaincodeActionPayload m =
    WSeq [WBytes (cap_chaincode_proposal_payload m),
      wire_of_ChaincodeEndorsedAction (cap_action m)]"

definition ChaincodeActionPayload_of_wire :: "wire \<Rightarrow> ChaincodeActionPayload option" where
  "ChaincodeActionPayload_of_wire w = (case w of WSeq [w0, w1] \<Rightarrow>
      Option.bind (un_bytes w0) (\<lambda>x0.
      Option.bind (ChaincodeEndorsedAction_of_wire w1) (\<lambda>x1.
      Some \<lparr>cap_chaincode_proposal_payload = x0, cap_action = x1\<rparr>))
    | _ \<Rightarrow> None)"

lemma ChaincodeActionPayload_of_wire [wire_laws]: "ChaincodeActionPayload_of_wire (wire_of_ChaincodeActionPayload m) = Some m"
  by (simp add: ChaincodeActionPayload_of_wire_def wire_of_ChaincodeActionPayload_def wire_laws)

definition wire_of_ConfigSignature :: "ConfigSignature \<Rightarrow> wire" where
  "wire_of_ConfigSignature m =
    WSeq [WBytes (csig_signature_header m),
      WBytes (csig_signature m)]"

definition ConfigSignature_of_wire :: "wire \<Rightarrow> ConfigSignature option" where
  "ConfigSignature_of_wire w = (case w of WSeq [w0, w1] \<Rightarrow>
      Option.bind (un_bytes w0) (\<lambda>x0.
      Option.bind (un_bytes w1) (\<lambda>x1.
      Some \<lparr>csig_signature_header = x0, csig_signature = x1\<rparr>))
    | _ \<Rightarrow> None)"

lemma ConfigSignature_of_wire [wire_laws]: "ConfigSignature_of_wire (wire_of_ConfigSignature m) = Some m"
  by (simp add: ConfigSignature_of_wire_def wire_of_ConfigSignature_def wire_laws)

definition wire_of_ConfigUpdateEnvelope :: "ConfigUpdateEnvelope \<Rightarrow> wire" where
  "wire_of_ConfigUpdateEnvelope m =
    WSeq [WBytes (cue_config_update m),
      WSeq (map wire_of_ConfigSignature (cue_signatures m))]"

definition ConfigUpdateEnvelope_of_wire :: "wire \<Rightarrow> ConfigUpdateEnvelope option" where
  "ConfigUpdateEnvelope_of_wire w = (case w of WSeq [w0, w1] \<Rightarrow>
      Option.bind (un_bytes w0) (\<lambda>x0.
      Option.bind (un_list ConfigSignature_of_wire w1) (\<lambda>x1.
      Some \<lparr>cue_config_update = x0, cue_signatures = x1\<rparr>))
    | _ \<Rightarrow> None)"

lemma ConfigUpdateEnvelope_of_wire [wire_laws]: "ConfigUpdateEnvelope_of_wire (wire_of_ConfigUpdateEnvelope m) = Some m"
  by (simp add: ConfigUpdateEnvelope_of_wire_def wire_of_ConfigUpdateEnvelope_def wire_laws)

definition wire_of_ConfigValue :: "ConfigValue \<Rightarrow> wire" where
  "wire_of_ConfigValue m =
    WSeq [WInt (cv_version m),
      WBytes (cv_value m),
      WText (cv_mod_policy m)]"

definition ConfigValue_of_wire :: "wire \<Rightarrow> ConfigValue option" where
  "ConfigValue_of_wire w = (case w of WSeq [w0, w1, w2] \<Rightarrow>
      Option.bind (un_int w0) (\<lambda>x0.
      Option.bind (un_bytes w1) (\<lambda>x1.
      Option.bind (un_text w2) (\<lambda>x2.
      Some \<lparr>cv_version = x0, cv_value = x1, cv_mod_policy = x2\<rparr>)))
    | _ \<Rightarrow> None)"

lemma ConfigValue_of_wire [wire_laws]: "ConfigValue_of_wire (wire_of_ConfigValue m) = Some m"
  by (simp add: ConfigValue_of_wire_def wire_of_ConfigValue_def wire_laws)

definition wire_of_Policy :: "Policy \<Rightarrow> wire" where
  "wire_of_Policy m =
    WSeq [WInt (pol_type m),
      WBytes (pol_value m)]"

definition Policy_of_wire :: "wire \<Rightarrow> Policy option" where
  "Policy_of_wire w = (case w of WSeq [w0, w1] \<Rightarrow>
      Option.bind (un_int w0) (\<lambda>x0.
      Option.bind (un_bytes w1) (\<lambda>x1.
      Some \<lparr>pol_type = x0, pol_value = x1\<rparr>))
    | _ \<Rightarrow> None)"

lemma Policy_of_wire [wire_laws]: "Policy_of_wire (wire_of_Policy m) = Some m"
  by (simp add: Policy_of_wire_def wire_of_Policy_def wire_laws)

definition wire_of_ConfigPolicy :: "ConfigPolicy \<Rightarrow> wire" where
  "wire_of_ConfigPolicy m =
    WSeq [WInt (cp_version m),
      wire_of_Policy (cp_policy m),
      WText (cp_mod_policy m)]"

definition ConfigPolicy_of_wire :: "wire \<Rightarrow> ConfigPolicy option" where
  "ConfigPolicy_of_wire w = (case w of WSeq [w0, w1, w2] \<Rightarrow>
      Option.bind (un_int w0) (\<lambda>x0.
      Option.bind (Policy_of_wire w1) (\<lambda>x1.
      Option.bind (un_text w2) (\<lambda>x2.
      Some \<lparr>cp_version = x0, cp_policy = x1, cp_mod_policy = x2\<rparr>)))
    | _ \<Rightarrow> None)"

lemma ConfigPolicy_of_wire [wire_laws]: "ConfigPolicy_of_wire (wire_of_ConfigPolicy m) = Some m"
  by (simp add: ConfigPolicy_of_wire_def wire_of_ConfigPolicy_def wire_laws)

fun wire_of_ConfigGroup :: "ConfigGroup \<Rightarrow> wire" where
  "wire_of_ConfigGroup (ConfigGroup v gs vs ps m) =
    WSeq [WInt v, WSeq (map (\<lambda>(k, g). WSeq [WText k, wire_of_ConfigGroup g]) gs),
      WSeq (map (\<lambda>(k, x). WSeq [WText k, wire_of_ConfigValue x]) vs),
      WSeq (map (\<lambda>(k, x). WSeq [WText k, wire_of_ConfigPolicy x]) ps), WText m]"

fun un_entry :: "(wire \<Rightarrow> 'a option) \<Rightarrow> wire \<Rightarrow> (pystr \<times> 'a) option" where
  "un_entry f (WSeq [WText k, w]) = map_option (Pair k) (f w)"
| "un_entry f _ = None"

text \<open>Nested groups are read with one unit of fuel per level.\<close>

fun ConfigGroup_of_wire_fuel :: "nat \<Rightarrow> wire \<Rightarrow> ConfigGroup option" where
  "ConfigGroup_of_wire_fuel 0 w = None"
| "ConfigGroup_of_wire_fuel (Suc f) w = (case w of WSeq [w0, w1, w2, w3, w4] \<Rightarrow>
      Option.bind (un_int w0) (\<lambda>v.
      Option.bind (un_list (un_entry (ConfigGroup_of_wire_fuel f)) w1) (\<lambda>gs.
      Option.bind (un_list (un_entry ConfigValue_of_wire) w2) (\<lambda>vs.
      Option.bind (un_list (un_entry ConfigPolicy_of_wire) w3) (\<lambda>ps.
      Option.bind (un_text w4) (\<lambda>m. Some (ConfigGroup v gs vs ps m))))))
    | _ \<Rightarrow> None)"

definition ConfigGroup_of_wire :: "wire \<Rightarrow> ConfigGroup option" where
  "ConfigGroup_of_wire w = ConfigGroup_of_wire_fuel (size w) w"

lemma ConfigGroup_of_wire_fuel:
  "size (wire_of_ConfigGroup g) \<le> f \<Longrightarrow> ConfigGroup_of_wire_fuel f (wire_of_ConfigGroup g) = Some g"
proof (induction g arbitrary: f)
  case (ConfigGroup v gs vs ps m)
  then obtain f' where f: "f = Suc f'" by (cases f) auto
  have gs: "un_list (un_entry (ConfigGroup_of_wire_fuel f'))
      (WSeq (map (\<lambda>(k, g). WSeq [WText k, wire_of_ConfigGroup g]) gs)) = Some gs"
  proof (rule un_list_map)
    fix e assume e: "e \<in> set gs"
    obtain k g where kg: "e = (k, g)" by (cases e)
    have "size (WSeq [WText k, wire_of_ConfigGroup g])
        \<le> size_list size (map (\<lambda>(k, g). WSeq [WText k, wire_of_ConfigGroup g]) gs)"
      using e kg by (force intro: size_list_estimation')
    then have "size (wire_of_ConfigGroup g) \<le> f'"
      using ConfigGroup.prems f by simp
    moreover have "g \<in> Basic_BNFs.snds e" using kg by simp
    ultimately show "un_entry (ConfigGroup_of_wire_fuel f')
        (case e of (k, g) \<Rightarrow> WSeq [WText k, wire_of_ConfigGroup g]) = Some e"
      using ConfigGroup.IH(1) [OF e] kg by simp
  qed
  have vs: "un_list (un_entry ConfigValue_of_wire)
      (WSeq (map (\<lambda>(k, x). WSeq [WText k, wire_of_ConfigValue x]) vs)) = Some vs"
    by (rule un_list_map) (auto simp: wire_laws)
  have ps: "un_list (un_entry ConfigPolicy_of_wire)
      (WSeq (map (\<lambda>(k, x). WSeq [WText k, wire_of_ConfigPolicy x]) ps)) = Some ps"
    by (rule un_list_map) (auto simp: wire_laws)
  show ?case by (simp add: f gs vs ps)
qed

lemma ConfigGroup_of_wire [wire_laws]: "ConfigGroup_of_wire (wire_of_ConfigGroup g) = Some g"
  by (simp add: ConfigGroup_of_wire_def ConfigGroup_of_wire_fuel)

definition wire_of_ConfigUpdate :: "ConfigUpdate \<Rightarrow> wire" where
  "wire_of_ConfigUpdate m =
    WSeq [WText (cu_channel_id m),
      wire_of_ConfigGroup (cu_read_set m),
      wire_of_ConfigGroup (cu_write_set m),
      WSeq (map wire_of_entry (cu_isolated_data m))]"

definition ConfigUpdate_of_wire :: "wire \<Rightarrow> ConfigUpdate option" where
  "ConfigUpdate_of_wire w = (case w of WSeq [w0, w1, w2, w3] \<Rightarrow>
      Option.bind (un_text w0) (\<lambda>x0.
      Option.bind (ConfigGroup_of_wire w1) (\<lambda>x1.
      Option.bind (ConfigGroup_of_wire w2) (\<lambda>x2.
      Option.bind (un_list entry_of_wire w3) (\<lambda>x3.
      Some \<lparr>cu_channel_id = x0, cu_read_set = x1, cu_write_set = x2, cu_isolated_data = x3\<rparr>))))
    | _ \<Rightarrow> None)"

lemma ConfigUpdate_of_wire [wire_laws]: "ConfigUpdate_of_wire (wire_of_ConfigUpdate m) = Some m"
  by (simp add: ConfigUpdate_of_wire_def wire_of_ConfigUpdate_def wire_laws)

definition wire_of_Config :: "Config \<Rightarrow> wire" where
  "wire_of_Config m =
    WSeq [WInt (cfg_sequence m),
      wire_of_ConfigGroup (cfg_channel_group m)]"

definition Config_of_wire :: "wire \<Rightarrow> Config option" where
  "Config_of_wire w = (case w of WSeq [w0, w1] \<Rightarrow>
      Option.bind (un_int w0) (\<lambda>x0.
      Option.bind (ConfigGroup_of_wire w1) (\<lambda>x1.
      Some \<lparr>cfg_sequence = x0, cfg_channel_group = x1\<rparr>))
    | _ \<Rightarrow> None)"

lemma Config_of_wire [wire_laws]: "Config_of_wire (wire_of_Config m) = Some m"
  by (simp add: Config_of_wire_def wire_of_Config_def wire_laws)

definition wire_of_ConfigEnvelope :: "ConfigEnvelope \<Rightarrow> wire" where
  "wire_of_ConfigEnvelope m =
    WSeq [wire_of_Config (cenv_config m),
      wire_of_Envelope (cenv_last_update m)]"

definition ConfigEnvelope_of_wire :: "wire \<Rightarrow> ConfigEnvelope option" where
  "ConfigEnvelope_of_wire w = (case w of WSeq [w0, w1] \<Rightarrow>
      Option.bind (Config_of_wire w0) (\<lambda>x0.
      Option.bind (Envelope_of_wire w1) (\<lambda>x1.
      Some \<lparr>cenv_config = x0, cenv_last_update = x1\<rparr>))
    | _ \<Rightarrow> None)"

lemma ConfigEnvelope_of_wire [wire_laws]: "ConfigEnvelope_of_wire (wire_of_ConfigEnvelope m) = Some m"
  by (simp add: ConfigEnvelope_of_wire_def wire_of_ConfigEnvelope_def wire_laws)

fun wire_of_SignaturePolicy :: "SignaturePolicy \<Rightarrow> wire" where
  "wire_of_SignaturePolicy (SignedBy i) = WInt i"
| "wire_of_SignaturePolicy (NOutOf n rs) = WSeq (WInt n # map wire_of_SignaturePolicy rs)"

fun SignaturePolicy_of_wire :: "wire \<Rightarrow> SignaturePolicy option" where
  "SignaturePolicy_of_wire (WInt i) = Some (SignedBy i)"
| "SignaturePolicy_of_wire (WSeq (WInt n # ws)) =
    map_option (NOutOf n) (those (map SignaturePolicy_of_wire ws))"
| "SignaturePolicy_of_wire _ = None"

lemma SignaturePolicy_of_wire [wire_laws]:
  "SignaturePolicy_of_wire (wire_of_SignaturePolicy p) = Some p"
  by (induction p) (simp_all add: those_map_inverse)

definition wire_of_MSPPrincipal :: "MSPPrincipal \<Rightarrow> wire" where
  "wire_of_MSPPrincipal m =
    WSeq [WInt (mpr_principal_classification m),
      WBytes (mpr_principal m)]"

definition MSPPrincipal_of_wire :: "wire \<Rightarrow> MSPPrincipal option" where
  "MSPPrincipal_of_wire w = (case w of WSeq [w0, w1] \<Rightarrow>
      Option.bind (un_int w0) (\<lambda>x0.
      Option.bind (un_bytes w1) (\<lambda>x1.
      Some \<lparr>mpr_principal_classification = x0, mpr_principal = x1\<rparr>))
    | _ \<Rightarrow> None)"

lemma MSPPrincipal_of_wire [wire_laws]: "MSPPrincipal_of_wire (wire_of_MSPPrincipal m) = Some m"
  by (simp add: MSPPrincipal_of_wire_def wire_of_MSPPrincipal_def wire_laws)

definition wire_of_SignaturePolicyEnvelope :: "SignaturePolicyEnvelope \<Rightarrow> wire" where
  "wire_of_SignaturePolicyEnvelope m =
    WSeq [WInt (spe_version m),
      wire_of_SignaturePolicy (spe_rule m),
      WSeq (map wire_of_MSPPrincipal (spe_identities m))]"

definition SignaturePolicyEnvelope_of_wire :: "wire \<Rightarrow> SignaturePolicyEnvelope option" where
  "SignaturePolicyEnvelope_of_wire w = (case w of WSeq [w0, w1, w2] \<Rightarrow>
      Option.bind (un_int w0) (\<lambda>x0.
      Option.bind (SignaturePolicy_of_wire w1) (\<lambda>x1.
      Option.bind (un_list MSPPrincipal_of_wire w2) (\<lambda>x2.
      Some \<lparr>spe_version = x0, spe_rule = x1, spe_identities = x2\<rparr>)))
    | _ \<Rightarrow> None)"

lemma SignaturePolicyEnvelope_of_wire [wire_laws]: "SignaturePolicyEnvelope_of_wire (wire_of_SignaturePolicyEnvelope m) = Some m"
  by (simp add: SignaturePolicyEnvelope_of_wire_def wire_of_SignaturePolicyEnvelope_def wire_laws)

definition wire_of_MSPRole :: "MSPRole \<Rightarrow> wire" where
  "wire_of_MSPRole m =
    WSeq [WText (mr_msp_identifier m),
      WInt (mr_role m)]"

definition MSPRole_of_wire :: "wire \<Rightarrow> MSPRole option" where
  "MSPRole_of_wire w = (case w of WSeq [w0, w1] \<Rightarrow>
      Option.bind (un_text w0) (\<lambda>x0.
      Option.bind (un_int w1) (\<lambda>x1.
      Some \<lparr>mr_msp_identifier = x0, mr_role = x1\<rparr>))
    | _ \<Rightarrow> None)"

lemma MSPRole_of_wire [wire_laws]: "MSPRole_of_wire (wire_of_MSPRole m) = Some m"
  by (simp add: MSPRole_of_wire_def wire_of_MSPRole_def wire_laws)

definition wire_of_ChaincodeDeploymentSpec :: "ChaincodeDeploymentSpec \<Rightarrow> wire" where
  "wire_of_ChaincodeDeploymentSpec m =
    WSeq [wire_of_ChaincodeSpecProto (cds_chaincode_spec m),
      WBytes (cds_code_package m),
      WInt (cds_exec_env m)]"

definition ChaincodeDeploymentSpec_of_wire :: "wire \<Rightarrow> ChaincodeDeploymentSpec option" where
  "ChaincodeDeploymentSpec_of_wire w = (case w of WSeq [w0, w1, w2] \<Rightarrow>
      Option.bind (ChaincodeSpecProto_of_wire w0) (\<lambda>x0.
      Option.bind (un_bytes w1) (\<lambda>x1.
      Option.bind (un_int w2) (\<lambda>x2.
      Some \<lparr>cds_chaincode_spec = x0, cds_code_package = x1, cds_exec_env = x2\<rparr>)))
    | _ \<Rightarrow> None)"

lemma ChaincodeDeploymentSpec_of_wire [wire_laws]: "ChaincodeDeploymentSpec_of_wire (wire_of_ChaincodeDeploymentSpec m) = Some m"
  by (simp add: ChaincodeDeploymentSpec_of_wire_def wire_of_ChaincodeDeploymentSpec_def wire_laws)

definition wire_of_BlockHeader :: "BlockHeader \<Rightarrow> wire" where
  "wire_of_BlockHeader m =
    WSeq [WInt (bh_number m),
      WBytes (bh_previous_hash m),
      WBytes (bh_data_hash m)]"

definition BlockHeader_of_wire :: "wire \<Rightarrow> BlockHeader option" where
  "BlockHeader_of_wire w = (case w of WSeq [w0, w1, w2] \<Rightarrow>
      Option.bind (un_int w0) (\<lambda>x0.
      Option.bind (un_bytes w1) (\<lambda>x1.
      Option.bind (un_bytes w2) (\<lambda>x2.
      Some \<lparr>bh_number = x0, bh_previous_hash = x1, bh_data_hash = x2\<rparr>)))
    | _ \<Rightarrow> None)"

lemma BlockHeader_of_wire [wire_laws]: "BlockHeader_of_wire (wire_of_BlockHeader m) = Some m"
  by (simp add: BlockHeader_of_wire_def wire_of_BlockHeader_def wire_laws)

definition wire_of_BlockData :: "BlockData \<Rightarrow> wire" where
  "wire_of_BlockData m =
    WSeq [WSeq (map WBytes (bd_data m))]"

definition BlockData_of_wire :: "wire \<Rightarrow> BlockData option" where
  "BlockData_of_wire w = (case w of WSeq [w0] \<Rightarrow>
      Option.bind (un_list un_bytes w0) (\<lambda>x0.
      Some \<lparr>bd_data = x0\<rparr>)
    | _ \<Rightarrow> None)"

lemma BlockData_of_wire [wire_laws]: "BlockData_of_wire (wire_of_BlockData m) = Some m"
  by (simp add: BlockData_of_wire_def wire_of_BlockData_def wire_laws)

definition wire_of_BlockMetadata :: "BlockMetadata \<Rightarrow> wire" where
  "wire_of_BlockMetadata m =
    WSeq [WSeq (map WBytes (bm_metadata m))]"

definition BlockMetadata_of_wire :: "wire \<Rightarrow> BlockMetadata option" where
  "BlockMetadata_of_wire w = (case w of WSeq [w0] \<Rightarrow>
      Option.bind (un_list un_bytes w0) (\<lambda>x0.
      Some \<lparr>bm_metadata = x0\<rparr>)
    | _ \<Rightarrow> None)"

lemma BlockMetadata_of_wire [wire_laws]: "BlockMetadata_of_wire (wire_of_BlockMetadata m) = Some m"
  by (simp add: BlockMetadata_of_wire_def wire_of_BlockMetadata_def wire_laws)

definition wire_of_Block :: "Block \<Rightarrow> wire" where
  "wire_of_Block m =
    WSeq [wire_of_BlockHeader (blk_header m),
      wire_of_BlockData (blk_data m),
      wire_of_BlockMetadata (blk_metadata m)]"

definition Block_of_wire :: "wire \<Rightarrow> Block option" where
  "Block_of_wire w = (case w of WSeq [w0, w1, w2] \<Rightarrow>
      Option.bind (BlockHeader_of_wire w0) (\<lambda>x0.
      Option.bind (BlockData_of_wire w1) (\<lambda>x1.
      Option.bind (BlockMetadata_of_wire w2) (\<lambda>x2.
      Some \<lparr>blk_header = x0, blk_data = x1, blk_metadata = x2\<rparr>)))
    | _ \<Rightarrow> None)"

lemma Block_of_wire [wire_laws]: "Block_of_wire (wire_of_Block m) = Some m"
  by (simp add: Block_of_wire_def wire_of_Block_def wire_laws)

definition wire_of_ChaincodeInfo :: "ChaincodeInfo \<Rightarrow> wire" where
  "wire_of_ChaincodeInfo m =
    WSeq [WText (cinf_name m),
      WText (cinf_version m),
      WText (cinf_path m),
      WText (cinf_input m),
      WText (cinf_escc m),
      WText (cinf_vscc m),
      WBytes (cinf_id m)]"

definition ChaincodeInfo_of_wire :: "wire \<Rightarrow> ChaincodeInfo option" where
  "ChaincodeInfo_of_wire w = (case w of WSeq [w0, w1, w2, w3, w4, w5, w6] \<Rightarrow>
      Option.bind (un_text w0) (\<lambda>x0.
      Option.bind (un_text w1) (\<lambda>x1.
      Option.bind (un_text w2) (\<lambda>x2.
      Option.bind (un_text w3) (\<lambda>x3.
      Option.bind (un_text w4) (\<lambda>x4.
      Option.bind (un_text w5) (\<lambda>x5.
      Option.bind (un_bytes w6) (\<lambda>x6.
      Some \<lparr>cinf_name = x0, cinf_version = x1, cinf_path = x2, cinf_input = x3, cinf_escc = x4, cinf_vscc = x5, cinf_id = x6\<rparr>)))))))
    | _ \<Rightarrow> None)"

lemma ChaincodeInfo_of_wire [wire_laws]: "ChaincodeInfo_of_wire (wire_of_ChaincodeInfo m) = Some m"
  by (simp add: ChaincodeInfo_of_wire_def wire_of_ChaincodeInfo_def wire_laws)

definition wire_of_ChaincodeQueryResponse :: "ChaincodeQueryResponse \<Rightarrow> wire" where
  "wire_of_ChaincodeQueryResponse m =
    WSeq [WSeq (map wire_of_ChaincodeInfo (cqr_chaincodes m))]"

definition ChaincodeQueryResponse_of_wire :: "wire \<Rightarrow> ChaincodeQueryResponse option" where
  "ChaincodeQueryResponse_of_wire w = (case w of WSeq [w0] \<Rightarrow>
      Option.bind (un_list ChaincodeInfo_of_wire w0) (\<lambda>x0.
      Some \<lparr>cqr_chaincodes = x0\<rparr>)
    | _ \<Rightarrow> None)"

lemma ChaincodeQueryResponse_of_wire [wire_laws]: "ChaincodeQueryResponse_of_wire (wire_of_ChaincodeQueryResponse m) = Some m"
  by (simp add: ChaincodeQueryResponse_of_wire_def wire_of_ChaincodeQueryResponse_def wire_laws)

definition wire_of_ProposalResponsePayload :: "ProposalResponsePayload \<Rightarrow> wire" where
  "wire_of_ProposalResponsePayload m =
    WSeq [WBytes (prp_proposal_hash m),
      WBytes (prp_extension m)]"

definition ProposalResponsePayload_of_wire :: "wire \<Rightarrow> ProposalResponsePayload option" where
  "ProposalResponsePayload_of_wire w = (case w of WSeq [w0, w1] \<Rightarrow>
      Option.bind (un_bytes w0) (\<lambda>x0.
      Option.bind (un_bytes w1) (\<lambda>x1.
      Some \<lparr>prp_proposal_hash = x0, prp_extension = x1\<rparr>))
    | _ \<Rightarrow> None)"

lemma ProposalResponsePayload_of_wire [wire_laws]: "ProposalResponsePayload_of_wire (wire_of_ProposalResponsePayload m) = Some m"
  by (simp add: ProposalResponsePayload_of_wire_def wire_of_ProposalResponsePayload_def wire_laws)

definition wire_of_MetadataSignature :: "MetadataSignature \<Rightarrow> wire" where
  "wire_of_MetadataSignature m =
    WSeq [WBytes (mds_signature_header m),
      WBytes (mds_signature m)]"

definition MetadataSignature_of_wire :: "wire \<Rightarrow> MetadataSignature option" where
  "MetadataSignature_of_wire w = (case w of WSeq [w0, w1] \<Rightarrow>
      Option.bind (un_bytes w0) (\<lambda>x0.
      Option.bind (un_bytes w1) (\<lambda>x1.
      Some \<lparr>mds_signature_header = x0, mds_signature = x1\<rparr>))
    | _ \<Rightarrow> None)"

lemma MetadataSignature_of_wire [wire_laws]: "MetadataSignature_of_wire (wire_of_MetadataSignature m) = Some m"
  by (simp add: MetadataSignature_of_wire_def wire_of_MetadataSignature_def wire_laws)

definition wire_of_Metadata :: "Metadata \<Rightarrow> wire" where
  "wire_of_Metadata m =
    WSeq [WBytes (md_value m),
      WSeq (map wire_of_MetadataSignature (md_signatures m))]"

definition Metadata_of_wire :: "wire \<Rightarrow> Metadata option" where
  "Metadata_of_wire w = (case w of WSeq [w0, w1] \<Rightarrow>
      Option.bind (un_bytes w0) (\<lambda>x0.
      Option.bind (un_list MetadataSignature_of_wire w1) (\<lambda>x1.
      Some \<lparr>md_value = x0, md_signatures = x1\<rparr>))
    | _ \<Rightarrow> None)"

lemma Metadata_of_wire [wire_laws]: "Metadata_of_wire (wire_of_Metadata m) = Some m"
  by (simp add: Metadata_of_wire_def wire_of_Metadata_def wire_laws)

definition wire_of_LastConfig :: "LastConfig \<Rightarrow> wire" where
  "wire_of_LastConfig m =
    WSeq [WInt (lc_index m)]"

definition LastConfig_of_wire :: "wire \<Rightarrow> LastConfig option" where
  "LastConfig_of_wire w = (case w of WSeq [w0] \<Rightarrow>
      Option.bind (un_int w0) (\<lambda>x0.
      Some \<lparr>lc_index = x0\<rparr>)
    | _ \<Rightarrow> None)"

lemma LastConfig_of_wire [wire_laws]: "LastConfig_of_wire (wire_of_LastConfig m) = Some m"
  by (simp add: LastConfig_of_wire_def wire_of_LastConfig_def wire_laws)

section \<open>The runtime\<close>

definition wire_coder :: "('m \<Rightarrow> wire) \<Rightarrow> (wire \<Rightarrow> 'm option) \<Rightarrow> 'm coder" where
  "wire_coder f g = \<lparr>ser = \<lambda>m. enc_wire (f m), des = \<lambda>bs. Option.bind (wire_decode bs) g\<rparr>"

lemma wire_coder_ok: "(\<And>m. g (f m) = Some m) \<Longrightarrow> coder_ok (wire_coder f g)"
  by (simp add: coder_ok_def wire_coder_def)

definition check_range :: "int \<Rightarrow> int \<Rightarrow> int \<Rightarrow> int result" where
  "check_range lo hi i =
    (if lo \<le> i \<and> i < hi then Inr i else Inl (ValueError (lit ''Value out of range'')))"

definition reference_runtime :: runtime where
  "reference_runtime =
    \<lparr>pb_SeekInfo = wire_coder wire_of_SeekInfo SeekInfo_of_wire,
     pb_SerializedIdentity = wire_coder wire_of_SerializedIdentity SerializedIdentity_of_wire,
     pb_ChaincodeHeaderExtension = wire_coder wire_of_ChaincodeHeaderExtension ChaincodeHeaderExtension_of_wire,
     pb_ChannelHeader = wire_coder wire_of_ChannelHeader ChannelHeader_of_wire,
     pb_SignatureHeader = wire_coder wire_of_SignatureHeader SignatureHeader_of_wire,
     pb_Header = wire_coder wire_of_Header Header_of_wire,
     pb_ChaincodeInvocationSpec = wire_coder wire_of_ChaincodeInvocationSpec ChaincodeInvocationSpec_of_wire,
     pb_ChaincodeProposalPayload = wire_coder wire_of_ChaincodeProposalPayload ChaincodeProposalPayload_of_wire,
     pb_Proposal = wire_coder wire_of_Proposal Proposal_of_wire,
     pb_Payload = wire_coder wire_of_Payload Payload_of_wire,
     pb_Envelope = wire_coder wire_of_Envelope Envelope_of_wire,
     pb_Transaction = wire_coder wire_of_Transaction Transaction_of_wire,
     pb_ChaincodeActionPayload = wire_coder wire_of_ChaincodeActionPayload ChaincodeActionPayload_of_wire,
     pb_ConfigUpdateEnvelope = wire_coder wire_of_ConfigUpdateEnvelope ConfigUpdateEnvelope_of_wire,
     pb_ConfigUpdate = wire_coder wire_of_ConfigUpdate ConfigUpdate_of_wire,
     pb_ConfigEnvelope = wire_coder wire_of_ConfigEnvelope ConfigEnvelope_of_wire,
     pb_SignaturePolicyEnvelope = wire_coder wire_of_SignaturePolicyEnvelope SignaturePolicyEnvelope_of_wire,
     pb_MSPRole = wire_coder wire_of_MSPRole MSPRole_of_wire,
     pb_ChaincodeDeploymentSpec = wire_coder wire_of_ChaincodeDeploymentSpec ChaincodeDeploymentSpec_of_wire,
     pb_Block = wire_coder wire_of_Block Block_of_wire,
     pb_ChaincodeQueryResponse = wire_coder wire_of_ChaincodeQueryResponse ChaincodeQueryResponse_of_wire,
     pb_ProposalResponsePayload = wire_coder wire_of_ProposalResponsePayload ProposalResponsePayload_of_wire,
     pb_Metadata = wire_coder wire_of_Metadata Metadata_of_wire,
     pb_LastConfig = wire_coder wire_of_LastConfig LastConfig_of_wire,
     pb_int32 = check_range (- (2 ^ 31)) (2 ^ 31),
     pb_uint64 = check_range 0 (2 ^ 64)\<rparr>"

theorem reference_runtime_ok: "runtime_ok reference_runtime"
  unfolding runtime_ok_def reference_runtime_def runtime.simps
  by (intro conjI wire_coder_ok) (simp_all add: wire_laws int32_ok_def uint64_ok_def check_range_def)

end
