(* ===== verification/Policies.thy ===== *)
theory Policies
  imports Models Reference_Runtime "HOL-Library.List_Lexorder"
begin

text \<open>
  Endorsement policies (\<open>EndorsementPolicyRole\<close> and \<open>EndorsementPolicy\<close> of
  \<open>src/snakeskin/models/__init__.py\<close>) and their compilation to signature policies
  (\<open>build_endorsement_policy\<close>, \<open>build_signature_policy_envelope\<close> of
  \<open>src/snakeskin/factories.py\<close>), with the meaning of both and the proof that compilation
  keeps it.

  A Python set is iterated in an order that depends on hashes: the iteration order of a set
  that received the given elements is a parameter \<open>iter\<close>, of which only \<open>iter_ok\<close> is
  assumed, that it enumerates the set. \<open>uni\<close> are the Unicode case tables (\<open>Py_Text\<close>).
\<close>

section \<open>Roles and policies\<close>

record EndorsementPolicyRole =
  role_msp :: pystr
  role_role :: pystr

definition EndorsementPolicyRole_post_init ::
  "(pystr \<Rightarrow> pystr) \<Rightarrow> EndorsementPolicyRole \<Rightarrow> EndorsementPolicyRole" where
  "EndorsementPolicyRole_post_init uni r = r\<lparr>role_role := py_lower uni (role_role r)\<rparr>"

text \<open>The \<open>expr\<close> of a policy is a \<open>PolicyExpression\<close>, or any other object by mistake.\<close>

datatype policy_expr = PolicyExpr PolicyExpression | OtherExpr pystr

datatype EndorsementPolicy =
  EndorsementPolicy (expr: policy_expr) (out_of: "int option")
    (roles: "EndorsementPolicyRole list") (sub_policies: "EndorsementPolicy list")

type_synonym set_iter = "EndorsementPolicyRole list \<Rightarrow> EndorsementPolicyRole list"

definition iter_ok :: "set_iter \<Rightarrow> bool" where
  "iter_ok iter \<longleftrightarrow> (\<forall>xs. distinct (iter xs) \<and> set (iter xs) = set xs)"

text \<open>The sort key \<open>f'{r.msp}.{r.role}'\<close>; strings compare by code points.\<close>

definition role_key :: "EndorsementPolicyRole \<Rightarrow> pystr" where
  "role_key r = role_msp r @ lit ''.'' @ role_role r"

fun all_roles :: "set_iter \<Rightarrow> EndorsementPolicy \<Rightarrow> EndorsementPolicyRole list" where
  "all_roles iter (EndorsementPolicy e n rs subs) =
    sort_key role_key (iter (rs @ concat (map (all_roles iter) subs)))"

definition role_map :: "set_iter \<Rightarrow> EndorsementPolicy \<Rightarrow> (EndorsementPolicyRole \<times> nat) list" where
  "role_map iter p = (let rs = all_roles iter p in zip rs [0..<length rs])"

section \<open>Compilation\<close>

definition lookup_role :: "(EndorsementPolicyRole \<times> nat) list \<Rightarrow> EndorsementPolicyRole \<Rightarrow> nat result" where
  "lookup_role m r = of_option (KeyError None) (map_of m r)"

text \<open>\<open>n_out_of\<close>: how many of the rules must hold.\<close>

fun n_out_of :: "EndorsementPolicy \<Rightarrow> int result" where
  "n_out_of (EndorsementPolicy (PolicyExpr And) n rs subs) = Inr (int (length rs) + int (length subs))"
| "n_out_of (EndorsementPolicy (PolicyExpr Or) n rs subs) = Inr 1"
| "n_out_of (EndorsementPolicy (PolicyExpr OutOf) n rs subs) =
    (case n of
       None \<Rightarrow> Inl (ValueError (lit ''Must supply out_of''))
     | Some k \<Rightarrow> if k = 0 then Inl (ValueError (lit ''Must supply out_of'')) else Inr k)"
| "n_out_of (EndorsementPolicy (OtherExpr x) n rs subs) =
    Inl (ValueError (lit ''Unrecognized PolicyExpression '' @ x))"

text \<open>
  The argument \<open>rm\<close> is the map in force: \<open>role_map or policy.role_map\<close>, where an empty
  map counts as not given.
\<close>

definition or_role_map ::
  "(EndorsementPolicyRole \<times> nat) list option \<Rightarrow> (EndorsementPolicyRole \<times> nat) list \<Rightarrow>
    (EndorsementPolicyRole \<times> nat) list" where
  "or_role_map m own = or_else m own"

fun build_endorsement_policy ::
  "runtime \<Rightarrow> set_iter \<Rightarrow> (EndorsementPolicyRole \<times> nat) list option \<Rightarrow> EndorsementPolicy \<Rightarrow>
    SignaturePolicy result" where
  "build_endorsement_policy pb iter rm (EndorsementPolicy e n rs subs) =
    (let rmap = or_role_map rm (role_map iter (EndorsementPolicy e n rs subs)) in
     bind_res (n_out_of (EndorsementPolicy e n rs subs)) (\<lambda>k.
     bind_res (map_res (\<lambda>r. bind_res (lookup_role rmap r) (\<lambda>idx.
                 bind_res (pb_int32 pb (int idx)) (\<lambda>i. Inr (SignedBy i)))) rs) (\<lambda>by_role.
     bind_res (map_res (\<lambda>p. build_endorsement_policy pb iter (Some rmap) p) subs) (\<lambda>by_sub.
     bind_res (pb_int32 pb k) (\<lambda>k'. Inr (NOutOf k' (by_role @ by_sub)))))))"

definition role_principal ::
  "runtime \<Rightarrow> (pystr \<Rightarrow> pystr) \<Rightarrow> EndorsementPolicyRole \<Rightarrow> MSPPrincipal result" where
  "role_principal pb uni r =
    bind_res (enum_Value MSPRole_MSPRoleType (py_upper uni (role_role r))) (\<lambda>v.
      Inr \<lparr>mpr_principal_classification = MSPPrincipal_ROLE,
           mpr_principal = ser (pb_MSPRole pb) \<lparr>mr_msp_identifier = role_msp r, mr_role = v\<rparr>\<rparr>)"

definition build_signature_policy_envelope ::
  "runtime \<Rightarrow> (pystr \<Rightarrow> pystr) \<Rightarrow> set_iter \<Rightarrow> EndorsementPolicy \<Rightarrow> SignaturePolicyEnvelope result" where
  "build_signature_policy_envelope pb uni iter p =
    bind_res (build_endorsement_policy pb iter None p) (\<lambda>rule.
    bind_res (map_res (role_principal pb uni) (all_roles iter p)) (\<lambda>ids.
      Inr \<lparr>spe_version = 0, spe_rule = rule, spe_identities = ids\<rparr>))"

section \<open>Meaning\<close>

text \<open>
  The roles a policy mentions anywhere, and what it demands: all, one or at least \<open>n\<close> of
  its roles and sub-policies must be satisfied. Its compiled form demands \<open>n\<close> of its
  rules, each reference being to a principal by its index.
\<close>

fun mentioned :: "EndorsementPolicy \<Rightarrow> EndorsementPolicyRole set" where
  "mentioned (EndorsementPolicy e n rs subs) = set rs \<union> \<Union> (mentioned ` set subs)"

definition count_true :: "bool list \<Rightarrow> int" where
  "count_true bs = int (length (filter id bs))"

fun policy_sat :: "(EndorsementPolicyRole \<Rightarrow> bool) \<Rightarrow> EndorsementPolicy \<Rightarrow> bool" where
  "policy_sat V (EndorsementPolicy e n rs subs) =
    (case e of
       PolicyExpr And \<Rightarrow> (\<forall>r \<in> set rs. V r) \<and> (\<forall>p \<in> set subs. policy_sat V p)
     | PolicyExpr Or \<Rightarrow> (\<exists>r \<in> set rs. V r) \<or> (\<exists>p \<in> set subs. policy_sat V p)
     | PolicyExpr OutOf \<Rightarrow>
         (case n of None \<Rightarrow> False
          | Some k \<Rightarrow> k \<le> count_true (map V rs @ map (policy_sat V) subs))
     | OtherExpr x \<Rightarrow> False)"

fun signature_sat :: "(int \<Rightarrow> bool) \<Rightarrow> SignaturePolicy \<Rightarrow> bool" where
  "signature_sat V (SignedBy i) = V i"
| "signature_sat V (NOutOf n rules) = (n \<le> count_true (map (signature_sat V) rules))"

lemma count_true_simps [simp]:
  "count_true [] = 0" "count_true (b # bs) = (if b then 1 else 0) + count_true bs"
  "count_true (as @ bs) = count_true as + count_true bs"
  by (simp_all add: count_true_def)

lemma count_true_bounds: "0 \<le> count_true bs" "count_true bs \<le> int (length bs)"
  by (simp_all add: count_true_def)

lemma count_true_all: "int (length bs) \<le> count_true bs \<longleftrightarrow> (\<forall>b \<in> set bs. b)"
proof (induction bs)
  case (Cons b bs)
  have "count_true bs \<le> int (length bs)" by (rule count_true_bounds)
  with Cons.IH show ?case by (cases b) simp_all
qed simp

lemma count_true_any: "1 \<le> count_true bs \<longleftrightarrow> (\<exists>b \<in> set bs. b)"
proof (induction bs)
  case (Cons b bs)
  have "0 \<le> count_true bs" by (rule count_true_bounds)
  with Cons.IH show ?case by (cases b) simp_all
qed simp

section \<open>The enumeration of roles\<close>

lemma distinct_all_roles: "iter_ok iter \<Longrightarrow> distinct (all_roles iter p)"
  by (cases p) (simp add: iter_ok_def)

lemma sorted_all_roles: "sorted (map role_key (all_roles iter p))"
  by (cases p) simp

lemma set_all_roles: "iter_ok iter \<Longrightarrow> set (all_roles iter p) = mentioned p"
proof (induction p)
  case (EndorsementPolicy e n rs subs)
  then have "(\<Union>p \<in> set subs. set (all_roles iter p)) = (\<Union>p \<in> set subs. mentioned p)" by auto
  with EndorsementPolicy.prems show ?case by (simp add: iter_ok_def)
qed

lemma mentioned_sub: "p \<in> set (sub_policies q) \<Longrightarrow> mentioned p \<subseteq> mentioned q"
  by (cases q) auto

lemma mentioned_sub': "p \<in> set subs \<Longrightarrow> mentioned p \<subseteq> mentioned (EndorsementPolicy e n rs subs)"
  by auto

text \<open>The position map of a list without repetitions.\<close>

abbreviation positions :: "'a list \<Rightarrow> ('a \<times> nat) list" where
  "positions xs \<equiv> zip xs [0..<length xs]"

lemma lookup_positions:
  assumes "distinct xs"
  shows "lookup_role (positions xs) r = Inr i \<longleftrightarrow> i < length xs \<and> xs ! i = r"
proof
  assume "lookup_role (positions xs) r = Inr i"
  then have "(r, i) \<in> set (positions xs)" unfolding lookup_role_def by (auto dest: map_of_SomeD)
  then show "i < length xs \<and> xs ! i = r" by (auto simp: set_zip)
next
  assume "i < length xs \<and> xs ! i = r"
  then show "lookup_role (positions xs) r = Inr i"
    using map_of_zip_upt [OF assms] unfolding lookup_role_def by auto
qed

lemma lookup_positions_ex:
  "distinct xs \<Longrightarrow> r \<in> set xs \<Longrightarrow> \<exists>i < length xs. lookup_role (positions xs) r = Inr i \<and> xs ! i = r"
  unfolding in_set_conv_nth by (auto simp: lookup_positions)

lemma role_map_positions: "role_map iter p = positions (all_roles iter p)"
  by (simp add: role_map_def Let_def)

text \<open>
  The map handed to a sub-policy is the one used there: it is empty, and the sub-policy
  falls back on its own, only when no role is mentioned at all, and then that one is empty.
\<close>

lemma or_role_map_sub:
  assumes "iter_ok iter" "mentioned p \<subseteq> set xs"
  shows "or_role_map (Some (positions xs)) (role_map iter p) = positions xs"
proof (cases xs)
  case Nil
  with assms have "all_roles iter p = []" using set_all_roles [of iter p] by auto
  with Nil show ?thesis by (simp add: or_role_map_def role_map_positions)
next
  case (Cons x xs')
  then have "positions xs \<noteq> []" by simp
  then obtain y ys where "positions xs = y # ys" unfolding neq_Nil_conv by blast
  then show ?thesis by (simp add: or_role_map_def)
qed

lemma build_None:
  assumes "iter_ok iter"
  shows "build_endorsement_policy pb iter None p =
    build_endorsement_policy pb iter (Some (positions (all_roles iter p))) p"
proof -
  have "or_role_map (Some (positions (all_roles iter p))) (role_map iter p) =
      or_role_map None (role_map iter p)"
    using or_role_map_sub [OF assms, of p "all_roles iter p"] assms
    by (simp add: set_all_roles or_role_map_def role_map_positions)
  then show ?thesis by (cases p) (simp only: build_endorsement_policy.simps)
qed

section \<open>The compiled policy\<close>

text \<open>The positions a signature policy refers to.\<close>

fun rule_refs :: "SignaturePolicy \<Rightarrow> int set" where
  "rule_refs (SignedBy i) = {i}"
| "rule_refs (NOutOf n rules) = \<Union> (rule_refs ` set rules)"

definition role_rule :: "runtime \<Rightarrow> (EndorsementPolicyRole \<times> nat) list \<Rightarrow>
    EndorsementPolicyRole \<Rightarrow> SignaturePolicy result" where
  "role_rule pb rmap r = bind_res (lookup_role rmap r) (\<lambda>idx.
     bind_res (pb_int32 pb (int idx)) (\<lambda>i. Inr (SignedBy i)))"

lemma build_positions:
  assumes "iter_ok iter" "mentioned (EndorsementPolicy e n rs subs) \<subseteq> set xs"
  shows "build_endorsement_policy pb iter (Some (positions xs)) (EndorsementPolicy e n rs subs) =
    bind_res (n_out_of (EndorsementPolicy e n rs subs)) (\<lambda>k.
    bind_res (map_res (role_rule pb (positions xs)) rs) (\<lambda>by_role.
    bind_res (map_res (build_endorsement_policy pb iter (Some (positions xs))) subs) (\<lambda>by_sub.
    bind_res (pb_int32 pb k) (\<lambda>k'. Inr (NOutOf k' (by_role @ by_sub))))))"
  by (simp only: build_endorsement_policy.simps or_role_map_sub [OF assms] Let_def role_rule_def [abs_def])

lemma role_rule_Inr:
  assumes "runtime_ok pb" "distinct xs" "role_rule pb (positions xs) r = Inr sp"
  shows "\<exists>i < length xs. xs ! i = r \<and> sp = SignedBy (int i)"
  using assms by (auto simp: role_rule_def lookup_positions int32_Inr_iff)

lemma build_refines:
  assumes "runtime_ok pb" "iter_ok iter" "distinct xs"
    and W: "\<And>i. i < length xs \<Longrightarrow> W (int i) = V (xs ! i)"
  shows "build_endorsement_policy pb iter (Some (positions xs)) p = Inr sp \<Longrightarrow>
    mentioned p \<subseteq> set xs \<Longrightarrow>
    signature_sat W sp = policy_sat V p \<and> rule_refs sp \<subseteq> int ` {..<length xs}"
proof (induction p arbitrary: sp)
  case (EndorsementPolicy e n rs subs)
  note sub = subset_trans [OF mentioned_sub' EndorsementPolicy.prems(2)]
  obtain k rules1 rules2 where
    k: "n_out_of (EndorsementPolicy e n rs subs) = Inr k" and
    r1: "map_res (role_rule pb (positions xs)) rs = Inr rules1" and
    r2: "map_res (build_endorsement_policy pb iter (Some (positions xs))) subs = Inr rules2" and
    sp: "sp = NOutOf k (rules1 @ rules2)"
    using EndorsementPolicy.prems(1) assms(1)
    unfolding build_positions [OF assms(2) EndorsementPolicy.prems(2)] by (auto simp: int32_Inr_iff)
  have roles: "map (signature_sat W) rules1 = map V rs \<and> \<Union> (rule_refs ` set rules1) \<subseteq> int ` {..<length xs}"
    using r1 unfolding map_res_Inr_iff
  proof (induction rule: list_all2_induct)
    case (Cons r rs' rule rules')
    then obtain i where "i < length xs" "xs ! i = r" "rule = SignedBy (int i)"
      using role_rule_Inr [OF assms(1,3)] by blast
    with Cons W show ?case by simp
  qed simp
  have subs: "map (signature_sat W) rules2 = map (policy_sat V) subs \<and>
      \<Union> (rule_refs ` set rules2) \<subseteq> int ` {..<length xs}"
  proof -
    have "list_all2 (\<lambda>p rule. p \<in> set subs \<and>
        build_endorsement_policy pb iter (Some (positions xs)) p = Inr rule) subs rules2"
      using r2 unfolding map_res_Inr_iff by (auto simp: list_all2_conv_all_nth)
    then show ?thesis
    proof (induction rule: list_all2_induct)
      case (Cons p ps rule rules')
      then have "signature_sat W rule = policy_sat V p \<and> rule_refs rule \<subseteq> int ` {..<length xs}"
        using EndorsementPolicy.IH [of p rule] sub by blast
      with Cons.IH show ?case by simp
    qed simp
  qed
  define bs where "bs = map V rs @ map (policy_sat V) subs"
  have "signature_sat W sp \<longleftrightarrow> k \<le> count_true bs"
    using roles subs by (simp add: sp bs_def)
  also have "\<dots> \<longleftrightarrow> policy_sat V (EndorsementPolicy e n rs subs)"
  proof (cases e)
    case (PolicyExpr x)
    show ?thesis
    proof (cases x)
      case And
      then have "k = int (length bs)" using k PolicyExpr by (simp add: bs_def)
      with count_true_all [of bs] have "k \<le> count_true bs \<longleftrightarrow> (\<forall>b \<in> set bs. b)" by simp
      then show ?thesis using And PolicyExpr by (auto simp: bs_def)
    next
      case Or
      then have "k = 1" using k PolicyExpr by simp
      with count_true_any [of bs] have "k \<le> count_true bs \<longleftrightarrow> (\<exists>b \<in> set bs. b)" by simp
      then show ?thesis using Or PolicyExpr by (auto simp: bs_def)
    next
      case OutOf
      then show ?thesis using k PolicyExpr by (auto simp: bs_def split: option.splits if_splits)
    qed
  qed (use k in simp)
  finally show ?case using roles subs by (simp add: sp)
qed

section \<open>What an envelope demands\<close>

text \<open>
  The meaning of a signature policy envelope to those who verify it: a position is
  satisfied when the identity it points to is a role principal whose \<open>MSPRole\<close> is. \<open>V\<close>
  tells which MSP roles have signed.
\<close>

definition principal_sat :: "runtime \<Rightarrow> (MSPRole \<Rightarrow> bool) \<Rightarrow> MSPPrincipal \<Rightarrow> bool" where
  "principal_sat pb V m \<longleftrightarrow>
    mpr_principal_classification m = MSPPrincipal_ROLE \<and>
    (case des (pb_MSPRole pb) (mpr_principal m) of None \<Rightarrow> False | Some mr \<Rightarrow> V mr)"

definition envelope_sat :: "runtime \<Rightarrow> (MSPRole \<Rightarrow> bool) \<Rightarrow> SignaturePolicyEnvelope \<Rightarrow> bool" where
  "envelope_sat pb V env = signature_sat
    (\<lambda>i. 0 \<le> i \<and> i < int (length (spe_identities env)) \<and>
         principal_sat pb V (spe_identities env ! nat i)) (spe_rule env)"

definition role_sat :: "(pystr \<Rightarrow> pystr) \<Rightarrow> (MSPRole \<Rightarrow> bool) \<Rightarrow> EndorsementPolicyRole \<Rightarrow> bool" where
  "role_sat uni V r =
    (case enum_Value MSPRole_MSPRoleType (py_upper uni (role_role r)) of
       Inl e \<Rightarrow> False
     | Inr v \<Rightarrow> V \<lparr>mr_msp_identifier = role_msp r, mr_role = v\<rparr>)"

lemma role_principal_sat:
  assumes "runtime_ok pb" "role_principal pb uni r = Inr m"
  shows "principal_sat pb V m = role_sat uni V r"
proof -
  from assms(1) have "\<And>mr. des (pb_MSPRole pb) (ser (pb_MSPRole pb) mr) = Some mr"
    using runtime_okD(18) [OF assms(1)] unfolding coder_ok_def by blast
  with assms(2) show ?thesis by (auto simp: role_principal_def principal_sat_def role_sat_def)
qed

text \<open>
  C7. Compilation keeps the meaning of a policy: for every set of MSP roles that signed, the
  envelope built from a policy accepts it exactly when the policy does. Its rule refers
  only to identities that are there, and its identities are the principals of the roles
  the policy mentions anywhere, each once and sorted by \<open>msp.role\<close>.
\<close>

theorem build_signature_policy_envelope_refines:
  assumes "runtime_ok pb" "iter_ok iter"
    and "build_signature_policy_envelope pb uni iter p = Inr env"
  shows "envelope_sat pb V env = policy_sat (role_sat uni V) p \<and>
    rule_refs (spe_rule env) \<subseteq> int ` {..<length (spe_identities env)} \<and>
    (\<exists>rs. distinct rs \<and> set rs = mentioned p \<and> sorted (map role_key rs) \<and>
       map_res (role_principal pb uni) rs = Inr (spe_identities env))"
proof -
  let ?rs = "all_roles iter p"
  from assms(3) have rule: "build_endorsement_policy pb iter None p = Inr (spe_rule env)"
    and ids: "map_res (role_principal pb uni) ?rs = Inr (spe_identities env)"
    unfolding build_signature_policy_envelope_def by auto
  have rs: "distinct ?rs" "set ?rs = mentioned p" "sorted (map role_key ?rs)"
    using assms(2) distinct_all_roles set_all_roles sorted_all_roles by blast+
  have len: "length (spe_identities env) = length ?rs" using ids by (rule map_res_length)
  define W where "W = (\<lambda>i. 0 \<le> i \<and> i < int (length (spe_identities env)) \<and>
    principal_sat pb V (spe_identities env ! nat i))"
  have "W (int i) = role_sat uni V (?rs ! i)" if "i < length ?rs" for i
  proof -
    from ids that have "role_principal pb uni (?rs ! i) = Inr (spe_identities env ! i)"
      unfolding map_res_Inr_iff by (simp add: list_all2_conv_all_nth)
    with that len show ?thesis by (simp add: W_def role_principal_sat [OF assms(1)])
  qed
  with build_refines [OF assms(1,2) rs(1), of W] rule rs(2) len
  have "signature_sat W (spe_rule env) = policy_sat (role_sat uni V) p \<and>
      rule_refs (spe_rule env) \<subseteq> int ` {..<length (spe_identities env)}"
    unfolding build_None [OF assms(2)] by simp
  then show ?thesis using rs ids unfolding envelope_sat_def W_def by blast
qed

section \<open>Which policies compile\<close>

fun policy_ok :: "EndorsementPolicy \<Rightarrow> bool" where
  "policy_ok (EndorsementPolicy e n rs subs) =
    ((case n_out_of (EndorsementPolicy e n rs subs) of
        Inl err \<Rightarrow> False | Inr k \<Rightarrow> - (2 ^ 31) \<le> k \<and> k < 2 ^ 31) \<and>
     (\<forall>p \<in> set subs. policy_ok p))"

lemma map_res_ex_iff: "(\<exists>ys. map_res f xs = Inr ys) \<longleftrightarrow> (\<forall>x \<in> set xs. \<exists>y. f x = Inr y)"
proof (induction xs)
  case (Cons x xs)
  then show ?case by (cases "f x"; cases "map_res f xs") auto
qed simp

lemma role_rule_total:
  assumes "runtime_ok pb" "distinct xs" "length xs \<le> 2 ^ 31" "r \<in> set xs"
  shows "\<exists>sp. role_rule pb (positions xs) r = Inr sp"
proof -
  obtain i where i: "i < length xs" "lookup_role (positions xs) r = Inr i"
    using lookup_positions_ex [OF assms(2,4)] by blast
  with assms(3) have "i < 2 ^ 31" by simp
  then have "int i < 2 ^ 31" by simp
  then have "pb_int32 pb (int i) = Inr (int i)"
    using runtime_okD(25) [OF assms(1)] by (simp add: int32_Inr_iff)
  with i show ?thesis by (simp add: role_rule_def)
qed

lemma build_total_iff:
  assumes "runtime_ok pb" "iter_ok iter" "distinct xs" "length xs \<le> 2 ^ 31"
  shows "mentioned p \<subseteq> set xs \<Longrightarrow>
    (\<exists>sp. build_endorsement_policy pb iter (Some (positions xs)) p = Inr sp) \<longleftrightarrow> policy_ok p"
proof (induction p)
  case (EndorsementPolicy e n rs subs)
  note sub = subset_trans [OF mentioned_sub' EndorsementPolicy.prems]
  have "\<exists>ys. map_res (role_rule pb (positions xs)) rs = Inr ys"
    unfolding map_res_ex_iff using EndorsementPolicy.prems role_rule_total [OF assms(1,3,4)] by auto
  then obtain ys where ys: "map_res (role_rule pb (positions xs)) rs = Inr ys" ..
  have "(\<exists>zs. map_res (build_endorsement_policy pb iter (Some (positions xs))) subs = Inr zs) \<longleftrightarrow>
      (\<forall>p \<in> set subs. policy_ok p)"
    unfolding map_res_ex_iff using EndorsementPolicy.IH sub by blast
  moreover have "(\<exists>k'. pb_int32 pb k = Inr k') \<longleftrightarrow> - (2 ^ 31) \<le> k \<and> k < 2 ^ 31" for k
    using runtime_okD(25) [OF assms(1)] by (simp add: int32_Inr_iff)
  ultimately show ?case
    unfolding build_positions [OF assms(2) EndorsementPolicy.prems]
    by (cases "n_out_of (EndorsementPolicy e n rs subs)") (auto simp: ys)
qed

lemma role_principal_total_iff:
  "(\<exists>m. role_principal pb uni r = Inr m) \<longleftrightarrow>
    (\<exists>v. enum_Value MSPRole_MSPRoleType (py_upper uni (role_role r)) = Inr v)"
  by (auto simp: role_principal_def)

text \<open>
  C35. A policy compiles exactly when each of its expressions is one of And, Or and OutOf, each
  OutOf has a non-zero threshold, the thresholds fit 32 bits and each role it mentions
  names an \<open>MSPRoleType\<close> in upper case; the roles are at most \<open>2 ^ 31\<close>.
\<close>

theorem build_signature_policy_envelope_total_iff:
  assumes "runtime_ok pb" "iter_ok iter" "card (mentioned p) \<le> 2 ^ 31"
  shows "(\<exists>env. build_signature_policy_envelope pb uni iter p = Inr env) \<longleftrightarrow>
    policy_ok p \<and> (\<forall>r \<in> mentioned p.
      \<exists>v. enum_Value MSPRole_MSPRoleType (py_upper uni (role_role r)) = Inr v)"
proof -
  have rs: "distinct (all_roles iter p)" "set (all_roles iter p) = mentioned p"
    using assms(2) distinct_all_roles set_all_roles by blast+
  with assms(3) have "length (all_roles iter p) \<le> 2 ^ 31" by (metis distinct_card)
  from build_total_iff [OF assms(1,2) rs(1) this, of p] rs(2)
  have "(\<exists>sp. build_endorsement_policy pb iter None p = Inr sp) \<longleftrightarrow> policy_ok p"
    unfolding build_None [OF assms(2)] by simp
  moreover have "(\<exists>ids. map_res (role_principal pb uni) (all_roles iter p) = Inr ids) \<longleftrightarrow>
      (\<forall>r \<in> mentioned p. \<exists>v. enum_Value MSPRole_MSPRoleType (py_upper uni (role_role r)) = Inr v)"
    unfolding map_res_ex_iff rs(2) role_principal_total_iff ..
  ultimately show ?thesis unfolding build_signature_policy_envelope_def by (simp, blast)
qed

text \<open>A policy the theorems are applied to: two of a member, a peer and an admin.\<close>

definition example_role :: "string \<Rightarrow> string \<Rightarrow> EndorsementPolicyRole" where
  "example_role m r = \<lparr>role_msp = lit m, role_role = lit r\<rparr>"

definition example_policy :: EndorsementPolicy where
  "example_policy = EndorsementPolicy (PolicyExpr OutOf) (Some 2)
    [example_role ''Org2'' ''member'', example_role ''Org1'' ''peer'']
    [EndorsementPolicy (PolicyExpr Or) None [example_role ''Org1'' ''admin'', example_role ''Org1'' ''peer''] []]"

lemma iter_ok_remdups: "iter_ok remdups"
  by (simp add: iter_ok_def)

lemma example_policy_roles:
  "all_roles remdups example_policy =
    [example_role ''Org1'' ''admin'', example_role ''Org1'' ''peer'', example_role ''Org2'' ''member'']"
  by (simp add: example_policy_def example_role_def role_key_def)

theorem build_signature_policy_envelope_total_iff_witness:
  "card (mentioned example_policy) \<le> 2 ^ 31 \<and>
   (\<exists>env. build_signature_policy_envelope reference_runtime id remdups example_policy = Inr env)"
proof -
  have r: "mentioned example_policy = set (all_roles remdups example_policy)"
    by (simp add: set_all_roles iter_ok_remdups)
  then have c: "card (mentioned example_policy) \<le> 2 ^ 31"
    using card_length [of "all_roles remdups example_policy"] unfolding example_policy_roles by simp
  have "policy_ok example_policy" by (simp add: example_policy_def)
  moreover have "\<forall>r \<in> mentioned example_policy.
      \<exists>v. enum_Value MSPRole_MSPRoleType (py_upper id (role_role r)) = Inr v"
    unfolding r example_policy_roles
    by (simp add: example_role_def py_upper_def ascii_def enum_Value_def MSPRole_MSPRoleType_def)
  ultimately show ?thesis
    using build_signature_policy_envelope_total_iff [OF reference_runtime_ok iter_ok_remdups c] c by blast
qed

theorem build_signature_policy_envelope_refines_witness:
  "\<exists>env. build_signature_policy_envelope reference_runtime id remdups example_policy = Inr env \<and>
    length (spe_identities env) = 3 \<and>
    envelope_sat reference_runtime (\<lambda>mr. mr_msp_identifier mr = lit ''Org1'') env \<and>
    \<not> envelope_sat reference_runtime (\<lambda>mr. mr_msp_identifier mr = lit ''Org2'') env"
proof -
  let ?rs = "all_roles remdups example_policy"
  have "policy_ok example_policy" by (simp add: example_policy_def)
  moreover have "distinct ?rs" "mentioned example_policy \<subseteq> set ?rs" "length ?rs \<le> 2 ^ 31"
    by (simp_all add: distinct_all_roles set_all_roles iter_ok_remdups)
      (simp add: example_policy_roles)
  ultimately have "\<exists>sp. build_endorsement_policy reference_runtime remdups None example_policy = Inr sp"
    unfolding build_None [OF iter_ok_remdups]
    using build_total_iff [OF reference_runtime_ok iter_ok_remdups] by blast
  moreover have "\<exists>ids. map_res (role_principal reference_runtime id) ?rs = Inr ids"
    unfolding map_res_ex_iff role_principal_total_iff example_policy_roles
    by (simp add: example_role_def py_upper_def ascii_def enum_Value_def MSPRole_MSPRoleType_def)
  moreover have "length ids = 3" if "map_res (role_principal reference_runtime id) ?rs = Inr ids" for ids
    using map_res_length [OF that] by (simp add: example_policy_roles)
  ultimately obtain env where env: "build_signature_policy_envelope reference_runtime id remdups example_policy = Inr env"
    "length (spe_identities env) = 3"
    by (auto simp: build_signature_policy_envelope_def)
  have "policy_sat (role_sat id (\<lambda>mr. mr_msp_identifier mr = lit ''Org1'')) example_policy"
    "\<not> policy_sat (role_sat id (\<lambda>mr. mr_msp_identifier mr = lit ''Org2'')) example_policy"
    by (simp_all add: example_policy_def role_sat_def example_role_def py_upper_def ascii_def
        enum_Value_def MSPRole_MSPRoleType_def)
  with env build_signature_policy_envelope_refines [OF reference_runtime_ok iter_ok_remdups env(1)]
  show ?thesis by blast
qed

end
