(* ===== verification/Effects.thy ===== *)
theory Effects
  imports Errors Policies
begin

text \<open>
  Effects. An operation of the code takes the trace of what happened so far to an outcome
  and the longer trace: it returns, raises, or waits forever (\<open>Blocked\<close>). The world the
  code runs in is the record \<open>sys\<close> of parameters: the protobuf runtime, the clock, files,
  and the peers and orderers, whose answers may depend on everything that happened before.
  Random draws (nonces, signature nonces) take the number of past events as their seed.
\<close>

section \<open>Events and the world\<close>

text \<open>The three ways to have blocks delivered: \<open>Deliver\<close> and \<open>DeliverFiltered\<close> of a peer
  and \<open>Deliver\<close> of an orderer.\<close>

datatype deliver_method =
    PeerDeliver Peer
  | PeerDeliverFiltered Peer
  | OrdererDeliver Orderer

datatype event =
    NonceDrawn bytes
  | ClockRead
  | SignDrawn bytes
  | ProposalSent Peer SignedProposal
  | EnvelopeBroadcast Orderer Envelope
  | DeliverRequested deliver_method Envelope
  | FileRead pystr

type_synonym trace = "event list"

datatype 'a outcome = Returned 'a | Raised exn | Blocked

type_synonym 'a io = "trace \<Rightarrow> 'a outcome \<times> trace"

text \<open>
  A response stream: messages with the milliseconds since the previous one, and how it goes
  on after the last: it closes, fails or stays open without another message.
\<close>

datatype stream_end = Closed | Failed exn | Pending

type_synonym 'a stream = "(nat \<times> 'a) list \<times> nat \<times> stream_end"

record sys =
  sys_pb :: runtime
  sys_uni :: "pystr \<Rightarrow> pystr"
  sys_iter :: set_iter
  sys_fs :: "pystr \<Rightarrow> bytes result"
  sys_sha256 :: "bytes \<Rightarrow> bytes"
  sys_clock :: "trace \<Rightarrow> Timestamp"
  sys_ProcessProposal :: "trace \<Rightarrow> Peer \<Rightarrow> SignedProposal \<Rightarrow> ProposalResponse outcome"
  sys_completion_order :: "trace \<Rightarrow> nat list"
  sys_Broadcast :: "trace \<Rightarrow> Orderer \<Rightarrow> Envelope \<Rightarrow> BroadcastResponse stream"
  sys_Deliver :: "trace \<Rightarrow> deliver_method \<Rightarrow> Envelope \<Rightarrow> DeliverResponse stream"

section \<open>Combinators\<close>

definition return_io :: "'a \<Rightarrow> 'a io" where
  "return_io x = (\<lambda>tr. (Returned x, tr))"

definition raise_io :: "exn \<Rightarrow> 'a io" where
  "raise_io e = (\<lambda>tr. (Raised e, tr))"

definition block_io :: "'a io" where
  "block_io = (\<lambda>tr. (Blocked, tr))"

definition bind_io :: "'a io \<Rightarrow> ('a \<Rightarrow> 'b io) \<Rightarrow> 'b io" where
  "bind_io m f = (\<lambda>tr. case m tr of (oc, tr') \<Rightarrow>
     (case oc of
        Returned x \<Rightarrow> f x tr'
      | Raised e \<Rightarrow> (Raised e, tr')
      | Blocked \<Rightarrow> (Blocked, tr')))"

text \<open>\<open>try: m except e: h(e)\<close>; a handler that does not match raises the exception again.\<close>

definition try_io :: "'a io \<Rightarrow> (exn \<Rightarrow> 'a io) \<Rightarrow> 'a io" where
  "try_io m h = (\<lambda>tr. case m tr of (oc, tr') \<Rightarrow>
     (case oc of
        Returned x \<Rightarrow> (Returned x, tr')
      | Raised e \<Rightarrow> h e tr'
      | Blocked \<Rightarrow> (Blocked, tr')))"

fun lift_exn :: "exn + 'a \<Rightarrow> 'a io" where
  "lift_exn (Inl e) = raise_io e"
| "lift_exn (Inr x) = return_io x"

fun lift_res :: "'a result \<Rightarrow> 'a io" where
  "lift_res (Inl e) = raise_io (Py e)"
| "lift_res (Inr x) = return_io x"

definition guard_io :: "bool \<Rightarrow> py_error \<Rightarrow> unit io" where
  "guard_io c e = lift_res (require c e)"

definition emit :: "event \<Rightarrow> unit io" where
  "emit e = (\<lambda>tr. (Returned (), tr @ [e]))"

text \<open>A random draw: the operation gets the number of past events as its seed.\<close>

definition with_seed :: "(nat \<Rightarrow> 'a io) \<Rightarrow> 'a io" where
  "with_seed f = (\<lambda>tr. f (length tr) tr)"

text \<open>The context manager of \<open>errors.py\<close>.\<close>

definition handle_conn_errors :: "'a io \<Rightarrow> 'a io" where
  "handle_conn_errors m = try_io m (\<lambda>e. raise_io (conn_error e))"

lemma io_eval [result_simps]:
  "return_io x tr = (Returned x, tr)"
  "raise_io e tr = (Raised e, tr)"
  "emit v tr = (Returned (), tr @ [v])"
  by (simp_all add: return_io_def raise_io_def emit_def)

lemma bind_io_eval [result_simps]:
  "m tr = (Returned x, tr') \<Longrightarrow> bind_io m f tr = f x tr'"
  "m tr = (Raised e, tr') \<Longrightarrow> bind_io m f tr = (Raised e, tr')"
  "m tr = (Blocked, tr') \<Longrightarrow> bind_io m f tr = (Blocked, tr')"
  by (simp_all add: bind_io_def)

lemma try_io_eval [result_simps]:
  "m tr = (Returned x, tr') \<Longrightarrow> try_io m h tr = (Returned x, tr')"
  "m tr = (Raised e, tr') \<Longrightarrow> try_io m h tr = h e tr'"
  "m tr = (Blocked, tr') \<Longrightarrow> try_io m h tr = (Blocked, tr')"
  by (simp_all add: try_io_def)

section \<open>Monad laws\<close>

lemma bind_return [simp]: "bind_io (return_io x) f = f x"
  by (rule ext) (simp add: bind_io_def return_io_def)

lemma bind_raise [simp]: "bind_io (raise_io e) f = raise_io e"
  by (rule ext) (simp add: bind_io_def raise_io_def)

lemma bind_io_return [simp]: "bind_io m return_io = m"
  by (rule ext) (simp add: bind_io_def return_io_def split: prod.split outcome.split)

lemma bind_io_assoc: "bind_io (bind_io m f) g = bind_io m (\<lambda>x. bind_io (f x) g)"
  by (rule ext) (simp add: bind_io_def split: prod.split outcome.split)

lemma try_return [simp]: "try_io (return_io x) h = return_io x"
  by (rule ext) (simp add: try_io_def return_io_def)

lemma try_raise [simp]: "try_io (raise_io e) h = h e"
  by (rule ext) (simp add: try_io_def raise_io_def)

lemma guard_io_simps [simp]:
  "guard_io True e = return_io ()" "guard_io False e = raise_io (Py e)"
  by (simp_all add: guard_io_def)

lemma guard_io_bind: "bind_io (guard_io c e) f = (if c then f () else raise_io (Py e))"
  by (cases c) simp_all

section \<open>Outcomes of composed operations\<close>

lemma bind_Returned_iff:
  "bind_io m f tr = (Returned y, tr'') \<longleftrightarrow>
    (\<exists>x tr'. m tr = (Returned x, tr') \<and> f x tr' = (Returned y, tr''))"
  by (cases "m tr"; cases "fst (m tr)") (auto simp: bind_io_def)

lemma bind_Raised_iff:
  "bind_io m f tr = (Raised e, tr'') \<longleftrightarrow> m tr = (Raised e, tr'') \<or>
    (\<exists>x tr'. m tr = (Returned x, tr') \<and> f x tr' = (Raised e, tr''))"
  by (cases "m tr"; cases "fst (m tr)") (auto simp: bind_io_def)

lemma try_Returned_iff:
  "try_io m h tr = (Returned y, tr'') \<longleftrightarrow> m tr = (Returned y, tr'') \<or>
    (\<exists>e tr'. m tr = (Raised e, tr') \<and> h e tr' = (Returned y, tr''))"
  by (cases "m tr"; cases "fst (m tr)") (auto simp: try_io_def)

lemma return_Returned_iff [simp]: "return_io x tr = (Returned y, tr') \<longleftrightarrow> y = x \<and> tr' = tr"
  by (auto simp: return_io_def)

lemma return_not_Raised [simp]: "return_io x tr \<noteq> (Raised e, tr')"
  by (simp add: return_io_def)

lemma raise_not_Returned [simp]: "raise_io e tr \<noteq> (Returned y, tr')"
  by (simp add: raise_io_def)

lemma raise_Raised_iff [simp]: "raise_io e tr = (Raised e', tr') \<longleftrightarrow> e' = e \<and> tr' = tr"
  by (auto simp: raise_io_def)

lemma block_io_iff [simp]:
  "block_io tr \<noteq> (Returned x, tr')" "block_io tr \<noteq> (Raised e, tr')"
  by (simp_all add: block_io_def)

lemma emit_Returned_iff [simp]: "emit v tr = (Returned u, tr') \<longleftrightarrow> tr' = tr @ [v]"
  by (auto simp: emit_def)

lemma emit_not_Raised [simp]: "emit v tr \<noteq> (Raised e, tr')"
  by (simp add: emit_def)

lemma lift_res_Returned_iff [simp]:
  "lift_res r tr = (Returned x, tr') \<longleftrightarrow> r = Inr x \<and> tr' = tr"
  by (cases r) auto

lemma lift_res_Raised_iff [simp]:
  "lift_res r tr = (Raised e, tr') \<longleftrightarrow> (\<exists>p. r = Inl p \<and> e = Py p) \<and> tr' = tr"
  by (cases r) auto

lemma lift_exn_Returned_iff [simp]:
  "lift_exn r tr = (Returned x, tr') \<longleftrightarrow> r = Inr x \<and> tr' = tr"
  by (cases r) auto

lemma lift_exn_Raised_iff [simp]:
  "lift_exn r tr = (Raised e, tr') \<longleftrightarrow> r = Inl e \<and> tr' = tr"
  by (cases r) auto

lemma guard_Returned_iff [simp]: "guard_io c e tr = (Returned u, tr') \<longleftrightarrow> c \<and> tr' = tr"
  by (cases c) auto

lemma guard_Raised_iff [simp]: "guard_io c e tr = (Raised x, tr') \<longleftrightarrow> \<not> c \<and> x = Py e \<and> tr' = tr"
  by (cases c) auto

lemma with_seed_iff [simp]: "with_seed f tr = r \<longleftrightarrow> f (length tr) tr = r"
  by (simp add: with_seed_def)

lemmas returned_simps = bind_Returned_iff try_Returned_iff

lemma handle_conn_errors_Returned_iff [simp]:
  "handle_conn_errors m tr = (Returned x, tr') \<longleftrightarrow> m tr = (Returned x, tr')"
  by (simp add: handle_conn_errors_def try_Returned_iff)

lemma handle_conn_errors_Raised_iff:
  "handle_conn_errors m tr = (Raised e, tr') \<longleftrightarrow> (\<exists>e'. m tr = (Raised e', tr') \<and> e = conn_error e')"
  by (cases "m tr"; cases "fst (m tr)") (auto simp: handle_conn_errors_def try_io_def)

lemma handle_conn_errors_Blocked_iff [simp]:
  "handle_conn_errors m tr = (Blocked, tr') \<longleftrightarrow> m tr = (Blocked, tr')"
  by (cases "m tr"; cases "fst (m tr)") (auto simp: handle_conn_errors_def try_io_def raise_io_def)

section \<open>What an operation does to the trace\<close>

text \<open>
  \<open>emits P m\<close>: whatever the outcome, \<open>m\<close> only appends to the trace, and only events that
  satisfy \<open>P\<close>.
\<close>

named_theorems emits_intros \<open>which events the operations of the code append\<close>

definition emits :: "(event \<Rightarrow> bool) \<Rightarrow> 'a io \<Rightarrow> bool" where
  "emits P m \<longleftrightarrow> (\<forall>tr. \<exists>evs. snd (m tr) = tr @ evs \<and> list_all P evs)"

lemma emitsD:
  assumes "emits P m" "m tr = (oc, tr')"
  obtains evs where "tr' = tr @ evs" "list_all P evs"
  using assms unfolding emits_def by (metis snd_conv)

lemma emits_I: "(\<And>oc tr tr'. m tr = (oc, tr') \<Longrightarrow> \<exists>evs. tr' = tr @ evs \<and> list_all P evs) \<Longrightarrow> emits P m"
  unfolding emits_def by (metis prod.collapse)

lemma emits_return [emits_intros]: "emits P (return_io x)"
  by (simp add: emits_def return_io_def)

lemma emits_raise [emits_intros]: "emits P (raise_io e)"
  by (simp add: emits_def raise_io_def)

lemma emits_block [emits_intros]: "emits P block_io"
  by (simp add: emits_def block_io_def)

lemma emits_lift_res [emits_intros]: "emits P (lift_res r)"
  by (cases r) (simp_all add: emits_return emits_raise)

lemma emits_lift_exn [emits_intros]: "emits P (lift_exn r)"
  by (cases r) (simp_all add: emits_return emits_raise)

lemma emits_guard [emits_intros]: "emits P (guard_io c e)"
  by (cases c) (simp_all add: emits_return emits_raise)

lemma emits_emit [emits_intros]: "P e \<Longrightarrow> emits P (emit e)"
  by (simp add: emits_def emit_def)

lemma emits_append:
  assumes "emits P m" "m tr = (oc, tr')" "emits P n" "n tr' = (oc', tr'')"
  shows "\<exists>evs. tr'' = tr @ evs \<and> list_all P evs"
proof -
  from assms(1,2) obtain evs where "tr' = tr @ evs" "list_all P evs" by (rule emitsD)
  moreover from assms(3,4) obtain evs' where "tr'' = tr' @ evs'" "list_all P evs'" by (rule emitsD)
  ultimately have "tr'' = tr @ (evs @ evs') \<and> list_all P (evs @ evs')" by simp
  then show ?thesis by blast
qed

lemma emits_bind [emits_intros]:
  assumes m: "emits P m" and f: "\<And>x. emits P (f x)"
  shows "emits P (bind_io m f)"
proof (rule emits_I)
  fix oc tr tr''
  assume run: "bind_io m f tr = (oc, tr'')"
  obtain oc' tr' where m': "m tr = (oc', tr')" by fastforce
  show "\<exists>evs. tr'' = tr @ evs \<and> list_all P evs"
  proof (cases oc')
    case (Returned x)
    with run m' have "f x tr' = (oc, tr'')" by (simp add: bind_io_def)
    with emits_append [OF m m' f] show ?thesis by blast
  qed (use run m' emitsD [OF m m'] in \<open>auto simp: bind_io_def\<close>)
qed

lemma emits_try [emits_intros]:
  assumes m: "emits P m" and h: "\<And>e. emits P (h e)"
  shows "emits P (try_io m h)"
proof (rule emits_I)
  fix oc tr tr''
  assume run: "try_io m h tr = (oc, tr'')"
  obtain oc' tr' where m': "m tr = (oc', tr')" by fastforce
  show "\<exists>evs. tr'' = tr @ evs \<and> list_all P evs"
  proof (cases oc')
    case (Raised e)
    with run m' have "h e tr' = (oc, tr'')" by (simp add: try_io_def)
    with emits_append [OF m m' h] show ?thesis by blast
  qed (use run m' emitsD [OF m m'] in \<open>auto simp: try_io_def\<close>)
qed

lemma emits_with_seed [emits_intros]: "(\<And>n. emits P (f n)) \<Longrightarrow> emits P (with_seed f)"
  by (simp add: emits_def with_seed_def)

lemma emits_conn [emits_intros]: "emits P m \<Longrightarrow> emits P (handle_conn_errors m)"
  unfolding handle_conn_errors_def by (intro emits_try emits_raise)

lemma emits_if [emits_intros]: "emits P m \<Longrightarrow> emits P n \<Longrightarrow> emits P (if c then m else n)"
  by simp

lemma emits_mono: "emits P m \<Longrightarrow> (\<And>e. P e \<Longrightarrow> Q e) \<Longrightarrow> emits Q m"
  unfolding emits_def by (metis list.pred_mono_strong)

text \<open>An operation that only appends events outside \<open>Q\<close> leaves the events in \<open>Q\<close> as they were.\<close>

lemma emits_filter:
  assumes "emits P m" "m tr = (oc, tr')" "\<And>e. P e \<Longrightarrow> \<not> Q e"
  shows "filter Q tr' = filter Q tr"
proof -
  from assms(1,2) obtain evs where "tr' = tr @ evs" "list_all P evs" by (rule emitsD)
  moreover from this assms(3) have "filter Q evs = []" by (auto simp: list_all_iff filter_empty_conv)
  ultimately show ?thesis by simp
qed

section \<open>Gathering\<close>

text \<open>
  \<open>asyncio.gather\<close>: all operations are started in order; if all return, so does the gather,
  with their values in that order, and otherwise the exception that comes first in the
  order in which they complete is raised. The completion order is a parameter \<open>cord\<close>, a
  list of positions; what it does not list completes last.
\<close>

fun raised_of :: "'a outcome \<Rightarrow> exn option" where
  "raised_of (Raised e) = Some e"
| "raised_of _ = None"

fun all_returned :: "'a outcome list \<Rightarrow> 'a list option" where
  "all_returned [] = Some []"
| "all_returned (Returned x # os) = map_option (Cons x) (all_returned os)"
| "all_returned (_ # os) = None"

definition settle :: "nat list \<Rightarrow> 'a outcome list \<Rightarrow> 'a list outcome" where
  "settle cord os =
    (case all_returned os of
       Some xs \<Rightarrow> Returned xs
     | None \<Rightarrow>
         (case List.map_filter raised_of (map (\<lambda>i. os ! i) (filter (\<lambda>i. i < length os) cord) @ os) of
            e # _ \<Rightarrow> Raised e
          | [] \<Rightarrow> Blocked))"

fun start_all :: "'a io list \<Rightarrow> trace \<Rightarrow> 'a outcome list \<times> trace" where
  "start_all [] tr = ([], tr)"
| "start_all (m # ms) tr =
    (case m tr of (oc, tr') \<Rightarrow> case start_all ms tr' of (ocs, tr'') \<Rightarrow> (oc # ocs, tr''))"

definition gather :: "(trace \<Rightarrow> nat list) \<Rightarrow> 'a io list \<Rightarrow> 'a list io" where
  "gather cord ms = (\<lambda>tr. case start_all ms tr of (ocs, tr') \<Rightarrow> (settle (cord tr') ocs, tr'))"

lemma all_returned_iff: "all_returned os = Some xs \<longleftrightarrow> os = map Returned xs"
proof (induction os arbitrary: xs)
  case (Cons oc os)
  then show ?case by (cases oc; cases xs) auto
qed auto

lemma settle_Returned_iff: "settle cord os = Returned xs \<longleftrightarrow> os = map Returned xs"
  unfolding settle_def all_returned_iff [symmetric] by (auto split: option.splits list.splits)

lemma raised_of_Some_iff [simp]: "raised_of oc = Some e \<longleftrightarrow> oc = Raised e"
  by (cases oc) auto

lemma settle_Raised_D:
  assumes "settle cord os = Raised e"
  shows "Raised e \<in> set os"
proof -
  let ?L = "map (\<lambda>i. os ! i) (filter (\<lambda>i. i < length os) cord) @ os"
  from assms obtain es where es: "List.map_filter raised_of ?L = e # es"
    unfolding settle_def by (auto split: option.splits list.splits)
  have "\<exists>oc \<in> set L. raised_of oc = Some x" if "x \<in> set (List.map_filter raised_of L)"
    for L :: "'a outcome list" and x
    using that by (auto simp: List.map_filter_def)
  from this [of e ?L] es have "Raised e \<in> set ?L" by simp
  then show ?thesis by (auto simp: in_set_conv_nth)
qed

lemma settle_Blocked_D:
  assumes "settle cord os = Blocked"
  shows "Blocked \<in> set os"
proof -
  have "List.map_filter raised_of xs = [] \<Longrightarrow> \<forall>oc \<in> set xs. \<forall>e. oc \<noteq> Raised e" for xs :: "'a outcome list"
    by (auto simp: List.map_filter_def filter_empty_conv)
  moreover from assms have "List.map_filter raised_of
      (map (\<lambda>i. os ! i) (filter (\<lambda>i. i < length os) cord) @ os) = []" "all_returned os = None"
    unfolding settle_def by (auto split: option.splits list.splits)
  ultimately have no: "\<forall>oc \<in> set os. \<forall>e. oc \<noteq> Raised e" by fastforce
  have "all_returned os = None \<Longrightarrow> \<exists>oc \<in> set os. \<forall>x. oc \<noteq> Returned x"
    by (induction os rule: all_returned.induct) auto
  with \<open>all_returned os = None\<close> obtain oc where "oc \<in> set os" "\<forall>x. oc \<noteq> Returned x" by blast
  with no show ?thesis by (cases oc) auto
qed

lemma start_all_length: "start_all ms tr = (ocs, tr') \<Longrightarrow> length ocs = length ms"
  by (induction ms arbitrary: tr ocs tr') (auto split: prod.splits)

lemma start_all_emits:
  "(\<And>m. m \<in> set ms \<Longrightarrow> emits P m) \<Longrightarrow> start_all ms tr = (ocs, tr') \<Longrightarrow>
    \<exists>evs. tr' = tr @ evs \<and> list_all P evs"
proof (induction ms arbitrary: tr ocs)
  case (Cons m ms)
  from Cons.prems(2) obtain oc tr1 ocs1 where run: "m tr = (oc, tr1)" "start_all ms tr1 = (ocs1, tr')"
    by (auto split: prod.splits)
  from Cons.prems(1) run(1) obtain e1 where "tr1 = tr @ e1" "list_all P e1"
    by (metis emitsD list.set_intros(1))
  moreover from Cons.IH [OF _ run(2)] Cons.prems(1)
  obtain e2 where "tr' = tr1 @ e2" "list_all P e2" by auto
  ultimately have "tr' = tr @ (e1 @ e2) \<and> list_all P (e1 @ e2)" by simp
  then show ?case by blast
qed simp

lemma emits_gather [emits_intros]:
  assumes "\<And>m. m \<in> set ms \<Longrightarrow> emits P m"
  shows "emits P (gather cord ms)"
proof (rule emits_I)
  fix oc tr tr'
  assume "gather cord ms tr = (oc, tr')"
  then obtain ocs where "start_all ms tr = (ocs, tr')" by (auto simp: gather_def split: prod.splits)
  with assms show "\<exists>evs. tr' = tr @ evs \<and> list_all P evs" by (rule start_all_emits)
qed

text \<open>
  Operations that send one event each and then have an outcome that depends on the trace.
\<close>

lemma start_all_send:
  "start_all (map (\<lambda>x tr. (f x tr, tr @ [g x])) xs) tr =
    (map (\<lambda>i. f (xs ! i) (tr @ map g (take i xs))) [0..<length xs], tr @ map g xs)"
proof (induction xs arbitrary: tr)
  case (Cons x xs)
  have "map (\<lambda>i. f ((x # xs) ! i) (tr @ map g (take i (x # xs)))) [0..<length (x # xs)] =
      f x tr # map (\<lambda>i. f (xs ! i) (tr @ g x # map g (take i xs))) [0..<length xs]"
    by (simp add: upt_conv_Cons map_Suc_upt [symmetric] del: upt_Suc)
  with Cons [of "tr @ [g x]"] show ?case by simp
qed simp

end
