(* ===== verification/Example_World.thy ===== *)
theory Example_World
  imports Effects
begin

text \<open>
  A small concrete world, used to show that the hypotheses of the theorems can hold: the
  reference runtime, a user whose suite counts its nonces and signs by prefixing a number, and peers
  and orderers that accept everything and report the transaction valid after 40 ms. Variants
  are record updates of it.
\<close>

definition example_suite :: crypto_suite where
  "example_suite =
    \<lparr>generate_nonce = (\<lambda>seed n. replicate n (of_nat seed)),
     hash_digest = (\<lambda>bs. [7]),
     sign_message = (\<lambda>seed k bs. Inr (of_nat seed # bs))\<rparr>"

definition example_user :: User where
  "example_user =
    \<lparr>msp_id = lit ''Org1'', user_name = None, cert_path = None, key_path = None,
     cert = Some [1], key = Some [2], user_suite = example_suite, private_key = Some (PrivateKey 5)\<rparr>"

definition example_peer :: "string \<Rightarrow> Peer" where
  "example_peer n =
    \<lparr>endpoint = lit n, ssl_target_name = None, tls_ca_cert_path = None, tls_ca_cert = None,
     client_cert_path = None, client_cert = None, client_key_path = None, client_key = None,
     grpc_channel = None, peer_name = Some (lit n)\<rparr>"

definition example_orderer :: "string \<Rightarrow> Orderer" where
  "example_orderer n =
    \<lparr>endpoint = lit n, ssl_target_name = None, tls_ca_cert_path = None, tls_ca_cert = None,
     client_cert_path = None, client_cert = None, client_key_path = None, client_key = None,
     grpc_channel = None, orderer_name = Some (lit n)\<rparr>"

definition example_channel :: Channel where
  "example_channel = \<lparr>channel_name = lit ''mychannel''\<rparr>"

definition filtered_tx :: "string \<Rightarrow> int \<Rightarrow> FilteredTransaction" where
  "filtered_tx tx_id code =
    \<lparr>ft_txid = lit tx_id, ft_type = 3, ft_tx_validation_code = code,
     ft_transaction_actions = \<lparr>fta_chaincode_actions = []\<rparr>\<rparr>"

definition filtered_block :: "FilteredTransaction list \<Rightarrow> DeliverResponse" where
  "filtered_block txs = DeliverFilteredBlock
    \<lparr>fb_channel_id = lit ''mychannel'', fb_number = 4, fb_filtered_transactions = txs\<rparr>"

definition example_sys :: sys where
  "example_sys =
    \<lparr>sys_pb = reference_runtime, sys_uni = id, sys_iter = remdups,
     sys_fs = (\<lambda>p. Inl (FileNotFoundError p)), sys_sha256 = id,
     sys_clock = (\<lambda>tr. \<lparr>ts_seconds = int (length tr), ts_nanos = 0\<rparr>),
     sys_ProcessProposal = (\<lambda>tr p sp. Returned (example_response 200 [])),
     sys_completion_order = (\<lambda>tr. []),
     sys_Broadcast = (\<lambda>tr ord envelope. ([(0, \<lparr>br_status = 200, br_info = []\<rparr>)], 0, Closed)),
     sys_Deliver = (\<lambda>tr m envelope.
       ([(15, filtered_block [filtered_tx ''01'' 0]),
         (25, filtered_block [filtered_tx ''02'' 11, filtered_tx ''07'' 0])], 0, Pending))\<rparr>"

lemma example_sys_pb [simp]: "runtime_ok (sys_pb example_sys)"
  by (simp add: example_sys_def reference_runtime_ok)

lemma example_hash [simp]: "hash_digest (user_suite example_user) bs = [7]"
  by (simp add: example_user_def example_suite_def)

lemma example_tx_id: "hexlify [7] = lit ''07''"
  by (simp add: hexlify_def hex_digit_def)

end
