(* ===== verification/Factories.thy ===== *)
theory Factories
  imports Example_World
begin

text \<open>
  The message factories of \<open>src/snakeskin/factories.py\<close>: text encodings, headers, seek
  requests, transaction contexts, signatures, envelopes, deployment specifications and
  generated transactions. What draws randomness or reads the clock is an operation in the
  sense of \<open>Effects\<close>, the rest is a function into \<open>result\<close>. (The policies of the same file
  are in \<open>Policies\<close>.)
\<close>

section \<open>Text encodings\<close>

definition encode_proto_bytes :: "pystr \<Rightarrow> bytes result" where
  "encode_proto_bytes s = latin1_encode s"

definition encode_proto_str :: "pystr \<Rightarrow> pystr result" where
  "encode_proto_str s = bind_res (encode_proto_bytes s) utf8_decode"

text \<open>\<open>arr[1:-2]\<close> of the lines of the file; 10 is the newline.\<close>

definition pem_to_der :: "bytes \<Rightarrow> bytes result" where
  "pem_to_der pem =
    (let arr = split_on 10 pem
     in b64decode (concat (drop 1 (take (length arr - 2) arr))))"

section \<open>Seek requests\<close>

definition seek_position :: "runtime \<Rightarrow> int option \<Rightarrow> SeekPosition result" where
  "seek_position pb n =
    (case n of
       None \<Rightarrow> Inr SeekNewest
     | Some k \<Rightarrow> bind_res (pb_uint64 pb k) (\<lambda>i. Inr (SeekSpecified i)))"

definition build_seek_info ::
  "runtime \<Rightarrow> int option \<Rightarrow> int option \<Rightarrow> SeekBehavior \<Rightarrow> SeekInfo result" where
  "build_seek_info pb start stop behavior =
    bind_res (seek_position pb start) (\<lambda>seek_start.
    bind_res (seek_position pb stop) (\<lambda>seek_stop.
    bind_res (enum_Value SeekInfo_SeekBehavior (SeekBehavior_value behavior)) (\<lambda>b.
      Inr \<lparr>si_start = seek_start, si_stop = seek_stop, si_behavior = b\<rparr>)))"

section \<open>Identity and signatures\<close>

definition user_identity :: "User \<Rightarrow> SerializedIdentity" where
  "user_identity u =
    \<lparr>sid_mspid = msp_id u, sid_id_bytes = (case cert u of None \<Rightarrow> [] | Some c \<Rightarrow> c)\<rparr>"

definition tx_context_from_user :: "runtime \<Rightarrow> User \<Rightarrow> TXContext io" where
  "tx_context_from_user pb user = with_seed (\<lambda>seed.
    let nonce = generate_nonce (user_suite user) seed 24;
        identity = user_identity user
    in bind_io (emit (NonceDrawn nonce)) (\<lambda>_.
       return_io
         \<lparr>txc_identity = identity, txc_nonce = nonce,
          txc_tx_id = hexlify (hash_digest (user_suite user)
            (nonce @ ser (pb_SerializedIdentity pb) identity)),
          txc_epoch = 0\<rparr>))"

definition sign :: "User \<Rightarrow> bytes \<Rightarrow> bytes io" where
  "sign user payload =
    bind_io (lift_res (of_option (AttributeError (lit ''private_key'')) (private_key user))) (\<lambda>k.
    with_seed (\<lambda>seed.
    bind_io (emit (SignDrawn payload)) (\<lambda>_.
    lift_res (sign_message (user_suite user) seed k payload))))"

definition wrap_transaction :: "runtime \<Rightarrow> User \<Rightarrow> Payload \<Rightarrow> Envelope io" where
  "wrap_transaction pb user payload =
    (let payload_bytes = ser (pb_Payload pb) payload
     in bind_io (sign user payload_bytes) (\<lambda>s.
        return_io \<lparr>env_payload = payload_bytes, env_signature = s\<rparr>))"

section \<open>Headers and envelopes\<close>

definition signature_header :: "runtime \<Rightarrow> TXContext \<Rightarrow> SignatureHeader" where
  "signature_header pb ctx =
    \<lparr>sh_creator = ser (pb_SerializedIdentity pb) (txc_identity ctx), sh_nonce = txc_nonce ctx\<rparr>"

definition read_clock :: "sys \<Rightarrow> Timestamp io" where
  "read_clock S = (\<lambda>tr. (Returned (sys_clock S tr), tr @ [ClockRead]))"

text \<open>\<open>channel and channel.name or ''\<close>.\<close>

definition channel_text :: "Channel option \<Rightarrow> pystr" where
  "channel_text channel = (case channel of None \<Rightarrow> [] | Some c \<Rightarrow> channel_name c)"

definition build_header ::
  "sys \<Rightarrow> TXContext \<Rightarrow> Channel option \<Rightarrow> bytes option \<Rightarrow> TransactionType \<Rightarrow> bytes option \<Rightarrow> Header io" where
  "build_header S ctx channel extension tx_type tls_cert =
    bind_io (read_clock S) (\<lambda>timestamp.
    bind_io (lift_res (encode_proto_str (channel_text channel))) (\<lambda>channel_id.
    bind_io (lift_res (pb_uint64 (sys_pb S) (txc_epoch ctx))) (\<lambda>epoch.
    bind_io (if truthy tls_cert
             then bind_io (lift_res (pem_to_der (the tls_cert))) (\<lambda>der. return_io (sys_sha256 S der))
             else return_io []) (\<lambda>tls_hash.
      return_io
        \<lparr>hdr_channel_header = ser (pb_ChannelHeader (sys_pb S))
           \<lparr>ch_type = TransactionType_value tx_type, ch_version = 1, ch_timestamp = timestamp,
            ch_channel_id = channel_id, ch_tx_id = txc_tx_id ctx, ch_epoch = epoch,
            ch_extension = or_else extension [], ch_tls_cert_hash = tls_hash\<rparr>,
         hdr_signature_header =
           ser (pb_SignatureHeader (sys_pb S)) (signature_header (sys_pb S) ctx)\<rparr>))))"

definition build_envelope ::
  "sys \<Rightarrow> User \<Rightarrow> TXContext \<Rightarrow> bytes \<Rightarrow> Channel option \<Rightarrow> bytes option \<Rightarrow> bytes option \<Rightarrow>
    TransactionType \<Rightarrow> Envelope io" where
  "build_envelope S requestor ctx data channel tls_cert extension tx_type =
    bind_io (build_header S ctx channel extension tx_type tls_cert) (\<lambda>header.
      wrap_transaction (sys_pb S) requestor \<lparr>pl_header = header, pl_data = data\<rparr>)"

definition build_config_update_envelope ::
  "sys \<Rightarrow> Channel \<Rightarrow> TXContext \<Rightarrow> User \<Rightarrow> bytes \<Rightarrow> Envelope io" where
  "build_config_update_envelope S channel ctx requestor config_update =
    (let header_bytes = ser (pb_SignatureHeader (sys_pb S)) (signature_header (sys_pb S) ctx)
     in bind_io (sign requestor (header_bytes @ config_update)) (\<lambda>s.
        build_envelope S requestor ctx
          (ser (pb_ConfigUpdateEnvelope (sys_pb S))
             \<lparr>cue_config_update = config_update,
              cue_signatures = [\<lparr>csig_signature_header = header_bytes, csig_signature = s\<rparr>]\<rparr>)
          (Some channel) None None TT_ConfigUpdate))"

section \<open>Chaincode and transactions\<close>

definition chaincode_id :: "pystr \<Rightarrow> pystr \<Rightarrow> pystr \<Rightarrow> ChaincodeID" where
  "chaincode_id name version path = \<lparr>ccid_path = path, ccid_name = name, ccid_version = version\<rparr>"

definition build_cc_deployment_spec ::
  "runtime \<Rightarrow> pystr \<Rightarrow> ChaincodeLanguage \<Rightarrow> pystr option \<Rightarrow> pystr option \<Rightarrow> pystr option \<Rightarrow>
    bytes option \<Rightarrow> pystr list option \<Rightarrow> ChaincodeDeploymentSpec result" where
  "build_cc_deployment_spec pb name language fcn version path code_package args =
    bind_res (if truthy fcn then map_res encode_proto_bytes [the fcn] else Inr []) (\<lambda>fcn_args.
    bind_res (if truthy args then map_res encode_proto_bytes (the args) else Inr []) (\<lambda>more_args.
    bind_res (enum_Value ChaincodeSpec_Type (ChaincodeLanguage_value language)) (\<lambda>t.
    let input_args = fcn_args @ more_args
    in Inr \<lparr>cds_chaincode_spec =
              \<lparr>ccs_type = t,
               ccs_chaincode_id = chaincode_id name (or_else version []) (or_else path []),
               ccs_input = (if input_args = [] then None
                            else Some \<lparr>cci_args = input_args, cci_decorations = []\<rparr>),
               ccs_timeout = 0\<rparr>,
            cds_code_package = or_else code_package [],
            cds_exec_env = 0\<rparr>)))"

text \<open>The transient map of a proposal after \<open>TransientMap[name] = value\<close> for every item.\<close>

definition set_transient :: "(pystr \<times> bytes) list \<Rightarrow> ChaincodeProposalPayload \<Rightarrow> ChaincodeProposalPayload" where
  "set_transient items p =
    p\<lparr>cpp_TransientMap := fold (\<lambda>(k, v) m. map_field_set m k v) items (cpp_TransientMap p)\<rparr>"

definition invocation_payload :: "runtime \<Rightarrow> pystr \<Rightarrow> bytes list \<Rightarrow> ChaincodeProposalPayload result" where
  "invocation_payload pb ccname args =
    bind_res (enum_Value ChaincodeSpec_Type (ChaincodeLanguage_value GOLANG)) (\<lambda>t.
      Inr \<lparr>cpp_input = ser (pb_ChaincodeInvocationSpec pb)
             \<lparr>cis_chaincode_spec =
                \<lparr>ccs_type = t, ccs_chaincode_id = chaincode_id ccname [] [],
                 ccs_input = Some \<lparr>cci_args = args, cci_decorations = []\<rparr>, ccs_timeout = 0\<rparr>\<rparr>,
           cpp_TransientMap = []\<rparr>)"

definition build_generated_tx ::
  "sys \<Rightarrow> User \<Rightarrow> pystr \<Rightarrow> bytes list \<Rightarrow> Channel option \<Rightarrow> (pystr \<times> bytes) list option \<Rightarrow>
    GeneratedTX io" where
  "build_generated_tx S requestor ccname args channel transient_map =
    bind_io (tx_context_from_user (sys_pb S) requestor) (\<lambda>ctx.
    bind_io (build_header S ctx channel
      (Some (ser (pb_ChaincodeHeaderExtension (sys_pb S))
               \<lparr>che_payload_visibility = [], che_chaincode_id = chaincode_id ccname [] []\<rparr>))
      TT_EndorserTransaction None) (\<lambda>header.
    bind_io (lift_res (invocation_payload (sys_pb S) ccname args)) (\<lambda>cc_payload.
    let header_bytes = ser (pb_Header (sys_pb S)) header;
        proposal = \<lparr>prop_header = header_bytes,
          prop_payload = ser (pb_ChaincodeProposalPayload (sys_pb S)) cc_payload,
          prop_extension = []\<rparr>;
        transient_proposal =
          (if truthy transient_map
           then \<lparr>prop_header = header_bytes,
             prop_payload = ser (pb_ChaincodeProposalPayload (sys_pb S))
               (set_transient (the transient_map) cc_payload),
             prop_extension = []\<rparr>
           else proposal);
        transient_proposal_bytes = ser (pb_Proposal (sys_pb S)) transient_proposal
    in bind_io (sign requestor transient_proposal_bytes) (\<lambda>s.
       return_io
         \<lparr>gtx_tx_context = ctx, gtx_proposal = proposal,
          gtx_signed_proposal =
            \<lparr>sp_proposal_bytes = transient_proposal_bytes, sp_signature = s\<rparr>,
          gtx_header = header\<rparr>))))"

definition build_endorsed_tx_envelope :: "sys \<Rightarrow> EndorsedTX \<Rightarrow> User \<Rightarrow> Envelope io" where
  "build_endorsed_tx_envelope S etx requestor =
    bind_io (lift_res (nth_res (etx_peer_responses etx) 0)) (\<lambda>response.
    let action_payload = ser (pb_ChaincodeActionPayload (sys_pb S))
          \<lparr>cap_chaincode_proposal_payload = prop_payload (etx_proposal etx),
           cap_action = \<lparr>cea_proposal_response_payload = pr_payload response,
             cea_endorsements = map pr_endorsement (etx_peer_responses etx)\<rparr>\<rparr>;
        transaction = \<lparr>tx_actions =
          [\<lparr>ta_header = hdr_signature_header (etx_header etx), ta_payload = action_payload\<rparr>]\<rparr>
    in wrap_transaction (sys_pb S) requestor
         \<lparr>pl_header = etx_header etx, pl_data = ser (pb_Transaction (sys_pb S)) transaction\<rparr>)"

section \<open>Text encodings are faithful on ASCII only\<close>

lemma utf8_char_length: "0 < length (utf8_char c)" "128 \<le> c \<Longrightarrow> 1 < length (utf8_char c)"
  by (simp_all add: utf8_char_def)

lemma utf8_encode_length: "length s \<le> length (utf8_encode s)"
proof (induction s)
  case (Cons c s)
  with utf8_char_length(1) [of c] show ?case by (simp add: utf8_encode_def del: length_greater_0_conv)
qed (simp add: utf8_encode_def)

lemma utf8_encode_longer: "\<not> ascii s \<Longrightarrow> length s < length (utf8_encode s)"
proof (induction s)
  case (Cons c s)
  show ?case
  proof (cases "ascii s")
    case True
    with Cons.prems have "128 \<le> c" by (auto simp: ascii_def)
    with utf8_char_length(2) [of c] utf8_encode_length [of s] show ?thesis
      by (simp add: utf8_encode_def)
  next
    case False
    with Cons.IH utf8_char_length(1) [of c] show ?thesis
      by (simp add: utf8_encode_def del: length_greater_0_conv)
  qed
qed (simp add: ascii_def)

lemma encode_proto_str_Inr_iff:
  "encode_proto_str s = Inr t \<longleftrightarrow>
    (\<forall>c \<in> set s. c < 256) \<and> (\<forall>c \<in> set t. scalar c) \<and> utf8_encode t = s"
proof
  assume "encode_proto_str s = Inr t"
  then obtain bs where "bytes_nats bs = s" "utf8_encode t = bytes_nats bs" "\<forall>c \<in> set t. scalar c"
    by (auto simp: encode_proto_str_def encode_proto_bytes_def latin1_encode_Inr_iff utf8_decode_Inr_iff)
  then show "(\<forall>c \<in> set s. c < 256) \<and> (\<forall>c \<in> set t. scalar c) \<and> utf8_encode t = s"
    using bytes_nats_bound by blast
next
  assume "(\<forall>c \<in> set s. c < 256) \<and> (\<forall>c \<in> set t. scalar c) \<and> utf8_encode t = s"
  moreover from this have "latin1_encode s = Inr (map of_nat s)"
    by (simp add: latin1_encode_def)
  ultimately show "encode_proto_str s = Inr t"
    by (simp add: encode_proto_str_def encode_proto_bytes_def utf8_decode_Inr_iff bytes_nats_of_nat)
qed

lemma encode_proto_str_ascii: "ascii s \<Longrightarrow> encode_proto_str s = Inr s"
  unfolding encode_proto_str_Inr_iff
  by (auto simp: ascii_def scalar_def utf8_encode_ascii)

text \<open>
  A channel name is put into a header unchanged exactly when it is ASCII: any other name
  raises or is sent as a different, shorter name, the one whose UTF-8 bytes are the code
  points of the given one.
\<close>

theorem encode_proto_str_faithful:
  "(encode_proto_str s = Inr s \<longleftrightarrow> ascii s) \<and>
   (\<forall>t. encode_proto_str s = Inr t \<longrightarrow> utf8_encode t = s \<and> (\<not> ascii s \<longrightarrow> length t < length s))"
proof -
  have "ascii s" if "utf8_encode s = s"
    using that utf8_encode_longer [of s] by fastforce
  moreover have "length t < length (utf8_encode t)" if "\<not> ascii (utf8_encode t)" for t
  proof -
    from that have "\<not> ascii t" by (metis ascii_def utf8_encode_ascii)
    then show ?thesis by (rule utf8_encode_longer)
  qed
  ultimately show ?thesis using encode_proto_str_ascii [of s] unfolding encode_proto_str_Inr_iff by blast
qed

text \<open>The example is the name e-acute, whose two UTF-8 bytes are read as two characters.\<close>

theorem encode_proto_str_faithful_witness:
  "encode_proto_str [195, 169] = Inr [233] \<and> length [233 :: nat] < length [195, 169 :: nat] \<and>
   encode_proto_str (lit ''mychannel'') = Inr (lit ''mychannel'')"
proof -
  have "encode_proto_str [195, 169] = Inr [233]" unfolding encode_proto_str_Inr_iff
    by (simp add: utf8_encode_def utf8_char_def scalar_def)
  moreover have "\<not> ascii [195, 169]" by (simp add: ascii_def)
  moreover have "ascii (lit ''mychannel'')" by (simp add: ascii_def)
  ultimately show ?thesis
    using encode_proto_str_faithful [of "[195, 169]"] encode_proto_str_faithful [of "lit ''mychannel''"]
    by blast
qed

section \<open>PEM files\<close>

lemma pem_slice:
  "drop 1 (take (length (h # ls @ [f, e]) - 2) (h # ls @ [f, e])) = ls"
  by simp

lemma b64decode_encode: "b64decode (map of_nat (b64_encode (bytes_nats der))) = Inr der"
proof -
  have b: "\<forall>n \<in> set (bytes_nats der). n < 256" using bytes_nats_bound by blast
  then have "\<forall>c \<in> set (b64_encode (bytes_nats der)). c < 256" using b64_encode_chars by blast
  then have "bytes_nats (map of_nat (b64_encode (bytes_nats der))) = b64_encode (bytes_nats der)"
    by (rule bytes_nats_of_nat)
  then show ?thesis by (simp add: b64decode_def b64_loop_encode [OF b])
qed

lemma split_on_pem:
  assumes "\<forall>l \<in> set ls. (10 :: byte) \<notin> set l" "10 \<notin> set t"
  shows "split_on 10 (unlines 10 ls @ t) = ls @ [t]"
  using assms by (rule split_on_unlines)

text \<open>
  \<open>pem_to_der\<close> inverts the PEM encoding: of a header line, the Base64 text of the DER
  bytes broken into lines in any way and a footer line, each with its newline, it gives
  back the DER bytes. Of a file whose last line has no newline it drops the last line of
  Base64 text too.
\<close>

theorem pem_to_der_inverts:
  assumes "\<forall>l \<in> set (h # ls @ [f]). (10 :: byte) \<notin> set l"
  shows "(concat ls = map of_nat (b64_encode (bytes_nats der)) \<longrightarrow>
      pem_to_der (unlines 10 (h # ls @ [f])) = Inr der) \<and>
    (\<forall>ls' l. ls = ls' @ [l] \<longrightarrow>
      pem_to_der (unlines 10 (h # ls) @ f) = b64decode (concat ls'))"
proof (intro conjI impI allI)
  assume ls: "concat ls = map of_nat (b64_encode (bytes_nats der))"
  have "split_on 10 (unlines 10 (h # ls @ [f])) = h # ls @ [f, []]"
    using split_on_pem [of "h # ls @ [f]" "[]"] assms by simp
  then show "pem_to_der (unlines 10 (h # ls @ [f])) = Inr der"
    by (simp add: pem_to_der_def pem_slice [simplified] ls b64decode_encode)
next
  fix ls' l
  assume "ls = ls' @ [l]"
  moreover have "split_on 10 (unlines 10 (h # ls) @ f) = h # ls @ [f]"
    using split_on_pem [of "h # ls" f] assms by simp
  ultimately show "pem_to_der (unlines 10 (h # ls) @ f) = b64decode (concat ls')"
    by (simp add: pem_to_der_def)
qed

text \<open>The Base64 text \<open>AQID\<close> of the bytes 1, 2, 3, between two lines of dashes.\<close>

theorem pem_to_der_inverts_witness:
  "pem_to_der (unlines 10 [[45, 45], [65, 81], [73, 68], [45, 45]]) = Inr [1, 2, 3] \<and>
   pem_to_der (unlines 10 [[45, 45], [65, 81, 73, 68]] @ [45, 45]) = Inr []"
proof -
  have "concat [[65, 81], [73, 68 :: byte]] = map of_nat (b64_encode (bytes_nats [1, 2, 3]))"
    by (simp add: b64_char_def)
  then have "pem_to_der (unlines 10 [[45, 45], [65, 81], [73, 68], [45, 45]]) = Inr [1, 2, 3]"
    using pem_to_der_inverts [of "[45, 45]" "[[65, 81], [73, 68]]" "[45, 45]" "[1, 2, 3]"] by simp
  moreover have "b64decode (concat []) = Inr []" by (simp add: b64decode_def)
  ultimately show ?thesis
    using pem_to_der_inverts [of "[45, 45]" "[[65, 81, 73, 68]]" "[45, 45]" "[]"]
    by simp
qed

section \<open>What the operations return\<close>

lemma sign_Returned_iff:
  "sign u p tr = (Returned s, tr') \<longleftrightarrow>
    (\<exists>k. private_key u = Some k \<and> sign_message (user_suite u) (length tr) k p = Inr s) \<and>
    tr' = tr @ [SignDrawn p]"
  by (auto simp: sign_def bind_Returned_iff)

lemma wrap_Returned_iff:
  "wrap_transaction pb u payload tr = (Returned env, tr') \<longleftrightarrow>
    (\<exists>s. sign u (ser (pb_Payload pb) payload) tr = (Returned s, tr') \<and>
       env = \<lparr>env_payload = ser (pb_Payload pb) payload, env_signature = s\<rparr>)"
  by (auto simp: wrap_transaction_def Let_def bind_Returned_iff)

lemma tx_context_Returned_iff:
  "tx_context_from_user pb u tr = (Returned ctx, tr') \<longleftrightarrow>
    (\<exists>nonce. nonce = generate_nonce (user_suite u) (length tr) 24 \<and>
      ctx = \<lparr>txc_identity = user_identity u, txc_nonce = nonce,
        txc_tx_id = hexlify (hash_digest (user_suite u)
          (nonce @ ser (pb_SerializedIdentity pb) (user_identity u))), txc_epoch = 0\<rparr> \<and>
      tr' = tr @ [NonceDrawn nonce])"
  by (auto simp: tx_context_from_user_def Let_def bind_Returned_iff)

lemma tx_context_never_fails:
  "\<exists>ctx tr'. tx_context_from_user pb u tr = (Returned ctx, tr')"
  using tx_context_Returned_iff by blast

lemma read_clock_Returned_iff [simp]:
  "read_clock S tr = (Returned t, tr') \<longleftrightarrow> t = sys_clock S tr \<and> tr' = tr @ [ClockRead]"
  by (auto simp: read_clock_def)

lemma build_header_Returned_D:
  assumes "build_header S ctx channel extension tx_type tls_cert tr = (Returned h, tr')"
  shows "\<exists>cid epoch tls. encode_proto_str (channel_text channel) = Inr cid \<and>
    pb_uint64 (sys_pb S) (txc_epoch ctx) = Inr epoch \<and>
    (if truthy tls_cert then \<exists>der. pem_to_der (the tls_cert) = Inr der \<and> tls = sys_sha256 S der
     else tls = []) \<and>
    h = \<lparr>hdr_channel_header = ser (pb_ChannelHeader (sys_pb S))
           \<lparr>ch_type = TransactionType_value tx_type, ch_version = 1, ch_timestamp = sys_clock S tr,
            ch_channel_id = cid, ch_tx_id = txc_tx_id ctx, ch_epoch = epoch,
            ch_extension = or_else extension [], ch_tls_cert_hash = tls\<rparr>,
         hdr_signature_header =
           ser (pb_SignatureHeader (sys_pb S)) (signature_header (sys_pb S) ctx)\<rparr> \<and>
    tr' = tr @ [ClockRead]"
  using assms unfolding build_header_def
  by (cases "truthy tls_cert") (auto simp: bind_Returned_iff)

lemma invocation_payload_Inr:
  "invocation_payload pb ccname args =
    Inr \<lparr>cpp_input = ser (pb_ChaincodeInvocationSpec pb)
           \<lparr>cis_chaincode_spec =
              \<lparr>ccs_type = 1, ccs_chaincode_id = chaincode_id ccname [] [],
               ccs_input = Some \<lparr>cci_args = args, cci_decorations = []\<rparr>, ccs_timeout = 0\<rparr>\<rparr>,
         cpp_TransientMap = []\<rparr>"
  using ChaincodeLanguage_Value [of GOLANG] by (simp add: invocation_payload_def)

lemma build_generated_tx_Returned_D:
  assumes "build_generated_tx S u ccname args channel tm tr = (Returned g, tr')"
  shows "\<exists>tr1 tr2. tx_context_from_user (sys_pb S) u tr = (Returned (gtx_tx_context g), tr1) \<and>
    build_header S (gtx_tx_context g) channel
      (Some (ser (pb_ChaincodeHeaderExtension (sys_pb S))
               \<lparr>che_payload_visibility = [], che_chaincode_id = chaincode_id ccname [] []\<rparr>))
      TT_EndorserTransaction None tr1 = (Returned (gtx_header g), tr2) \<and>
    (\<exists>cc_payload. invocation_payload (sys_pb S) ccname args = Inr cc_payload \<and>
      gtx_proposal g = \<lparr>prop_header = ser (pb_Header (sys_pb S)) (gtx_header g),
        prop_payload = ser (pb_ChaincodeProposalPayload (sys_pb S)) cc_payload,
        prop_extension = []\<rparr> \<and>
      sp_proposal_bytes (gtx_signed_proposal g) = ser (pb_Proposal (sys_pb S))
        (if truthy tm then (gtx_proposal g)\<lparr>prop_payload :=
            ser (pb_ChaincodeProposalPayload (sys_pb S)) (set_transient (the tm) cc_payload)\<rparr>
         else gtx_proposal g)) \<and>
    sign u (sp_proposal_bytes (gtx_signed_proposal g)) tr2 =
      (Returned (sp_signature (gtx_signed_proposal g)), tr')"
  using assms unfolding build_generated_tx_def Let_def
  by (cases "truthy tm") (auto simp: bind_Returned_iff)

lemma set_transient_simps:
  "cpp_input (set_transient items p) = cpp_input p"
  "cpp_TransientMap p = [] \<Longrightarrow> distinct (map fst items) \<Longrightarrow> cpp_TransientMap (set_transient items p) = items"
proof -
  have "fold (\<lambda>(k, v) m. map_field_set m k v) items acc = acc @ items"
    if "distinct (map fst (acc @ items))" for acc
    using that
  proof (induction items arbitrary: acc)
    case (Cons kv items)
    obtain k v where kv: "kv = (k, v)" by fastforce
    with Cons.prems have "k \<notin> fst ` set acc" by auto
    with Cons.IH [of "acc @ [kv]"] Cons.prems show ?case
      by (simp add: kv map_field_set_new)
  qed simp
  from this [of "[]"] show
    "cpp_TransientMap p = [] \<Longrightarrow> distinct (map fst items) \<Longrightarrow>
      cpp_TransientMap (set_transient items p) = items"
    by (simp add: set_transient_def)
qed (simp add: set_transient_def)

section \<open>Generated transactions\<close>

text \<open>
  C22. The identifier of a generated transaction is bound to who makes it and to its nonce:
  its headers, as any receiver decodes them, carry the fresh nonce, the serialized identity
  of the requestor and, as the transaction id, the hexadecimal digest of the two. The
  channel header has the endorser type and names the chaincode in its extension.
\<close>

theorem build_generated_tx_id:
  assumes "runtime_ok (sys_pb S)"
    and "build_generated_tx S u ccname args channel tm tr = (Returned g, tr')"
  shows "\<exists>nonce chdr.
    nonce = generate_nonce (user_suite u) (length tr) 24 \<and>
    des (pb_SignatureHeader (sys_pb S)) (hdr_signature_header (gtx_header g)) =
      Some \<lparr>sh_creator = ser (pb_SerializedIdentity (sys_pb S)) (user_identity u), sh_nonce = nonce\<rparr> \<and>
    des (pb_ChannelHeader (sys_pb S)) (hdr_channel_header (gtx_header g)) = Some chdr \<and>
    ch_tx_id chdr = hexlify (hash_digest (user_suite u)
      (nonce @ ser (pb_SerializedIdentity (sys_pb S)) (user_identity u))) \<and>
    GeneratedTX_tx_id g = ch_tx_id chdr \<and>
    TransactionType_of (ch_type chdr) = Inr TT_EndorserTransaction \<and>
    encode_proto_str (channel_text channel) = Inr (ch_channel_id chdr) \<and>
    des (pb_ChaincodeHeaderExtension (sys_pb S)) (ch_extension chdr) =
      Some \<lparr>che_payload_visibility = [], che_chaincode_id = chaincode_id ccname [] []\<rparr>"
proof -
  note rt = runtime_okD [OF assms(1), unfolded coder_ok_def]
  from build_generated_tx_Returned_D [OF assms(2)] obtain tr1 tr2 where
    ctx: "tx_context_from_user (sys_pb S) u tr = (Returned (gtx_tx_context g), tr1)" and
    hdr: "build_header S (gtx_tx_context g) channel
      (Some (ser (pb_ChaincodeHeaderExtension (sys_pb S))
               \<lparr>che_payload_visibility = [], che_chaincode_id = chaincode_id ccname [] []\<rparr>))
      TT_EndorserTransaction None tr1 = (Returned (gtx_header g), tr2)" by blast
  have ext: "or_else (Some bs) [] = bs" for bs :: bytes by (cases bs) simp_all
  have type: "TransactionType_of 3 = Inr TT_EndorserTransaction"
    using TransactionType_of_value [of TT_EndorserTransaction] by simp
  from build_header_Returned_D [OF hdr] ctx show ?thesis
    by (auto simp: tx_context_Returned_iff signature_header_def GeneratedTX_tx_id_def rt ext type)
qed

text \<open>
  C13. What the peers are sent and what the orderer will get: the signed bytes are a proposal
  with the header of the transaction, under a signature of exactly those bytes by the
  requestor's key. The proposal kept for the orderer has the same header and the same
  invocation of the chaincode with the given arguments, and no transient data; the signed
  one has the whole transient map, and without one the two proposals are the same.
\<close>

theorem build_generated_tx_proposals:
  assumes "runtime_ok (sys_pb S)" "distinct (map fst (or_else tm []))"
    and "build_generated_tx S u ccname args channel tm tr = (Returned g, tr')"
  shows "\<exists>k seed p spec.
    private_key u = Some k \<and>
    sign_message (user_suite u) seed k (sp_proposal_bytes (gtx_signed_proposal g)) =
      Inr (sp_signature (gtx_signed_proposal g)) \<and>
    des (pb_Proposal (sys_pb S)) (sp_proposal_bytes (gtx_signed_proposal g)) = Some p \<and>
    prop_header p = prop_header (gtx_proposal g) \<and>
    des (pb_Header (sys_pb S)) (prop_header p) = Some (gtx_header g) \<and>
    des (pb_ChaincodeProposalPayload (sys_pb S)) (prop_payload (gtx_proposal g)) =
      Some \<lparr>cpp_input = spec, cpp_TransientMap = []\<rparr> \<and>
    des (pb_ChaincodeProposalPayload (sys_pb S)) (prop_payload p) =
      Some \<lparr>cpp_input = spec, cpp_TransientMap = or_else tm []\<rparr> \<and>
    des (pb_ChaincodeInvocationSpec (sys_pb S)) spec =
      Some \<lparr>cis_chaincode_spec =
        \<lparr>ccs_type = 1, ccs_chaincode_id = chaincode_id ccname [] [],
         ccs_input = Some \<lparr>cci_args = args, cci_decorations = []\<rparr>, ccs_timeout = 0\<rparr>\<rparr> \<and>
    (\<not> truthy tm \<longrightarrow> p = gtx_proposal g)"
proof -
  note rt = runtime_okD [OF assms(1), unfolded coder_ok_def]
  from build_generated_tx_Returned_D [OF assms(3)] obtain tr2 cc_payload where
    pay: "invocation_payload (sys_pb S) ccname args = Inr cc_payload" and
    prpl: "gtx_proposal g = \<lparr>prop_header = ser (pb_Header (sys_pb S)) (gtx_header g),
        prop_payload = ser (pb_ChaincodeProposalPayload (sys_pb S)) cc_payload,
        prop_extension = []\<rparr>" and
    bytes: "sp_proposal_bytes (gtx_signed_proposal g) = ser (pb_Proposal (sys_pb S))
        (if truthy tm then (gtx_proposal g)\<lparr>prop_payload :=
            ser (pb_ChaincodeProposalPayload (sys_pb S)) (set_transient (the tm) cc_payload)\<rparr>
         else gtx_proposal g)" and
    sg: "sign u (sp_proposal_bytes (gtx_signed_proposal g)) tr2 =
      (Returned (sp_signature (gtx_signed_proposal g)), tr')" by blast
  define p where "p = (if truthy tm then (gtx_proposal g)\<lparr>prop_payload :=
            ser (pb_ChaincodeProposalPayload (sys_pb S)) (set_transient (the tm) cc_payload)\<rparr>
         else gtx_proposal g)"
  from sg obtain k where k: "private_key u = Some k"
    "sign_message (user_suite u) (length tr2) k (sp_proposal_bytes (gtx_signed_proposal g)) =
      Inr (sp_signature (gtx_signed_proposal g))" by (auto simp: sign_Returned_iff)
  have hdr: "prop_header p = prop_header (gtx_proposal g)" by (simp add: p_def)
  have tmap: "cpp_TransientMap cc_payload = []" using pay by (auto simp: invocation_payload_Inr)
  have "des (pb_ChaincodeProposalPayload (sys_pb S)) (prop_payload p) =
      Some \<lparr>cpp_input = cpp_input cc_payload, cpp_TransientMap = or_else tm []\<rparr>"
  proof (cases tm rule: truthy_cases)
    case (some a as)
    have "set_transient (a # as) cc_payload = \<lparr>cpp_input = cpp_input cc_payload, cpp_TransientMap = a # as\<rparr>"
      using set_transient_simps [where items = "a # as" and p = cc_payload] tmap assms(2)
      by (simp add: some)
    then show ?thesis by (simp add: p_def some rt)
  qed (use tmap in \<open>simp_all add: p_def prpl rt\<close>)
  moreover have "cc_payload = \<lparr>cpp_input = cpp_input cc_payload, cpp_TransientMap = []\<rparr>"
    using tmap by (cases cc_payload) simp
  then have "des (pb_ChaincodeProposalPayload (sys_pb S)) (prop_payload (gtx_proposal g)) =
      Some \<lparr>cpp_input = cpp_input cc_payload, cpp_TransientMap = []\<rparr>"
    using rt by (simp add: prpl)
  moreover have "des (pb_Proposal (sys_pb S)) (sp_proposal_bytes (gtx_signed_proposal g)) = Some p"
    by (simp add: bytes rt p_def)
  moreover have "des (pb_Header (sys_pb S)) (prop_header p) = Some (gtx_header g)"
    by (simp add: hdr) (simp add: prpl rt)
  moreover have "des (pb_ChaincodeInvocationSpec (sys_pb S)) (cpp_input cc_payload) =
      Some \<lparr>cis_chaincode_spec =
        \<lparr>ccs_type = 1, ccs_chaincode_id = chaincode_id ccname [] [],
         ccs_input = Some \<lparr>cci_args = args, cci_decorations = []\<rparr>, ccs_timeout = 0\<rparr>\<rparr>"
    using pay by (auto simp: invocation_payload_Inr rt)
  moreover have "\<not> truthy tm \<longrightarrow> p = gtx_proposal g" by (simp add: p_def)
  ultimately show ?thesis using k hdr by blast
qed

section \<open>When the operations succeed\<close>

text \<open>A user with a loaded key whose suite signs everything.\<close>

definition user_ready :: "User \<Rightarrow> bool" where
  "user_ready u \<longleftrightarrow>
    (\<exists>k. private_key u = Some k \<and> (\<forall>seed p. \<exists>s. sign_message (user_suite u) seed k p = Inr s))"

lemma sign_total: "user_ready u \<Longrightarrow> \<exists>s. sign u p tr = (Returned s, tr @ [SignDrawn p])"
  unfolding user_ready_def sign_Returned_iff by auto

lemma wrap_total: "user_ready u \<Longrightarrow> \<exists>e tr'. wrap_transaction pb u pl tr = (Returned e, tr')"
  using sign_total unfolding wrap_Returned_iff by blast

lemma build_header_total:
  assumes "runtime_ok (sys_pb S)" "encode_proto_str (channel_text channel) = Inr cid"
    "\<not> truthy tls_cert" "0 \<le> txc_epoch ctx" "txc_epoch ctx < 2 ^ 64"
  shows "\<exists>h. build_header S ctx channel extension tx_type tls_cert tr = (Returned h, tr @ [ClockRead])"
  using assms uint64_range [OF runtime_okD(26) [OF assms(1)] assms(4,5)]
  by (simp add: build_header_def bind_Returned_iff)

lemma build_generated_tx_total:
  assumes "runtime_ok (sys_pb S)" "encode_proto_str (channel_text channel) = Inr cid" "user_ready u"
  shows "\<exists>g tr'. build_generated_tx S u ccname args channel tm tr = (Returned g, tr')"
proof -
  obtain ctx tr1 where ctx: "tx_context_from_user (sys_pb S) u tr = (Returned ctx, tr1)"
    using tx_context_never_fails by blast
  then have "txc_epoch ctx = 0" by (auto simp: tx_context_Returned_iff)
  then obtain h where h: "build_header S ctx channel
      (Some (ser (pb_ChaincodeHeaderExtension (sys_pb S))
               \<lparr>che_payload_visibility = [], che_chaincode_id = chaincode_id ccname [] []\<rparr>))
      TT_EndorserTransaction None tr1 = (Returned h, tr1 @ [ClockRead])"
    using build_header_total [OF assms(1,2)] by fastforce
  have sg: "\<exists>s tr'. sign u p (tr1 @ [ClockRead]) = (Returned s, tr')" for p
    using sign_total [OF assms(3)] by blast
  show ?thesis
    using ctx h sg unfolding build_generated_tx_def Let_def bind_Returned_iff
    by (simp add: invocation_payload_Inr) blast
qed

lemma example_user_ready [simp]: "user_ready example_user"
  by (simp add: user_ready_def example_user_def example_suite_def)

lemma example_channel_text [simp]:
  "encode_proto_str (channel_text (Some example_channel)) = Inr (lit ''mychannel'')"
  by (simp add: channel_text_def example_channel_def encode_proto_str_ascii ascii_def)

theorem build_generated_tx_id_witness:
  "\<exists>g tr'. build_generated_tx example_sys example_user (lit ''cc'') [[1]] (Some example_channel) None []
      = (Returned g, tr') \<and> GeneratedTX_tx_id g = lit ''07''"
proof -
  obtain g tr' where g: "build_generated_tx example_sys example_user (lit ''cc'') [[1]]
      (Some example_channel) None [] = (Returned g, tr')"
    using build_generated_tx_total [OF example_sys_pb example_channel_text example_user_ready] by blast
  from build_generated_tx_id [OF example_sys_pb g] have "GeneratedTX_tx_id g = lit ''07''"
    by (auto simp: example_tx_id)
  with g show ?thesis by blast
qed

theorem build_generated_tx_proposals_witness:
  "\<exists>g tr' p spec. build_generated_tx example_sys example_user (lit ''cc'') [[1]] (Some example_channel)
      (Some [(lit ''secret'', [9])]) [] = (Returned g, tr') \<and>
    des (pb_Proposal reference_runtime) (sp_proposal_bytes (gtx_signed_proposal g)) = Some p \<and>
    des (pb_ChaincodeProposalPayload reference_runtime) (prop_payload p) =
      Some \<lparr>cpp_input = spec, cpp_TransientMap = [(lit ''secret'', [9])]\<rparr> \<and>
    des (pb_ChaincodeProposalPayload reference_runtime) (prop_payload (gtx_proposal g)) =
      Some \<lparr>cpp_input = spec, cpp_TransientMap = []\<rparr>"
proof -
  let ?tm = "Some [(lit ''secret'', [9])] :: (pystr \<times> bytes) list option"
  obtain g tr' where g: "build_generated_tx example_sys example_user (lit ''cc'') [[1]]
      (Some example_channel) ?tm [] = (Returned g, tr')"
    using build_generated_tx_total [OF example_sys_pb example_channel_text example_user_ready] by blast
  have pb: "sys_pb example_sys = reference_runtime" by (simp add: example_sys_def)
  have tm: "distinct (map fst (or_else ?tm []))" "or_else ?tm [] = [(lit ''secret'', [9])]" by simp_all
  from build_generated_tx_proposals [OF example_sys_pb tm(1) g] g show ?thesis
    unfolding pb tm(2) by blast
qed

end
