(* ===== verification/Connect.thy ===== *)
theory Connect
  imports Factories
begin

text \<open>
  Talking to peers and orderers (\<open>src/snakeskin/connect.py\<close>): broadcasting an envelope to one
  orderer and to a list of orderers with fail-over, and having a proposal processed by a
  peer. \<open>build_envelope_stream\<close> wraps the one envelope into the request stream; the response
  stream is that of the orderer (\<open>sys_Broadcast\<close>).
\<close>

section \<open>Operations\<close>

text \<open>The \<open>async for\<close> over the responses: the first one decides.\<close>

fun broadcast_responses :: "pystr \<Rightarrow> BroadcastResponse stream \<Rightarrow> BroadcastResponse option io" where
  "broadcast_responses tx_id ((d, resp) # rest, fin) =
    (if br_status resp \<noteq> 200
     then raise_io (TrasactionCommitError (lit ''Failed to commit transaction'') tx_id resp)
     else return_io (Some resp))"
| "broadcast_responses tx_id ([], d, Closed) = return_io None"
| "broadcast_responses tx_id ([], d, Failed e) = raise_io e"
| "broadcast_responses tx_id ([], d, Pending) = block_io"

definition broadcast_to_orderer ::
  "sys \<Rightarrow> Envelope \<Rightarrow> Orderer \<Rightarrow> pystr \<Rightarrow> BroadcastResponse option io" where
  "broadcast_to_orderer S envelope ord tx_id = handle_conn_errors (\<lambda>tr.
    broadcast_responses tx_id (sys_Broadcast S tr ord envelope) (tr @ [EnvelopeBroadcast ord envelope]))"

text \<open>The loop of \<open>broadcast_to_orderers\<close>; \<open>err\<close> is the local variable \<open>error\<close>.\<close>

fun broadcast_loop ::
  "sys \<Rightarrow> Envelope \<Rightarrow> pystr \<Rightarrow> exn option \<Rightarrow> Orderer list \<Rightarrow> BroadcastResponse option io" where
  "broadcast_loop S envelope tx_id err [] =
    (case err of
       None \<Rightarrow> raise_io (Py (UnboundLocalError (lit ''error'')))
     | Some e \<Rightarrow> raise_io e)"
| "broadcast_loop S envelope tx_id err (ord # ords) =
    try_io (broadcast_to_orderer S envelope ord tx_id)
      (\<lambda>e. if is_BlockchainConnectionError e
           then broadcast_loop S envelope tx_id (Some e) ords
           else raise_io e)"

definition broadcast_to_orderers ::
  "sys \<Rightarrow> Envelope \<Rightarrow> Orderer list \<Rightarrow> pystr \<Rightarrow> BroadcastResponse option io" where
  "broadcast_to_orderers S envelope ords tx_id =
    bind_io (guard_io (ords \<noteq> []) (ValueError (lit ''Must provide at least one orderer''))) (\<lambda>_.
      broadcast_loop S envelope tx_id None ords)"

definition process_proposal_on_peer :: "sys \<Rightarrow> SignedProposal \<Rightarrow> Peer \<Rightarrow> ProposalResponse io" where
  "process_proposal_on_peer S sp peer = handle_conn_errors (\<lambda>tr.
    (sys_ProcessProposal S tr peer sp, tr @ [ProposalSent peer sp]))"

section \<open>One request each\<close>

fun conn_outcome :: "'a outcome \<Rightarrow> 'a outcome" where
  "conn_outcome (Raised e) = Raised (conn_error e)"
| "conn_outcome oc = oc"

lemma conn_outcome_iff [simp]:
  "conn_outcome oc = Returned x \<longleftrightarrow> oc = Returned x"
  "conn_outcome oc = Raised e \<longleftrightarrow> (\<exists>e'. oc = Raised e' \<and> e = conn_error e')"
  "conn_outcome oc = Blocked \<longleftrightarrow> oc = Blocked"
  by (cases oc; auto)+

lemma process_proposal_eq:
  "process_proposal_on_peer S sp peer =
    (\<lambda>tr. (conn_outcome (sys_ProcessProposal S tr peer sp), tr @ [ProposalSent peer sp]))"
  by (rule ext)
    (simp add: process_proposal_on_peer_def handle_conn_errors_def try_io_def raise_io_def split: outcome.split)

text \<open>What an orderer makes of an envelope: its first response or how its stream ends.\<close>

fun broadcast_outcome :: "pystr \<Rightarrow> BroadcastResponse stream \<Rightarrow> BroadcastResponse option outcome" where
  "broadcast_outcome tx_id ((d, resp) # rest, fin) =
    (if br_status resp \<noteq> 200
     then Raised (TrasactionCommitError (lit ''Failed to commit transaction'') tx_id resp)
     else Returned (Some resp))"
| "broadcast_outcome tx_id ([], d, Closed) = Returned None"
| "broadcast_outcome tx_id ([], d, Failed e) = Raised (conn_error e)"
| "broadcast_outcome tx_id ([], d, Pending) = Blocked"

lemma broadcast_to_orderer_eq:
  "broadcast_to_orderer S envelope ord tx_id tr =
    (broadcast_outcome tx_id (sys_Broadcast S tr ord envelope), tr @ [EnvelopeBroadcast ord envelope])"
proof -
  have "handle_conn_errors (\<lambda>tr. broadcast_responses tx_id s (tr @ evs)) tr =
      (broadcast_outcome tx_id s, tr @ evs)" for s evs
    by (cases "(tx_id, s)" rule: broadcast_outcome.cases)
      (simp_all add: handle_conn_errors_def try_io_def io_eval block_io_def)
  then show ?thesis by (simp add: broadcast_to_orderer_def handle_conn_errors_def try_io_def)
qed

lemma emits_broadcast [emits_intros]:
  "(\<And>ord. P (EnvelopeBroadcast ord envelope)) \<Longrightarrow> emits P (broadcast_to_orderer S envelope ord tx_id)"
  by (simp add: emits_def broadcast_to_orderer_eq)

lemma emits_broadcast_loop:
  "(\<And>ord. P (EnvelopeBroadcast ord envelope)) \<Longrightarrow> emits P (broadcast_loop S envelope tx_id err ords)"
  by (induction ords arbitrary: err)
    (auto intro!: emits_intros split: option.split)

lemma emits_broadcast_to_orderers [emits_intros]:
  "(\<And>ord. P (EnvelopeBroadcast ord envelope)) \<Longrightarrow> emits P (broadcast_to_orderers S envelope ords tx_id)"
  unfolding broadcast_to_orderers_def by (intro emits_intros emits_broadcast_loop)

lemma emits_process_proposal [emits_intros]:
  "P (ProposalSent peer sp) \<Longrightarrow> emits P (process_proposal_on_peer S sp peer)"
  by (simp add: emits_def process_proposal_eq)

section \<open>Fail-over\<close>

text \<open>
  The outcome at the \<open>i\<close>-th orderer, which is asked after the ones before it.
\<close>

definition attempt ::
  "sys \<Rightarrow> Envelope \<Rightarrow> pystr \<Rightarrow> Orderer list \<Rightarrow> trace \<Rightarrow> nat \<Rightarrow> BroadcastResponse option outcome" where
  "attempt S envelope tx_id ords tr i = broadcast_outcome tx_id
    (sys_Broadcast S (tr @ map (\<lambda>ord. EnvelopeBroadcast ord envelope) (take i ords)) (ords ! i) envelope)"

definition connection_failed :: "'a outcome \<Rightarrow> bool" where
  "connection_failed oc \<longleftrightarrow> (\<exists>c d. oc = Raised (BlockchainConnectionError c d))"

lemma attempt_Cons:
  "attempt S envelope tx_id (ord # ords) tr 0 = broadcast_outcome tx_id (sys_Broadcast S tr ord envelope)"
  "attempt S envelope tx_id (ord # ords) tr (Suc i) =
    attempt S envelope tx_id ords (tr @ [EnvelopeBroadcast ord envelope]) i"
  by (simp_all add: attempt_def)

lemma broadcast_loop_outcome:
  assumes "ords \<noteq> []"
  shows "\<exists>k < length ords.
    broadcast_loop S envelope tx_id err ords tr =
      (attempt S envelope tx_id ords tr k, tr @ map (\<lambda>ord. EnvelopeBroadcast ord envelope) (take (Suc k) ords)) \<and>
    (\<forall>i < k. connection_failed (attempt S envelope tx_id ords tr i)) \<and>
    (Suc k < length ords \<longrightarrow> \<not> connection_failed (attempt S envelope tx_id ords tr k))"
  using assms
proof (induction ords arbitrary: err tr)
  case (Cons ord ords)
  let ?oc = "broadcast_outcome tx_id (sys_Broadcast S tr ord envelope)"
  let ?tr = "tr @ [EnvelopeBroadcast ord envelope]"
  show ?case
  proof (cases "connection_failed ?oc \<and> ords \<noteq> []")
    case True
    then obtain c d where oc: "?oc = Raised (BlockchainConnectionError c d)"
      by (auto simp: connection_failed_def)
    have step: "broadcast_loop S envelope tx_id err (ord # ords) tr =
        broadcast_loop S envelope tx_id (Some (BlockchainConnectionError c d)) ords ?tr"
      by (simp add: try_io_def broadcast_to_orderer_eq oc)
    from Cons.IH [of "Some (BlockchainConnectionError c d)" ?tr] True
    obtain k where "k < length ords" and
      run: "broadcast_loop S envelope tx_id (Some (BlockchainConnectionError c d)) ords ?tr =
        (attempt S envelope tx_id ords ?tr k, ?tr @ map (\<lambda>ord. EnvelopeBroadcast ord envelope) (take (Suc k) ords))"
      and before: "\<forall>i < k. connection_failed (attempt S envelope tx_id ords ?tr i)"
      and stop: "Suc k < length ords \<longrightarrow> \<not> connection_failed (attempt S envelope tx_id ords ?tr k)"
      by blast
    moreover have "\<forall>i < Suc k. connection_failed (attempt S envelope tx_id (ord # ords) tr i)"
      using True before by (auto simp: less_Suc_eq_0_disj attempt_Cons)
    ultimately show ?thesis
      unfolding step by (intro exI [of _ "Suc k"]) (simp add: attempt_Cons)
  next
    case False
    have "broadcast_loop S envelope tx_id err (ord # ords) tr = (?oc, ?tr)"
    proof (cases "connection_failed ?oc")
      case True
      with False show ?thesis
        by (auto simp: connection_failed_def try_io_def broadcast_to_orderer_eq io_eval)
    next
      case no: False
      then show ?thesis
        by (cases ?oc)
          (auto simp: connection_failed_def try_io_def broadcast_to_orderer_eq io_eval
            is_BlockchainConnectionError_iff)
    qed
    with False show ?thesis by (intro exI [of _ 0]) (auto simp: attempt_Cons)
  qed
qed simp

lemma broadcast_to_orderers_Nil [simp]:
  "broadcast_to_orderers S envelope [] tx_id =
    raise_io (Py (ValueError (lit ''Must provide at least one orderer'')))"
  by (simp add: broadcast_to_orderers_def)

lemma broadcast_to_orderers_Cons:
  "ords \<noteq> [] \<Longrightarrow> broadcast_to_orderers S envelope ords tx_id = broadcast_loop S envelope tx_id None ords"
  by (simp add: broadcast_to_orderers_def)

lemma broadcast_Returned_D:
  assumes "broadcast_to_orderers S envelope ords tx_id tr = (Returned r, tr')"
  shows "\<exists>k < length ords. attempt S envelope tx_id ords tr k = Returned r \<and>
    tr' = tr @ map (\<lambda>ord. EnvelopeBroadcast ord envelope) (take (Suc k) ords) \<and>
    (\<forall>i < k. connection_failed (attempt S envelope tx_id ords tr i)) \<and>
    (\<forall>resp. r = Some resp \<longrightarrow> br_status resp = 200)"
proof -
  from assms have ne: "ords \<noteq> []" by (auto simp: raise_io_def)
  from broadcast_loop_outcome [OF ne, of S envelope tx_id None tr] assms
  obtain k where k: "k < length ords" "attempt S envelope tx_id ords tr k = Returned r"
    "tr' = tr @ map (\<lambda>ord. EnvelopeBroadcast ord envelope) (take (Suc k) ords)"
    "\<forall>i < k. connection_failed (attempt S envelope tx_id ords tr i)"
    by (auto simp: broadcast_to_orderers_Cons [OF ne])
  have "broadcast_outcome tx_id s = Returned (Some resp) \<Longrightarrow> br_status resp = 200" for s resp
    by (cases "(tx_id, s)" rule: broadcast_outcome.cases) (auto split: if_splits)
  with k(2) have "\<forall>resp. r = Some resp \<longrightarrow> br_status resp = 200"
    unfolding attempt_def by blast
  with k show ?thesis by blast
qed

text \<open>
  C6. Orderers are tried strictly in the order given, each at most once, until one does not
  fail to connect; that orderer's outcome is the result, be it a response, a rejection or
  the end of its stream, and no later orderer gets the envelope. When all connections fail
  the result is the failure of the last orderer.
\<close>

theorem broadcast_to_orderers_failover:
  assumes "ords \<noteq> []"
  shows "\<exists>k < length ords.
    broadcast_to_orderers S envelope ords tx_id tr =
      (attempt S envelope tx_id ords tr k, tr @ map (\<lambda>ord. EnvelopeBroadcast ord envelope) (take (Suc k) ords)) \<and>
    (\<forall>i < k. connection_failed (attempt S envelope tx_id ords tr i)) \<and>
    (Suc k < length ords \<longrightarrow> \<not> connection_failed (attempt S envelope tx_id ords tr k))"
  unfolding broadcast_to_orderers_Cons [OF assms] by (rule broadcast_loop_outcome [OF assms])

section \<open>Orderers that are down\<close>

definition orderer_down :: "sys \<Rightarrow> Orderer \<Rightarrow> bool" where
  "orderer_down S ord \<longleftrightarrow> (\<forall>tr envelope. \<exists>d e. sys_Broadcast S tr ord envelope = ([], d, Failed e) \<and>
    is_BlockchainConnectionError (conn_error e))"

definition orderer_accepts :: "sys \<Rightarrow> Orderer \<Rightarrow> bool" where
  "orderer_accepts S ord \<longleftrightarrow> (\<forall>tr envelope. \<exists>d resp rest fin.
    sys_Broadcast S tr ord envelope = ((d, resp) # rest, fin) \<and> br_status resp = 200)"

lemma broadcast_past_down:
  assumes "\<forall>q \<in> set qs. orderer_down S q" "orderer_accepts S ord"
  shows "\<exists>r. broadcast_loop S envelope tx_id err (qs @ ord # ords) tr =
    (Returned r, tr @ map (\<lambda>q. EnvelopeBroadcast q envelope) (qs @ [ord]))"
  using assms(1)
proof (induction qs arbitrary: err tr)
  case Nil
  from assms(2) obtain d resp rest fin where
    "sys_Broadcast S tr ord envelope = ((d, resp) # rest, fin)" "br_status resp = 200"
    unfolding orderer_accepts_def by blast
  then show ?case by (simp add: try_io_def broadcast_to_orderer_eq)
next
  case (Cons q qs)
  from Cons.prems obtain d e where
    "sys_Broadcast S tr q envelope = ([], d, Failed e)" "is_BlockchainConnectionError (conn_error e)"
    unfolding orderer_down_def by (meson list.set_intros(1))
  with Cons.IH [of "Some (conn_error e)" "tr @ [EnvelopeBroadcast q envelope]"] Cons.prems show ?case
    by (simp add: try_io_def broadcast_to_orderer_eq)
qed

text \<open>A world whose first orderer cannot be reached.\<close>

definition failover_sys :: sys where
  "failover_sys = example_sys\<lparr>sys_Broadcast := (\<lambda>tr ord envelope.
     if ord = example_orderer ''o1'' then ([], 0, Failed (RpcError (lit ''UNAVAILABLE'') []))
     else ([(0, \<lparr>br_status = 200, br_info = []\<rparr>)], 0, Closed))\<rparr>"

theorem broadcast_to_orderers_failover_witness:
  "broadcast_to_orderers failover_sys \<lparr>env_payload = [1], env_signature = [2]\<rparr>
     [example_orderer ''o1'', example_orderer ''o2'', example_orderer ''o3''] (lit ''07'') [] =
   (Returned (Some \<lparr>br_status = 200, br_info = []\<rparr>),
    [EnvelopeBroadcast (example_orderer ''o1'') \<lparr>env_payload = [1], env_signature = [2]\<rparr>,
     EnvelopeBroadcast (example_orderer ''o2'') \<lparr>env_payload = [1], env_signature = [2]\<rparr>])"
proof -
  let ?e = "\<lparr>env_payload = [1], env_signature = [2]\<rparr>"
  let ?os = "[example_orderer ''o1'', example_orderer ''o2'', example_orderer ''o3'']"
  have diff: "example_orderer ''o2'' \<noteq> example_orderer ''o1''"
    by (simp add: example_orderer_def)
  have a: "attempt failover_sys ?e (lit ''07'') ?os [] 0 = Raised (BlockchainConnectionError (lit ''UNAVAILABLE'') [])"
    "attempt failover_sys ?e (lit ''07'') ?os [] 1 = Returned (Some \<lparr>br_status = 200, br_info = []\<rparr>)"
    by (simp_all add: attempt_def failover_sys_def diff)
  obtain k where k: "k < length ?os"
    "broadcast_to_orderers failover_sys ?e ?os (lit ''07'') [] =
      (attempt failover_sys ?e (lit ''07'') ?os [] k,
       [] @ map (\<lambda>ord. EnvelopeBroadcast ord ?e) (take (Suc k) ?os))"
    "\<forall>i < k. connection_failed (attempt failover_sys ?e (lit ''07'') ?os [] i)"
    "Suc k < length ?os \<longrightarrow> \<not> connection_failed (attempt failover_sys ?e (lit ''07'') ?os [] k)"
    using broadcast_to_orderers_failover [of ?os failover_sys ?e "lit ''07''" "[]"] by blast
  have "k \<noteq> 0"
  proof
    assume "k = 0"
    with k(4) a(1) show False by (simp add: connection_failed_def)
  qed
  moreover have "\<not> 1 < k"
  proof
    assume "1 < k"
    with k(3) have "connection_failed (attempt failover_sys ?e (lit ''07'') ?os [] 1)" by blast
    with a(2) show False by (simp add: connection_failed_def)
  qed
  ultimately have "k = 1" by simp
  with k(2) a(2) show ?thesis by simp
qed

end
