(* ===== verification/Decoded.thy ===== *)
theory Decoded
  imports Factories
begin

text \<open>
  Decoded blocks and transactions (\<open>src/snakeskin/models/_decoded.py\<close>): the raw bytes of a
  block parsed down to headers, configurations, endorsements and invocations. The Python
  classes begin with an underscore, which is dropped here. A failing parse is the
  \<open>DecodeError\<close> of the runtime, a missing metadata entry an \<open>IndexError\<close> and an unknown
  header type a \<open>ValueError\<close>.
\<close>

section \<open>Decoded data\<close>

record DecodedSignatureHeader =
  dsh_creator :: SerializedIdentity
  dsh_nonce :: bytes

record DecodedConfigUpdateSignature =
  dcus_signature_header :: DecodedSignatureHeader
  dcus_signature :: bytes

record DecodedConfigUpdateEnvelope =
  dcue_config_update :: ConfigUpdate
  dcue_signatures :: "DecodedConfigUpdateSignature list"

record DecodedHeader =
  dh_channel_header :: ChannelHeader
  dh_signature_header :: DecodedSignatureHeader

record DecodedConfigLastUpdate =
  dclu_header :: DecodedHeader
  dclu_data :: DecodedConfigUpdateEnvelope

record DecodedConfigLastUpdateEnvelope =
  dclue_payload :: DecodedConfigLastUpdate
  dclue_signature :: bytes

record DecodedConfig =
  dc_config :: Config
  dc_last_update :: DecodedConfigLastUpdateEnvelope

record DecodedEndoresement =
  de_endorser :: SerializedIdentity
  de_signature :: bytes

record DecodedChaincodeEndorsedAction =
  dcea_proposal_response_payload :: ProposalResponsePayload
  dcea_endorsements :: "DecodedEndoresement list"

record DecodedChaincodeActionPayload =
  dcap_action :: DecodedChaincodeEndorsedAction
  dcap_chaincode_proposal_payload :: ChaincodeProposalPayload

record DecodedTransactionAction =
  dta_header :: DecodedSignatureHeader
  dta_payload :: DecodedChaincodeActionPayload

record DecodedTransactionBody =
  dtb_actions :: "DecodedTransactionAction list"

datatype DecodedPayloadData =
    ConfigData DecodedConfig
  | ConfigUpdateData DecodedConfigUpdateEnvelope
  | TransactionData DecodedTransactionBody
  | RawData bytes

record DecodedPayload =
  dp_header :: DecodedHeader
  dp_data :: DecodedPayloadData

record DecodedTX =
  dtx_signature :: bytes
  dtx_payload :: DecodedPayload

record DecodedMetadataSignature =
  dms_signatures :: bytes
  dms_signature_header :: DecodedSignatureHeader

record DecodedLastConfigMetadata =
  dlcm_signatures :: "DecodedMetadataSignature list"
  dlcm_value :: LastConfig

record DecodedMetadata =
  dmd_signatures :: "DecodedMetadataSignature list"
  dmd_value :: bytes

type_synonym DecodedMetadataSequence = "DecodedMetadata \<times> DecodedLastConfigMetadata \<times> nat list"

record DecodedBlockMetadata =
  dbm_metadata :: DecodedMetadataSequence

record DecodedBlockData =
  dbd_data :: "DecodedTX list"

record DecodedBlock =
  db_header :: BlockHeader
  db_data :: DecodedBlockData
  db_metadata :: DecodedBlockMetadata

section \<open>Decoding\<close>

definition decode_signature_header :: "runtime \<Rightarrow> bytes \<Rightarrow> DecodedSignatureHeader result" where
  "decode_signature_header pb bs =
    bind_res (FromString (pb_SignatureHeader pb) bs) (\<lambda>h.
    bind_res (FromString (pb_SerializedIdentity pb) (sh_creator h)) (\<lambda>creator.
      Inr \<lparr>dsh_creator = creator, dsh_nonce = sh_nonce h\<rparr>))"

definition decode_config_update_envelope :: "runtime \<Rightarrow> bytes \<Rightarrow> DecodedConfigUpdateEnvelope result" where
  "decode_config_update_envelope pb bs =
    bind_res (FromString (pb_ConfigUpdateEnvelope pb) bs) (\<lambda>envelope.
    bind_res (FromString (pb_ConfigUpdate pb) (cue_config_update envelope)) (\<lambda>update.
    bind_res (map_res (\<lambda>s. bind_res (decode_signature_header pb (csig_signature_header s)) (\<lambda>h.
                Inr \<lparr>dcus_signature_header = h, dcus_signature = csig_signature s\<rparr>))
              (cue_signatures envelope)) (\<lambda>sigs.
      Inr \<lparr>dcue_config_update = update, dcue_signatures = sigs\<rparr>)))"

definition decode_header :: "runtime \<Rightarrow> Header \<Rightarrow> DecodedHeader result" where
  "decode_header pb h =
    bind_res (FromString (pb_ChannelHeader pb) (hdr_channel_header h)) (\<lambda>c.
    bind_res (decode_signature_header pb (hdr_signature_header h)) (\<lambda>s.
      Inr \<lparr>dh_channel_header = c, dh_signature_header = s\<rparr>))"

definition decode_config :: "runtime \<Rightarrow> bytes \<Rightarrow> DecodedConfig result" where
  "decode_config pb bs =
    bind_res (FromString (pb_ConfigEnvelope pb) bs) (\<lambda>env.
    bind_res (FromString (pb_Payload pb) (env_payload (cenv_last_update env))) (\<lambda>payload.
    bind_res (decode_header pb (pl_header payload)) (\<lambda>h.
    bind_res (decode_config_update_envelope pb (pl_data payload)) (\<lambda>d.
      Inr \<lparr>dc_config = cenv_config env,
           dc_last_update =
             \<lparr>dclue_payload = \<lparr>dclu_header = h, dclu_data = d\<rparr>,
              dclue_signature = env_signature (cenv_last_update env)\<rparr>\<rparr>))))"

definition decode_endorsement :: "runtime \<Rightarrow> Endorsement \<Rightarrow> DecodedEndoresement result" where
  "decode_endorsement pb e =
    bind_res (FromString (pb_SerializedIdentity pb) (end_endorser e)) (\<lambda>i.
      Inr \<lparr>de_endorser = i, de_signature = end_signature e\<rparr>)"

definition decode_transaction_action :: "runtime \<Rightarrow> TransactionAction \<Rightarrow> DecodedTransactionAction result" where
  "decode_transaction_action pb a =
    bind_res (FromString (pb_ChaincodeActionPayload pb) (ta_payload a)) (\<lambda>payload.
    bind_res (decode_signature_header pb (ta_header a)) (\<lambda>h.
    bind_res (FromString (pb_ProposalResponsePayload pb)
                (cea_proposal_response_payload (cap_action payload))) (\<lambda>prp.
    bind_res (map_res (decode_endorsement pb) (cea_endorsements (cap_action payload))) (\<lambda>es.
    bind_res (FromString (pb_ChaincodeProposalPayload pb)
                (cap_chaincode_proposal_payload payload)) (\<lambda>cpp.
      Inr \<lparr>dta_header = h,
           dta_payload =
             \<lparr>dcap_action = \<lparr>dcea_proposal_response_payload = prp, dcea_endorsements = es\<rparr>,
              dcap_chaincode_proposal_payload = cpp\<rparr>\<rparr>)))))"

definition decode_transaction_body :: "runtime \<Rightarrow> bytes \<Rightarrow> DecodedTransactionBody result" where
  "decode_transaction_body pb bs =
    bind_res (FromString (pb_Transaction pb) bs) (\<lambda>t.
    bind_res (map_res (decode_transaction_action pb) (tx_actions t)) (\<lambda>as.
      Inr \<lparr>dtb_actions = as\<rparr>))"

definition decode_payload_data :: "runtime \<Rightarrow> TransactionType \<Rightarrow> bytes \<Rightarrow> DecodedPayloadData result" where
  "decode_payload_data pb t bs =
    (if t = TT_Config then bind_res (decode_config pb bs) (\<lambda>d. Inr (ConfigData d))
     else if t = TT_ConfigUpdate then
       bind_res (decode_config_update_envelope pb bs) (\<lambda>d. Inr (ConfigUpdateData d))
     else if t = TT_EndorserTransaction then
       bind_res (decode_transaction_body pb bs) (\<lambda>d. Inr (TransactionData d))
     else Inr (RawData bs))"

definition DecodedTX_decode :: "runtime \<Rightarrow> bytes \<Rightarrow> DecodedTX result" where
  "DecodedTX_decode pb bs =
    bind_res (FromString (pb_Envelope pb) bs) (\<lambda>envelope.
    bind_res (FromString (pb_Payload pb) (env_payload envelope)) (\<lambda>payload.
    bind_res (decode_header pb (pl_header payload)) (\<lambda>header.
    bind_res (TransactionType_of (ch_type (dh_channel_header header))) (\<lambda>payload_type.
    bind_res (decode_payload_data pb payload_type (pl_data payload)) (\<lambda>data.
      Inr \<lparr>dtx_signature = env_signature envelope,
           dtx_payload = \<lparr>dp_header = header, dp_data = data\<rparr>\<rparr>)))))"

definition DecodedTX_tx_id :: "DecodedTX \<Rightarrow> pystr" where
  "DecodedTX_tx_id t = ch_tx_id (dh_channel_header (dp_header (dtx_payload t)))"

definition decode_metadata_signatures :: "runtime \<Rightarrow> Metadata \<Rightarrow> DecodedMetadataSignature list result" where
  "decode_metadata_signatures pb m =
    map_res (\<lambda>s. bind_res (decode_signature_header pb (mds_signature_header s)) (\<lambda>h.
      Inr \<lparr>dms_signatures = mds_signature s, dms_signature_header = h\<rparr>)) (md_signatures m)"

definition decode_block_metadata :: "runtime \<Rightarrow> bytes list \<Rightarrow> DecodedMetadataSequence result" where
  "decode_block_metadata pb ms =
    bind_res (nth_res ms LAST_CONFIG) (\<lambda>lc_bytes.
    bind_res (FromString (pb_Metadata pb) lc_bytes) (\<lambda>last_config_meta.
    bind_res (FromString (pb_LastConfig pb) (md_value last_config_meta)) (\<lambda>last_config.
    bind_res (nth_res ms SIGNATURES) (\<lambda>sig_bytes.
    bind_res (FromString (pb_Metadata pb) sig_bytes) (\<lambda>sig_metadata.
    bind_res (decode_metadata_signatures pb sig_metadata) (\<lambda>sigs.
    bind_res (decode_metadata_signatures pb last_config_meta) (\<lambda>lc_sigs.
    bind_res (nth_res ms TRANSACTIONS_FILTER) (\<lambda>flt.
      Inr (\<lparr>dmd_signatures = sigs, dmd_value = md_value sig_metadata\<rparr>,
           \<lparr>dlcm_signatures = lc_sigs, dlcm_value = last_config\<rparr>,
           bytes_nats flt)))))))))"

definition DecodedBlock_decode ::
  "runtime \<Rightarrow> BlockHeader \<Rightarrow> BlockData \<Rightarrow> BlockMetadata \<Rightarrow> DecodedBlock result" where
  "DecodedBlock_decode pb header data metadata =
    bind_res (map_res (DecodedTX_decode pb) (bd_data data)) (\<lambda>txs.
    bind_res (decode_block_metadata pb (bm_metadata metadata)) (\<lambda>m.
      Inr \<lparr>db_header = header, db_data = \<lparr>dbd_data = txs\<rparr>, db_metadata = \<lparr>dbm_metadata = m\<rparr>\<rparr>))"

definition DecodedBlock_transactions :: "DecodedBlock \<Rightarrow> DecodedTX list" where
  "DecodedBlock_transactions b = dbd_data (db_data b)"

section \<open>Decoding what was built\<close>

lemma decode_built_header:
  assumes "runtime_ok (sys_pb S)"
    and "build_header S ctx channel extension tx_type tls_cert tr = (Returned h, tr')"
  shows "\<exists>chdr. decode_header (sys_pb S) h =
      Inr \<lparr>dh_channel_header = chdr,
           dh_signature_header = \<lparr>dsh_creator = txc_identity ctx, dsh_nonce = txc_nonce ctx\<rparr>\<rparr> \<and>
    decode_signature_header (sys_pb S) (hdr_signature_header h) =
      Inr \<lparr>dsh_creator = txc_identity ctx, dsh_nonce = txc_nonce ctx\<rparr> \<and>
    ch_tx_id chdr = txc_tx_id ctx \<and> ch_type chdr = TransactionType_value tx_type \<and>
    encode_proto_str (channel_text channel) = Inr (ch_channel_id chdr)"
  using build_header_Returned_D [OF assms(2)]
  by (auto simp: decode_header_def decode_signature_header_def signature_header_def
      runtime_okD [OF assms(1), unfolded coder_ok_def])

lemma decode_transaction_envelope:
  assumes "runtime_ok pb" "decode_header pb h = Inr dh"
    and "TransactionType_of (ch_type (dh_channel_header dh)) = Inr t"
  shows "DecodedTX_decode pb (ser (pb_Envelope pb)
      \<lparr>env_payload = ser (pb_Payload pb) \<lparr>pl_header = h, pl_data = bs\<rparr>, env_signature = s\<rparr>) =
    bind_res (decode_payload_data pb t bs) (\<lambda>data.
      Inr \<lparr>dtx_signature = s, dtx_payload = \<lparr>dp_header = dh, dp_data = data\<rparr>\<rparr>)"
  using assms by (simp add: DecodedTX_decode_def)

lemma generated_tx_header:
  assumes "runtime_ok (sys_pb S)"
    and "build_generated_tx S u ccname args channel tm tr = (Returned g, tr')"
  shows "\<exists>chdr. decode_header (sys_pb S) (gtx_header g) =
      Inr \<lparr>dh_channel_header = chdr, dh_signature_header =
        \<lparr>dsh_creator = user_identity u, dsh_nonce = txc_nonce (gtx_tx_context g)\<rparr>\<rparr> \<and>
    decode_signature_header (sys_pb S) (hdr_signature_header (gtx_header g)) =
      Inr \<lparr>dsh_creator = user_identity u, dsh_nonce = txc_nonce (gtx_tx_context g)\<rparr> \<and>
    ch_tx_id chdr = GeneratedTX_tx_id g \<and>
    TransactionType_of (ch_type chdr) = Inr TT_EndorserTransaction"
proof -
  from build_generated_tx_Returned_D [OF assms(2)] obtain t1 t2 ext where
    ctx: "tx_context_from_user (sys_pb S) u tr = (Returned (gtx_tx_context g), t1)" and
    hdr: "build_header S (gtx_tx_context g) channel (Some ext) TT_EndorserTransaction None t1 =
      (Returned (gtx_header g), t2)"
    by blast
  have ident: "txc_identity (gtx_tx_context g) = user_identity u"
    using ctx by (auto simp: tx_context_Returned_iff)
  from decode_built_header [OF assms(1) hdr] show ?thesis
    unfolding ident GeneratedTX_tx_id_def by (metis TransactionType_of_value)
qed

lemma generated_tx_payload:
  assumes "build_generated_tx S u ccname args channel tm tr = (Returned g, tr')"
  shows "prop_payload (gtx_proposal g) = ser (pb_ChaincodeProposalPayload (sys_pb S))
    \<lparr>cpp_input = ser (pb_ChaincodeInvocationSpec (sys_pb S)) \<lparr>cis_chaincode_spec =
       \<lparr>ccs_type = 1, ccs_chaincode_id = chaincode_id ccname [] [],
        ccs_input = Some \<lparr>cci_args = args, cci_decorations = []\<rparr>, ccs_timeout = 0\<rparr>\<rparr>,
     cpp_TransientMap = []\<rparr>"
  using build_generated_tx_Returned_D [OF assms] by (auto simp: invocation_payload_Inr)

definition endorsed_action :: "runtime \<Rightarrow> EndorsedTX \<Rightarrow> TransactionAction" where
  "endorsed_action pb etx =
    \<lparr>ta_header = hdr_signature_header (etx_header etx),
     ta_payload = ser (pb_ChaincodeActionPayload pb)
       \<lparr>cap_chaincode_proposal_payload = prop_payload (etx_proposal etx),
        cap_action = \<lparr>cea_proposal_response_payload = pr_payload (hd (etx_peer_responses etx)),
          cea_endorsements = map pr_endorsement (etx_peer_responses etx)\<rparr>\<rparr>\<rparr>"

lemma build_endorsed_tx_envelope_Returned_D:
  assumes "build_endorsed_tx_envelope S etx u tr = (Returned env, tr')"
  shows "etx_peer_responses etx \<noteq> [] \<and>
    sign u (env_payload env) tr = (Returned (env_signature env), tr') \<and>
    env_payload env = ser (pb_Payload (sys_pb S)) \<lparr>pl_header = etx_header etx,
      pl_data = ser (pb_Transaction (sys_pb S)) \<lparr>tx_actions = [endorsed_action (sys_pb S) etx]\<rparr>\<rparr>"
proof -
  from assms have ne: "etx_peer_responses etx \<noteq> []"
    by (auto simp: build_endorsed_tx_envelope_def bind_Returned_iff)
  then have "etx_peer_responses etx ! 0 = hd (etx_peer_responses etx)" by (simp add: hd_conv_nth)
  with assms ne show ?thesis
    by (auto simp: build_endorsed_tx_envelope_def endorsed_action_def Let_def bind_Returned_iff wrap_Returned_iff)
qed

lemma decode_endorsed_action:
  assumes "runtime_ok pb" "prop_payload (etx_proposal etx) = ser (pb_ChaincodeProposalPayload pb) cpp"
    and "decode_signature_header pb (hdr_signature_header (etx_header etx)) = Inr h"
    and "FromString (pb_ProposalResponsePayload pb) (pr_payload (hd (etx_peer_responses etx))) = Inr prp"
    and "map_res (decode_endorsement pb) (map pr_endorsement (etx_peer_responses etx)) = Inr es"
  shows "decode_payload_data pb TT_EndorserTransaction
      (ser (pb_Transaction pb) \<lparr>tx_actions = [endorsed_action pb etx]\<rparr>) =
    Inr (TransactionData \<lparr>dtb_actions =
      [\<lparr>dta_header = h, dta_payload =
         \<lparr>dcap_action = \<lparr>dcea_proposal_response_payload = prp, dcea_endorsements = es\<rparr>,
          dcap_chaincode_proposal_payload = cpp\<rparr>\<rparr>]\<rparr>)"
  using assms runtime_okD [OF assms(1)]
  by (simp add: decode_payload_data_def decode_transaction_body_def decode_transaction_action_def
      endorsed_action_def)

text \<open>
  C12. Round trip of an endorsed transaction: the envelope that is sent to the orderer for a
  generated transaction decodes, in a block, to a transaction with the same id, created by the
  requestor with the transaction's nonce; its signature is that of the user who submits it,
  over exactly the bytes of the payload; its one action holds the first peer's response payload,
  the endorsements of all peers in their order and the invocation, which decodes to the
  chaincode's name and the arguments, without any transient data.
\<close>

theorem decode_endorsed_envelope:
  assumes "runtime_ok (sys_pb S)"
    and "build_generated_tx S u ccname args channel tm tr = (Returned g, tr1)"
    and "build_endorsed_tx_envelope S
          \<lparr>etx_peer_responses = r # rs, etx_proposal = gtx_proposal g, etx_header = gtx_header g,
           etx_tx_context = gtx_tx_context g\<rparr> u' tr2 = (Returned env, tr3)"
    and "FromString (pb_ProposalResponsePayload (sys_pb S)) (pr_payload r) = Inr prp"
    and "map_res (decode_endorsement (sys_pb S)) (map pr_endorsement (r # rs)) = Inr es"
  shows "\<exists>d chdr spec key seed. DecodedTX_decode (sys_pb S) (ser (pb_Envelope (sys_pb S)) env) = Inr d \<and>
    DecodedTX_tx_id d = GeneratedTX_tx_id g \<and>
    private_key u' = Some key \<and>
    sign_message (user_suite u') seed key (env_payload env) = Inr (dtx_signature d) \<and>
    FromString (pb_ChaincodeInvocationSpec (sys_pb S)) spec = Inr \<lparr>cis_chaincode_spec =
      \<lparr>ccs_type = 1, ccs_chaincode_id = chaincode_id ccname [] [],
       ccs_input = Some \<lparr>cci_args = args, cci_decorations = []\<rparr>, ccs_timeout = 0\<rparr>\<rparr> \<and>
    d = \<lparr>dtx_signature = env_signature env,
         dtx_payload =
           \<lparr>dp_header = \<lparr>dh_channel_header = chdr,
              dh_signature_header =
                \<lparr>dsh_creator = user_identity u, dsh_nonce = txc_nonce (gtx_tx_context g)\<rparr>\<rparr>,
            dp_data = TransactionData \<lparr>dtb_actions =
              [\<lparr>dta_header =
                  \<lparr>dsh_creator = user_identity u, dsh_nonce = txc_nonce (gtx_tx_context g)\<rparr>,
                dta_payload =
                  \<lparr>dcap_action =
                     \<lparr>dcea_proposal_response_payload = prp, dcea_endorsements = es\<rparr>,
                   dcap_chaincode_proposal_payload =
                     \<lparr>cpp_input = spec, cpp_TransientMap = []\<rparr>\<rparr>\<rparr>]\<rparr>\<rparr>\<rparr>"
proof -
  let ?pb = "sys_pb S" let ?h = "\<lparr>dsh_creator = user_identity u, dsh_nonce = txc_nonce (gtx_tx_context g)\<rparr>"
  let ?etx = "\<lparr>etx_peer_responses = r # rs, etx_proposal = gtx_proposal g, etx_header = gtx_header g,
           etx_tx_context = gtx_tx_context g\<rparr>"
  from generated_tx_header [OF assms(1,2)] obtain chdr where
    dh: "decode_header ?pb (gtx_header g) = Inr \<lparr>dh_channel_header = chdr, dh_signature_header = ?h\<rparr>" and
    dsh: "decode_signature_header ?pb (hdr_signature_header (gtx_header g)) = Inr ?h" and
    id: "ch_tx_id chdr = GeneratedTX_tx_id g" and
    type: "TransactionType_of (ch_type chdr) = Inr TT_EndorserTransaction" by blast
  define spec where "spec = ser (pb_ChaincodeInvocationSpec ?pb) \<lparr>cis_chaincode_spec =
      \<lparr>ccs_type = 1, ccs_chaincode_id = chaincode_id ccname [] [],
       ccs_input = Some \<lparr>cci_args = args, cci_decorations = []\<rparr>, ccs_timeout = 0\<rparr>\<rparr>"
  note spec = generated_tx_payload [OF assms(2), folded spec_def]
  have inv: "FromString (pb_ChaincodeInvocationSpec ?pb) spec = Inr \<lparr>cis_chaincode_spec =
      \<lparr>ccs_type = 1, ccs_chaincode_id = chaincode_id ccname [] [],
       ccs_input = Some \<lparr>cci_args = args, cci_decorations = []\<rparr>, ccs_timeout = 0\<rparr>\<rparr>"
    using runtime_okD [OF assms(1)] by (simp add: spec_def)
  from build_endorsed_tx_envelope_Returned_D [OF assms(3)] obtain key where
    key: "private_key u' = Some key" "sign_message (user_suite u') (length tr2) key (env_payload env) = Inr (env_signature env)"
    by (auto simp: sign_Returned_iff)
  have body: "decode_payload_data ?pb TT_EndorserTransaction
      (ser (pb_Transaction ?pb) \<lparr>tx_actions = [endorsed_action ?pb ?etx]\<rparr>) =
    Inr (TransactionData \<lparr>dtb_actions = [\<lparr>dta_header = ?h, dta_payload =
         \<lparr>dcap_action = \<lparr>dcea_proposal_response_payload = prp, dcea_endorsements = es\<rparr>,
          dcap_chaincode_proposal_payload = \<lparr>cpp_input = spec, cpp_TransientMap = []\<rparr>\<rparr>\<rparr>]\<rparr>)"
    by (rule decode_endorsed_action [OF assms(1)]) (use spec dsh assms(4,5) in simp_all)
  have "env = \<lparr>env_payload = ser (pb_Payload ?pb) \<lparr>pl_header = gtx_header g,
      pl_data = ser (pb_Transaction ?pb) \<lparr>tx_actions = [endorsed_action ?pb ?etx]\<rparr>\<rparr>,
      env_signature = env_signature env\<rparr>"
    using build_endorsed_tx_envelope_Returned_D [OF assms(3)] by (cases env) simp
  with decode_transaction_envelope [OF assms(1) dh, of TT_EndorserTransaction] type body
  have "DecodedTX_decode ?pb (ser (pb_Envelope ?pb) env) = Inr
      \<lparr>dtx_signature = env_signature env, dtx_payload =
         \<lparr>dp_header = \<lparr>dh_channel_header = chdr, dh_signature_header = ?h\<rparr>,
          dp_data = TransactionData \<lparr>dtb_actions = [\<lparr>dta_header = ?h, dta_payload =
            \<lparr>dcap_action = \<lparr>dcea_proposal_response_payload = prp, dcea_endorsements = es\<rparr>,
             dcap_chaincode_proposal_payload = \<lparr>cpp_input = spec, cpp_TransientMap = []\<rparr>\<rparr>\<rparr>]\<rparr>\<rparr>\<rparr>"
    by (metis (no_types, lifting) DecodedHeader.select_convs(1) bind_res.simps(2))
  then show ?thesis using id key inv by (intro exI conjI) (assumption | simp add: DecodedTX_tx_id_def)+
qed

lemma build_endorsed_tx_envelope_total:
  assumes "etx_peer_responses etx \<noteq> []" "user_ready u"
  shows "\<exists>env tr'. build_endorsed_tx_envelope S etx u tr = (Returned env, tr')"
proof -
  from assms(1) obtain r rs where "etx_peer_responses etx = r # rs"
    unfolding neq_Nil_conv by blast
  with wrap_total [OF assms(2)] show ?thesis
    by (simp add: build_endorsed_tx_envelope_def Let_def)
qed

text \<open>The answer of a peer that endorses.\<close>

definition endorsing_response :: ProposalResponse where
  "endorsing_response = (example_response 200 [])
    \<lparr>pr_payload := ser (pb_ProposalResponsePayload reference_runtime)
       \<lparr>prp_proposal_hash = [1], prp_extension = [2]\<rparr>,
     pr_endorsement :=
       \<lparr>end_endorser = ser (pb_SerializedIdentity reference_runtime) (user_identity example_user),
        end_signature = [4]\<rparr>\<rparr>"

theorem decode_endorsed_envelope_witness:
  "\<exists>g tr1 env tr3 d. build_generated_tx example_sys example_user (lit ''cc'') [[1]]
      (Some example_channel) None [] = (Returned g, tr1) \<and>
    build_endorsed_tx_envelope example_sys
      \<lparr>etx_peer_responses = [endorsing_response, endorsing_response], etx_proposal = gtx_proposal g,
       etx_header = gtx_header g, etx_tx_context = gtx_tx_context g\<rparr> example_user tr1 = (Returned env, tr3) \<and>
    DecodedTX_decode reference_runtime (ser (pb_Envelope reference_runtime) env) = Inr d \<and>
    DecodedTX_tx_id d = GeneratedTX_tx_id g"
proof -
  have pb: "sys_pb example_sys = reference_runtime" by (simp add: example_sys_def)
  obtain g tr1 where g: "build_generated_tx example_sys example_user (lit ''cc'') [[1]]
      (Some example_channel) None [] = (Returned g, tr1)"
    using build_generated_tx_total [OF example_sys_pb example_channel_text example_user_ready] by blast
  let ?etx = "\<lparr>etx_peer_responses = [endorsing_response, endorsing_response],
    etx_proposal = gtx_proposal g, etx_header = gtx_header g, etx_tx_context = gtx_tx_context g\<rparr>"
  obtain env tr3 where env: "build_endorsed_tx_envelope example_sys ?etx example_user tr1 = (Returned env, tr3)"
    using build_endorsed_tx_envelope_total [of ?etx example_user example_sys tr1] by auto
  note rt = runtime_okD [OF reference_runtime_ok]
  have prp: "FromString (pb_ProposalResponsePayload (sys_pb example_sys)) (pr_payload endorsing_response) =
      Inr \<lparr>prp_proposal_hash = [1], prp_extension = [2]\<rparr>"
    using rt by (simp add: pb endorsing_response_def)
  have es: "map_res (decode_endorsement (sys_pb example_sys))
      (map pr_endorsement [endorsing_response, endorsing_response]) =
      Inr [\<lparr>de_endorser = user_identity example_user, de_signature = [4]\<rparr>,
           \<lparr>de_endorser = user_identity example_user, de_signature = [4]\<rparr>]"
    using rt by (simp add: pb decode_endorsement_def endorsing_response_def)
  from decode_endorsed_envelope [OF example_sys_pb g env prp es] g env show ?thesis
    unfolding pb by blast
qed

section \<open>Decoding blocks\<close>

lemma decode_block_metadata_Inr_D:
  assumes "decode_block_metadata pb ms = Inr (sigs, lc, flt)"
  shows "3 \<le> length ms \<and> flt = bytes_nats (ms ! 2) \<and>
    (\<exists>m. des (pb_Metadata pb) (ms ! 1) = Some m \<and> des (pb_LastConfig pb) (md_value m) = Some (dlcm_value lc)) \<and>
    (\<exists>m. des (pb_Metadata pb) (ms ! 0) = Some m \<and> md_value m = dmd_value sigs)"
  using assms unfolding decode_block_metadata_def
  by (auto simp: LAST_CONFIG_def SIGNATURES_def TRANSACTIONS_FILTER_def)

text \<open>
  C33. A decoded block keeps the header, has exactly one decoded transaction per entry of the
  block, in the block's order, and the validation codes of the transaction filter; one entry
  that does not decode, or a block with fewer than three metadata entries, fails as a whole.
\<close>

theorem DecodedBlock_decode_sound:
  "DecodedBlock_decode pb h d m = Inr b \<longleftrightarrow>
    db_header b = h \<and>
    map_res (DecodedTX_decode pb) (bd_data d) = Inr (DecodedBlock_transactions b) \<and>
    length (DecodedBlock_transactions b) = length (bd_data d) \<and>
    decode_block_metadata pb (bm_metadata m) = Inr (dbm_metadata (db_metadata b)) \<and>
    3 \<le> length (bm_metadata m) \<and>
    snd (snd (dbm_metadata (db_metadata b))) = bytes_nats (bm_metadata m ! 2)"
proof -
  have "DecodedBlock_decode pb h d m = Inr b \<longleftrightarrow> db_header b = h \<and>
      map_res (DecodedTX_decode pb) (bd_data d) = Inr (dbd_data (db_data b)) \<and>
      decode_block_metadata pb (bm_metadata m) = Inr (dbm_metadata (db_metadata b))"
    unfolding DecodedBlock_decode_def
    by (cases b; cases "db_data b"; cases "db_metadata b"; cases "dbm_metadata (db_metadata b)") auto
  moreover obtain sigs lc flt where "dbm_metadata (db_metadata b) = (sigs, lc, flt)" by (cases "dbm_metadata (db_metadata b)")
  ultimately show ?thesis
    using decode_block_metadata_Inr_D [of pb "bm_metadata m" sigs lc flt]
      map_res_length [of "DecodedTX_decode pb" "bd_data d" "dbd_data (db_data b)"]
    by (auto simp: DecodedBlock_transactions_def)
qed

end
