(* ===== verification/Blocks.thy ===== *)
theory Blocks
  imports Decoded
begin

text \<open>
  Blocks as the event hubs deliver them (\<open>src/snakeskin/models/block.py\<close>): raw blocks, whose
  transactions are bytes, and filtered blocks, whose transactions are \<open>FilteredTX\<close>.
\<close>

record RawBlock =
  rb_header :: BlockHeader
  rb_data :: BlockData
  rb_metadata :: BlockMetadata

record FilteredBlock =
  flb_channel_id :: pystr
  flb_number :: int
  flb_transactions :: "FilteredTX list"

definition RawBlock_from_proto :: "Block \<Rightarrow> RawBlock" where
  "RawBlock_from_proto b =
    \<lparr>rb_header = blk_header b, rb_data = blk_data b, rb_metadata = blk_metadata b\<rparr>"

definition RawBlock_transactions :: "RawBlock \<Rightarrow> bytes list" where
  "RawBlock_transactions b = bd_data (rb_data b)"

definition RawBlock_decode :: "runtime \<Rightarrow> RawBlock \<Rightarrow> DecodedBlock result" where
  "RawBlock_decode pb b = DecodedBlock_decode pb (rb_header b) (rb_data b) (rb_metadata b)"

definition RawBlock_as_proto :: "RawBlock \<Rightarrow> Block" where
  "RawBlock_as_proto b =
    \<lparr>blk_header = rb_header b, blk_data = rb_data b, blk_metadata = rb_metadata b\<rparr>"

definition FilteredBlock_from_proto :: "FilteredBlockProto \<Rightarrow> FilteredBlock result" where
  "FilteredBlock_from_proto b =
    bind_res (map_res FilteredTX_from_proto (fb_filtered_transactions b)) (\<lambda>txs.
      Inr \<lparr>flb_channel_id = fb_channel_id b, flb_number = fb_number b, flb_transactions = txs\<rparr>)"

lemma RawBlock_roundtrip [simp]:
  "RawBlock_as_proto (RawBlock_from_proto b) = b"
  "RawBlock_from_proto (RawBlock_as_proto r) = r"
  by (simp_all add: RawBlock_as_proto_def RawBlock_from_proto_def)

lemma RawBlock_from_proto_sel [simp]:
  "RawBlock_transactions (RawBlock_from_proto b) = bd_data (blk_data b)"
  by (simp add: RawBlock_transactions_def RawBlock_from_proto_def)

lemma FilteredTX_from_proto_Inr_iff:
  "FilteredTX_from_proto f = Inr t \<longleftrightarrow>
    ftx_tx_id t = ft_txid f \<and> TransactionType_value (ftx_type t) = ft_type f \<and>
    ftx_tx_validation_code t = ft_tx_validation_code f \<and> ftx_actions t = ft_transaction_actions f"
  by (cases t) (auto simp: FilteredTX_from_proto_def TransactionType_of_Inr_iff)

lemma FilteredBlock_from_proto_Inr_D:
  assumes "FilteredBlock_from_proto b = Inr fb"
  shows "flb_number fb = fb_number b \<and> flb_channel_id fb = fb_channel_id b \<and>
    map ftx_tx_id (flb_transactions fb) = map ft_txid (fb_filtered_transactions b) \<and>
    map ftx_tx_validation_code (flb_transactions fb) =
      map ft_tx_validation_code (fb_filtered_transactions b)"
proof -
  from assms obtain txs where txs: "map_res FilteredTX_from_proto (fb_filtered_transactions b) = Inr txs"
    "fb = \<lparr>flb_channel_id = fb_channel_id b, flb_number = fb_number b, flb_transactions = txs\<rparr>"
    by (auto simp: FilteredBlock_from_proto_def)
  from txs(1) have "list_all2 (\<lambda>f t. FilteredTX_from_proto f = Inr t) (fb_filtered_transactions b) txs"
    by (simp add: map_res_Inr_iff)
  then have "map ftx_tx_id txs = map ft_txid (fb_filtered_transactions b) \<and>
      map ftx_tx_validation_code txs = map ft_tx_validation_code (fb_filtered_transactions b)"
    by (induction rule: list_all2_induct) (auto simp: FilteredTX_from_proto_Inr_iff)
  with txs(2) show ?thesis by simp
qed

text \<open>
  A filtered block is accepted exactly when all its transactions have a known header
  type, and then lists their ids and validation codes unchanged, in order.
\<close>

theorem FilteredBlock_from_proto_faithful:
  "case FilteredBlock_from_proto b of
     Inl e \<Rightarrow> \<not> (\<forall>f \<in> set (fb_filtered_transactions b). ft_type f \<in> snd ` set HeaderType)
   | Inr fb \<Rightarrow> (\<forall>f \<in> set (fb_filtered_transactions b). ft_type f \<in> snd ` set HeaderType) \<and>
       flb_number fb = fb_number b \<and> flb_channel_id fb = fb_channel_id b \<and>
       map (\<lambda>t. (ftx_tx_id t, ftx_tx_validation_code t)) (flb_transactions fb) =
         map (\<lambda>f. (ft_txid f, ft_tx_validation_code f)) (fb_filtered_transactions b)"
proof -
  let ?known = "\<forall>f \<in> set (fb_filtered_transactions b). ft_type f \<in> snd ` set HeaderType"
  have "(\<exists>txs. map_res FilteredTX_from_proto (fb_filtered_transactions b) = Inr txs) \<longleftrightarrow> ?known"
    unfolding map_res_ex_iff FilteredTX_from_proto_total ..
  then have known: "(\<exists>fb. FilteredBlock_from_proto b = Inr fb) \<longleftrightarrow> ?known"
    unfolding FilteredBlock_from_proto_def by (auto simp: bind_res_Inr_iff)
  have pairs: "map (\<lambda>x. (f x, g x)) xs = zip (map f xs) (map g xs)" for f :: "'x \<Rightarrow> 'y" and g :: "'x \<Rightarrow> 'z" and xs
    by (induction xs) simp_all
  show ?thesis
  proof (cases "FilteredBlock_from_proto b")
    case (Inr fb)
    with known FilteredBlock_from_proto_Inr_D [OF Inr] show ?thesis by (simp add: pairs)
  qed (use known in auto)
qed

theorem FilteredBlock_from_proto_faithful_witness:
  "\<exists>fb. FilteredBlock_from_proto (dr_filtered_block (filtered_block [filtered_tx ''02'' 11, filtered_tx ''07'' 0])) = Inr fb \<and>
    map (\<lambda>t. (ftx_tx_id t, ftx_tx_validation_code t)) (flb_transactions fb) = [(lit ''02'', 11), (lit ''07'', 0)]"
proof -
  let ?b = "dr_filtered_block (filtered_block [filtered_tx ''02'' 11, filtered_tx ''07'' 0])"
  have "\<forall>f \<in> set (fb_filtered_transactions ?b). ft_type f \<in> snd ` set HeaderType"
    by (simp add: filtered_block_def filtered_tx_def HeaderType_def)
  with FilteredBlock_from_proto_faithful [of ?b] obtain fb where
    fb: "FilteredBlock_from_proto ?b = Inr fb"
    "map (\<lambda>t. (ftx_tx_id t, ftx_tx_validation_code t)) (flb_transactions fb) =
       map (\<lambda>f. (ft_txid f, ft_tx_validation_code f)) (fb_filtered_transactions ?b)"
    by (cases "FilteredBlock_from_proto ?b") auto
  then show ?thesis by (intro exI [of _ fb]) (simp add: filtered_block_def filtered_tx_def)
qed

end
