(* ===== verification/Events.thy ===== *)
theory Events
  imports Connect Blocks
begin

text \<open>
  Event hubs (\<open>src/snakeskin/events.py\<close>). The class \<open>_EventHub\<close> is a record of what its
  subclasses supply: the delivery call behind \<open>_build_stream\<close>, \<open>_pull_block_from_response\<close>,
  \<open>_client_cert\<close>, and how a block's transactions and their \<open>tx_id\<close> are read. The asynchronous
  generator \<open>stream_blocks\<close> is the operation that requests the delivery and gives the stream
  of blocks, in which every item has its delay in milliseconds; \<open>get_transaction\<close> consumes it
  and \<open>asyncio.wait_for\<close> compares the time it needs with the timeout.
\<close>

section \<open>Hubs\<close>

record ('block, 'tx) hub =
  hub_requestor :: User
  hub_channel :: Channel
  hub_method :: deliver_method
  hub_client_cert :: "bytes option"
  hub_pull :: "DeliverResponse \<Rightarrow> 'block result"
  hub_transactions :: "'block \<Rightarrow> 'tx list"
  hub_tx_id :: "'tx \<Rightarrow> pystr result"

text \<open>The transactions of a raw block are \<open>bytes\<close>, which have no attribute \<open>tx_id\<close>.\<close>

definition bytes_tx_id :: "bytes \<Rightarrow> pystr result" where
  "bytes_tx_id tx = Inl (AttributeError (lit ''tx_id''))"

definition PeerEvents :: "User \<Rightarrow> Channel \<Rightarrow> Peer \<Rightarrow> (RawBlock, bytes) hub" where
  "PeerEvents requestor channel peer =
    \<lparr>hub_requestor = requestor, hub_channel = channel, hub_method = PeerDeliver peer,
     hub_client_cert = client_cert peer,
     hub_pull = (\<lambda>resp. Inr (RawBlock_from_proto (dr_block resp))),
     hub_transactions = RawBlock_transactions, hub_tx_id = bytes_tx_id\<rparr>"

definition PeerFilteredEvents :: "User \<Rightarrow> Channel \<Rightarrow> Peer \<Rightarrow> (FilteredBlock, FilteredTX) hub" where
  "PeerFilteredEvents requestor channel peer =
    \<lparr>hub_requestor = requestor, hub_channel = channel, hub_method = PeerDeliverFiltered peer,
     hub_client_cert = client_cert peer,
     hub_pull = (\<lambda>resp. FilteredBlock_from_proto (dr_filtered_block resp)),
     hub_transactions = flb_transactions, hub_tx_id = (\<lambda>tx. Inr (ftx_tx_id tx))\<rparr>"

definition OrdererEvents :: "User \<Rightarrow> Channel \<Rightarrow> Orderer \<Rightarrow> (RawBlock, bytes) hub" where
  "OrdererEvents requestor channel ord =
    \<lparr>hub_requestor = requestor, hub_channel = channel, hub_method = OrdererDeliver ord,
     hub_client_cert = client_cert ord,
     hub_pull = (\<lambda>resp. Inr (RawBlock_from_proto (dr_block resp))),
     hub_transactions = RawBlock_transactions, hub_tx_id = bytes_tx_id\<rparr>"

section \<open>Streaming\<close>

definition get_connection_envelope ::
  "sys \<Rightarrow> ('block, 'tx) hub \<Rightarrow> SeekBehavior \<Rightarrow> int option \<Rightarrow> int option \<Rightarrow> Envelope io" where
  "get_connection_envelope S hub behavior start stop =
    bind_io (lift_res (build_seek_info (sys_pb S) start stop behavior)) (\<lambda>seek_info.
    bind_io (tx_context_from_user (sys_pb S) (hub_requestor hub)) (\<lambda>ctx.
    build_envelope S (hub_requestor hub) ctx (ser (pb_SeekInfo (sys_pb S)) seek_info)
      (Some (hub_channel hub)) (hub_client_cert hub) None TT_EndorserTransaction))"

definition build_stream :: "sys \<Rightarrow> ('block, 'tx) hub \<Rightarrow> Envelope \<Rightarrow> DeliverResponse stream io" where
  "build_stream S hub envelope = (\<lambda>tr.
    (Returned (sys_Deliver S tr (hub_method hub) envelope),
     tr @ [DeliverRequested (hub_method hub) envelope]))"

definition next_block :: "('block, 'tx) hub \<Rightarrow> DeliverResponse \<Rightarrow> exn + 'block" where
  "next_block hub resp =
    (if dr_status resp \<noteq> 0
     then Inl (BlockRetrievalError (lit ''Failed to retrieve block'') (Some (dr_status resp)))
     else case hub_pull hub resp of Inl e \<Rightarrow> Inl (Py e) | Inr b \<Rightarrow> Inr b)"

fun conn_end :: "stream_end \<Rightarrow> stream_end" where
  "conn_end (Failed e) = Failed (conn_error e)"
| "conn_end fin = fin"

text \<open>The body of \<open>stream_blocks\<close>: what its consumer sees of the responses.\<close>

fun blocks_of ::
  "('block, 'tx) hub \<Rightarrow> (nat \<times> DeliverResponse) list \<Rightarrow> nat \<times> stream_end \<Rightarrow> 'block stream" where
  "blocks_of hub [] (d, fin) = ([], d, conn_end fin)"
| "blocks_of hub ((d, resp) # rest) fin =
    (case next_block hub resp of
       Inl e \<Rightarrow> ([], d, Failed (conn_error e))
     | Inr b \<Rightarrow> (case blocks_of hub rest fin of (bs, fin') \<Rightarrow> ((d, b) # bs, fin')))"

definition stream_blocks ::
  "sys \<Rightarrow> ('block, 'tx) hub \<Rightarrow> int option \<Rightarrow> int option \<Rightarrow> SeekBehavior \<Rightarrow> 'block stream io" where
  "stream_blocks S hub start stop behavior =
    bind_io (get_connection_envelope S hub behavior start stop) (\<lambda>envelope.
    bind_io (build_stream S hub envelope) (\<lambda>stream.
      return_io (blocks_of hub (fst stream) (snd stream))))"

section \<open>Looking for a transaction\<close>

fun scan_transactions :: "('block, 'tx) hub \<Rightarrow> pystr \<Rightarrow> 'tx list \<Rightarrow> 'tx option result" where
  "scan_transactions hub tx_id [] = Inr None"
| "scan_transactions hub tx_id (tx # txs) =
    bind_res (hub_tx_id hub tx) (\<lambda>i. if i = tx_id then Inr (Some tx) else scan_transactions hub tx_id txs)"

text \<open>The loop of \<open>get_transaction\<close> from time \<open>t\<close>, with the time at which it is left.\<close>

fun find_transaction ::
  "('block, 'tx) hub \<Rightarrow> pystr \<Rightarrow> nat \<Rightarrow> (nat \<times> 'block) list \<Rightarrow> nat \<times> stream_end \<Rightarrow> nat \<times> 'tx outcome" where
  "find_transaction hub tx_id t [] (d, Closed) =
    (t + d, Raised (Py (RuntimeError (lit ''Could not get transaction''))))"
| "find_transaction hub tx_id t [] (d, Failed e) = (t + d, Raised e)"
| "find_transaction hub tx_id t [] (d, Pending) = (t + d, Blocked)"
| "find_transaction hub tx_id t ((d, block) # rest) fin =
    (case scan_transactions hub tx_id (hub_transactions hub block) of
       Inl e \<Rightarrow> (t + d, Raised (Py e))
     | Inr (Some tx) \<Rightarrow> (t + d, Returned tx)
     | Inr None \<Rightarrow> find_transaction hub tx_id (t + d) rest fin)"

definition timed_get_transaction ::
  "sys \<Rightarrow> ('block, 'tx) hub \<Rightarrow> pystr \<Rightarrow> int option \<Rightarrow> SeekBehavior \<Rightarrow> (nat \<times> 'tx outcome) io" where
  "timed_get_transaction S hub tx_id start behavior =
    bind_io (stream_blocks S hub start (Some INDEFINITE_STOP_POSITION) behavior) (\<lambda>stream.
      return_io (find_transaction hub tx_id 0 (fst stream) (snd stream)))"

definition outcome_io :: "'a outcome \<Rightarrow> 'a io" where
  "outcome_io oc = (\<lambda>tr. (oc, tr))"

definition get_transaction ::
  "sys \<Rightarrow> ('block, 'tx) hub \<Rightarrow> pystr \<Rightarrow> int option \<Rightarrow> SeekBehavior \<Rightarrow> 'tx io" where
  "get_transaction S hub tx_id start behavior =
    bind_io (timed_get_transaction S hub tx_id start behavior) (\<lambda>r. outcome_io (snd r))"

text \<open>
  \<open>asyncio.wait_for\<close> with a timeout in seconds: a timeout that is not positive cancels the
  operation before it starts.
\<close>

definition in_time :: "int \<Rightarrow> nat \<times> 'a outcome \<Rightarrow> 'a outcome" where
  "in_time timeout r =
    (case snd r of
       Blocked \<Rightarrow> Raised (Py TimeoutError)
     | oc \<Rightarrow> if int (fst r) < 1000 * timeout then oc else Raised (Py TimeoutError))"

definition wait_for :: "int \<Rightarrow> (nat \<times> 'a outcome) io \<Rightarrow> 'a io" where
  "wait_for timeout m =
    (if timeout \<le> 0 then raise_io (Py TimeoutError)
     else bind_io m (\<lambda>r. outcome_io (in_time timeout r)))"

definition check_transaction ::
  "sys \<Rightarrow> (FilteredBlock, FilteredTX) hub \<Rightarrow> pystr \<Rightarrow> int \<Rightarrow> int option \<Rightarrow> SeekBehavior \<Rightarrow> FilteredTX io" where
  "check_transaction S hub tx_id timeout start behavior =
    bind_io (wait_for timeout (timed_get_transaction S hub tx_id start behavior)) (\<lambda>transaction.
      if ftx_tx_validation_code transaction \<noteq> TxValidationCode_VALID
      then raise_io (new_TransactionValidationError (ftx_tx_validation_code transaction))
      else return_io transaction)"

section \<open>Events of the operations\<close>

definition local_event :: "event \<Rightarrow> bool" where
  "local_event e = (case e of NonceDrawn b \<Rightarrow> True | ClockRead \<Rightarrow> True | SignDrawn b \<Rightarrow> True | _ \<Rightarrow> False)"

lemma local_event_simps [simp]:
  "local_event (NonceDrawn b)" "local_event ClockRead" "local_event (SignDrawn b)"
  "\<not> local_event (ProposalSent p sp)" "\<not> local_event (EnvelopeBroadcast ord envelope)"
  "\<not> local_event (DeliverRequested m envelope)" "\<not> local_event (FileRead f)"
  by (simp_all add: local_event_def)

lemma emits_outcome [emits_intros]: "emits P (outcome_io oc)"
  by (simp add: emits_def outcome_io_def)

lemma outcome_io_iff [simp]: "outcome_io oc tr = (oc', tr') \<longleftrightarrow> oc = oc' \<and> tr' = tr"
  by (auto simp: outcome_io_def)

text \<open>Building messages only draws randomness and reads the clock.\<close>

lemma emits_factories [emits_intros]:
  assumes "\<And>e. local_event e \<Longrightarrow> P e"
  shows "emits P (tx_context_from_user pb u)" "emits P (sign u bs)" "emits P (wrap_transaction pb u pl)"
    "emits P (build_header S ctx channel extension tx_type tls_cert)"
    "emits P (build_envelope S u ctx data channel tls_cert extension tx_type)"
    "emits P (build_config_update_envelope S ch ctx u bs)"
    "emits P (build_generated_tx S u ccname args channel tm)"
    "emits P (build_endorsed_tx_envelope S etx u)"
proof -
  show ctx: "emits P (tx_context_from_user pb u)" for pb u
    unfolding tx_context_from_user_def Let_def using assms by (intro emits_intros) simp
  show sign: "emits P (sign u bs)" for u bs
    unfolding sign_def using assms by (intro emits_intros) simp
  show wrap: "emits P (wrap_transaction pb u pl)" for pb u pl
    unfolding wrap_transaction_def Let_def by (intro emits_intros sign)
  have clock: "emits P (read_clock S)" using assms by (simp add: emits_def read_clock_def)
  show header: "emits P (build_header S ctx channel extension tx_type tls_cert)"
    for ctx channel extension tx_type tls_cert
    unfolding build_header_def by (intro emits_intros clock)
  show env: "emits P (build_envelope S u ctx data channel tls_cert extension tx_type)"
    for ctx data channel tls_cert extension tx_type
    unfolding build_envelope_def by (intro emits_intros header wrap)
  show "emits P (build_config_update_envelope S ch ctx u bs)"
    unfolding build_config_update_envelope_def Let_def by (intro emits_intros sign env)
  show "emits P (build_generated_tx S u ccname args channel tm)"
    unfolding build_generated_tx_def Let_def by (intro emits_intros ctx header sign)
  show "emits P (build_endorsed_tx_envelope S etx u)"
    unfolding build_endorsed_tx_envelope_def Let_def by (intro emits_intros wrap)
qed

lemma emits_stream [emits_intros]:
  assumes "\<And>e. local_event e \<Longrightarrow> P e" "\<And>envelope. P (DeliverRequested (hub_method hub) envelope)"
  shows "emits P (stream_blocks S hub start stop behavior)"
    "emits P (timed_get_transaction S hub tx_id start behavior)"
    "emits P (get_transaction S hub tx_id start behavior)"
    "emits P (wait_for timeout (timed_get_transaction S hub tx_id start behavior))"
proof -
  have build: "emits P (build_stream S hub envelope)" for envelope
    using assms(2) by (simp add: emits_def build_stream_def)
  have env: "emits P (get_connection_envelope S hub behavior start stop)" for stop
    unfolding get_connection_envelope_def using assms(1) by (intro emits_intros)
  show st: "emits P (stream_blocks S hub start stop behavior)" for stop
    unfolding stream_blocks_def by (intro emits_intros env build)
  show t: "emits P (timed_get_transaction S hub tx_id start behavior)"
    unfolding timed_get_transaction_def by (intro emits_intros st)
  then show "emits P (get_transaction S hub tx_id start behavior)"
    unfolding get_transaction_def by (intro emits_intros)
  from t show "emits P (wait_for timeout (timed_get_transaction S hub tx_id start behavior))"
    unfolding wait_for_def by (intro emits_intros)
qed

lemma emits_check_transaction [emits_intros]:
  assumes "\<And>e. local_event e \<Longrightarrow> P e" "\<And>envelope. P (DeliverRequested (hub_method hub) envelope)"
  shows "emits P (check_transaction S hub tx_id timeout start behavior)"
  unfolding check_transaction_def using assms by (intro emits_intros)

section \<open>Hubs whose transactions have identifiers\<close>

text \<open>The transactions a consumer sees, each with the time at which its block arrives.\<close>

fun arrivals :: "('block \<Rightarrow> 'tx list) \<Rightarrow> nat \<Rightarrow> (nat \<times> 'block) list \<Rightarrow> (nat \<times> 'tx) list" where
  "arrivals txs t [] = []"
| "arrivals txs t ((d, block) # rest) = map (Pair (t + d)) (txs block) @ arrivals txs (t + d) rest"

lemma find_transaction_end: "snd (find_transaction hub i t [] fin) \<noteq> Returned tx"
proof -
  obtain d e where "fin = (d, e)" by fastforce
  then show ?thesis by (cases e) simp_all
qed

locale identified_hub =
  fixes hub :: "('block, 'tx) hub" and tid :: "'tx \<Rightarrow> pystr"
  assumes tx_id: "hub_tx_id hub tx = Inr (tid tx)"
begin

lemma scan: "scan_transactions hub i txs = Inr (find (\<lambda>tx. tid tx = i) txs)"
  by (induction txs) (simp_all add: tx_id)

lemma find_pairs: "find (\<lambda>x. tid (snd x) = i) (map (Pair t) txs) = map_option (Pair t) (find (\<lambda>tx. tid tx = i) txs)"
  by (induction txs) simp_all

lemma find_transaction:
  "find_transaction hub i t bs fin =
    (case find (\<lambda>x. tid (snd x) = i) (arrivals (hub_transactions hub) t bs) of
       Some x \<Rightarrow> (fst x, Returned (snd x))
     | None \<Rightarrow> find_transaction hub i (t + sum_list (map fst bs)) [] fin)"
proof (induction bs arbitrary: t)
  case (Cons db bs)
  obtain d block where db: "db = (d, block)" by fastforce
  show ?case
  proof (cases "find (\<lambda>tx. tid tx = i) (hub_transactions hub block)")
    case None
    with Cons.IH [of "t + d"] show ?thesis
      by (simp add: db scan find_append find_pairs add.assoc split: option.split)
  qed (simp add: db scan find_append find_pairs)
qed simp

lemma find_transaction_Returned_iff:
  "find_transaction hub i t bs fin = (s, Returned tx) \<longleftrightarrow>
    find (\<lambda>x. tid (snd x) = i) (arrivals (hub_transactions hub) t bs) = Some (s, tx)"
proof -
  have "find_transaction hub i u [] fin \<noteq> (v, Returned y)" for u v y
    using find_transaction_end [of hub i u fin y] by auto
  then show ?thesis by (subst find_transaction) (auto split: option.split)
qed

end

interpretation filtered: identified_hub "PeerFilteredEvents u c p" ftx_tx_id
  by unfold_locales (simp add: PeerFilteredEvents_def)

section \<open>Hubs of raw blocks\<close>

locale raw_hub =
  fixes hub :: "('block, bytes) hub"
  assumes no_tx_id: "hub_tx_id hub tx = Inl (AttributeError (lit ''tx_id''))"
begin

lemma scan: "scan_transactions hub i txs = (if txs = [] then Inr None else Inl (AttributeError (lit ''tx_id'')))"
  by (cases txs) (simp_all add: no_tx_id)

lemma find_transaction_not_Returned: "snd (find_transaction hub i t bs fin) \<noteq> Returned tx"
proof (induction bs arbitrary: t)
  case Nil
  show ?case by (rule find_transaction_end)
next
  case (Cons db bs)
  then show ?case by (cases db) (simp add: scan)
qed

end

interpretation peer_raw: raw_hub "PeerEvents u c p"
  by unfold_locales (simp add: PeerEvents_def bytes_tx_id_def)

interpretation orderer_raw: raw_hub "OrdererEvents u c ord"
  by unfold_locales (simp add: OrdererEvents_def bytes_tx_id_def)

section \<open>Checking a transaction\<close>

lemma in_time_Returned_iff [simp]:
  "in_time T r = Returned x \<longleftrightarrow> snd r = Returned x \<and> int (fst r) < 1000 * T"
  by (cases "snd r") (auto simp: in_time_def)

lemma wait_for_Returned_iff:
  "wait_for T m tr = (Returned x, tr') \<longleftrightarrow>
    0 < T \<and> (\<exists>t. m tr = (Returned (t, Returned x), tr') \<and> int t < 1000 * T)"
  by (auto simp: wait_for_def bind_Returned_iff)

lemma timed_get_transaction_Returned_iff:
  "timed_get_transaction S hub i start b tr = (Returned r, tr') \<longleftrightarrow>
    (\<exists>bs fin. stream_blocks S hub start (Some INDEFINITE_STOP_POSITION) b tr = (Returned (bs, fin), tr') \<and>
      find_transaction hub i 0 bs fin = r)"
  by (auto simp: timed_get_transaction_def bind_Returned_iff)

lemma PeerFilteredEvents_sel [simp]:
  "hub_transactions (PeerFilteredEvents u c p) = flb_transactions"
  "hub_method (PeerFilteredEvents u c p) = PeerDeliverFiltered p"
  "hub_requestor (PeerFilteredEvents u c p) = u" "hub_channel (PeerFilteredEvents u c p) = c"
  "hub_client_cert (PeerFilteredEvents u c p) = client_cert p"
  by (simp_all add: PeerFilteredEvents_def)

text \<open>The arrival of the first transaction with a given id in a stream of filtered blocks.\<close>

definition first_arrival :: "pystr \<Rightarrow> (nat \<times> FilteredBlock) list \<Rightarrow> (nat \<times> FilteredTX) option" where
  "first_arrival tx_id bs = find (\<lambda>x. ftx_tx_id (snd x) = tx_id) (arrivals flb_transactions 0 bs)"

lemma find_filtered_Returned_iff:
  "find_transaction (PeerFilteredEvents u c p) tx_id 0 bs fin = (time, Returned t) \<longleftrightarrow>
    first_arrival tx_id bs = Some (time, t)"
  by (simp add: filtered.find_transaction_Returned_iff first_arrival_def)

lemma check_transaction_Returned_iff:
  "check_transaction S (PeerFilteredEvents u c p) tx_id T start b tr = (Returned t, tr') \<longleftrightarrow>
    0 < T \<and> ftx_tx_validation_code t = TxValidationCode_VALID \<and>
    (\<exists>bs fin time. stream_blocks S (PeerFilteredEvents u c p) start (Some INDEFINITE_STOP_POSITION) b tr =
        (Returned (bs, fin), tr') \<and>
      first_arrival tx_id bs = Some (time, t) \<and> int time < 1000 * T)"
proof -
  have "check_transaction S (PeerFilteredEvents u c p) tx_id T start b tr = (Returned t, tr') \<longleftrightarrow>
      ftx_tx_validation_code t = TxValidationCode_VALID \<and>
      wait_for T (timed_get_transaction S (PeerFilteredEvents u c p) tx_id start b) tr = (Returned t, tr')"
    by (auto simp: check_transaction_def bind_Returned_iff split: if_splits)
  then show ?thesis
    by (auto simp: wait_for_Returned_iff timed_get_transaction_Returned_iff find_filtered_Returned_iff)
qed

lemma check_transaction_found:
  assumes "0 < T"
    and "stream_blocks S (PeerFilteredEvents u c p) start (Some INDEFINITE_STOP_POSITION) b tr = (Returned (bs, fin), tr')"
    and "first_arrival tx_id bs = Some (time, t)"
  shows "check_transaction S (PeerFilteredEvents u c p) tx_id T start b tr =
    (if \<not> int time < 1000 * T then Raised (Py TimeoutError)
     else if ftx_tx_validation_code t = TxValidationCode_VALID then Returned t
     else Raised (new_TransactionValidationError (ftx_tx_validation_code t)), tr')"
proof -
  have "find_transaction (PeerFilteredEvents u c p) tx_id 0 bs fin = (time, Returned t)"
    using assms(3) by (simp add: find_filtered_Returned_iff)
  with assms(1,2) have "wait_for T (timed_get_transaction S (PeerFilteredEvents u c p) tx_id start b) tr =
      (in_time T (time, Returned t), tr')"
    by (simp add: wait_for_def timed_get_transaction_def bind_io_def return_io_def outcome_io_def)
  then show ?thesis
    by (cases "int time < 1000 * T")
      (simp_all add: check_transaction_def bind_io_def in_time_def io_eval)
qed

text \<open>
  C17. A transaction is confirmed exactly when, within the timeout, the peer's filtered stream
  reports it for the first time with the code \<open>VALID\<close>; the transaction that is confirmed is
  that first report.
\<close>

theorem check_transaction_confirms_iff:
  "(\<exists>tr'. check_transaction S (PeerFilteredEvents u c p) tx_id T start b tr = (Returned t, tr')) \<longleftrightarrow>
    0 < T \<and> ftx_tx_validation_code t = TxValidationCode_VALID \<and>
    (\<exists>bs fin time tr'. stream_blocks S (PeerFilteredEvents u c p) start (Some INDEFINITE_STOP_POSITION) b tr =
        (Returned (bs, fin), tr') \<and>
      first_arrival tx_id bs = Some (time, t) \<and> int time < 1000 * T)"
  unfolding check_transaction_Returned_iff by blast

text \<open>
  Once the stream is open and reports the transaction, the outcome is decided by that
  report: late, it is a timeout, and in time it is the transaction if the code is \<open>VALID\<close> and a
  validation error with the code otherwise (\<open>ValueError\<close> for a code without a name).
\<close>

theorem check_transaction_outcome:
  assumes "0 < T"
    and "stream_blocks S (PeerFilteredEvents u c p) start (Some INDEFINITE_STOP_POSITION) b tr = (Returned (bs, fin), tr')"
    and "first_arrival tx_id bs = Some (time, t)"
  shows "check_transaction S (PeerFilteredEvents u c p) tx_id T start b tr =
    (if \<not> int time < 1000 * T then Raised (Py TimeoutError)
     else if ftx_tx_validation_code t = TxValidationCode_VALID then Returned t
     else case enum_Name TxValidationCode (ftx_tx_validation_code t) of
         Inl e \<Rightarrow> Raised (Py e)
       | Inr n \<Rightarrow> Raised (TransactionValidationError (ftx_tx_validation_code t)), tr')"
  using check_transaction_found [OF assms]
  by (cases "enum_Name TxValidationCode (ftx_tx_validation_code t)")
    (simp_all add: new_TransactionValidationError_def)

text \<open>An event stream that breaks off within the timeout without having reported a transaction.\<close>

definition hub_breaks :: "sys \<Rightarrow> (FilteredBlock, FilteredTX) hub \<Rightarrow> pystr \<Rightarrow> int \<Rightarrow> bool" where
  "hub_breaks S hub tx_id timeout \<longleftrightarrow> (\<forall>tr. \<exists>bs d e tr'.
    stream_blocks S hub None (Some INDEFINITE_STOP_POSITION) BlockUntilReady tr = (Returned (bs, d, Failed e), tr') \<and>
    (is_ConnectionError e \<or> is_BlockRetrievalError e) \<and>
    first_arrival tx_id bs = None \<and> int (sum_list (map fst bs) + d) < 1000 * timeout)"

text \<open>One that reports it as valid within the timeout, whatever it does later.\<close>

definition hub_reports :: "sys \<Rightarrow> (FilteredBlock, FilteredTX) hub \<Rightarrow> pystr \<Rightarrow> int \<Rightarrow> bool" where
  "hub_reports S hub tx_id timeout \<longleftrightarrow> (\<forall>tr. \<exists>bs fin time t tr'.
    stream_blocks S hub None (Some INDEFINITE_STOP_POSITION) BlockUntilReady tr = (Returned (bs, fin), tr') \<and>
    first_arrival tx_id bs = Some (time, t) \<and> int time < 1000 * timeout \<and>
    ftx_tx_validation_code t = TxValidationCode_VALID)"

lemma check_breaks:
  assumes "hub_breaks S (PeerFilteredEvents u c q) tx_id timeout" "0 < timeout"
  shows "\<exists>e tr'. check_transaction S (PeerFilteredEvents u c q) tx_id timeout None BlockUntilReady tr = (Raised e, tr') \<and>
    (is_ConnectionError e \<or> is_BlockRetrievalError e)"
proof -
  from assms(1) obtain bs d e tr' where s: "stream_blocks S (PeerFilteredEvents u c q) None
      (Some INDEFINITE_STOP_POSITION) BlockUntilReady tr = (Returned (bs, d, Failed e), tr')"
    and e: "is_ConnectionError e \<or> is_BlockRetrievalError e" "first_arrival tx_id bs = None"
      "int (sum_list (map fst bs) + d) < 1000 * timeout" unfolding hub_breaks_def by blast
  from e(2) have "find_transaction (PeerFilteredEvents u c q) tx_id 0 bs (d, Failed e) =
      (sum_list (map fst bs) + d, Raised e)"
    by (subst filtered.find_transaction) (simp add: first_arrival_def)
  with s e(1,3) assms(2) show ?thesis
    by (simp add: check_transaction_def wait_for_def timed_get_transaction_def in_time_def bind_io_def io_eval outcome_io_def)
qed

lemma check_reports:
  assumes "hub_reports S (PeerFilteredEvents u c p) tx_id timeout" "0 < timeout"
  shows "\<exists>t tr'. check_transaction S (PeerFilteredEvents u c p) tx_id timeout None BlockUntilReady tr = (Returned t, tr')"
  using assms unfolding hub_reports_def check_transaction_Returned_iff by metis

text \<open>
  Looking a transaction up in raw blocks, of a peer or of an orderer, never succeeds: the
  transactions of a raw block are bytes and have no id to compare with.
\<close>

theorem raw_get_transaction_never_returns:
  "fst (get_transaction S (PeerEvents u c p) tx_id start b tr) \<noteq> Returned tx \<and>
   fst (get_transaction S (OrdererEvents u c ord) tx_id start b tr) \<noteq> Returned tx"
proof -
  have "fst (get_transaction S hub tx_id start b tr) \<noteq> Returned tx"
    if "\<And>bs fin. snd (find_transaction hub tx_id 0 bs fin) \<noteq> Returned tx" for hub :: "(RawBlock, bytes) hub"
  proof
    assume "fst (get_transaction S hub tx_id start b tr) = Returned tx"
    then obtain tr' where "get_transaction S hub tx_id start b tr = (Returned tx, tr')"
      by (metis prod.collapse)
    then obtain r where "timed_get_transaction S hub tx_id start b tr = (Returned r, tr')" "snd r = Returned tx"
      by (auto simp: get_transaction_def bind_Returned_iff)
    with that show False by (auto simp: timed_get_transaction_Returned_iff)
  qed
  from this [of "PeerEvents u c p"] this [of "OrdererEvents u c ord"] show ?thesis
    using peer_raw.find_transaction_not_Returned orderer_raw.find_transaction_not_Returned by blast
qed

section \<open>The seek request\<close>

text \<open>The positions a \<open>uint64\<close> field can hold.\<close>

definition seekable :: "int option \<Rightarrow> bool" where
  "seekable x = (case x of None \<Rightarrow> True | Some n \<Rightarrow> 0 \<le> n \<and> n < 2 ^ 64)"

lemma seekable_None [simp]: "seekable None"
  by (simp add: seekable_def)

lemma seekable_INDEFINITE [simp]: "seekable (Some INDEFINITE_STOP_POSITION)" "seekable (Some 0)"
  by (simp_all add: seekable_def INDEFINITE_STOP_POSITION_def)

lemma seek_position_iff:
  assumes "runtime_ok pb"
  shows "seek_position pb x = Inr q \<longleftrightarrow>
    seekable x \<and> q = (case x of None \<Rightarrow> SeekNewest | Some n \<Rightarrow> SeekSpecified n)"
proof (cases x)
  case (Some n)
  have "pb_uint64 pb n = Inr m \<longleftrightarrow> m = n \<and> seekable (Some n)" for m
    unfolding uint64_Inr_iff [OF runtime_okD(26) [OF assms]] seekable_def option.case ..
  with Some show ?thesis by (auto simp: seek_position_def)
qed (auto simp: seek_position_def)

lemma build_seek_info_Inr_iff:
  assumes "runtime_ok pb"
  shows "build_seek_info pb start stop b = Inr si \<longleftrightarrow> seekable start \<and> seekable stop \<and>
    si = \<lparr>si_start = (case start of None \<Rightarrow> SeekNewest | Some n \<Rightarrow> SeekSpecified n),
          si_stop = (case stop of None \<Rightarrow> SeekNewest | Some n \<Rightarrow> SeekSpecified n),
          si_behavior = (case b of BlockUntilReady \<Rightarrow> 0 | FailIfNotReady \<Rightarrow> 1)\<rparr>"
  by (auto simp: build_seek_info_def seek_position_iff [OF assms] SeekBehavior_Value)

lemma build_envelope_Returned_D:
  assumes "build_envelope S u ctx bs channel tls_cert extension tx_type tr = (Returned env, tr')"
  shows "\<exists>h. build_header S ctx channel extension tx_type tls_cert tr = (Returned h, tr @ [ClockRead]) \<and>
    env_payload env = ser (pb_Payload (sys_pb S)) \<lparr>pl_header = h, pl_data = bs\<rparr> \<and>
    sign u (env_payload env) (tr @ [ClockRead]) = (Returned (env_signature env), tr')"
proof -
  from assms obtain h tr1 where h: "build_header S ctx channel extension tx_type tls_cert tr = (Returned h, tr1)"
    and w: "wrap_transaction (sys_pb S) u \<lparr>pl_header = h, pl_data = bs\<rparr> tr1 = (Returned env, tr')"
    by (auto simp: build_envelope_def bind_Returned_iff)
  from build_header_Returned_D [OF h] have "tr1 = tr @ [ClockRead]" by blast
  with h w show ?thesis by (auto simp: wrap_Returned_iff)
qed

lemma build_envelope_total:
  assumes "runtime_ok (sys_pb S)" "encode_proto_str (channel_text channel) = Inr cid"
    "\<not> truthy tls_cert" "txc_epoch ctx = 0" "user_ready u"
  shows "\<exists>env tr'. build_envelope S u ctx bs channel tls_cert extension tx_type tr = (Returned env, tr')"
proof -
  obtain h where "build_header S ctx channel extension tx_type tls_cert tr = (Returned h, tr @ [ClockRead])"
    using build_header_total [OF assms(1-3)] assms(4) by fastforce
  moreover obtain env tr' where
    "wrap_transaction (sys_pb S) u \<lparr>pl_header = h, pl_data = bs\<rparr> (tr @ [ClockRead]) = (Returned env, tr')"
    using wrap_total [OF assms(5)] by blast
  ultimately have "build_envelope S u ctx bs channel tls_cert extension tx_type tr = (Returned env, tr')"
    unfolding build_envelope_def bind_Returned_iff by blast
  then show ?thesis by blast
qed

text \<open>
  C34. What a hub sends to start a stream: the signed envelope decodes to the seek request with
  the given positions and behaviour for the hub's channel, made by the requestor with a
  fresh nonce. Positions outside 64 bits cannot be requested. The header carries the type of
  an endorser transaction, not the type for seek requests.
\<close>

theorem get_connection_envelope_decodes:
  assumes "runtime_ok (sys_pb S)"
    and "get_connection_envelope S hub b start stop tr = (Returned env, tr')"
  shows "\<exists>payload chdr si.
    des (pb_Payload (sys_pb S)) (env_payload env) = Some payload \<and>
    decode_header (sys_pb S) (pl_header payload) = Inr \<lparr>dh_channel_header = chdr,
      dh_signature_header = \<lparr>dsh_creator = user_identity (hub_requestor hub),
        dsh_nonce = generate_nonce (user_suite (hub_requestor hub)) (length tr) 24\<rparr>\<rparr> \<and>
    encode_proto_str (channel_name (hub_channel hub)) = Inr (ch_channel_id chdr) \<and>
    TransactionType_of (ch_type chdr) = Inr TT_EndorserTransaction \<and>
    des (pb_SeekInfo (sys_pb S)) (pl_data payload) = Some si \<and>
    seekable start \<and> seekable stop \<and>
    si_start si = (case start of None \<Rightarrow> SeekNewest | Some n \<Rightarrow> SeekSpecified n) \<and>
    si_stop si = (case stop of None \<Rightarrow> SeekNewest | Some n \<Rightarrow> SeekSpecified n) \<and>
    enum_Value SeekInfo_SeekBehavior (SeekBehavior_value b) = Inr (si_behavior si)"
proof -
  note rt = runtime_okD [OF assms(1), unfolded coder_ok_def]
  from assms(2) obtain si ctx tr1 where
    si: "build_seek_info (sys_pb S) start stop b = Inr si" and
    ctx: "tx_context_from_user (sys_pb S) (hub_requestor hub) tr = (Returned ctx, tr1)" and
    env: "build_envelope S (hub_requestor hub) ctx (ser (pb_SeekInfo (sys_pb S)) si)
      (Some (hub_channel hub)) (hub_client_cert hub) None TT_EndorserTransaction tr1 = (Returned env, tr')"
    by (auto simp: get_connection_envelope_def bind_Returned_iff)
  from build_envelope_Returned_D [OF env] obtain h where
    h: "build_header S ctx (Some (hub_channel hub)) None TT_EndorserTransaction (hub_client_cert hub) tr1 =
      (Returned h, tr1 @ [ClockRead])" and
    pl: "env_payload env = ser (pb_Payload (sys_pb S))
      \<lparr>pl_header = h, pl_data = ser (pb_SeekInfo (sys_pb S)) si\<rparr>" by blast
  from decode_built_header [OF assms(1) h] ctx obtain chdr where
    "decode_header (sys_pb S) h = Inr \<lparr>dh_channel_header = chdr,
      dh_signature_header = \<lparr>dsh_creator = user_identity (hub_requestor hub),
        dsh_nonce = generate_nonce (user_suite (hub_requestor hub)) (length tr) 24\<rparr>\<rparr>"
    "TransactionType_of (ch_type chdr) = Inr TT_EndorserTransaction"
    "encode_proto_str (channel_name (hub_channel hub)) = Inr (ch_channel_id chdr)"
    by (auto simp: tx_context_Returned_iff channel_text_def TransactionType_of_Inr_iff)
  moreover have "seekable start \<and> seekable stop \<and>
      si_start si = (case start of None \<Rightarrow> SeekNewest | Some n \<Rightarrow> SeekSpecified n) \<and>
      si_stop si = (case stop of None \<Rightarrow> SeekNewest | Some n \<Rightarrow> SeekSpecified n) \<and>
      enum_Value SeekInfo_SeekBehavior (SeekBehavior_value b) = Inr (si_behavior si)"
    using si unfolding build_seek_info_Inr_iff [OF assms(1)] SeekBehavior_Value by simp
  ultimately show ?thesis
    by (intro exI [of _ "\<lparr>pl_header = h, pl_data = ser (pb_SeekInfo (sys_pb S)) si\<rparr>"]
        exI [of _ chdr] exI [of _ si]) (simp add: pl rt)
qed

lemma get_connection_envelope_total:
  assumes "runtime_ok (sys_pb S)" "seekable start \<and> seekable stop"
    and "encode_proto_str (channel_name (hub_channel hub)) = Inr cid"
    and "\<not> truthy (hub_client_cert hub)" "user_ready (hub_requestor hub)"
  shows "\<exists>env tr'. get_connection_envelope S hub b start stop tr = (Returned env, tr')"
proof -
  obtain si where si: "build_seek_info (sys_pb S) start stop b = Inr si"
    using assms(2) by (simp add: build_seek_info_Inr_iff [OF assms(1)])
  obtain ctx tr1 where ctx: "tx_context_from_user (sys_pb S) (hub_requestor hub) tr = (Returned ctx, tr1)"
    using tx_context_never_fails by blast
  then have "txc_epoch ctx = 0" by (auto simp: tx_context_Returned_iff)
  moreover have "encode_proto_str (channel_text (Some (hub_channel hub))) = Inr cid"
    using assms(3) by (simp add: channel_text_def)
  ultimately obtain env tr' where "build_envelope S (hub_requestor hub) ctx (ser (pb_SeekInfo (sys_pb S)) si)
      (Some (hub_channel hub)) (hub_client_cert hub) None TT_EndorserTransaction tr1 = (Returned env, tr')"
    using build_envelope_total [OF assms(1) _ assms(4) _ assms(5)] by blast
  with si ctx have "get_connection_envelope S hub b start stop tr = (Returned env, tr')"
    by (auto simp: get_connection_envelope_def bind_Returned_iff)
  then show ?thesis by blast
qed

lemma stream_blocks_total:
  assumes "runtime_ok (sys_pb S)" "seekable start \<and> seekable stop"
    and "encode_proto_str (channel_name (hub_channel hub)) = Inr cid"
    and "\<not> truthy (hub_client_cert hub)" "user_ready (hub_requestor hub)"
  shows "\<exists>envelope tr1. stream_blocks S hub start stop b tr =
    (Returned (blocks_of hub (fst (sys_Deliver S tr1 (hub_method hub) envelope))
                             (snd (sys_Deliver S tr1 (hub_method hub) envelope))),
     tr1 @ [DeliverRequested (hub_method hub) envelope])"
proof -
  obtain envelope tr1 where "get_connection_envelope S hub b start stop tr = (Returned envelope, tr1)"
    using get_connection_envelope_total [OF assms] by blast
  then show ?thesis
    by (intro exI [of _ envelope] exI [of _ tr1])
      (simp add: stream_blocks_def build_stream_def bind_io_def return_io_def)
qed

theorem get_connection_envelope_decodes_witness:
  "\<exists>env tr' payload si. get_connection_envelope example_sys
      (PeerFilteredEvents example_user example_channel (example_peer ''p1'')) BlockUntilReady (Some 7)
      (Some INDEFINITE_STOP_POSITION) [] = (Returned env, tr') \<and>
    des (pb_Payload (sys_pb example_sys)) (env_payload env) = Some payload \<and>
    des (pb_SeekInfo (sys_pb example_sys)) (pl_data payload) = Some si \<and> si_start si = SeekSpecified 7"
proof -
  let ?hub = "PeerFilteredEvents example_user example_channel (example_peer ''p1'')"
  have "seekable (Some 7)" by (simp add: seekable_def)
  moreover have "encode_proto_str (channel_name (hub_channel ?hub)) = Inr (lit ''mychannel'')"
    using example_channel_text by (simp add: channel_text_def)
  moreover have "\<not> truthy (hub_client_cert ?hub)" by (simp add: example_peer_def)
  ultimately obtain env tr' where env: "get_connection_envelope example_sys ?hub BlockUntilReady (Some 7)
      (Some INDEFINITE_STOP_POSITION) [] = (Returned env, tr')"
    using get_connection_envelope_total [OF example_sys_pb, of "Some 7" "Some INDEFINITE_STOP_POSITION" ?hub
      "lit ''mychannel''" BlockUntilReady "[]"] by auto
  from get_connection_envelope_decodes [OF example_sys_pb env] show ?thesis
    unfolding env option.case by blast
qed

text \<open>The stream of the example world, seen through a filtered hub of a world that delivers it.\<close>

lemma example_hub_stream:
  assumes "runtime_ok (sys_pb S)"
  shows "\<exists>envelope tr1.
    stream_blocks S (PeerFilteredEvents example_user example_channel (example_peer n))
      None (Some INDEFINITE_STOP_POSITION) b tr =
    (let r = sys_Deliver S tr1 (PeerDeliverFiltered (example_peer n)) envelope in
     (Returned (blocks_of (PeerFilteredEvents example_user example_channel (example_peer n)) (fst r) (snd r)),
      tr1 @ [DeliverRequested (PeerDeliverFiltered (example_peer n)) envelope]))"
proof -
  let ?hub = "PeerFilteredEvents example_user example_channel (example_peer n)"
  have "encode_proto_str (channel_name (hub_channel ?hub)) = Inr (lit ''mychannel'')"
    using example_channel_text by (simp add: channel_text_def)
  moreover have "\<not> truthy (hub_client_cert ?hub)" by (simp add: example_peer_def)
  ultimately show ?thesis
    using stream_blocks_total [OF assms, of None "Some INDEFINITE_STOP_POSITION" ?hub "lit ''mychannel''" b tr]
    by (simp add: Let_def)
qed

lemma example_stream_of:
  assumes "runtime_ok (sys_pb S)"
    and "\<forall>tr envelope. sys_Deliver S tr (PeerDeliverFiltered (example_peer n)) envelope =
      ([(15, filtered_block [filtered_tx ''01'' 0]),
        (25, filtered_block [filtered_tx ''02'' 11, filtered_tx ''07'' 0])], 0, Pending)"
  shows "\<exists>bs fin tr'. stream_blocks S (PeerFilteredEvents example_user example_channel (example_peer n))
      None (Some INDEFINITE_STOP_POSITION) b tr = (Returned (bs, fin), tr') \<and>
    (\<exists>t. first_arrival (lit ''07'') bs = Some (40, t) \<and> ftx_tx_validation_code t = TxValidationCode_VALID) \<and>
    (\<exists>t. first_arrival (lit ''02'') bs = Some (40, t) \<and> ftx_tx_validation_code t = 11)"
proof -
  let ?hub = "PeerFilteredEvents example_user example_channel (example_peer n)"
  let ?tx = "\<lambda>i c. \<lparr>ftx_tx_id = lit i, ftx_type = TT_EndorserTransaction, ftx_tx_validation_code = c,
    ftx_actions = \<lparr>fta_chaincode_actions = []\<rparr>\<rparr>"
  have "TransactionType_of 3 = Inr TT_EndorserTransaction"
    using TransactionType_of_value [of TT_EndorserTransaction] by simp
  then have "blocks_of ?hub [(15, filtered_block [filtered_tx ''01'' 0]),
        (25, filtered_block [filtered_tx ''02'' 11, filtered_tx ''07'' 0])] (0, Pending) =
      ([(15, \<lparr>flb_channel_id = lit ''mychannel'', flb_number = 4, flb_transactions = [?tx ''01'' 0]\<rparr>),
        (25, \<lparr>flb_channel_id = lit ''mychannel'', flb_number = 4,
              flb_transactions = [?tx ''02'' 11, ?tx ''07'' 0]\<rparr>)], 0, Pending)"
    by (simp add: next_block_def PeerFilteredEvents_def filtered_block_def filtered_tx_def
        FilteredBlock_from_proto_def FilteredTX_from_proto_def)
  with example_hub_stream [OF assms(1), of n b tr] assms(2) show ?thesis
    by (auto simp: first_arrival_def TxValidationCode_VALID_def Let_def)
qed

lemma example_stream:
  "\<exists>bs fin tr'. stream_blocks example_sys (PeerFilteredEvents example_user example_channel (example_peer n))
      None (Some INDEFINITE_STOP_POSITION) b tr = (Returned (bs, fin), tr') \<and>
    (\<exists>t. first_arrival (lit ''07'') bs = Some (40, t) \<and> ftx_tx_validation_code t = TxValidationCode_VALID) \<and>
    (\<exists>t. first_arrival (lit ''02'') bs = Some (40, t) \<and> ftx_tx_validation_code t = 11)"
  by (rule example_stream_of [OF example_sys_pb]) (simp add: example_sys_def)

theorem check_transaction_outcome_witness:
  "fst (check_transaction example_sys (PeerFilteredEvents example_user example_channel (example_peer ''p1''))
      (lit ''02'') 30 None BlockUntilReady []) = Raised (TransactionValidationError 11)"
proof -
  obtain bs fin tr' t where st: "stream_blocks example_sys
      (PeerFilteredEvents example_user example_channel (example_peer ''p1''))
      None (Some INDEFINITE_STOP_POSITION) BlockUntilReady [] = (Returned (bs, fin), tr')"
    "first_arrival (lit ''02'') bs = Some (40, t)" "ftx_tx_validation_code t = 11"
    using example_stream [of "''p1''" BlockUntilReady "[]"] by blast
  have "\<exists>n. enum_Name TxValidationCode 11 = Inr n"
    by (simp add: enum_Name_def TxValidationCode_def)
  with check_transaction_outcome [OF _ st(1,2), of 30] st(3) show ?thesis
    by (auto simp: TxValidationCode_VALID_def)
qed

end
