(* ===== verification/Transact.thy ===== *)
theory Transact
  imports Events
begin

text \<open>
  Proposing and committing transactions (\<open>src/snakeskin/transact.py\<close>).
\<close>

text \<open>An optional string as an f-string prints it.\<close>

definition opt_text :: "pystr option \<Rightarrow> pystr" where
  "opt_text x = (case x of None \<Rightarrow> lit ''None'' | Some s \<Rightarrow> s)"

section \<open>Generating\<close>

definition generate_instantiate_cc_tx ::
  "sys \<Rightarrow> User \<Rightarrow> ChaincodeSpec \<Rightarrow> Channel \<Rightarrow> EndorsementPolicy option \<Rightarrow> bool \<Rightarrow> GeneratedTX io" where
  "generate_instantiate_cc_tx S requestor cc_spec channel endorsement_policy upgrade =
    (let proposal_type = (if upgrade then Upgrade else Instantiate) in
     bind_io (case endorsement_policy of
                None \<Rightarrow> return_io []
              | Some p \<Rightarrow>
                  bind_io (lift_res (build_signature_policy_envelope (sys_pb S) (sys_uni S) (sys_iter S) p))
                    (\<lambda>sig_policy_env. return_io (ser (pb_SignaturePolicyEnvelope (sys_pb S)) sig_policy_env)))
       (\<lambda>pol.
     bind_io (guard_io (truthy (cc_name cc_spec)) (ValueError (lit ''Must specify chaincode name''))) (\<lambda>_.
     bind_io (lift_res (build_cc_deployment_spec (sys_pb S) (the (cc_name cc_spec)) (cc_language cc_spec)
                (Some (lit ''init'')) (cc_version cc_spec) None None (cc_args cc_spec))) (\<lambda>cc_deploy_spec.
     bind_io (lift_res (map_res encode_proto_bytes
                [ChaincodeProposalType_value proposal_type, channel_name channel])) (\<lambda>front.
     bind_io (lift_res (map_res encode_proto_bytes [lit ''escc'', lit ''vscc''])) (\<lambda>back.
       build_generated_tx S requestor (lit ''lscc'')
         (front @ [ser (pb_ChaincodeDeploymentSpec (sys_pb S)) cc_deploy_spec, pol] @ back)
         (Some channel) None))))))"

definition generate_cc_tx ::
  "sys \<Rightarrow> User \<Rightarrow> pystr \<Rightarrow> Channel \<Rightarrow> pystr \<Rightarrow> pystr list option \<Rightarrow> (pystr \<times> bytes) list option \<Rightarrow>
    GeneratedTX io" where
  "generate_cc_tx S requestor ccname channel fcn args transient_map =
    bind_io (lift_res (map_res encode_proto_bytes ([fcn] @ or_else args []))) (\<lambda>full_args.
      build_generated_tx S requestor ccname full_args (Some channel) transient_map)"

section \<open>Proposing and committing\<close>

definition propose_tx :: "sys \<Rightarrow> Peer list \<Rightarrow> GeneratedTX \<Rightarrow> EndorsedTX io" where
  "propose_tx S peers g =
    bind_io (guard_io (peers \<noteq> []) (ValueError (lit ''Must provide at least one peer to propose a tx''))) (\<lambda>_.
    bind_io (gather (sys_completion_order S)
               (map (process_proposal_on_peer S (gtx_signed_proposal g)) peers)) (\<lambda>peer_responses.
      return_io
        \<lparr>etx_peer_responses = peer_responses, etx_proposal = gtx_proposal g,
         etx_header = gtx_header g, etx_tx_context = gtx_tx_context g\<rparr>))"

definition commit_tx :: "sys \<Rightarrow> User \<Rightarrow> Orderer list \<Rightarrow> EndorsedTX \<Rightarrow> BroadcastResponse option io" where
  "commit_tx S requestor ords etx =
    bind_io (build_endorsed_tx_envelope S etx requestor) (\<lambda>envelope.
      broadcast_to_orderers S envelope ords (EndorsedTX_tx_id etx))"

definition raise_tx_proposal_error :: "EndorsedTX \<Rightarrow> pystr \<Rightarrow> exn + unit" where
  "raise_tx_proposal_error etx msg = require (fully_endorsed etx) (TransactionProposalError msg etx)"

definition commit_tx_and_wait ::
  "sys \<Rightarrow> User \<Rightarrow> Channel \<Rightarrow> Peer list \<Rightarrow> Orderer list \<Rightarrow> EndorsedTX \<Rightarrow> int \<Rightarrow> unit io" where
  "commit_tx_and_wait S requestor channel peers ords etx timeout =
    bind_io (commit_tx S requestor ords etx) (\<lambda>_.
    bind_io (lift_res (nth_res peers 0)) (\<lambda>peer.
    bind_io (check_transaction S (PeerFilteredEvents requestor channel peer)
               (txc_tx_id (etx_tx_context etx)) timeout None BlockUntilReady) (\<lambda>_.
      return_io ())))"

section \<open>Events\<close>

lemma emits_generate [emits_intros]:
  assumes "\<And>e. local_event e \<Longrightarrow> P e"
  shows "emits P (generate_cc_tx S u ccname channel fcn args tm)"
    "emits P (generate_instantiate_cc_tx S u cc_spec channel policy upgrade)"
proof -
  show "emits P (generate_cc_tx S u ccname channel fcn args tm)"
    unfolding generate_cc_tx_def using assms by (intro emits_intros)
  have "emits P (case policy of None \<Rightarrow> return_io []
      | Some p \<Rightarrow> bind_io (lift_res (build_signature_policy_envelope (sys_pb S) (sys_uni S) (sys_iter S) p))
          (\<lambda>env. return_io (ser (pb_SignaturePolicyEnvelope (sys_pb S)) env)))"
    by (cases policy) (simp_all add: emits_return emits_bind emits_lift_res)
  then show "emits P (generate_instantiate_cc_tx S u cc_spec channel policy upgrade)"
    unfolding generate_instantiate_cc_tx_def Let_def using assms by (intro emits_intros)
qed

lemma emits_propose [emits_intros]:
  assumes "\<And>p. p \<in> set peers \<Longrightarrow> P (ProposalSent p (gtx_signed_proposal g))"
  shows "emits P (propose_tx S peers g)"
  unfolding propose_tx_def using assms
  by (intro emits_intros) (auto intro: emits_process_proposal)

lemma emits_commit [emits_intros]:
  assumes "\<And>e. local_event e \<Longrightarrow> P e" "\<And>ord envelope. P (EnvelopeBroadcast ord envelope)"
  shows "emits P (commit_tx S u ords etx)"
  unfolding commit_tx_def using assms by (intro emits_intros)

lemma emits_commit_and_wait [emits_intros]:
  assumes "\<And>e. local_event e \<Longrightarrow> P e" "\<And>ord envelope. P (EnvelopeBroadcast ord envelope)"
    and "\<And>p envelope. P (DeliverRequested (PeerDeliverFiltered p) envelope)"
  shows "emits P (commit_tx_and_wait S u channel peers ords etx timeout)"
  unfolding commit_tx_and_wait_def using assms by (intro emits_intros) simp_all

section \<open>Endorsement\<close>

text \<open>The answer of the \<open>i\<close>-th peer, which gets the proposal after the ones before it.\<close>

definition endorsement ::
  "sys \<Rightarrow> SignedProposal \<Rightarrow> Peer list \<Rightarrow> trace \<Rightarrow> nat \<Rightarrow> ProposalResponse outcome" where
  "endorsement S sp peers tr i = conn_outcome (sys_ProcessProposal S
    (tr @ map (\<lambda>p. ProposalSent p sp) (take i peers)) (peers ! i) sp)"

lemma gather_proposals:
  "gather cord (map (process_proposal_on_peer S sp) peers) tr =
    (settle (cord (tr @ map (\<lambda>p. ProposalSent p sp) peers))
       (map (endorsement S sp peers tr) [0..<length peers]),
     tr @ map (\<lambda>p. ProposalSent p sp) peers)"
proof -
  have "process_proposal_on_peer S sp =
      (\<lambda>x tr. (conn_outcome (sys_ProcessProposal S tr x sp), tr @ [ProposalSent x sp]))"
    by (intro ext) (simp add: process_proposal_eq)
  then show ?thesis
    using start_all_send [of "\<lambda>p tr. conn_outcome (sys_ProcessProposal S tr p sp)" "\<lambda>p. ProposalSent p sp" peers tr]
    by (simp add: gather_def endorsement_def [abs_def])
qed

lemma propose_tx_eq:
  assumes "peers \<noteq> []"
  shows "propose_tx S peers g tr =
    (case settle (sys_completion_order S (tr @ map (\<lambda>p. ProposalSent p (gtx_signed_proposal g)) peers))
        (map (endorsement S (gtx_signed_proposal g) peers tr) [0..<length peers]) of
       Returned rs \<Rightarrow> Returned \<lparr>etx_peer_responses = rs, etx_proposal = gtx_proposal g,
         etx_header = gtx_header g, etx_tx_context = gtx_tx_context g\<rparr>
     | Raised e \<Rightarrow> Raised e
     | Blocked \<Rightarrow> Blocked,
     tr @ map (\<lambda>p. ProposalSent p (gtx_signed_proposal g)) peers)"
  using assms unfolding propose_tx_def
  by (simp add: bind_io_def gather_proposals return_io_def split: outcome.split)

lemma propose_tx_Nil: "propose_tx S [] g = raise_io (Py (ValueError (lit ''Must provide at least one peer to propose a tx'')))"
  by (simp add: propose_tx_def)

lemma propose_tx_Returned_D:
  assumes "propose_tx S peers g tr = (Returned etx, tr')"
  shows "peers \<noteq> [] \<and> tr' = tr @ map (\<lambda>p. ProposalSent p (gtx_signed_proposal g)) peers \<and>
    etx_proposal etx = gtx_proposal g \<and> etx_header etx = gtx_header g \<and>
    etx_tx_context etx = gtx_tx_context g \<and>
    length (etx_peer_responses etx) = length peers \<and>
    (\<forall>i < length peers. endorsement S (gtx_signed_proposal g) peers tr i = Returned (etx_peer_responses etx ! i))"
proof -
  have ne: "peers \<noteq> []" using assms by (auto simp: propose_tx_Nil)
  with assms obtain rs where
    rs: "map (endorsement S (gtx_signed_proposal g) peers tr) [0..<length peers] = map Returned rs" and
    etx: "etx = \<lparr>etx_peer_responses = rs, etx_proposal = gtx_proposal g,
         etx_header = gtx_header g, etx_tx_context = gtx_tx_context g\<rparr>" and
    tr': "tr' = tr @ map (\<lambda>p. ProposalSent p (gtx_signed_proposal g)) peers"
    by (auto simp: propose_tx_eq settle_Returned_iff split: outcome.splits)
  from rs have len: "length rs = length peers" by (metis length_map length_upt minus_nat.diff_0)
  have "endorsement S (gtx_signed_proposal g) peers tr i = Returned (rs ! i)" if "i < length peers" for i
    using arg_cong [OF rs, of "\<lambda>xs. xs ! i"] that len by simp
  with ne etx tr' len show ?thesis by simp
qed

text \<open>
  C16. A proposal goes to every given peer exactly once, in their order, as the same signed
  bytes. If it returns, the endorsed transaction holds the generated one's proposal, header
  and context and the answers of the peers, each at its peer's position; it raises what one
  of the peers' calls raised, a gRPC failure as a connection error.
\<close>

theorem propose_tx_outcome:
  assumes "peers \<noteq> []"
  shows "snd (propose_tx S peers g tr) = tr @ map (\<lambda>p. ProposalSent p (gtx_signed_proposal g)) peers \<and>
    (case fst (propose_tx S peers g tr) of
       Returned etx \<Rightarrow> etx_proposal etx = gtx_proposal g \<and> etx_header etx = gtx_header g \<and>
         etx_tx_context etx = gtx_tx_context g \<and> length (etx_peer_responses etx) = length peers \<and>
         (\<forall>i < length peers.
            endorsement S (gtx_signed_proposal g) peers tr i = Returned (etx_peer_responses etx ! i))
     | Raised e \<Rightarrow> \<exists>i < length peers. endorsement S (gtx_signed_proposal g) peers tr i = Raised e
     | Blocked \<Rightarrow> \<exists>i < length peers. endorsement S (gtx_signed_proposal g) peers tr i = Blocked)"
proof -
  let ?sp = "gtx_signed_proposal g"
  let ?ocs = "map (endorsement S ?sp peers tr) [0..<length peers]"
  let ?st = "settle (sys_completion_order S (tr @ map (\<lambda>p. ProposalSent p ?sp) peers)) ?ocs"
  have snd: "snd (propose_tx S peers g tr) = tr @ map (\<lambda>p. ProposalSent p ?sp) peers"
    by (simp add: propose_tx_eq [OF assms])
  show ?thesis
  proof (cases "fst (propose_tx S peers g tr)")
    case (Returned etx)
    with snd have "propose_tx S peers g tr = (Returned etx, tr @ map (\<lambda>p. ProposalSent p ?sp) peers)"
      by (metis prod.collapse)
    from propose_tx_Returned_D [OF this] snd Returned show ?thesis by simp
  next
    case (Raised e)
    then have "?st = Raised e" by (auto simp: propose_tx_eq [OF assms] split: outcome.splits)
    then have "Raised e \<in> set ?ocs" by (rule settle_Raised_D)
    with snd Raised show ?thesis by auto
  next
    case Blocked
    then have "?st = Blocked" by (auto simp: propose_tx_eq [OF assms] split: outcome.splits)
    then have "Blocked \<in> set ?ocs" by (rule settle_Blocked_D)
    with snd Blocked show ?thesis by auto
  qed
qed

text \<open>A generated transaction the theorem is applied to, and a world whose second peer is down.\<close>

definition example_generated :: GeneratedTX where
  "example_generated =
    \<lparr>gtx_tx_context = etx_tx_context example_endorsed, gtx_proposal = etx_proposal example_endorsed,
     gtx_signed_proposal = \<lparr>sp_proposal_bytes = [1], sp_signature = [2]\<rparr>,
     gtx_header = etx_header example_endorsed\<rparr>"

definition peer_down_sys :: sys where
  "peer_down_sys = example_sys\<lparr>sys_ProcessProposal := (\<lambda>tr p sp.
     if p = example_peer ''p2'' then Raised (RpcError (lit ''UNAVAILABLE'') [])
     else Returned (example_response 200 []))\<rparr>"

theorem propose_tx_outcome_witness:
  "propose_tx peer_down_sys [example_peer ''p1'', example_peer ''p2''] example_generated [] =
    (Raised (BlockchainConnectionError (lit ''UNAVAILABLE'') []),
     [ProposalSent (example_peer ''p1'') (gtx_signed_proposal example_generated),
      ProposalSent (example_peer ''p2'') (gtx_signed_proposal example_generated)])"
proof -
  let ?ps = "[example_peer ''p1'', example_peer ''p2'']"
  let ?r = "propose_tx peer_down_sys ?ps example_generated []"
  have diff: "example_peer ''p1'' \<noteq> example_peer ''p2''" by (simp add: example_peer_def)
  have e0: "endorsement peer_down_sys sp ?ps [] 0 = Returned (example_response 200 [])" for sp
    by (simp add: endorsement_def peer_down_sys_def diff)
  have e1: "endorsement peer_down_sys sp ?ps [] 1 = Raised (BlockchainConnectionError (lit ''UNAVAILABLE'') [])" for sp
    by (simp add: endorsement_def peer_down_sys_def)
  have out: "snd ?r = [] @ map (\<lambda>p. ProposalSent p (gtx_signed_proposal example_generated)) ?ps \<and>
    (case fst ?r of
       Returned etx \<Rightarrow> etx_proposal etx = gtx_proposal example_generated \<and>
         etx_header etx = gtx_header example_generated \<and>
         etx_tx_context etx = gtx_tx_context example_generated \<and> length (etx_peer_responses etx) = length ?ps \<and>
         (\<forall>i < length ?ps. endorsement peer_down_sys (gtx_signed_proposal example_generated) ?ps [] i =
            Returned (etx_peer_responses etx ! i))
     | Raised e \<Rightarrow> \<exists>i < length ?ps.
         endorsement peer_down_sys (gtx_signed_proposal example_generated) ?ps [] i = Raised e
     | Blocked \<Rightarrow> \<exists>i < length ?ps.
         endorsement peer_down_sys (gtx_signed_proposal example_generated) ?ps [] i = Blocked)"
    by (rule propose_tx_outcome) simp
  have "fst ?r = Raised (BlockchainConnectionError (lit ''UNAVAILABLE'') [])"
  proof (cases "fst ?r")
    case (Returned etx)
    with out have "endorsement peer_down_sys (gtx_signed_proposal example_generated) ?ps [] 1 =
        Returned (etx_peer_responses etx ! 1)" by simp
    with e1 show ?thesis by simp
  next
    case (Raised e)
    with out e0 e1 show ?thesis by (auto simp: less_Suc_eq)
  next
    case Blocked
    with out e0 e1 show ?thesis by (auto simp: less_Suc_eq)
  qed
  with out show ?thesis by (simp add: prod_eq_iff)
qed

section \<open>Committing\<close>

lemma raise_tx_proposal_error_iff:
  "raise_tx_proposal_error etx msg = Inr () \<longleftrightarrow> fully_endorsed etx"
  "raise_tx_proposal_error etx msg = Inl e \<longleftrightarrow> \<not> fully_endorsed etx \<and> e = TransactionProposalError msg etx"
  by (auto simp: raise_tx_proposal_error_def require_def)

lemma commit_tx_Returned_D:
  assumes "commit_tx S u ords etx tr = (Returned r, tr')"
  shows "\<exists>envelope tr1. build_endorsed_tx_envelope S etx u tr = (Returned envelope, tr1) \<and>
    broadcast_to_orderers S envelope ords (EndorsedTX_tx_id etx) tr1 = (Returned r, tr')"
  using assms by (auto simp: commit_tx_def bind_Returned_iff)

lemma commit_tx_and_wait_Returned_D:
  assumes "commit_tx_and_wait S u channel peers ords etx timeout tr = (Returned x, tr')"
  shows "\<exists>r tr1 p ps t. commit_tx S u ords etx tr = (Returned r, tr1) \<and> peers = p # ps \<and>
    check_transaction S (PeerFilteredEvents u channel p) (EndorsedTX_tx_id etx) timeout None
      BlockUntilReady tr1 = (Returned t, tr')"
  using assms unfolding commit_tx_and_wait_def EndorsedTX_tx_id_def
  by (cases peers) (auto simp: bind_Returned_iff)

text \<open>The broadcasts and the delivery requests of a trace.\<close>

definition broadcasts :: "trace \<Rightarrow> (Orderer \<times> Envelope) list" where
  "broadcasts tr = concat (map (\<lambda>e. case e of EnvelopeBroadcast ord envelope \<Rightarrow> [(ord, envelope)] | _ \<Rightarrow> []) tr)"

lemma broadcasts_simps [simp]:
  "broadcasts [] = []" "broadcasts (as @ bs) = broadcasts as @ broadcasts bs"
  "broadcasts (EnvelopeBroadcast ord envelope # bs) = (ord, envelope) # broadcasts bs"
  by (simp_all add: broadcasts_def)

lemma broadcasts_map [simp]:
  "broadcasts (map (\<lambda>ord. EnvelopeBroadcast ord envelope) ords) = map (\<lambda>ord. (ord, envelope)) ords"
  "broadcasts (map (\<lambda>p. ProposalSent p sp) ps) = []"
  by (induction ords; induction ps) (simp_all add: broadcasts_def)

lemma broadcasts_none:
  "list_all P evs \<Longrightarrow> (\<And>ord envelope. \<not> P (EnvelopeBroadcast ord envelope)) \<Longrightarrow> broadcasts evs = []"
  by (induction evs) (auto simp: broadcasts_def split: event.split)

lemma emits_broadcasts:
  assumes "emits P m" "m tr = (oc, tr')" "\<And>ord envelope. \<not> P (EnvelopeBroadcast ord envelope)"
  shows "broadcasts tr' = broadcasts tr"
proof -
  from assms(1,2) obtain evs where "tr' = tr @ evs" "list_all P evs" by (rule emitsD)
  moreover from this(2) assms(3) have "broadcasts evs = []" by (rule broadcasts_none)
  ultimately show ?thesis by simp
qed

definition endorses :: "sys \<Rightarrow> Peer \<Rightarrow> bool" where
  "endorses S p \<longleftrightarrow> (\<forall>tr sp. \<exists>r. sys_ProcessProposal S tr p sp = Returned r \<and> status_of r = 200)"

text \<open>The id that the next transaction of a user gets.\<close>

definition next_tx_id :: "sys \<Rightarrow> User \<Rightarrow> trace \<Rightarrow> pystr" where
  "next_tx_id S u tr = hexlify (hash_digest (user_suite u)
    (generate_nonce (user_suite u) (length tr) 24 @ ser (pb_SerializedIdentity (sys_pb S)) (user_identity u)))"

lemma commit_past_down:
  assumes "\<forall>q \<in> set qs. orderer_down S q" "orderer_accepts S ord"
    and "etx_peer_responses etx \<noteq> []" "user_ready u"
  shows "\<exists>envelope r tr1. broadcasts tr1 = broadcasts tr \<and> commit_tx S u (qs @ ord # ords) etx tr =
    (Returned r, tr1 @ map (\<lambda>q. EnvelopeBroadcast q envelope) (qs @ [ord]))"
proof -
  obtain envelope tr1 where e: "build_endorsed_tx_envelope S etx u tr = (Returned envelope, tr1)"
    using build_endorsed_tx_envelope_total [OF assms(3,4)] by blast
  have "broadcasts tr1 = broadcasts tr"
    by (rule emits_broadcasts [OF emits_factories(8) e, of local_event]) simp_all
  moreover obtain r where "broadcast_loop S envelope (EndorsedTX_tx_id etx) None (qs @ ord # ords) tr1 =
      (Returned r, tr1 @ map (\<lambda>q. EnvelopeBroadcast q envelope) (qs @ [ord]))"
    using broadcast_past_down [OF assms(1,2)] by blast
  then have "commit_tx S u (qs @ ord # ords) etx tr =
      (Returned r, tr1 @ map (\<lambda>q. EnvelopeBroadcast q envelope) (qs @ [ord]))"
    using e by (simp add: commit_tx_def bind_io_def broadcast_to_orderers_Cons)
  ultimately show ?thesis by blast
qed

lemma broadcasts_to_orderers:
  assumes "broadcast_to_orderers S envelope ords tx_id tr = (oc, tr')"
  shows "\<exists>k \<le> length ords. broadcasts tr' = broadcasts tr @ map (\<lambda>ord. (ord, envelope)) (take k ords)"
proof (cases "ords = []")
  case True
  with assms show ?thesis by (auto simp: raise_io_def)
next
  case False
  from broadcast_loop_outcome [OF False, of S envelope tx_id None tr] assms
  obtain k where "k < length ords"
    "tr' = tr @ map (\<lambda>ord. EnvelopeBroadcast ord envelope) (take (Suc k) ords)"
    by (auto simp: broadcast_to_orderers_Cons [OF False])
  then show ?thesis by (intro exI [of _ "Suc k"]) simp
qed

end
