(* ===== verification/Packaging.thy ===== *)
theory Packaging
  imports Models
begin

text \<open>
  Packaging of chaincode (\<open>package_chaincode\<close> of \<open>src/snakeskin/operations.py\<close>). It reads the file
  system and uses \<open>tarfile\<close> and \<open>gzip\<close>, which are the parameters in the record \<open>host\<close>.
\<close>

section \<open>The host\<close>

text \<open>
  A \<open>TarInfo\<close>: the attributes the code sets, and the others as \<open>gettarinfo\<close> gives them.
\<close>

record TarInfo =
  ti_name :: pystr
  ti_uid :: int
  ti_gid :: int
  ti_mode :: int
  ti_mtime :: int
  ti_pax_headers :: "(pystr \<times> pystr) list"
  ti_rest :: bytes

text \<open>
  The host: the environment variable \<open>GOPATH\<close>, \<open>os.listdir\<close> (for its error), \<open>os.walk\<close> (the
  directories with their file names), opening a file, \<open>TarFile.gettarinfo\<close>, and the gzip
  stream of a tar archive of members with their contents, written at a given time.
\<close>

record host =
  host_gopath :: "pystr option"
  host_listdir :: "pystr \<Rightarrow> unit result"
  host_walk :: "pystr \<Rightarrow> (pystr \<times> pystr list) list"
  host_open :: "pystr \<Rightarrow> bytes result"
  host_gettarinfo :: "pystr \<Rightarrow> pystr \<Rightarrow> TarInfo result"
  host_tar_gz :: "nat \<Rightarrow> (TarInfo \<times> bytes) list \<Rightarrow> bytes"

text \<open>\<open>os.path.join\<close>: 47 is the slash.\<close>

definition path_join :: "pystr \<Rightarrow> pystr \<Rightarrow> pystr" where
  "path_join a b =
    (if b \<noteq> [] \<and> hd b = 47 then b
     else if a = [] \<or> last a = 47 then a @ b
     else a @ [47] @ b)"

fun is_FileNotFoundError :: "py_error \<Rightarrow> bool" where
  "is_FileNotFoundError (FileNotFoundError m) = True"
| "is_FileNotFoundError _ = False"

definition standard_tarinfo :: "TarInfo \<Rightarrow> TarInfo" where
  "standard_tarinfo t = t\<lparr>ti_uid := 500, ti_gid := 500, ti_mode := 100644, ti_mtime := 0,
     ti_pax_headers := [(lit ''atime'', lit ''0''), (lit ''ctime'', lit ''0'')]\<rparr>"

definition project_path :: "host \<Rightarrow> pystr \<Rightarrow> pystr result" where
  "project_path H path =
    (let go_path = (case host_gopath H of None \<Rightarrow> lit ''/opt/gopath'' | Some g \<Rightarrow> g);
         go_proj = path_join (path_join go_path (lit ''src'')) path
     in bind_res (case host_listdir H go_proj of
                    Inr u \<Rightarrow> Inr go_proj
                  | Inl e \<Rightarrow> if is_FileNotFoundError e then Inr path else Inl e) (\<lambda>proj_path.
        case host_listdir H proj_path of
          Inr u \<Rightarrow> Inr proj_path
        | Inl e \<Rightarrow> if is_FileNotFoundError e
                   then Inl (ValueError (lit ''No directory found at path '' @ proj_path)) else Inl e))"

definition tar_member :: "host \<Rightarrow> pystr \<Rightarrow> (TarInfo \<times> bytes) result" where
  "tar_member H file_path =
    bind_res (host_open H file_path) (\<lambda>content.
    bind_res (host_gettarinfo H file_path (path_join (lit ''src'') file_path)) (\<lambda>t.
      Inr (standard_tarinfo t, content)))"

text \<open>\<open>tar_stream.seek(4); tar_stream.write(struct.pack("<L", 0))\<close>\<close>

definition zero_timestamp :: "bytes \<Rightarrow> bytes" where
  "zero_timestamp bs = take 4 bs @ replicate (4 - length bs) 0 @ [0, 0, 0, 0] @ drop 8 bs"

definition package_chaincode :: "host \<Rightarrow> nat \<Rightarrow> ChaincodeSpec \<Rightarrow> bytes result" where
  "package_chaincode H now cc_spec =
    (if cc_language cc_spec = GOLANG then
       bind_res (require (truthy (cc_path cc_spec)) (ValueError (lit ''Must specify path on chaincode spec''))) (\<lambda>_.
       bind_res (project_path H (the (cc_path cc_spec))) (\<lambda>_.
       bind_res (map_res (tar_member H)
         (concat (map (\<lambda>(dir_path, file_names). map (path_join dir_path) file_names)
            (host_walk H (the (cc_path cc_spec)))))) (\<lambda>members.
         Inr (zero_timestamp (host_tar_gz H now members)))))
     else Inl (ValueError (lit ''Currently only support install GOLANG chaincode'')))"

section \<open>What a package is\<close>


text \<open>The files below a path, as \<open>os.walk\<close> lists them, and their members of the archive.\<close>

definition package_files :: "host \<Rightarrow> pystr \<Rightarrow> pystr list" where
  "package_files H path =
    concat (map (\<lambda>(dir_path, file_names). map (path_join dir_path) file_names) (host_walk H path))"

definition package_members :: "host \<Rightarrow> pystr \<Rightarrow> (TarInfo \<times> bytes) list result" where
  "package_members H path = map_res (tar_member H) (package_files H path)"

lemma package_chaincode_Inr_iff:
  "package_chaincode H now cc_spec = Inr pkg \<longleftrightarrow>
    cc_language cc_spec = GOLANG \<and>
    (\<exists>p ps. cc_path cc_spec = Some (p # ps) \<and> (\<exists>q. project_path H (p # ps) = Inr q) \<and>
      (\<exists>members. package_members H (p # ps) = Inr members \<and>
        pkg = zero_timestamp (host_tar_gz H now members)))"
  unfolding package_chaincode_def package_members_def package_files_def
  by (cases "cc_path cc_spec" rule: truthy_cases) auto






text \<open>
  A project found under \<open>GOPATH\<close> is not what gets packed: the existence check accepts
  \<open>$GOPATH/src/path\<close>, but the files are collected from \<open>path\<close> itself, so that where this is
  no directory the package is an archive without members.
\<close>

theorem package_ignores_gopath:
  assumes "cc_language cc_spec = GOLANG" "cc_path cc_spec = Some path" "path \<noteq> []"
    and "host_gopath H = Some go_path"
    and "host_listdir H (path_join (path_join go_path (lit ''src'')) path) = Inr ()"
    and "host_walk H path = []"
  shows "package_chaincode H now cc_spec = Inr (zero_timestamp (host_tar_gz H now []))"
proof -
  have "project_path H path = Inr (path_join (path_join go_path (lit ''src'')) path)"
    using assms(4,5) by (simp add: project_path_def Let_def)
  moreover obtain p ps where "path = p # ps" using assms(3) by (cases path) auto
  ultimately show ?thesis
    using assms(1,2,6) unfolding package_chaincode_Inr_iff package_members_def package_files_def by auto
qed

text \<open>A host with a project \<open>a\<close> that has one file, both here and under \<open>/go/src\<close> a project \<open>b\<close>.\<close>

definition example_host :: host where
  "example_host =
    \<lparr>host_gopath = Some (lit ''/go''),
     host_listdir = (\<lambda>p. if p \<in> {lit ''a'', lit ''/go/src/b''} then Inr () else Inl (FileNotFoundError p)),
     host_walk = (\<lambda>p. if p = lit ''a'' then [(lit ''a'', [lit ''m.go''])] else []),
     host_open = (\<lambda>p. if p = lit ''a/m.go'' then Inr [1, 2] else Inl (FileNotFoundError p)),
     host_gettarinfo = (\<lambda>f n. Inr \<lparr>ti_name = n, ti_uid = 7, ti_gid = 7, ti_mode = 420, ti_mtime = 99,
       ti_pax_headers = [], ti_rest = []\<rparr>),
     host_tar_gz = (\<lambda>n ms. [31, 139, 8, 0] @ replicate 4 (of_nat n) @ concat (map snd ms))\<rparr>"

definition example_project :: "string \<Rightarrow> ChaincodeSpec" where
  "example_project p = \<lparr>cc_name = Some (lit ''cc''), cc_version = Some (lit ''1''), cc_language = GOLANG,
     cc_path = Some (lit p), cc_args = None\<rparr>"




theorem package_ignores_gopath_witness:
  "package_chaincode example_host 3 (example_project ''b'') = Inr [31, 139, 8, 0, 0, 0, 0, 0]"
proof -
  have "package_chaincode example_host 3 (example_project ''b'') =
      Inr (zero_timestamp (host_tar_gz example_host 3 []))"
    by (rule package_ignores_gopath [of _ "lit ''b''" _ "lit ''/go''"])
      (simp_all add: example_host_def example_project_def path_join_def)
  then show ?thesis by (simp add: example_host_def zero_timestamp_def)
qed

end
