(* ===== verification/Operations.thy ===== *)
theory Operations
  imports Transact Packaging
begin

text \<open>
  The chaincode operations of \<open>src/snakeskin/operations.py\<close>: queries about chaincodes,
  installation, instantiation and upgrade, invocation and query, with what they send to
  whom, when they succeed and what their success means. (Channels are in
  \<open>Channel_Operations\<close>, packaging is in \<open>Packaging\<close>.)
\<close>

section \<open>Queries\<close>

definition query_instantiated_chaincodes ::
  "sys \<Rightarrow> User \<Rightarrow> Peer list \<Rightarrow> Channel \<Rightarrow> ChaincodeQueryResponse io" where
  "query_instantiated_chaincodes S requestor peers channel =
    bind_io (lift_res (encode_proto_bytes (lit ''getchaincodes''))) (\<lambda>fcn.
    bind_io (build_generated_tx S requestor (lit ''lscc'') [fcn] (Some channel) None) (\<lambda>generated_tx.
    bind_io (propose_tx S peers generated_tx) (\<lambda>etx.
    bind_io (lift_exn (raise_tx_proposal_error etx
      (lit ''Failed query instantiated chaincodes for channel '' @ channel_name channel))) (\<lambda>_.
    bind_io (lift_res (nth_res (etx_peer_responses etx) 0)) (\<lambda>resp.
    lift_res (FromString (pb_ChaincodeQueryResponse (sys_pb S)) (rsp_payload (pr_response resp))))))))"

definition query_installed_chaincodes :: "sys \<Rightarrow> User \<Rightarrow> Peer \<Rightarrow> ChaincodeQueryResponse io" where
  "query_installed_chaincodes S requestor peer =
    bind_io (lift_res (encode_proto_bytes (lit ''getinstalledchaincodes''))) (\<lambda>fcn.
    bind_io (build_generated_tx S requestor (lit ''lscc'') [fcn] None None) (\<lambda>generated_tx.
    bind_io (propose_tx S [peer] generated_tx) (\<lambda>etx.
    bind_io (lift_exn (raise_tx_proposal_error etx (lit ''Failed query installed chaincodes''))) (\<lambda>_.
    bind_io (lift_res (nth_res (etx_peer_responses etx) 0)) (\<lambda>resp.
    lift_res (FromString (pb_ChaincodeQueryResponse (sys_pb S)) (rsp_payload (pr_response resp))))))))"

section \<open>Chaincode\<close>

definition install_chaincode :: "sys \<Rightarrow> host \<Rightarrow> User \<Rightarrow> Peer list \<Rightarrow> ChaincodeSpec \<Rightarrow> EndorsedTX io" where
  "install_chaincode S H requestor peers cc_spec =
    bind_io (guard_io (truthy (cc_name cc_spec)) (ValueError (lit ''Must provide chaincode name''))) (\<lambda>_.
    bind_io (with_seed (\<lambda>now. lift_res (package_chaincode H now cc_spec))) (\<lambda>cc_pkg.
    bind_io (lift_res (build_cc_deployment_spec (sys_pb S) (the (cc_name cc_spec)) (cc_language cc_spec)
      None (cc_version cc_spec) (cc_path cc_spec) (Some cc_pkg) None)) (\<lambda>cc_deployment_spec.
    bind_io (lift_res (encode_proto_bytes (ChaincodeProposalType_value Install))) (\<lambda>fcn.
    bind_io (build_generated_tx S requestor (lit ''lscc'')
      [fcn, ser (pb_ChaincodeDeploymentSpec (sys_pb S)) cc_deployment_spec] None None) (\<lambda>generated_tx.
    bind_io (propose_tx S peers generated_tx) (\<lambda>etx.
    bind_io (lift_exn (raise_tx_proposal_error etx
      (lit ''Failed install chaincode '' @ opt_text (cc_name cc_spec) @ lit '' version '' @
       opt_text (cc_version cc_spec)))) (\<lambda>_.
      return_io etx)))))))"

definition instantiate_chaincode ::
  "sys \<Rightarrow> User \<Rightarrow> Peer list \<Rightarrow> Orderer list \<Rightarrow> Channel \<Rightarrow> ChaincodeSpec \<Rightarrow> EndorsementPolicy option \<Rightarrow>
    bool \<Rightarrow> int \<Rightarrow> EndorsedTX io" where
  "instantiate_chaincode S requestor peers ords channel cc_spec endorsement_policy upgrade timeout =
    bind_io (generate_instantiate_cc_tx S requestor cc_spec channel endorsement_policy upgrade) (\<lambda>generated_tx.
    bind_io (propose_tx S peers generated_tx) (\<lambda>etx.
    bind_io (lift_exn (raise_tx_proposal_error etx
      (lit ''Failed to '' @ (if upgrade then lit ''upgrade'' else lit ''instantiate'') @ lit '' chaincode '' @
       opt_text (cc_name cc_spec) @ lit '' version '' @ lit '' '' @ opt_text (cc_version cc_spec) @
       lit '' on channel '' @ channel_name channel))) (\<lambda>_.
    bind_io (commit_tx_and_wait S requestor channel peers ords etx timeout) (\<lambda>_.
      return_io etx))))"

definition invoke ::
  "sys \<Rightarrow> User \<Rightarrow> Peer list \<Rightarrow> Orderer list \<Rightarrow> Channel \<Rightarrow> pystr \<Rightarrow> pystr \<Rightarrow> pystr list option \<Rightarrow> int \<Rightarrow>
    (pystr \<times> bytes) list option \<Rightarrow> EndorsedTX io" where
  "invoke S requestor peers ords channel ccname fcn args timeout transient_map =
    bind_io (generate_cc_tx S requestor ccname channel fcn args transient_map) (\<lambda>generated_tx.
    bind_io (propose_tx S peers generated_tx) (\<lambda>etx.
    bind_io (lift_exn (raise_tx_proposal_error etx
      (lit ''Failed to invoke chaincode '' @ ccname @ lit '' with function '' @ fcn))) (\<lambda>_.
    bind_io (commit_tx_and_wait S requestor channel peers ords etx timeout) (\<lambda>_.
      return_io etx))))"

definition query ::
  "sys \<Rightarrow> User \<Rightarrow> Peer list \<Rightarrow> Channel \<Rightarrow> pystr \<Rightarrow> pystr \<Rightarrow> pystr list option \<Rightarrow>
    (pystr \<times> bytes) list option \<Rightarrow> EndorsedTX io" where
  "query S requestor peers channel ccname fcn args transient_map =
    bind_io (generate_cc_tx S requestor ccname channel fcn args transient_map) (\<lambda>generated_tx.
    bind_io (propose_tx S peers generated_tx) (\<lambda>etx.
    bind_io (lift_exn (raise_tx_proposal_error etx
      (lit ''Failed to query chaincode '' @ ccname @ lit '' with function '' @ fcn))) (\<lambda>_.
      return_io etx)))"

section \<open>Proposing operations\<close>

text \<open>
  The part that \<open>query\<close>, \<open>invoke\<close> and \<open>instantiate_chaincode\<close> share: a transaction is
  generated, proposed, and must be endorsed by all peers.
\<close>

definition endorse_tx :: "sys \<Rightarrow> Peer list \<Rightarrow> pystr \<Rightarrow> GeneratedTX io \<Rightarrow> EndorsedTX io" where
  "endorse_tx S peers msg gen =
    bind_io gen (\<lambda>g.
    bind_io (propose_tx S peers g) (\<lambda>etx.
    bind_io (lift_exn (raise_tx_proposal_error etx msg)) (\<lambda>_.
      return_io etx)))"

definition endorse_and_commit ::
  "sys \<Rightarrow> User \<Rightarrow> Peer list \<Rightarrow> Orderer list \<Rightarrow> Channel \<Rightarrow> int \<Rightarrow> pystr \<Rightarrow> GeneratedTX io \<Rightarrow> EndorsedTX io" where
  "endorse_and_commit S u peers ords channel timeout msg gen =
    bind_io (endorse_tx S peers msg gen) (\<lambda>etx.
    bind_io (commit_tx_and_wait S u channel peers ords etx timeout) (\<lambda>_.
      return_io etx))"

lemma query_endorse:
  "query S u peers channel ccname fcn args tm =
    endorse_tx S peers (lit ''Failed to query chaincode '' @ ccname @ lit '' with function '' @ fcn)
      (generate_cc_tx S u ccname channel fcn args tm)"
  by (simp add: query_def endorse_tx_def)

lemma invoke_endorse:
  "invoke S u peers ords channel ccname fcn args timeout tm =
    endorse_and_commit S u peers ords channel timeout
      (lit ''Failed to invoke chaincode '' @ ccname @ lit '' with function '' @ fcn)
      (generate_cc_tx S u ccname channel fcn args tm)"
  by (simp add: invoke_def endorse_and_commit_def endorse_tx_def bind_io_assoc)

lemma instantiate_endorse:
  "instantiate_chaincode S u peers ords channel cc_spec policy upgrade timeout =
    endorse_and_commit S u peers ords channel timeout
      (lit ''Failed to '' @ (if upgrade then lit ''upgrade'' else lit ''instantiate'') @ lit '' chaincode '' @
       opt_text (cc_name cc_spec) @ lit '' version '' @ lit '' '' @ opt_text (cc_version cc_spec) @
       lit '' on channel '' @ channel_name channel)
      (generate_instantiate_cc_tx S u cc_spec channel policy upgrade)"
  by (simp add: instantiate_chaincode_def endorse_and_commit_def endorse_tx_def bind_io_assoc)

text \<open>
  Progress of the commit: the orderers before one that accepts are down, and the first peer's
  stream reports the transaction in time.
\<close>

lemma commit_tx_and_wait_live:
  assumes "etx_peer_responses etx \<noteq> []" "user_ready u" "0 < timeout"
    and "\<forall>q \<in> set qs. orderer_down S q" "orderer_accepts S ord"
    and "hub_reports S (PeerFilteredEvents u channel p) (EndorsedTX_tx_id etx) timeout"
  shows "\<exists>tr'. commit_tx_and_wait S u channel (p # ps) (qs @ ord # ords) etx timeout tr = (Returned (), tr')"
proof -
  obtain r tr1 where c: "commit_tx S u (qs @ ord # ords) etx tr = (Returned r, tr1)"
    using commit_past_down [OF assms(4,5,1,2)] by blast
  from check_reports [OF assms(6,3)] obtain t tr' where
    "check_transaction S (PeerFilteredEvents u channel p) (EndorsedTX_tx_id etx) timeout None
      BlockUntilReady tr1 = (Returned t, tr')" by blast
  with c show ?thesis
    unfolding commit_tx_and_wait_def by (simp add: bind_io_def io_eval EndorsedTX_tx_id_def)
qed

lemma endorsement_accepting:
  assumes "\<forall>q \<in> set peers. endorses S q"
  shows "\<forall>i < length peers. \<exists>r. endorsement S sp peers tr i = Returned r \<and> status_of r = 200"
  using assms by (simp add: endorsement_def endorses_def)

lemma propose_tx_trace:
  assumes "propose_tx S peers g tr = (oc, tr')"
  shows "tr' = tr @ map (\<lambda>p. ProposalSent p (gtx_signed_proposal g)) peers"
  using assms by (cases "peers = []") (simp_all add: propose_tx_Nil io_eval propose_tx_eq)

text \<open>
  The interface the operations rely on: a generator of transactions only draws randomness
  and reads the clock. Everything about sending follows from it.
\<close>

definition proposal_event :: "event \<Rightarrow> bool" where
  "proposal_event e = (local_event e \<or> (\<exists>p sp. e = ProposalSent p sp))"

locale tx_generator =
  fixes gen :: "GeneratedTX io"
  assumes gen_local: "emits local_event gen"
begin

lemma gen_broadcasts: "gen tr = (oc, tr') \<Longrightarrow> broadcasts tr' = broadcasts tr"
  using gen_local by (rule emits_broadcasts) simp_all

lemma endorse_emits: "emits proposal_event (endorse_tx S peers msg gen)"
  unfolding endorse_tx_def
  by (intro emits_intros emits_mono [OF gen_local]) (simp_all add: proposal_event_def)

lemma endorse_Returned_D:
  assumes "endorse_tx S peers msg gen tr = (Returned etx, tr')"
  shows "\<exists>g tr1. gen tr = (Returned g, tr1) \<and> propose_tx S peers g tr1 = (Returned etx, tr') \<and>
    fully_endorsed etx"
  using assms
  by (auto simp: endorse_tx_def bind_Returned_iff raise_tx_proposal_error_iff)

lemma endorse_trace:
  assumes "endorse_tx S peers msg gen tr = (oc, tr')"
  shows "\<exists>oc1 evs. gen tr = (oc1, tr @ evs) \<and> list_all local_event evs \<and>
    tr' = tr @ evs @ (case oc1 of Returned g \<Rightarrow> map (\<lambda>p. ProposalSent p (gtx_signed_proposal g)) peers | _ \<Rightarrow> [])"
proof -
  obtain oc1 tr1 where g: "gen tr = (oc1, tr1)" by fastforce
  from emitsD [OF gen_local g] obtain evs where evs: "tr1 = tr @ evs" "list_all local_event evs" .
  have "tr' = tr1 @ (case oc1 of Returned g \<Rightarrow> map (\<lambda>p. ProposalSent p (gtx_signed_proposal g)) peers | _ \<Rightarrow> [])"
  proof (cases oc1)
    case (Returned x)
    obtain oc2 tr2 where p: "propose_tx S peers x tr1 = (oc2, tr2)" by fastforce
    have "tr2 = tr1 @ map (\<lambda>p. ProposalSent p (gtx_signed_proposal x)) peers" by (rule propose_tx_trace [OF p])
    moreover have "tr' = tr2" using assms g p Returned
      by (cases oc2) (auto simp: endorse_tx_def bind_io_def io_eval raise_tx_proposal_error_def require_def split: if_splits)
    ultimately show ?thesis by (simp add: Returned)
  qed (use assms g in \<open>simp_all add: endorse_tx_def bind_io_def\<close>)
  with g evs show ?thesis by auto
qed

lemma endorse_broadcasts:
  assumes "endorse_tx S peers msg gen tr = (oc, tr')"
  shows "broadcasts tr' = broadcasts tr"
  using endorse_emits assms by (rule emits_broadcasts) (simp add: proposal_event_def)

lemma endorse_rejected:
  assumes "gen tr = (Returned g, tr1)" "propose_tx S peers g tr1 = (Returned etx, tr')"
    and "\<not> fully_endorsed etx"
  shows "endorse_tx S peers msg gen tr = (Raised (TransactionProposalError msg etx), tr')"
  using assms by (simp add: endorse_tx_def bind_io_def raise_tx_proposal_error_def require_def io_eval)

lemma commit_only_endorsed:
  assumes "endorse_and_commit S u peers ords channel timeout msg gen tr = (oc, tr')"
    and "broadcasts tr' \<noteq> broadcasts tr"
  shows "\<exists>g tr1 etx tr2. gen tr = (Returned g, tr1) \<and> propose_tx S peers g tr1 = (Returned etx, tr2) \<and>
    fully_endorsed etx"
proof -
  obtain oc1 tr1 where en: "endorse_tx S peers msg gen tr = (oc1, tr1)" by fastforce
  show ?thesis
  proof (cases oc1)
    case (Returned etx)
    with endorse_Returned_D en show ?thesis by blast
  next
    case (Raised e)
    with assms(1) en have "tr' = tr1" by (simp add: endorse_and_commit_def bind_io_def)
    with endorse_broadcasts [OF en] assms(2) show ?thesis by simp
  next
    case Blocked
    with assms(1) en have "tr' = tr1" by (simp add: endorse_and_commit_def bind_io_def)
    with endorse_broadcasts [OF en] assms(2) show ?thesis by simp
  qed
qed

lemma commit_Returned_D:
  assumes "endorse_and_commit S u peers ords channel timeout msg gen tr = (Returned etx, tr')"
  shows "\<exists>g tr1 tr2 envelope tr3 r tr4 p ps t. gen tr = (Returned g, tr1) \<and>
    propose_tx S peers g tr1 = (Returned etx, tr2) \<and> fully_endorsed etx \<and>
    build_endorsed_tx_envelope S etx u tr2 = (Returned envelope, tr3) \<and>
    broadcast_to_orderers S envelope ords (EndorsedTX_tx_id etx) tr3 = (Returned r, tr4) \<and>
    peers = p # ps \<and>
    check_transaction S (PeerFilteredEvents u channel p) (EndorsedTX_tx_id etx) timeout None
      BlockUntilReady tr4 = (Returned t, tr')"
proof -
  from assms obtain tr2 where
    en: "endorse_tx S peers msg gen tr = (Returned etx, tr2)" and
    co: "commit_tx_and_wait S u channel peers ords etx timeout tr2 = (Returned (), tr')"
    by (auto simp: endorse_and_commit_def bind_Returned_iff)
  from endorse_Returned_D [OF en] obtain g tr1 where "gen tr = (Returned g, tr1)"
    "propose_tx S peers g tr1 = (Returned etx, tr2)" "fully_endorsed etx" by blast
  moreover from commit_tx_and_wait_Returned_D [OF co] obtain r tr4 p ps t where
    c: "commit_tx S u ords etx tr2 = (Returned r, tr4)" and "peers = p # ps"
    "check_transaction S (PeerFilteredEvents u channel p) (EndorsedTX_tx_id etx) timeout None
      BlockUntilReady tr4 = (Returned t, tr')" by blast
  moreover from commit_tx_Returned_D [OF c] obtain envelope tr3 where
    "build_endorsed_tx_envelope S etx u tr2 = (Returned envelope, tr3)"
    "broadcast_to_orderers S envelope ords (EndorsedTX_tx_id etx) tr3 = (Returned r, tr4)" by blast
  ultimately show ?thesis by blast
qed

text \<open>Progress of the proposal: all peers endorse.\<close>

lemma endorse_live:
  assumes g: "gen tr = (Returned g, tr1)" and ne: "peers \<noteq> []"
    and acc: "\<forall>i < length peers. \<exists>r. endorsement S (gtx_signed_proposal g) peers tr1 i = Returned r \<and> status_of r = 200"
  shows "\<exists>rs. map (endorsement S (gtx_signed_proposal g) peers tr1) [0..<length peers] = map Returned rs \<and>
    rs \<noteq> [] \<and> endorse_tx S peers msg gen tr =
      (Returned \<lparr>etx_peer_responses = rs, etx_proposal = gtx_proposal g, etx_header = gtx_header g,
         etx_tx_context = gtx_tx_context g\<rparr>,
       tr1 @ map (\<lambda>p. ProposalSent p (gtx_signed_proposal g)) peers)"
proof -
  obtain rs where rs: "map (endorsement S (gtx_signed_proposal g) peers tr1) [0..<length peers] = map Returned rs"
    and ok: "\<forall>r \<in> set rs. status_of r = 200"
  proof -
    from acc obtain f where f: "\<forall>i < length peers.
        endorsement S (gtx_signed_proposal g) peers tr1 i = Returned (f i) \<and> status_of (f i) = 200" by metis
    then show ?thesis by (intro that [of "map f [0..<length peers]"]) auto
  qed
  define etx where "etx = \<lparr>etx_peer_responses = rs, etx_proposal = gtx_proposal g,
    etx_header = gtx_header g, etx_tx_context = gtx_tx_context g\<rparr>"
  have "rs \<noteq> []" using rs ne by auto
  have prps: "propose_tx S peers g tr1 =
      (Returned etx, tr1 @ map (\<lambda>p. ProposalSent p (gtx_signed_proposal g)) peers)"
    using ne rs settle_Returned_iff [of _ "map Returned rs" rs]
    by (simp add: propose_tx_eq etx_def)
  have fe: "fully_endorsed etx" using ok by (simp add: fully_endorsed_iff etx_def)
  have "endorse_tx S peers msg gen tr =
      (Returned etx, tr1 @ map (\<lambda>p. ProposalSent p (gtx_signed_proposal g)) peers)"
    using g prps fe by (simp add: endorse_tx_def bind_io_def raise_tx_proposal_error_def require_def io_eval)
  with rs \<open>rs \<noteq> []\<close> show ?thesis unfolding etx_def by blast
qed

text \<open>Progress of the whole: all peers endorse, and then as above.\<close>

lemma commit_live:
  assumes g: "gen tr = (Returned g, tr1)"
    and peers: "\<forall>q \<in> set (p # ps). endorses S q" and u: "user_ready u"
    and ords: "\<forall>q \<in> set qs. orderer_down S q" "orderer_accepts S ord"
    and timeout: "0 < timeout"
    and stream: "hub_reports S (PeerFilteredEvents u channel p) (GeneratedTX_tx_id g) timeout"
  shows "\<exists>etx tr'. endorse_and_commit S u (p # ps) (qs @ ord # ords) channel timeout msg gen tr = (Returned etx, tr') \<and>
    EndorsedTX_tx_id etx = GeneratedTX_tx_id g"
proof -
  from endorse_live [OF g _ endorsement_accepting [OF peers]] obtain rs where "rs \<noteq> []" and
    run: "endorse_tx S (p # ps) msg gen tr =
      (Returned \<lparr>etx_peer_responses = rs, etx_proposal = gtx_proposal g, etx_header = gtx_header g,
         etx_tx_context = gtx_tx_context g\<rparr>,
       tr1 @ map (\<lambda>p. ProposalSent p (gtx_signed_proposal g)) (p # ps))" by blast
  define etx where "etx = \<lparr>etx_peer_responses = rs, etx_proposal = gtx_proposal g,
    etx_header = gtx_header g, etx_tx_context = gtx_tx_context g\<rparr>"
  note en = run [folded etx_def]
  have id: "EndorsedTX_tx_id etx = GeneratedTX_tx_id g"
    by (simp add: etx_def EndorsedTX_tx_id_def GeneratedTX_tx_id_def)
  have "etx_peer_responses etx \<noteq> []" using \<open>rs \<noteq> []\<close> by (simp add: etx_def)
  from commit_tx_and_wait_live [OF this u timeout ords stream [folded id]]
  obtain tr' where "commit_tx_and_wait S u channel (p # ps) (qs @ ord # ords) etx timeout
      (tr1 @ map (\<lambda>p. ProposalSent p (gtx_signed_proposal g)) (p # ps)) = (Returned (), tr')"
    by blast
  with en have "endorse_and_commit S u (p # ps) (qs @ ord # ords) channel timeout msg gen tr = (Returned etx, tr')"
    by (simp add: endorse_and_commit_def bind_io_def io_eval)
  with id show ?thesis by blast
qed

end

interpretation invocation: tx_generator "generate_cc_tx S u ccname channel fcn args tm"
  by unfold_locales (intro emits_generate)

interpretation deployment: tx_generator "generate_instantiate_cc_tx S u cc_spec channel policy upgrade"
  by unfold_locales (intro emits_generate)

interpretation system_call: tx_generator "build_generated_tx S u ccname args channel tm"
  by unfold_locales (intro emits_factories)

section \<open>Invoking and querying\<close>

lemma first_arrival_D: "first_arrival tx_id bs = Some (time, t) \<Longrightarrow> ftx_tx_id t = tx_id"
  unfolding first_arrival_def by (drule find_Some_D) simp

lemma check_transaction_Returned_D:
  assumes "check_transaction S (PeerFilteredEvents u c p) tx_id T start b tr = (Returned t, tr')"
  shows "ftx_tx_id t = tx_id \<and> ftx_tx_validation_code t = TxValidationCode_VALID \<and>
    broadcasts tr' = broadcasts tr"
proof -
  have "emits (\<lambda>e. local_event e \<or> (\<exists>envelope. e = DeliverRequested (PeerDeliverFiltered p) envelope))
      (check_transaction S (PeerFilteredEvents u c p) tx_id T start b)"
    by (rule emits_check_transaction) simp_all
  then have "broadcasts tr' = broadcasts tr" using assms by (rule emits_broadcasts) simp
  with assms show ?thesis unfolding check_transaction_Returned_iff by (auto dest: first_arrival_D)
qed

lemma generate_cc_tx_Returned_D:
  "generate_cc_tx S u ccname channel fcn args tm tr = (Returned g, tr') \<Longrightarrow>
    \<exists>full_args. map_res encode_proto_bytes ([fcn] @ or_else args []) = Inr full_args \<and>
      build_generated_tx S u ccname full_args (Some channel) tm tr = (Returned g, tr')"
  by (auto simp: generate_cc_tx_def bind_Returned_iff simp del: map_res.simps append_Cons append.simps)

lemma propose_broadcasts: "propose_tx S peers g tr = (oc, tr') \<Longrightarrow> broadcasts tr' = broadcasts tr"
proof -
  have "emits proposal_event (propose_tx S peers g)"
    by (rule emits_propose) (simp add: proposal_event_def)
  then show "propose_tx S peers g tr = (oc, tr') \<Longrightarrow> broadcasts tr' = broadcasts tr"
    by (rule emits_broadcasts) (simp_all add: proposal_event_def)
qed

lemma endorsed_envelope_broadcasts:
  "build_endorsed_tx_envelope S etx u tr = (oc, tr') \<Longrightarrow> broadcasts tr' = broadcasts tr"
proof -
  have "emits local_event (build_endorsed_tx_envelope S etx u)" by (rule emits_factories)
  then show "build_endorsed_tx_envelope S etx u tr = (oc, tr') \<Longrightarrow> broadcasts tr' = broadcasts tr"
    by (rule emits_broadcasts) simp_all
qed

text \<open>
  C1. What a successful invocation means: the proposal of the generated transaction went to every
  peer and each endorsed it with status 200; the requestor signed one envelope whose payload
  holds that transaction's header and proposal, the first peer's response and the endorsements
  of all peers in their order; it went to the orderers in order up to the first one that did
  not fail to connect, and to no other; that one answered with status 200 or closed its stream
  without an answer; and the first peer then reported this very transaction as \<open>VALID\<close>.
\<close>

theorem invoke_committed:
  assumes "invoke S u peers ords channel ccname fcn args timeout tm tr = (Returned etx, tr')"
  shows "\<exists>g tr1 envelope tr3 k r t seed key.
    generate_cc_tx S u ccname channel fcn args tm tr = (Returned g, tr1) \<and>
    EndorsedTX_tx_id etx = GeneratedTX_tx_id g \<and>
    length (etx_peer_responses etx) = length peers \<and>
    (\<forall>i < length peers. endorsement S (gtx_signed_proposal g) peers tr1 i =
        Returned (etx_peer_responses etx ! i) \<and> status_of (etx_peer_responses etx ! i) = 200) \<and>
    build_endorsed_tx_envelope S etx u
      (tr1 @ map (\<lambda>p. ProposalSent p (gtx_signed_proposal g)) peers) = (Returned envelope, tr3) \<and>
    env_payload envelope = ser (pb_Payload (sys_pb S))
      \<lparr>pl_header = gtx_header g, pl_data = ser (pb_Transaction (sys_pb S)) \<lparr>tx_actions =
        [\<lparr>ta_header = hdr_signature_header (gtx_header g), ta_payload = ser (pb_ChaincodeActionPayload (sys_pb S))
          \<lparr>cap_chaincode_proposal_payload = prop_payload (gtx_proposal g),
           cap_action = \<lparr>cea_proposal_response_payload = pr_payload (hd (etx_peer_responses etx)),
             cea_endorsements = map pr_endorsement (etx_peer_responses etx)\<rparr>\<rparr>\<rparr>]\<rparr>\<rparr> \<and>
    private_key u = Some key \<and>
    sign_message (user_suite u) seed key (env_payload envelope) = Inr (env_signature envelope) \<and>
    k < length ords \<and>
    (\<forall>i < k. connection_failed (attempt S envelope (GeneratedTX_tx_id g) ords tr3 i)) \<and>
    attempt S envelope (GeneratedTX_tx_id g) ords tr3 k = Returned r \<and>
    (\<forall>resp. r = Some resp \<longrightarrow> br_status resp = 200) \<and>
    broadcasts tr' = broadcasts tr @ map (\<lambda>ord. (ord, envelope)) (take (Suc k) ords) \<and>
    check_transaction S (PeerFilteredEvents u channel (hd peers)) (GeneratedTX_tx_id g) timeout None
      BlockUntilReady (tr3 @ map (\<lambda>ord. EnvelopeBroadcast ord envelope) (take (Suc k) ords)) = (Returned t, tr') \<and>
    ftx_tx_id t = GeneratedTX_tx_id g \<and> ftx_tx_validation_code t = TxValidationCode_VALID"
proof -
  from invocation.commit_Returned_D [OF assms [unfolded invoke_endorse]]
  obtain g tr1 tr2 envelope tr3 r tr4 p ps t where
    g: "generate_cc_tx S u ccname channel fcn args tm tr = (Returned g, tr1)" and
    pr: "propose_tx S peers g tr1 = (Returned etx, tr2)" and fe: "fully_endorsed etx" and
    en: "build_endorsed_tx_envelope S etx u tr2 = (Returned envelope, tr3)" and
    br: "broadcast_to_orderers S envelope ords (EndorsedTX_tx_id etx) tr3 = (Returned r, tr4)" and
    ps: "peers = p # ps" and
    ch: "check_transaction S (PeerFilteredEvents u channel p) (EndorsedTX_tx_id etx) timeout None
      BlockUntilReady tr4 = (Returned t, tr')" by blast
  note P = propose_tx_Returned_D [OF pr] and C = check_transaction_Returned_D [OF ch]
    and E = build_endorsed_tx_envelope_Returned_D [OF en]
  have id: "EndorsedTX_tx_id etx = GeneratedTX_tx_id g"
    using P by (simp add: EndorsedTX_tx_id_def GeneratedTX_tx_id_def)
  from broadcast_Returned_D [OF br] obtain k where
    k: "k < length ords" "attempt S envelope (EndorsedTX_tx_id etx) ords tr3 k = Returned r"
      "tr4 = tr3 @ map (\<lambda>ord. EnvelopeBroadcast ord envelope) (take (Suc k) ords)"
      "\<forall>i < k. connection_failed (attempt S envelope (EndorsedTX_tx_id etx) ords tr3 i)"
      "\<forall>resp. r = Some resp \<longrightarrow> br_status resp = 200" by blast
  have "broadcasts tr3 = broadcasts tr"
    using invocation.gen_broadcasts [OF g] propose_broadcasts [OF pr] endorsed_envelope_broadcasts [OF en] by simp
  then have b: "broadcasts tr' = broadcasts tr @ map (\<lambda>ord. (ord, envelope)) (take (Suc k) ords)"
    using C k(3) by simp
  have len: "length (etx_peer_responses etx) = length peers"
    and rs: "\<forall>i < length peers. endorsement S (gtx_signed_proposal g) peers tr1 i =
        Returned (etx_peer_responses etx ! i) \<and> status_of (etx_peer_responses etx ! i) = 200"
    using fe P by (simp_all add: fully_endorsed_iff)
  have tr2: "tr2 = tr1 @ map (\<lambda>p. ProposalSent p (gtx_signed_proposal g)) peers"
    and same: "etx_header etx = gtx_header g" "etx_proposal etx = gtx_proposal g" using P by blast+
  from E obtain key where key: "private_key u = Some key"
    "sign_message (user_suite u) (length tr2) key (env_payload envelope) = Inr (env_signature envelope)"
    by (auto simp: sign_Returned_iff)
  from E have pl: "env_payload envelope = ser (pb_Payload (sys_pb S)) \<lparr>pl_header = etx_header etx,
      pl_data = ser (pb_Transaction (sys_pb S)) \<lparr>tx_actions = [endorsed_action (sys_pb S) etx]\<rparr>\<rparr>" by blast
  from C id have t: "ftx_tx_id t = GeneratedTX_tx_id g" "ftx_tx_validation_code t = TxValidationCode_VALID" by simp_all
  from ps have hd: "hd peers = p" by simp
  show ?thesis
    by (rule exI [of _ g], rule exI [of _ tr1], rule exI [of _ envelope], rule exI [of _ tr3], rule exI [of _ k],
        rule exI [of _ r], rule exI [of _ t], rule exI [of _ "length tr2"], rule exI [of _ key], intro conjI)
      (fact g id len rs k(1,5) b key t en [unfolded tr2] pl [unfolded endorsed_action_def same]
        k(2) [unfolded id] k(4) [unfolded id] ch [unfolded k(3) id, folded hd])+
qed

text \<open>
  C5. Nothing is ever broadcast for an invocation unless all its peers endorsed it, whatever
  the outcome: if the invocation sent anything to an orderer, every peer had answered the
  proposal with status 200.
\<close>

theorem invoke_broadcasts_only_endorsed:
  assumes "invoke S u peers ords channel ccname fcn args timeout tm tr = (oc, tr')"
    and "broadcasts tr' \<noteq> broadcasts tr"
  shows "\<exists>g tr1 etx. generate_cc_tx S u ccname channel fcn args tm tr = (Returned g, tr1) \<and>
    (\<exists>tr2. propose_tx S peers g tr1 = (Returned etx, tr2)) \<and> peers \<noteq> [] \<and>
    length (etx_peer_responses etx) = length peers \<and>
    (\<forall>i < length peers. endorsement S (gtx_signed_proposal g) peers tr1 i =
        Returned (etx_peer_responses etx ! i) \<and> status_of (etx_peer_responses etx ! i) = 200)"
proof -
  from invocation.commit_only_endorsed [OF assms(1) [unfolded invoke_endorse] assms(2)]
  obtain g tr1 etx tr2 where g: "generate_cc_tx S u ccname channel fcn args tm tr = (Returned g, tr1)"
    and pr: "propose_tx S peers g tr1 = (Returned etx, tr2)" and fe: "fully_endorsed etx" by blast
  from propose_tx_Returned_D [OF pr] fe have "peers \<noteq> [] \<and> length (etx_peer_responses etx) = length peers \<and>
      (\<forall>i < length peers. endorsement S (gtx_signed_proposal g) peers tr1 i =
        Returned (etx_peer_responses etx ! i) \<and> status_of (etx_peer_responses etx ! i) = 200)"
    by (simp add: fully_endorsed_iff)
  with g pr show ?thesis by blast
qed

text \<open>
  When a peer refuses, the invocation raises a \<open>TransactionProposalError\<close> that carries
  the answers of all peers and names chaincode and function, and the orderers get nothing.
\<close>

theorem invoke_refused:
  assumes "generate_cc_tx S u ccname channel fcn args tm tr = (Returned g, tr1)"
    and "propose_tx S peers g tr1 = (Returned etx, tr2)"
    and "r \<in> set (etx_peer_responses etx)" "status_of r \<noteq> 200"
  shows "invoke S u peers ords channel ccname fcn args timeout tm tr =
      (Raised (TransactionProposalError
        (lit ''Failed to invoke chaincode '' @ ccname @ lit '' with function '' @ fcn) etx), tr2) \<and>
    broadcasts tr2 = broadcasts tr"
proof -
  have "\<not> fully_endorsed etx" using assms(3,4) by (auto simp: fully_endorsed_iff)
  from invocation.endorse_rejected [OF assms(1,2) this] show ?thesis
    using invocation.gen_broadcasts [OF assms(1)] propose_broadcasts [OF assms(2)]
    by (simp add: invoke_endorse endorse_and_commit_def bind_io_eval(2))
qed

text \<open>
  C28. A query only proposes: whatever its outcome, it generates its transaction, which sends
  nothing, and then, if that succeeds, sends the proposal to each peer exactly once, in order,
  and nothing else; and if it returns, every peer has answered with status 200.
\<close>

theorem query_only_proposes:
  assumes "query S u peers channel ccname fcn args tm tr = (oc, tr')"
  shows "\<exists>oc1 evs. generate_cc_tx S u ccname channel fcn args tm tr = (oc1, tr @ evs) \<and>
    list_all local_event evs \<and>
    tr' = tr @ evs @ (case oc1 of Returned g \<Rightarrow> map (\<lambda>p. ProposalSent p (gtx_signed_proposal g)) peers | _ \<Rightarrow> []) \<and>
    broadcasts tr' = broadcasts tr \<and>
    (\<forall>etx. oc = Returned etx \<longrightarrow> (\<exists>g. oc1 = Returned g \<and>
      length (etx_peer_responses etx) = length peers \<and>
      (\<forall>i < length peers. endorsement S (gtx_signed_proposal g) peers (tr @ evs) i =
         Returned (etx_peer_responses etx ! i) \<and> status_of (etx_peer_responses etx ! i) = 200)))"
proof -
  note run = assms [unfolded query_endorse]
  from invocation.endorse_trace [OF run] obtain oc1 evs where
    t: "generate_cc_tx S u ccname channel fcn args tm tr = (oc1, tr @ evs)" "list_all local_event evs"
      "tr' = tr @ evs @ (case oc1 of Returned g \<Rightarrow> map (\<lambda>p. ProposalSent p (gtx_signed_proposal g)) peers | _ \<Rightarrow> [])"
    by blast
  moreover have "broadcasts tr' = broadcasts tr" by (rule invocation.endorse_broadcasts [OF run])
  moreover have "\<exists>g. oc1 = Returned g \<and> length (etx_peer_responses etx) = length peers \<and>
      (\<forall>i < length peers. endorsement S (gtx_signed_proposal g) peers (tr @ evs) i =
         Returned (etx_peer_responses etx ! i) \<and> status_of (etx_peer_responses etx ! i) = 200)"
    if "oc = Returned etx" for etx
  proof -
    from invocation.endorse_Returned_D [OF run [unfolded that]] t(1) obtain g where
      "oc1 = Returned g" "propose_tx S peers g (tr @ evs) = (Returned etx, tr')" "fully_endorsed etx" by auto
    with propose_tx_Returned_D [OF this(2)] show ?thesis by (auto simp: fully_endorsed_iff)
  qed
  ultimately show ?thesis by blast
qed

lemma generate_cc_tx_total:
  assumes "runtime_ok (sys_pb S)" "encode_proto_str (channel_name channel) = Inr cid" "user_ready u"
    and "map_res encode_proto_bytes ([fcn] @ or_else args []) = Inr full_args"
  shows "\<exists>g tr'. generate_cc_tx S u ccname channel fcn args tm tr = (Returned g, tr')"
proof -
  have "encode_proto_str (channel_text (Some channel)) = Inr cid" using assms(2) by (simp add: channel_text_def)
  then obtain g tr' where "build_generated_tx S u ccname full_args (Some channel) tm tr = (Returned g, tr')"
    using build_generated_tx_total [OF assms(1) _ assms(3)] by blast
  then show ?thesis unfolding generate_cc_tx_def assms(4) lift_res.simps bind_return by blast
qed

lemma generated_id:
  assumes "build_generated_tx S u ccname args channel tm tr = (Returned g, tr')"
  shows "GeneratedTX_tx_id g = next_tx_id S u tr"
  using build_generated_tx_Returned_D [OF assms]
  by (auto simp: tx_context_Returned_iff GeneratedTX_tx_id_def next_tx_id_def)

lemma invoke_live:
  assumes "runtime_ok (sys_pb S)" "user_ready u" "encode_proto_str (channel_name channel) = Inr cid"
    and "map_res encode_proto_bytes ([fcn] @ or_else args []) = Inr full_args" "0 < timeout"
    and "\<forall>q \<in> set (p # ps). endorses S q"
    and "\<forall>q \<in> set qs. orderer_down S q" "orderer_accepts S ord"
    and "hub_reports S (PeerFilteredEvents u channel p) (next_tx_id S u tr) timeout"
  shows "\<exists>etx tr'. invoke S u (p # ps) (qs @ ord # ords) channel ccname fcn args timeout tm tr = (Returned etx, tr') \<and>
    EndorsedTX_tx_id etx = next_tx_id S u tr"
proof -
  obtain g tr1 where g: "generate_cc_tx S u ccname channel fcn args tm tr = (Returned g, tr1)"
    using generate_cc_tx_total [OF assms(1,3,2,4)] by blast
  from generate_cc_tx_Returned_D [OF g] generated_id have id: "GeneratedTX_tx_id g = next_tx_id S u tr" by blast
  from invocation.commit_live [OF g assms(6,2,7,8,5) assms(9) [folded id]]
  show ?thesis unfolding invoke_endorse id by blast
qed

lemma example_next_id [simp]: "next_tx_id example_sys example_user tr = lit ''07''"
  by (simp add: next_tx_id_def example_tx_id)

lemma example_nodes [simp]: "endorses example_sys p" "orderer_accepts example_sys ord"
  by (simp_all add: endorses_def orderer_accepts_def example_sys_def example_response_def)

lemma example_reports:
  "1 \<le> timeout \<Longrightarrow> hub_reports example_sys (PeerFilteredEvents example_user example_channel (example_peer n)) (lit ''07'') timeout"
  unfolding hub_reports_def using example_stream [of n BlockUntilReady] by fastforce

lemma example_invoke:
  "\<exists>etx tr'. invoke example_sys example_user [example_peer ''p1'', example_peer ''p2'']
    (example_orderer ''o1'' # ords) example_channel (lit ''cc'') (lit ''put'')
    (Some [lit ''k'', lit ''v'']) 30 None [] = (Returned etx, tr')"
proof -
  have "encode_proto_str (channel_name example_channel) = Inr (lit ''mychannel'')"
    using example_channel_text by (simp add: channel_text_def)
  moreover have "map_res encode_proto_bytes ([lit ''put''] @ or_else (Some [lit ''k'', lit ''v'']) []) =
      Inr [map of_nat (lit ''put''), map of_nat (lit ''k''), map of_nat (lit ''v'')]"
    by (simp add: encode_proto_bytes_def latin1_encode_def)
  moreover have "\<forall>q \<in> set (example_peer ''p1'' # [example_peer ''p2'']). endorses example_sys q" by simp
  moreover have "\<forall>q \<in> set []. orderer_down example_sys q" by simp
  moreover have "hub_reports example_sys (PeerFilteredEvents example_user example_channel (example_peer ''p1''))
      (next_tx_id example_sys example_user []) 30" unfolding example_next_id by (rule example_reports) simp
  moreover have "0 < (30 :: int)" by simp
  ultimately show ?thesis
    using invoke_live [OF example_sys_pb example_user_ready _ _ _ _ _ example_nodes(2),
        of example_channel _ "lit ''put''" "Some [lit ''k'', lit ''v'']" _ 30 "example_peer ''p1''" "[example_peer ''p2'']"
          "[]" "[]"] unfolding append_Nil by blast
qed

text \<open>
  C15. Progress: with a loaded key, encodable arguments, peers that all endorse, an orderer
  that accepts while the ones before it are down, and a first peer that reports the transaction
  as \<open>VALID\<close> within the timeout, an invocation returns, with the id that follows from nonce and
  identity.
\<close>

theorem invoke_succeeds:
  assumes "runtime_ok (sys_pb S)" "user_ready u" "encode_proto_str (channel_name channel) = Inr cid"
    and "map_res encode_proto_bytes ([fcn] @ or_else args []) = Inr full_args" "0 < timeout"
    and "\<forall>q \<in> set (p # ps). endorses S q"
    and "\<forall>q \<in> set qs. orderer_down S q" "orderer_accepts S ord"
    and "hub_reports S (PeerFilteredEvents u channel p) (next_tx_id S u tr) timeout"
  shows "\<exists>etx tr'. invoke S u (p # ps) (qs @ ord # ords) channel ccname fcn args timeout tm tr = (Returned etx, tr') \<and>
    EndorsedTX_tx_id etx = next_tx_id S u tr"
  by (rule invoke_live [OF assms])

theorem invoke_succeeds_witness:
  "\<exists>etx tr'. invoke failover_sys example_user [example_peer ''p1''] [example_orderer ''o1'', example_orderer ''o2'']
    example_channel (lit ''cc'') (lit ''put'') None 1 None [] = (Returned etx, tr') \<and> EndorsedTX_tx_id etx = lit ''07''"
proof -
  have pb: "runtime_ok (sys_pb failover_sys)" by (simp add: failover_sys_def)
  have id: "next_tx_id failover_sys example_user [] = lit ''07''" by (simp add: next_tx_id_def example_tx_id)
  have name: "encode_proto_str (channel_name example_channel) = Inr (lit ''mychannel'')"
    using example_channel_text by (simp add: channel_text_def)
  have args: "map_res encode_proto_bytes ([lit ''put''] @ or_else None []) = Inr [map of_nat (lit ''put'')]"
    by (simp add: encode_proto_bytes_def latin1_encode_def)
  have peers: "\<forall>q \<in> set (example_peer ''p1'' # []). endorses failover_sys q"
    by (simp add: endorses_def failover_sys_def example_sys_def example_response_def)
  have "example_orderer ''o2'' \<noteq> example_orderer ''o1''" by (simp add: example_orderer_def)
  then have ords: "\<forall>q \<in> set [example_orderer ''o1'']. orderer_down failover_sys q"
    "orderer_accepts failover_sys (example_orderer ''o2'')"
    by (simp_all add: orderer_down_def orderer_accepts_def failover_sys_def)
  have hub: "hub_reports failover_sys (PeerFilteredEvents example_user example_channel (example_peer ''p1''))
      (next_tx_id failover_sys example_user []) 1"
    using example_stream_of [OF pb, of "''p1''" BlockUntilReady] unfolding hub_reports_def id
    by (fastforce simp: failover_sys_def example_sys_def)
  from invoke_succeeds [OF pb example_user_ready name args _ peers ords hub] show ?thesis
    by (simp add: id)
qed

theorem invoke_committed_witness:
  "\<exists>etx tr' envelope r. invoke example_sys example_user [example_peer ''p1'', example_peer ''p2'']
    [example_orderer ''o1'', example_orderer ''o2''] example_channel (lit ''cc'') (lit ''put'')
    (Some [lit ''k'', lit ''v'']) 30 None [] = (Returned etx, tr') \<and>
    length (etx_peer_responses etx) = 2 \<and> (example_orderer ''o1'', envelope) \<in> set (broadcasts tr')"
proof -
  obtain etx tr' where i: "invoke example_sys example_user [example_peer ''p1'', example_peer ''p2'']
    [example_orderer ''o1'', example_orderer ''o2''] example_channel (lit ''cc'') (lit ''put'')
    (Some [lit ''k'', lit ''v'']) 30 None [] = (Returned etx, tr')"
    using example_invoke by blast
  from invoke_committed [OF i] obtain envelope k where "length (etx_peer_responses etx) = 2"
    "broadcasts tr' = map (\<lambda>ord. (ord, envelope)) (take (Suc k) [example_orderer ''o1'', example_orderer ''o2''])"
    by (auto simp del: take_Suc_Cons)
  with i show ?thesis by (intro exI [of _ etx] exI [of _ tr'] exI [of _ envelope]) simp
qed

theorem invoke_broadcasts_only_endorsed_witness:
  "\<exists>oc tr' etx. invoke example_sys example_user [example_peer ''p1'', example_peer ''p2'']
    [example_orderer ''o1'', example_orderer ''o2''] example_channel (lit ''cc'') (lit ''put'')
    (Some [lit ''k'', lit ''v'']) 30 None [] = (oc, tr') \<and> broadcasts tr' \<noteq> broadcasts [] \<and>
    (\<exists>g tr1 tr2. propose_tx example_sys [example_peer ''p1'', example_peer ''p2''] g tr1 = (Returned etx, tr2)) \<and>
    length (etx_peer_responses etx) = 2"
proof -
  obtain etx tr' where i: "invoke example_sys example_user [example_peer ''p1'', example_peer ''p2'']
    [example_orderer ''o1'', example_orderer ''o2''] example_channel (lit ''cc'') (lit ''put'')
    (Some [lit ''k'', lit ''v'']) 30 None [] = (Returned etx, tr')"
    using example_invoke by blast
  from invocation.commit_Returned_D [OF i [unfolded invoke_endorse]] have "broadcasts tr' \<noteq> broadcasts []"
    by (auto dest!: check_transaction_Returned_D broadcast_Returned_D)
  from invoke_broadcasts_only_endorsed [OF i this] i this show ?thesis by fastforce
qed

text \<open>A world whose second peer refuses.\<close>

definition refusing_sys :: sys where
  "refusing_sys = example_sys\<lparr>sys_ProcessProposal := (\<lambda>tr p sp. Returned
     (if p = example_peer ''p2'' then example_response 500 ''no'' else example_response 200 []))\<rparr>"

theorem invoke_refused_witness:
  "\<exists>etx tr2. invoke refusing_sys example_user [example_peer ''p1'', example_peer ''p2'']
    [example_orderer ''o1''] example_channel (lit ''cc'') (lit ''put'') None 30 None [] =
    (Raised (TransactionProposalError (lit ''Failed to invoke chaincode cc with function put'') etx), tr2) \<and>
    broadcasts tr2 = []"
proof -
  have pb: "runtime_ok (sys_pb refusing_sys)" by (simp add: refusing_sys_def)
  have "encode_proto_str (channel_name example_channel) = Inr (lit ''mychannel'')"
    using example_channel_text by (simp add: channel_text_def)
  moreover have "map_res encode_proto_bytes ([lit ''put''] @ or_else None []) = Inr [map of_nat (lit ''put'')]"
    by (simp add: encode_proto_bytes_def latin1_encode_def)
  ultimately obtain g tr1 where
    g: "generate_cc_tx refusing_sys example_user (lit ''cc'') example_channel (lit ''put'') None None [] = (Returned g, tr1)"
    using generate_cc_tx_total [OF pb _ example_user_ready] by blast
  let ?ps = "[example_peer ''p1'', example_peer ''p2'']"
  have "example_peer ''p1'' \<noteq> example_peer ''p2''" by (simp add: example_peer_def)
  then have "map (endorsement refusing_sys (gtx_signed_proposal g) ?ps tr1) [0..<length ?ps] =
      map Returned [example_response 200 [], example_response 500 ''no'']"
    by (simp add: endorsement_def refusing_sys_def)
  then have p: "propose_tx refusing_sys ?ps g tr1 =
      (Returned \<lparr>etx_peer_responses = [example_response 200 [], example_response 500 ''no''],
         etx_proposal = gtx_proposal g, etx_header = gtx_header g, etx_tx_context = gtx_tx_context g\<rparr>,
       tr1 @ map (\<lambda>p. ProposalSent p (gtx_signed_proposal g)) ?ps)"
    by (simp add: propose_tx_eq settle_def)
  from invoke_refused [OF g p, of "example_response 500 ''no''"] show ?thesis
    by (auto simp: example_response_def)
qed

theorem query_only_proposes_witness:
  "\<exists>etx evs (g::GeneratedTX). query refusing_sys example_user [example_peer ''p1'', example_peer ''p2''] example_channel
      (lit ''cc'') (lit ''get'') None None [] =
    (Raised (TransactionProposalError (lit ''Failed to query chaincode cc with function get'') etx),
     evs @ [ProposalSent (example_peer ''p1'') (gtx_signed_proposal g),
       ProposalSent (example_peer ''p2'') (gtx_signed_proposal g)]) \<and> list_all local_event evs"
proof -
  let ?ps = "[example_peer ''p1'', example_peer ''p2'']"
  let ?msg = "lit ''Failed to query chaincode cc with function get''"
  have pb: "runtime_ok (sys_pb refusing_sys)" by (simp add: refusing_sys_def)
  have "encode_proto_str (channel_name example_channel) = Inr (lit ''mychannel'')"
    using example_channel_text by (simp add: channel_text_def)
  moreover have "map_res encode_proto_bytes ([lit ''get''] @ or_else None []) = Inr [map of_nat (lit ''get'')]"
    by (simp add: encode_proto_bytes_def latin1_encode_def)
  ultimately obtain g tr1 where
    g: "generate_cc_tx refusing_sys example_user (lit ''cc'') example_channel (lit ''get'') None None [] = (Returned g, tr1)"
    using generate_cc_tx_total [OF pb _ example_user_ready] by blast
  have "example_peer ''p1'' \<noteq> example_peer ''p2''" by (simp add: example_peer_def)
  then have "map (endorsement refusing_sys (gtx_signed_proposal g) ?ps tr1) [0..<length ?ps] =
      map Returned [example_response 200 [], example_response 500 ''no'']"
    by (simp add: endorsement_def refusing_sys_def)
  then obtain etx tr2 where p: "propose_tx refusing_sys ?ps g tr1 = (Returned etx, tr2)"
      "etx_peer_responses etx = [example_response 200 [], example_response 500 ''no'']"
    by (simp add: propose_tx_eq settle_def)
  then have "\<not> fully_endorsed etx" by (simp add: fully_endorsed_iff) (simp add: example_response_def)
  from invocation.endorse_rejected [OF g p(1) this] have
    q: "query refusing_sys example_user ?ps example_channel (lit ''cc'') (lit ''get'') None None [] =
      (Raised (TransactionProposalError ?msg etx), tr2)" by (simp add: query_endorse)
  from query_only_proposes [OF q] obtain oc1 evs where
    "generate_cc_tx refusing_sys example_user (lit ''cc'') example_channel (lit ''get'') None None [] = (oc1, [] @ evs)"
    and evs: "list_all local_event evs"
    and t: "tr2 = [] @ evs @ (case oc1 of Returned g \<Rightarrow> map (\<lambda>p. ProposalSent p (gtx_signed_proposal g)) ?ps | _ \<Rightarrow> [])"
    by blast
  with g have "oc1 = Returned g" by simp
  with t have "tr2 = evs @ map (\<lambda>p. ProposalSent p (gtx_signed_proposal g)) ?ps" by simp
  with q evs show ?thesis
    by (intro exI [of _ etx] exI [of _ evs] exI [of _ g]) simp
qed

section \<open>Instantiating\<close>

text \<open>
  An instantiation or upgrade likewise broadcasts nothing unless every peer endorsed the
  deployment with status 200, and if it returns, its first peer reported the deployment's
  transaction as \<open>VALID\<close>.
\<close>

theorem instantiate_only_endorsed:
  assumes "instantiate_chaincode S u peers ords channel cc_spec policy upgrade timeout tr = (oc, tr')"
  shows "(broadcasts tr' \<noteq> broadcasts tr \<longrightarrow>
      (\<exists>g tr1 etx tr2. generate_instantiate_cc_tx S u cc_spec channel policy upgrade tr = (Returned g, tr1) \<and>
        propose_tx S peers g tr1 = (Returned etx, tr2) \<and> fully_endorsed etx)) \<and>
    (\<forall>etx. oc = Returned etx \<longrightarrow> fully_endorsed etx \<and> length (etx_peer_responses etx) = length peers \<and>
      (\<exists>tr4 t. check_transaction S (PeerFilteredEvents u channel (hd peers)) (EndorsedTX_tx_id etx) timeout
         None BlockUntilReady tr4 = (Returned t, tr') \<and> ftx_tx_id t = EndorsedTX_tx_id etx \<and>
         ftx_tx_validation_code t = TxValidationCode_VALID))"
proof (intro conjI allI impI)
  assume "broadcasts tr' \<noteq> broadcasts tr"
  from deployment.commit_only_endorsed [OF assms [unfolded instantiate_endorse] this]
  show "\<exists>g tr1 etx tr2. generate_instantiate_cc_tx S u cc_spec channel policy upgrade tr = (Returned g, tr1) \<and>
        propose_tx S peers g tr1 = (Returned etx, tr2) \<and> fully_endorsed etx" .
next
  fix etx
  assume "oc = Returned etx"
  with assms have run: "instantiate_chaincode S u peers ords channel cc_spec policy upgrade timeout tr =
      (Returned etx, tr')" by simp
  from deployment.commit_Returned_D [OF run [unfolded instantiate_endorse]]
  obtain g tr1 tr2 tr4 p ps t where "propose_tx S peers g tr1 = (Returned etx, tr2)" "fully_endorsed etx"
    "peers = p # ps" and
    c: "check_transaction S (PeerFilteredEvents u channel p) (EndorsedTX_tx_id etx) timeout
         None BlockUntilReady tr4 = (Returned t, tr')" by blast
  with propose_tx_Returned_D [OF this(1)] check_transaction_Returned_D [OF c]
  show "fully_endorsed etx" "length (etx_peer_responses etx) = length peers"
    "\<exists>tr4 t. check_transaction S (PeerFilteredEvents u channel (hd peers)) (EndorsedTX_tx_id etx) timeout
         None BlockUntilReady tr4 = (Returned t, tr') \<and> ftx_tx_id t = EndorsedTX_tx_id etx \<and>
         ftx_tx_validation_code t = TxValidationCode_VALID"
    by auto
qed

text \<open>The deployment the theorems are applied to.\<close>

definition example_spec :: ChaincodeSpec where
  "example_spec = \<lparr>cc_name = Some (lit ''cc''), cc_version = Some (lit ''1''), cc_language = GOLANG,
     cc_path = None, cc_args = Some [lit ''a'']\<rparr>"

lemma example_deployment:
  "\<exists>g tr1. generate_instantiate_cc_tx example_sys example_user example_spec example_channel None False [] =
    (Returned g, tr1) \<and> GeneratedTX_tx_id g = lit ''07''"
proof -
  have "\<exists>cds. build_cc_deployment_spec (sys_pb example_sys) (lit ''cc'') GOLANG (Some (lit ''init''))
      (Some (lit ''1'')) None None (Some [lit ''a'']) = Inr cds"
    using ChaincodeLanguage_Value [of GOLANG]
    by (simp add: build_cc_deployment_spec_def encode_proto_bytes_def latin1_encode_def)
  then obtain cds where cds: "build_cc_deployment_spec (sys_pb example_sys) (lit ''cc'') GOLANG
      (Some (lit ''init'')) (Some (lit ''1'')) None None (Some [lit ''a'']) = Inr cds" ..
  let ?args = "map (map of_nat) [lit ''deploy'', lit ''mychannel''] @
    [ser (pb_ChaincodeDeploymentSpec (sys_pb example_sys)) cds, []] @ map (map of_nat) [lit ''escc'', lit ''vscc'']"
  obtain g tr1 where g: "build_generated_tx example_sys example_user (lit ''lscc'') ?args
      (Some example_channel) None [] = (Returned g, tr1)"
    using build_generated_tx_total [OF example_sys_pb example_channel_text example_user_ready] by blast
  have "generate_instantiate_cc_tx example_sys example_user example_spec example_channel None False [] =
      build_generated_tx example_sys example_user (lit ''lscc'') ?args (Some example_channel) None []"
    using cds by (simp add: generate_instantiate_cc_tx_def example_spec_def example_channel_def
        encode_proto_bytes_def latin1_encode_def)
  with g generated_id [OF g] show ?thesis by (simp add: example_tx_id)
qed

theorem instantiate_only_endorsed_witness:
  "\<exists>etx tr'. instantiate_chaincode example_sys example_user [example_peer ''p1''] [example_orderer ''o1'']
     example_channel example_spec None False 60 [] = (Returned etx, tr') \<and>
    fully_endorsed etx \<and> length (etx_peer_responses etx) = 1"
proof -
  obtain g tr1 where g: "generate_instantiate_cc_tx example_sys example_user example_spec example_channel
      None False [] = (Returned g, tr1)" and id: "GeneratedTX_tx_id g = lit ''07''"
    using example_deployment by blast
  have peers: "\<forall>q \<in> set (example_peer ''p1'' # []). endorses example_sys q" by simp
  have none: "\<forall>q \<in> set []. orderer_down example_sys q" by simp
  have hub: "hub_reports example_sys (PeerFilteredEvents example_user example_channel (example_peer ''p1''))
      (GeneratedTX_tx_id g) 60" unfolding id by (rule example_reports) simp
  have "0 < (60 :: int)" by simp
  from deployment.commit_live [OF g peers example_user_ready none example_nodes(2) this hub, of "example_orderer ''o1''" "[]"]
  obtain etx tr' where i: "instantiate_chaincode example_sys example_user [example_peer ''p1'']
      [example_orderer ''o1''] example_channel example_spec None False 60 [] = (Returned etx, tr')"
    unfolding instantiate_endorse append_Nil by blast
  from instantiate_only_endorsed [OF i] i show ?thesis by auto
qed

lemma generated_invocation:
  assumes "runtime_ok (sys_pb S)" "build_generated_tx S u ccname args channel tm tr = (Returned g, tr')"
  shows "\<exists>spec. des (pb_ChaincodeProposalPayload (sys_pb S)) (prop_payload (gtx_proposal g)) =
      Some \<lparr>cpp_input = spec, cpp_TransientMap = []\<rparr> \<and>
    des (pb_ChaincodeInvocationSpec (sys_pb S)) spec =
      Some \<lparr>cis_chaincode_spec =
        \<lparr>ccs_type = 1, ccs_chaincode_id = chaincode_id ccname [] [],
         ccs_input = Some \<lparr>cci_args = args, cci_decorations = []\<rparr>, ccs_timeout = 0\<rparr>\<rparr>"
  using build_generated_tx_Returned_D [OF assms(2)]
  by (auto simp: invocation_payload_Inr runtime_okD [OF assms(1), unfolded coder_ok_def])

lemma build_cc_deployment_spec_Inr_D:
  assumes "build_cc_deployment_spec pb name language fcn version path code_package args = Inr cds"
  shows "ccs_chaincode_id (cds_chaincode_spec cds) = chaincode_id name (or_else version []) (or_else path []) \<and>
    cds_code_package cds = or_else code_package [] \<and>
    (\<exists>fa ma. (if truthy fcn then map_res encode_proto_bytes [the fcn] else Inr []) = Inr fa \<and>
      (if truthy args then map_res encode_proto_bytes (the args) else Inr []) = Inr ma \<and>
      ccs_input (cds_chaincode_spec cds) =
        (if fa @ ma = [] then None else Some \<lparr>cci_args = fa @ ma, cci_decorations = []\<rparr>))"
proof -
  from assms obtain fa ma t where "(if truthy fcn then map_res encode_proto_bytes [the fcn] else Inr []) = Inr fa"
    "(if truthy args then map_res encode_proto_bytes (the args) else Inr []) = Inr ma"
    "cds = \<lparr>cds_chaincode_spec = \<lparr>ccs_type = t,
       ccs_chaincode_id = chaincode_id name (or_else version []) (or_else path []),
       ccs_input = (if fa @ ma = [] then None else Some \<lparr>cci_args = fa @ ma, cci_decorations = []\<rparr>),
       ccs_timeout = 0\<rparr>, cds_code_package = or_else code_package [], cds_exec_env = 0\<rparr>"
    unfolding build_cc_deployment_spec_def Let_def bind_res_Inr_iff by blast
  then show ?thesis by simp
qed

text \<open>
  C26. The deployment transaction: it calls the system chaincode \<open>lscc\<close> with \<open>deploy\<close> or
  \<open>upgrade\<close>, the channel, the deployment specification of the named chaincode and version
  with \<open>init\<close> and the given arguments, the serialized signature policy of the given
  endorsement policy (or nothing), \<open>escc\<close> and \<open>vscc\<close>.
\<close>

theorem generate_instantiate_arguments:
  assumes "runtime_ok (sys_pb S)"
    and "generate_instantiate_cc_tx S u cc_spec channel policy upgrade tr = (Returned g, tr')"
  shows "\<exists>spec args cds pol. des (pb_ChaincodeProposalPayload (sys_pb S)) (prop_payload (gtx_proposal g)) =
      Some \<lparr>cpp_input = spec, cpp_TransientMap = []\<rparr> \<and>
    des (pb_ChaincodeInvocationSpec (sys_pb S)) spec =
      Some \<lparr>cis_chaincode_spec =
        \<lparr>ccs_type = 1, ccs_chaincode_id = chaincode_id (lit ''lscc'') [] [],
         ccs_input = Some \<lparr>cci_args = args, cci_decorations = []\<rparr>, ccs_timeout = 0\<rparr>\<rparr> \<and>
    length args = 6 \<and>
    map bytes_nats [args ! 0, args ! 1, args ! 4, args ! 5] =
      [ChaincodeProposalType_value (if upgrade then Upgrade else Instantiate), channel_name channel,
       lit ''escc'', lit ''vscc''] \<and>
    des (pb_ChaincodeDeploymentSpec (sys_pb S)) (args ! 2) = Some cds \<and> args ! 3 = pol \<and>
    truthy (cc_name cc_spec) \<and>
    ccs_chaincode_id (cds_chaincode_spec cds) =
      chaincode_id (the (cc_name cc_spec)) (or_else (cc_version cc_spec) []) [] \<and>
    (\<exists>input. map_res encode_proto_bytes (lit ''init'' # or_else (cc_args cc_spec) []) = Inr input \<and>
      ccs_input (cds_chaincode_spec cds) = Some \<lparr>cci_args = input, cci_decorations = []\<rparr>) \<and>
    (case policy of
       None \<Rightarrow> pol = []
     | Some p \<Rightarrow> (\<exists>env. build_signature_policy_envelope (sys_pb S) (sys_uni S) (sys_iter S) p = Inr env \<and>
         des (pb_SignaturePolicyEnvelope (sys_pb S)) pol = Some env))"
proof -
  note rt = runtime_okD [OF assms(1), unfolded coder_ok_def]
  from assms(2) obtain pol cds c1 c2 c3 c4 tr1 where
    pol: "case policy of None \<Rightarrow> pol = []
      | Some p \<Rightarrow> \<exists>env. build_signature_policy_envelope (sys_pb S) (sys_uni S) (sys_iter S) p = Inr env \<and>
          pol = ser (pb_SignaturePolicyEnvelope (sys_pb S)) env" and
    name: "truthy (cc_name cc_spec)" and
    cds: "build_cc_deployment_spec (sys_pb S) (the (cc_name cc_spec)) (cc_language cc_spec)
      (Some (lit ''init'')) (cc_version cc_spec) None None (cc_args cc_spec) = Inr cds" and
    enc: "encode_proto_bytes (ChaincodeProposalType_value (if upgrade then Upgrade else Instantiate)) = Inr c1"
      "encode_proto_bytes (channel_name channel) = Inr c2"
      "encode_proto_bytes (lit ''escc'') = Inr c3" "encode_proto_bytes (lit ''vscc'') = Inr c4" and
    run: "build_generated_tx S u (lit ''lscc'')
      ([c1, c2] @ [ser (pb_ChaincodeDeploymentSpec (sys_pb S)) cds, pol] @ [c3, c4]) (Some channel) None tr1 =
      (Returned g, tr')"
    unfolding generate_instantiate_cc_tx_def Let_def bind_Returned_iff
    by (cases policy) (auto simp: bind_Returned_iff)
  have "\<exists>input. map_res encode_proto_bytes (lit ''init'' # or_else (cc_args cc_spec) []) = Inr input \<and>
      ccs_input (cds_chaincode_spec cds) = Some \<lparr>cci_args = input, cci_decorations = []\<rparr>"
    using build_cc_deployment_spec_Inr_D [OF cds] by (cases "cc_args cc_spec" rule: truthy_cases) auto
  moreover from enc have "map bytes_nats [c1, c2, c3, c4] =
      [ChaincodeProposalType_value (if upgrade then Upgrade else Instantiate), channel_name channel,
       lit ''escc'', lit ''vscc'']"
    by (simp add: encode_proto_bytes_def latin1_encode_Inr_iff)
  moreover have "case policy of None \<Rightarrow> pol = []
      | Some p \<Rightarrow> \<exists>env. build_signature_policy_envelope (sys_pb S) (sys_uni S) (sys_iter S) p = Inr env \<and>
          des (pb_SignaturePolicyEnvelope (sys_pb S)) pol = Some env"
    using pol by (auto simp: rt split: option.splits)
  moreover from generated_invocation [OF assms(1) run] obtain spec where
    "des (pb_ChaincodeProposalPayload (sys_pb S)) (prop_payload (gtx_proposal g)) =
      Some \<lparr>cpp_input = spec, cpp_TransientMap = []\<rparr>"
    "des (pb_ChaincodeInvocationSpec (sys_pb S)) spec =
      Some \<lparr>cis_chaincode_spec =
        \<lparr>ccs_type = 1, ccs_chaincode_id = chaincode_id (lit ''lscc'') [] [],
         ccs_input = Some \<lparr>cci_args = [c1, c2] @ [ser (pb_ChaincodeDeploymentSpec (sys_pb S)) cds, pol] @ [c3, c4],
           cci_decorations = []\<rparr>, ccs_timeout = 0\<rparr>\<rparr>" by blast
  ultimately show ?thesis
    using name build_cc_deployment_spec_Inr_D [OF cds]
    by (intro exI [of _ spec] exI [of _ "[c1, c2] @ [ser (pb_ChaincodeDeploymentSpec (sys_pb S)) cds, pol] @ [c3, c4]"]
        exI [of _ cds] exI [of _ pol]) (simp add: rt)
qed

theorem generate_instantiate_arguments_witness:
  "\<exists>g tr' spec args cds. generate_instantiate_cc_tx example_sys example_user example_spec example_channel None
      False [] = (Returned g, tr') \<and>
    des (pb_ChaincodeProposalPayload (sys_pb example_sys)) (prop_payload (gtx_proposal g)) =
      Some \<lparr>cpp_input = spec, cpp_TransientMap = []\<rparr> \<and>
    length args = 6 \<and> bytes_nats (args ! 0) = lit ''deploy'' \<and> args ! 3 = [] \<and>
    des (pb_ChaincodeDeploymentSpec (sys_pb example_sys)) (args ! 2) = Some cds \<and>
    ccs_chaincode_id (cds_chaincode_spec cds) = chaincode_id (lit ''cc'') (lit ''1'') []"
proof -
  obtain g tr1 where g: "generate_instantiate_cc_tx example_sys example_user example_spec example_channel
      None False [] = (Returned g, tr1)"
    using example_deployment by blast
  note P = generate_instantiate_arguments [OF example_sys_pb g, unfolded option.case]
  then obtain spec args cds pol where
    "des (pb_ChaincodeProposalPayload (sys_pb example_sys)) (prop_payload (gtx_proposal g)) =
      Some \<lparr>cpp_input = spec, cpp_TransientMap = []\<rparr>" "length args = 6"
    "map bytes_nats [args ! 0, args ! 1, args ! 4, args ! 5] =
      [ChaincodeProposalType_value (if False then Upgrade else Instantiate), channel_name example_channel,
       lit ''escc'', lit ''vscc'']"
    "des (pb_ChaincodeDeploymentSpec (sys_pb example_sys)) (args ! 2) = Some cds" "args ! 3 = pol"
    "ccs_chaincode_id (cds_chaincode_spec cds) =
      chaincode_id (the (cc_name example_spec)) (or_else (cc_version example_spec) []) []" "pol = []"
    by (elim exE conjE) (rule that; assumption)
  with g show ?thesis
    by (intro exI [of _ g] exI [of _ tr1] exI [of _ spec] exI [of _ args] exI [of _ cds])
      (simp add: example_spec_def)
qed

section \<open>Installing and querying\<close>

text \<open>The operations on \<open>lscc\<close> that only propose, as instances of the common shape.\<close>

lemma query_instantiated_endorse:
  "query_instantiated_chaincodes S u peers channel =
    bind_io (endorse_tx S peers (lit ''Failed query instantiated chaincodes for channel '' @ channel_name channel)
      (build_generated_tx S u (lit ''lscc'') [map of_nat (lit ''getchaincodes'')] (Some channel) None)) (\<lambda>etx.
    bind_io (lift_res (nth_res (etx_peer_responses etx) 0)) (\<lambda>resp.
    lift_res (FromString (pb_ChaincodeQueryResponse (sys_pb S)) (rsp_payload (pr_response resp)))))"
proof -
  have "encode_proto_bytes (lit ''getchaincodes'') = Inr (map of_nat (lit ''getchaincodes''))"
    by (simp add: encode_proto_bytes_def latin1_encode_def)
  then show ?thesis
    unfolding query_instantiated_chaincodes_def endorse_tx_def
    by (simp only: lift_res.simps bind_return bind_io_assoc)
qed

lemma query_installed_endorse:
  "query_installed_chaincodes S u peer =
    bind_io (endorse_tx S [peer] (lit ''Failed query installed chaincodes'')
      (build_generated_tx S u (lit ''lscc'') [map of_nat (lit ''getinstalledchaincodes'')] None None)) (\<lambda>etx.
    bind_io (lift_res (nth_res (etx_peer_responses etx) 0)) (\<lambda>resp.
    lift_res (FromString (pb_ChaincodeQueryResponse (sys_pb S)) (rsp_payload (pr_response resp)))))"
proof -
  have "encode_proto_bytes (lit ''getinstalledchaincodes'') = Inr (map of_nat (lit ''getinstalledchaincodes''))"
    by (simp add: encode_proto_bytes_def latin1_encode_def)
  then show ?thesis
    unfolding query_installed_chaincodes_def endorse_tx_def
    by (simp only: lift_res.simps bind_return bind_io_assoc)
qed

text \<open>
  The chaincode query returns the decoded payload of the first peer's answer, after all
  peers endorsed with status 200, and sends nothing but the proposals.
\<close>

theorem query_instantiated_first_answer:
  assumes "query_instantiated_chaincodes S u peers channel tr = (Returned resp, tr')"
  shows "\<exists>g tr1 rs. build_generated_tx S u (lit ''lscc'') [map of_nat (lit ''getchaincodes'')] (Some channel) None tr =
      (Returned g, tr1) \<and>
    length rs = length peers \<and> peers \<noteq> [] \<and>
    (\<forall>i < length peers. endorsement S (gtx_signed_proposal g) peers tr1 i = Returned (rs ! i) \<and> status_of (rs ! i) = 200) \<and>
    des (pb_ChaincodeQueryResponse (sys_pb S)) (rsp_payload (pr_response (rs ! 0))) = Some resp \<and>
    tr' = tr1 @ map (\<lambda>p. ProposalSent p (gtx_signed_proposal g)) peers \<and> broadcasts tr' = broadcasts tr"
proof -
  from assms [unfolded query_instantiated_endorse] obtain etx where
    en: "endorse_tx S peers (lit ''Failed query instantiated chaincodes for channel '' @ channel_name channel)
      (build_generated_tx S u (lit ''lscc'') [map of_nat (lit ''getchaincodes'')] (Some channel) None) tr =
      (Returned etx, tr')" and
    r: "des (pb_ChaincodeQueryResponse (sys_pb S)) (rsp_payload (pr_response (etx_peer_responses etx ! 0))) = Some resp"
    unfolding bind_Returned_iff by auto
  from system_call.endorse_Returned_D [OF en] obtain g tr1 where
    g: "build_generated_tx S u (lit ''lscc'') [map of_nat (lit ''getchaincodes'')] (Some channel) None tr = (Returned g, tr1)" and
    pr: "propose_tx S peers g tr1 = (Returned etx, tr')" and fe: "fully_endorsed etx" by blast
  from propose_tx_Returned_D [OF pr] fe have "length (etx_peer_responses etx) = length peers \<and> peers \<noteq> [] \<and>
      (\<forall>i < length peers. endorsement S (gtx_signed_proposal g) peers tr1 i =
         Returned (etx_peer_responses etx ! i) \<and> status_of (etx_peer_responses etx ! i) = 200) \<and>
      tr' = tr1 @ map (\<lambda>p. ProposalSent p (gtx_signed_proposal g)) peers"
    by (simp add: fully_endorsed_iff)
  with g r system_call.endorse_broadcasts [OF en] show ?thesis by blast
qed

text \<open>
  C27. What installing sends: a proposal for \<open>lscc\<close> to every peer with \<open>install\<close> and the
  deployment specification of the named chaincode, whose code is the package made of the
  chaincode's files; nothing goes to an orderer, and it returns only if every peer accepted.
\<close>

theorem install_sends_package:
  assumes "runtime_ok (sys_pb S)"
    and "install_chaincode S H u peers cc_spec tr = (Returned etx, tr')"
  shows "\<exists>pkg cds g tr1. package_chaincode H (length tr) cc_spec = Inr pkg \<and> truthy (cc_name cc_spec) \<and>
    build_generated_tx S u (lit ''lscc'')
      [map of_nat (lit ''install''), ser (pb_ChaincodeDeploymentSpec (sys_pb S)) cds] None None tr = (Returned g, tr1) \<and>
    cds_code_package cds = pkg \<and>
    ccs_chaincode_id (cds_chaincode_spec cds) = chaincode_id (the (cc_name cc_spec))
      (or_else (cc_version cc_spec) []) (or_else (cc_path cc_spec) []) \<and>
    ccs_input (cds_chaincode_spec cds) = None \<and>
    (\<forall>i < length peers. endorsement S (gtx_signed_proposal g) peers tr1 i =
        Returned (etx_peer_responses etx ! i) \<and> status_of (etx_peer_responses etx ! i) = 200) \<and>
    tr' = tr1 @ map (\<lambda>p. ProposalSent p (gtx_signed_proposal g)) peers \<and> broadcasts tr' = broadcasts tr"
proof -
  have fcn: "encode_proto_bytes (ChaincodeProposalType_value Install) = Inr (map of_nat (lit ''install''))"
    by (simp add: encode_proto_bytes_def latin1_encode_def)
  from assms(2) obtain pkg cds where
    nm: "truthy (cc_name cc_spec)" and pkg: "package_chaincode H (length tr) cc_spec = Inr pkg" and
    cds: "build_cc_deployment_spec (sys_pb S) (the (cc_name cc_spec)) (cc_language cc_spec)
      None (cc_version cc_spec) (cc_path cc_spec) (Some pkg) None = Inr cds" and
    en: "endorse_tx S peers (lit ''Failed install chaincode '' @ opt_text (cc_name cc_spec) @ lit '' version '' @
       opt_text (cc_version cc_spec)) (build_generated_tx S u (lit ''lscc'')
      [map of_nat (lit ''install''), ser (pb_ChaincodeDeploymentSpec (sys_pb S)) cds] None None) tr = (Returned etx, tr')"
    unfolding install_chaincode_def endorse_tx_def fcn lift_res.simps bind_return
    by (auto simp: bind_Returned_iff)
  from system_call.endorse_Returned_D [OF en] obtain g tr1 where
    g: "build_generated_tx S u (lit ''lscc'')
      [map of_nat (lit ''install''), ser (pb_ChaincodeDeploymentSpec (sys_pb S)) cds] None None tr = (Returned g, tr1)" and
    pr: "propose_tx S peers g tr1 = (Returned etx, tr')" and fe: "fully_endorsed etx" by blast
  from propose_tx_Returned_D [OF pr] fe have "(\<forall>i < length peers. endorsement S (gtx_signed_proposal g) peers tr1 i =
        Returned (etx_peer_responses etx ! i) \<and> status_of (etx_peer_responses etx ! i) = 200) \<and>
      tr' = tr1 @ map (\<lambda>p. ProposalSent p (gtx_signed_proposal g)) peers"
    by (simp add: fully_endorsed_iff)
  moreover have "cds_code_package cds = pkg" "ccs_input (cds_chaincode_spec cds) = None"
    "ccs_chaincode_id (cds_chaincode_spec cds) = chaincode_id (the (cc_name cc_spec))
      (or_else (cc_version cc_spec) []) (or_else (cc_path cc_spec) [])"
    using build_cc_deployment_spec_Inr_D [OF cds] by (cases pkg; auto)+
  ultimately show ?thesis using nm pkg g system_call.endorse_broadcasts [OF en] by blast
qed

text \<open>A world whose peers answer with an empty list of chaincodes.\<close>

definition listing_sys :: sys where
  "listing_sys = example_sys\<lparr>sys_ProcessProposal := (\<lambda>tr p sp. Returned
     ((example_response 200 [])\<lparr>pr_response := \<lparr>rsp_status = 200, rsp_message = [],
       rsp_payload = ser (pb_ChaincodeQueryResponse reference_runtime) \<lparr>cqr_chaincodes = []\<rparr>\<rparr>\<rparr>))\<rparr>"

theorem query_instantiated_first_answer_witness:
  "\<exists>resp tr'. query_instantiated_chaincodes listing_sys example_user [example_peer ''p1'', example_peer ''p2'']
    example_channel [] = (Returned resp, tr') \<and> broadcasts tr' = []"
proof -
  let ?ps = "[example_peer ''p1'', example_peer ''p2'']"
  have pb: "runtime_ok (sys_pb listing_sys)" and pb_eq: "sys_pb listing_sys = reference_runtime"
    by (simp_all add: listing_sys_def example_sys_def reference_runtime_ok)
  obtain g tr1 where g: "build_generated_tx listing_sys example_user (lit ''lscc'')
      [map of_nat (lit ''getchaincodes'')] (Some example_channel) None [] = (Returned g, tr1)"
    using build_generated_tx_total [OF pb example_channel_text example_user_ready] by blast
  have "\<forall>i < length ?ps. \<exists>r. endorsement listing_sys (gtx_signed_proposal g) ?ps tr1 i = Returned r \<and> status_of r = 200"
    by (rule endorsement_accepting) (simp add: endorses_def listing_sys_def)
  from system_call.endorse_live [OF g _ this] obtain rs tr' where
    rs: "map (endorsement listing_sys (gtx_signed_proposal g) ?ps tr1) [0..<length ?ps] = map Returned rs" and
    en: "endorse_tx listing_sys ?ps (lit ''Failed query instantiated chaincodes for channel '' @
        channel_name example_channel) (build_generated_tx listing_sys example_user (lit ''lscc'')
        [map of_nat (lit ''getchaincodes'')] (Some example_channel) None) [] =
      (Returned \<lparr>etx_peer_responses = rs, etx_proposal = gtx_proposal g, etx_header = gtx_header g,
         etx_tx_context = gtx_tx_context g\<rparr>, tr')" by blast
  from rs have "rs \<noteq> [] \<and> rsp_payload (pr_response (rs ! 0)) =
      ser (pb_ChaincodeQueryResponse reference_runtime) \<lparr>cqr_chaincodes = []\<rparr>"
    by (auto simp: endorsement_def listing_sys_def upt_rec Cons_eq_map_conv)
  with runtime_okD [OF pb, unfolded coder_ok_def] en have
    q: "query_instantiated_chaincodes listing_sys example_user ?ps example_channel [] =
      (Returned \<lparr>cqr_chaincodes = []\<rparr>, tr')"
    by (simp add: query_instantiated_endorse bind_io_def io_eval pb_eq nth_res_def FromString_def)
  from query_instantiated_first_answer [OF q] q show ?thesis by auto
qed

theorem install_sends_package_witness:
  "\<exists>etx tr' pkg. install_chaincode example_sys example_host example_user [example_peer ''p1'']
    (example_project ''a'') [] = (Returned etx, tr') \<and> broadcasts tr' = [] \<and>
    package_chaincode example_host 0 (example_project ''a'') = Inr pkg"
proof -
  let ?pkg = "[31, 139, 8, 0, 0, 0, 0, 0, 1, 2]"
  have pkg: "package_chaincode example_host (length []) (example_project ''a'') = Inr ?pkg"
    by (simp add: package_chaincode_def project_path_def example_host_def example_project_def path_join_def
        tar_member_def zero_timestamp_def)
  have "\<exists>cds. build_cc_deployment_spec (sys_pb example_sys) (lit ''cc'') GOLANG None (Some (lit ''1''))
      (Some (lit ''a'')) (Some ?pkg) None = Inr cds"
    using ChaincodeLanguage_Value [of GOLANG] by (simp add: build_cc_deployment_spec_def)
  then obtain cds where cds: "build_cc_deployment_spec (sys_pb example_sys) (lit ''cc'') GOLANG None
      (Some (lit ''1'')) (Some (lit ''a'')) (Some ?pkg) None = Inr cds" ..
  let ?gen = "build_generated_tx example_sys example_user (lit ''lscc'')
    [map of_nat (lit ''install''), ser (pb_ChaincodeDeploymentSpec (sys_pb example_sys)) cds] None None"
  have run: "install_chaincode example_sys example_host example_user [example_peer ''p1''] (example_project ''a'') [] =
      endorse_tx example_sys [example_peer ''p1''] (lit ''Failed install chaincode cc version 1'') ?gen []"
    using pkg cds unfolding install_chaincode_def endorse_tx_def
    by (simp add: example_project_def guard_io_def bind_io_def io_eval with_seed_def encode_proto_bytes_def
        latin1_encode_def opt_text_def)
  have "encode_proto_str (channel_text None) = Inr []"
    by (simp add: channel_text_def encode_proto_str_ascii ascii_def)
  then obtain g tr1 where g: "?gen [] = (Returned g, tr1)"
    using build_generated_tx_total [OF example_sys_pb _ example_user_ready] by blast
  have "\<forall>i < length [example_peer ''p1'']. \<exists>r. endorsement example_sys (gtx_signed_proposal g)
      [example_peer ''p1''] tr1 i = Returned r \<and> status_of r = 200"
    by (rule endorsement_accepting) simp
  from system_call.endorse_live [OF g _ this] obtain etx tr' where
    "install_chaincode example_sys example_host example_user [example_peer ''p1''] (example_project ''a'') [] =
      (Returned etx, tr')" unfolding run by blast
  with install_sends_package [OF example_sys_pb this] show ?thesis by auto
qed

end
