(* ===== verification/Gateway_Builder.thy ===== *)
theory Gateway_Builder
  imports Operations "HOL-Library.Sublist"
begin

text \<open>
  The \<open>GatewayTXBuilder\<close> of \<open>src/snakeskin/models/gateway.py\<close>, the object a gateway hands
  out: it queues operations and runs them when it is awaited. A method that awaits something is
  a function from the builder and the trace to an outcome, the builder it leaves and the longer
  trace, so that what an operation stored before it raised is kept. Its operations satisfy the
  contract \<open>queued_operations\<close>, its invariant is kept by all of them
  (\<open>invariant_operations\<close>), and the properties follow for every sequence of calls.
\<close>

section \<open>Data\<close>

record Gateway =
  gw_endorsing_peers :: "Peer list"
  gw_orderers :: "Orderer list"
  gw_channel :: "Channel option"
  gw_requestor :: "User option"
  gw_chaincode :: "ChaincodeSpec option"

definition new_Gateway :: Gateway where
  "new_Gateway =
    \<lparr>gw_endorsing_peers = [], gw_orderers = [], gw_channel = None, gw_requestor = None,
     gw_chaincode = None\<rparr>"

text \<open>The closures that the builder's methods queue, with the arguments they capture.\<close>

datatype operation =
    Propose bool
  | Submit
  | WaitForCommit bool int

record GatewayTXBuilder =
  bld_transaction :: GeneratedTX
  bld_gateway :: Gateway
  bld_endorsed_tx :: "EndorsedTX option"
  bld_filtered_tx :: "FilteredTX option"
  bld_committed :: bool
  bld_operations :: "operation list option"

type_synonym 'a method_io = "GatewayTXBuilder \<Rightarrow> trace \<Rightarrow> 'a outcome \<times> GatewayTXBuilder \<times> trace"

section \<open>The builder\<close>

definition new_GatewayTXBuilder :: "Gateway \<Rightarrow> GeneratedTX \<Rightarrow> GatewayTXBuilder" where
  "new_GatewayTXBuilder gateway generated_tx =
    \<lparr>bld_transaction = generated_tx, bld_gateway = gateway, bld_endorsed_tx = None,
     bld_filtered_tx = None, bld_committed = False, bld_operations = None\<rparr>"

definition add_operation :: "operation \<Rightarrow> GatewayTXBuilder \<Rightarrow> GatewayTXBuilder" where
  "add_operation op b =
    (case bld_operations b of
       Some (o1 # os) \<Rightarrow> b\<lparr>bld_operations := Some ((o1 # os) @ [op])\<rparr>
     | _ \<Rightarrow> b\<lparr>bld_operations := Some [op]\<rparr>)"

definition propose :: "bool \<Rightarrow> GatewayTXBuilder \<Rightarrow> GatewayTXBuilder" where
  "propose raise_errors b = add_operation (Propose raise_errors) b"

definition submit :: "GatewayTXBuilder \<Rightarrow> GatewayTXBuilder" where
  "submit b = add_operation Submit b"

definition wait_for_commit :: "bool \<Rightarrow> int \<Rightarrow> GatewayTXBuilder \<Rightarrow> GatewayTXBuilder" where
  "wait_for_commit raise_errors timeout b = add_operation (WaitForCommit raise_errors timeout) b"

text \<open>
  An attribute that may be \<open>None\<close> where an object is needed; \<open>Gateway.transact\<close> has checked
  the requestor and the channel of the builders it makes.
\<close>

definition need :: "'a option \<Rightarrow> 'a io" where
  "need x = lift_res (of_option (AttributeError (lit ''NoneType'')) x)"

text \<open>\<open>_operate\<close> of \<open>propose\<close>: the endorsed transaction is stored before errors are raised.\<close>

definition operate_propose :: "sys \<Rightarrow> bool \<Rightarrow> unit method_io" where
  "operate_propose S raise_errors b tr =
    (case propose_tx S (gw_endorsing_peers (bld_gateway b)) (bld_transaction b) tr of
       (Returned etx, tr') \<Rightarrow>
         (case (if raise_errors
                then raise_tx_proposal_error etx (lit ''A peer failed to endorse the transaction'')
                else Inr ()) of
            Inl e \<Rightarrow> (Raised e, b\<lparr>bld_endorsed_tx := Some etx\<rparr>, tr')
          | Inr u \<Rightarrow> (Returned u, b\<lparr>bld_endorsed_tx := Some etx\<rparr>, tr'))
     | (Raised e, tr') \<Rightarrow> (Raised e, b, tr')
     | (Blocked, tr') \<Rightarrow> (Blocked, b, tr'))"

definition operate_submit :: "sys \<Rightarrow> unit method_io" where
  "operate_submit S b tr =
    (case bld_endorsed_tx b of
       None \<Rightarrow> (Raised (Py (ValueError (lit ''Must propose transaction before committing it''))), b, tr)
     | Some etx \<Rightarrow>
         (case bind_io (need (gw_requestor (bld_gateway b))) (\<lambda>requestor.
                 commit_tx S requestor (gw_orderers (bld_gateway b)) etx) tr of
            (Returned r, tr') \<Rightarrow> (Returned (), b\<lparr>bld_committed := True\<rparr>, tr')
          | (Raised e, tr') \<Rightarrow> (Raised e, b, tr')
          | (Blocked, tr') \<Rightarrow> (Blocked, b, tr')))"

text \<open>One peer of \<open>wait_for_commit\<close>: the body of its \<open>try\<close>.\<close>

definition await_on_peer ::
  "sys \<Rightarrow> User \<Rightarrow> Channel \<Rightarrow> bool \<Rightarrow> int \<Rightarrow> EndorsedTX option \<Rightarrow> Peer \<Rightarrow> FilteredTX io" where
  "await_on_peer S requestor channel raise_errors timeout etx peer =
    (let event_hub = PeerFilteredEvents requestor channel peer in
     bind_io (need etx) (\<lambda>etx.
       if raise_errors
       then check_transaction S event_hub (EndorsedTX_tx_id etx) timeout None BlockUntilReady
       else wait_for timeout
              (timed_get_transaction S event_hub (EndorsedTX_tx_id etx) None BlockUntilReady)))"

text \<open>The loop over the peers; \<open>err\<close> is the local variable \<open>error\<close>.\<close>

fun await_loop :: "(Peer \<Rightarrow> FilteredTX io) \<Rightarrow> exn \<Rightarrow> Peer list \<Rightarrow> FilteredTX io" where
  "await_loop on_peer err [] = raise_io err"
| "await_loop on_peer err (peer # peers) =
    try_io (on_peer peer)
      (\<lambda>e. if is_ConnectionError e \<or> is_BlockRetrievalError e
           then await_loop on_peer e peers
           else raise_io e)"

text \<open>With the attributes of \<open>self\<close> that it reads.\<close>

definition ask_peer :: "sys \<Rightarrow> bool \<Rightarrow> int \<Rightarrow> GatewayTXBuilder \<Rightarrow> Peer \<Rightarrow> FilteredTX io" where
  "ask_peer S raise_errors timeout b peer =
    bind_io (need (gw_requestor (bld_gateway b))) (\<lambda>requestor.
    bind_io (need (gw_channel (bld_gateway b))) (\<lambda>channel.
      await_on_peer S requestor channel raise_errors timeout (bld_endorsed_tx b) peer))"

definition operate_wait :: "sys \<Rightarrow> bool \<Rightarrow> int \<Rightarrow> unit method_io" where
  "operate_wait S raise_errors timeout b tr =
    (if \<not> bld_committed b
     then (Raised (Py (ValueError (lit ''Must commit transaction before waiting''))), b, tr)
     else case await_loop (ask_peer S raise_errors timeout b)
            (BlockchainError (lit ''Failed waiting for committed transaction''))
            (gw_endorsing_peers (bld_gateway b)) tr of
       (Returned t, tr') \<Rightarrow> (Returned (), b\<lparr>bld_filtered_tx := Some t\<rparr>, tr')
     | (Raised e, tr') \<Rightarrow> (Raised e, b, tr')
     | (Blocked, tr') \<Rightarrow> (Blocked, b, tr'))"

fun operate :: "sys \<Rightarrow> operation \<Rightarrow> unit method_io" where
  "operate S (Propose raise_errors) = operate_propose S raise_errors"
| "operate S Submit = operate_submit S"
| "operate S (WaitForCommit raise_errors timeout) = operate_wait S raise_errors timeout"

text \<open>The \<open>for\<close> loop of \<open>_run_operations\<close>.\<close>

fun run_queue :: "(operation \<Rightarrow> unit method_io) \<Rightarrow> operation list \<Rightarrow> unit method_io" where
  "run_queue exec [] b tr = (Returned (), b, tr)"
| "run_queue exec (op # ops) b tr =
    (case exec op b tr of
       (Returned u, b', tr') \<Rightarrow> run_queue exec ops b' tr'
     | (Raised e, b', tr') \<Rightarrow> (Raised e, b', tr')
     | (Blocked, b', tr') \<Rightarrow> (Blocked, b', tr'))"

definition never_proposed :: exn where
  "never_proposed = BlockchainError (lit ''Transaction never proposed'')"

definition run_operations :: "sys \<Rightarrow> EndorsedTX method_io" where
  "run_operations S b tr =
    (case bld_operations b of
       Some (o1 # os) \<Rightarrow>
         (case run_queue (operate S) (o1 # os) b tr of
            (Returned u, b', tr') \<Rightarrow>
              (let b'' = b'\<lparr>bld_operations := Some []\<rparr> in
               case bld_endorsed_tx b'' of
                 Some etx \<Rightarrow> (Returned etx, b'', tr')
               | None \<Rightarrow> (Raised never_proposed, b'', tr'))
          | (Raised e, b', tr') \<Rightarrow> (Raised e, b', tr')
          | (Blocked, b', tr') \<Rightarrow> (Blocked, b', tr'))
     | _ \<Rightarrow> (Raised never_proposed, b, tr))"

text \<open>\<open>await builder\<close> for a builder that is not used afterwards.\<close>

definition await_builder :: "sys \<Rightarrow> GatewayTXBuilder \<Rightarrow> EndorsedTX io" where
  "await_builder S b tr = (case run_operations S b tr of (oc, b', tr') \<Rightarrow> (oc, tr'))"

section \<open>Running the queue\<close>

lemma new_GatewayTXBuilder_sel [simp]:
  "bld_transaction (new_GatewayTXBuilder gw g) = g" "bld_gateway (new_GatewayTXBuilder gw g) = gw"
  "bld_endorsed_tx (new_GatewayTXBuilder gw g) = None" "bld_filtered_tx (new_GatewayTXBuilder gw g) = None"
  "\<not> bld_committed (new_GatewayTXBuilder gw g)" "bld_operations (new_GatewayTXBuilder gw g) = None"
  by (simp_all add: new_GatewayTXBuilder_def)

lemma add_operation_operations [simp]:
  "bld_operations (add_operation op b) = Some (or_else (bld_operations b) [] @ [op])"
  by (cases "bld_operations b" rule: truthy_cases; cases "bld_operations b")
    (auto simp: add_operation_def split: list.splits)

lemma add_operation_keeps [simp]:
  "bld_transaction (add_operation op b) = bld_transaction b"
  "bld_gateway (add_operation op b) = bld_gateway b"
  "bld_endorsed_tx (add_operation op b) = bld_endorsed_tx b"
  "bld_filtered_tx (add_operation op b) = bld_filtered_tx b"
  "bld_committed (add_operation op b) = bld_committed b"
  by (simp_all add: add_operation_def split: option.split list.split)

lemma run_queue_append:
  "run_queue exec (xs @ ys) b tr =
    (case run_queue exec xs b tr of
       (Returned u, b', tr') \<Rightarrow> run_queue exec ys b' tr'
     | (Raised e, b', tr') \<Rightarrow> (Raised e, b', tr')
     | (Blocked, b', tr') \<Rightarrow> (Blocked, b', tr'))"
  by (induction xs arbitrary: b tr) (simp_all split: prod.split outcome.split)

text \<open>
  What the builder needs of its queued operations: they change neither the queue nor what
  the builder was made of. An invariant they keep is then an invariant of the whole run.
\<close>

locale queued_operations =
  fixes exec :: "operation \<Rightarrow> unit method_io"
  assumes keeps: "exec op b tr = (oc, b', tr') \<Longrightarrow>
    bld_operations b' = bld_operations b \<and> bld_gateway b' = bld_gateway b \<and>
    bld_transaction b' = bld_transaction b"
    and extends: "exec op b tr = (oc, b', tr') \<Longrightarrow> prefix tr tr'"
begin

lemma run_extends: "run_queue exec ops b tr = (oc, b', tr') \<Longrightarrow> prefix tr tr'"
proof (induction ops arbitrary: b tr)
  case (Cons op ops)
  obtain oc1 b1 tr1 where e: "exec op b tr = (oc1, b1, tr1)" by (cases "exec op b tr") auto
  with Cons extends [OF e] show ?case by (cases oc1) (auto intro: prefix_order.trans)
qed simp

lemma run_keeps:
  "run_queue exec ops b tr = (oc, b', tr') \<Longrightarrow>
    bld_operations b' = bld_operations b \<and> bld_gateway b' = bld_gateway b \<and>
    bld_transaction b' = bld_transaction b"
proof (induction ops arbitrary: b tr)
  case (Cons op ops)
  obtain oc1 b1 tr1 where e: "exec op b tr = (oc1, b1, tr1)" by (cases "exec op b tr") auto
  with Cons keeps [OF e] show ?case by (cases oc1) fastforce+
qed simp

end

locale invariant_operations = queued_operations +
  fixes I :: "GatewayTXBuilder \<Rightarrow> trace \<Rightarrow> bool"
  assumes preserves: "I b tr \<Longrightarrow> exec op b tr = (oc, b', tr') \<Longrightarrow> I b' tr'"
    and queue_irrelevant: "I (b\<lparr>bld_operations := q\<rparr>) tr = I b tr"
begin

lemma run_preserves: "I b tr \<Longrightarrow> run_queue exec ops b tr = (oc, b', tr') \<Longrightarrow> I b' tr'"
proof (induction ops arbitrary: b tr)
  case (Cons op ops)
  obtain oc1 b1 tr1 where e: "exec op b tr = (oc1, b1, tr1)" by (cases "exec op b tr") auto
  with Cons preserves [OF Cons.prems(1) e] show ?case by (cases oc1) auto
qed simp

lemma add_operation_preserves: "I (add_operation op b) tr = I b tr"
  by (simp add: add_operation_def queue_irrelevant split: option.split list.split)

end

lemma propose_cases:
  obtains (returned) etx tr' where
    "propose_tx S (gw_endorsing_peers (bld_gateway b)) (bld_transaction b) tr = (Returned etx, tr')"
    "operate_propose S r b tr =
      (if r \<and> \<not> fully_endorsed etx
       then Raised (TransactionProposalError (lit ''A peer failed to endorse the transaction'') etx)
       else Returned (), b\<lparr>bld_endorsed_tx := Some etx\<rparr>, tr')"
  | (failed) oc oc' tr' where
    "propose_tx S (gw_endorsing_peers (bld_gateway b)) (bld_transaction b) tr = (oc, tr')"
    "\<forall>etx. oc \<noteq> Returned etx" "operate_propose S r b tr = (oc', b, tr')" "oc' \<noteq> Returned ()"
    "\<forall>e. oc = Raised e \<longrightarrow> oc' = Raised e" "oc = Blocked \<longrightarrow> oc' = Blocked"
proof (cases "propose_tx S (gw_endorsing_peers (bld_gateway b)) (bld_transaction b) tr")
  case (Pair oc tr')
  then show ?thesis
    by (cases oc) (auto simp: operate_propose_def raise_tx_proposal_error_def require_def
        intro: returned failed)
qed

lemma submit_cases:
  obtains (unproposed) "bld_endorsed_tx b = None"
    "operate_submit S b tr =
      (Raised (Py (ValueError (lit ''Must propose transaction before committing it''))), b, tr)"
  | (returned) etx u r tr' where "bld_endorsed_tx b = Some etx" "gw_requestor (bld_gateway b) = Some u"
    "commit_tx S u (gw_orderers (bld_gateway b)) etx tr = (Returned r, tr')"
    "operate_submit S b tr = (Returned (), b\<lparr>bld_committed := True\<rparr>, tr')"
  | (failed) etx oc' tr' where "bld_endorsed_tx b = Some etx" "oc' \<noteq> Returned ()"
    "operate_submit S b tr = (oc', b, tr')" "gw_requestor (bld_gateway b) = None \<longrightarrow> tr' = tr"
    "\<forall>u. gw_requestor (bld_gateway b) = Some u \<longrightarrow> (\<exists>oc.
      commit_tx S u (gw_orderers (bld_gateway b)) etx tr = (oc, tr') \<and> (\<forall>r. oc \<noteq> Returned r) \<and>
      (\<forall>e. oc = Raised e \<longrightarrow> oc' = Raised e) \<and> (oc = Blocked \<longrightarrow> oc' = Blocked))"
proof (cases "bld_endorsed_tx b")
  case None
  then show ?thesis by (intro unproposed) (simp_all add: operate_submit_def)
next
  case (Some etx)
  show ?thesis
  proof (cases "gw_requestor (bld_gateway b)")
    case None
    with Some show ?thesis
      by (intro failed) (simp_all add: operate_submit_def need_def bind_io_def io_eval)
  next
    case (Some u)
    note u = this
    obtain oc tr' where c: "commit_tx S u (gw_orderers (bld_gateway b)) etx tr = (oc, tr')" by fastforce
    show ?thesis
    proof (cases oc)
      case (Returned r)
      with \<open>bld_endorsed_tx b = Some etx\<close> u c show ?thesis
        by (intro returned) (simp_all add: operate_submit_def need_def)
    next
      case (Raised e)
      with \<open>bld_endorsed_tx b = Some etx\<close> u c show ?thesis
        by (intro failed [of etx "Raised e" tr']) (simp_all add: operate_submit_def need_def)
    next
      case Blocked
      with \<open>bld_endorsed_tx b = Some etx\<close> u c show ?thesis
        by (intro failed [of etx Blocked tr']) (simp_all add: operate_submit_def need_def)
    qed
  qed
qed

text \<open>What \<open>wait_for_commit\<close> runs once requestor and channel are known.\<close>

definition await_commit ::
  "sys \<Rightarrow> User \<Rightarrow> Channel \<Rightarrow> bool \<Rightarrow> int \<Rightarrow> EndorsedTX option \<Rightarrow> Peer list \<Rightarrow> FilteredTX io" where
  "await_commit S u channel r timeout etx peers =
    await_loop (await_on_peer S u channel r timeout etx)
      (BlockchainError (lit ''Failed waiting for committed transaction'')) peers"

lemma ask_peer_ready:
  "gw_requestor (bld_gateway b) = Some u \<Longrightarrow> gw_channel (bld_gateway b) = Some c \<Longrightarrow>
    ask_peer S r timeout b = await_on_peer S u c r timeout (bld_endorsed_tx b)"
  by (rule ext) (simp add: ask_peer_def need_def)

lemma await_loop_unready:
  assumes "gw_requestor (bld_gateway b) = None \<or> gw_channel (bld_gateway b) = None"
  shows "\<exists>e. await_loop (ask_peer S r timeout b) err ps tr = (Raised e, tr)"
proof (cases ps)
  case (Cons p ps)
  from assms have "ask_peer S r timeout b p tr = (Raised (Py (AttributeError (lit ''NoneType''))), tr)"
    by (cases "gw_requestor (bld_gateway b)") (auto simp: ask_peer_def need_def bind_io_def io_eval)
  with Cons show ?thesis by (simp add: try_io_def io_eval)
qed (simp add: io_eval)

lemma wait_cases:
  obtains (uncommitted) "\<not> bld_committed b"
    "operate_wait S r timeout b tr =
      (Raised (Py (ValueError (lit ''Must commit transaction before waiting''))), b, tr)"
  | (returned) u c t tr' where "bld_committed b" "gw_requestor (bld_gateway b) = Some u"
    "gw_channel (bld_gateway b) = Some c"
    "await_commit S u c r timeout (bld_endorsed_tx b) (gw_endorsing_peers (bld_gateway b)) tr = (Returned t, tr')"
    "operate_wait S r timeout b tr = (Returned (), b\<lparr>bld_filtered_tx := Some t\<rparr>, tr')"
  | (failed) oc' tr' where "bld_committed b" "oc' \<noteq> Returned ()"
    "operate_wait S r timeout b tr = (oc', b, tr')"
    "gw_requestor (bld_gateway b) = None \<or> gw_channel (bld_gateway b) = None \<longrightarrow> tr' = tr"
    "\<forall>u c. gw_requestor (bld_gateway b) = Some u \<longrightarrow> gw_channel (bld_gateway b) = Some c \<longrightarrow> (\<exists>oc.
      await_commit S u c r timeout (bld_endorsed_tx b) (gw_endorsing_peers (bld_gateway b)) tr = (oc, tr') \<and>
      (\<forall>t. oc \<noteq> Returned t) \<and> (\<forall>e. oc = Raised e \<longrightarrow> oc' = Raised e) \<and> (oc = Blocked \<longrightarrow> oc' = Blocked))"
proof (cases "bld_committed b")
  case False
  then show ?thesis by (intro uncommitted) (simp_all add: operate_wait_def)
next
  case True
  show ?thesis
  proof (cases "gw_requestor (bld_gateway b) = None \<or> gw_channel (bld_gateway b) = None")
    case True
    from await_loop_unready [OF this] obtain e where "await_loop (ask_peer S r timeout b)
        (BlockchainError (lit ''Failed waiting for committed transaction'')) (gw_endorsing_peers (bld_gateway b)) tr =
      (Raised e, tr)" by blast
    with True \<open>bld_committed b\<close> show ?thesis
      by (intro failed [of "Raised e" tr]) (auto simp: operate_wait_def)
  next
    case False
    then obtain u c where uc: "gw_requestor (bld_gateway b) = Some u" "gw_channel (bld_gateway b) = Some c" by auto
    obtain oc tr' where a: "await_commit S u c r timeout (bld_endorsed_tx b)
        (gw_endorsing_peers (bld_gateway b)) tr = (oc, tr')" by fastforce
    show ?thesis
    proof (cases oc)
      case (Returned t)
      with \<open>bld_committed b\<close> uc a show ?thesis
        by (intro returned) (simp_all add: operate_wait_def ask_peer_ready [OF uc] await_commit_def)
    next
      case (Raised e)
      with \<open>bld_committed b\<close> uc a show ?thesis
        by (intro failed [of "Raised e" tr']) (simp_all add: operate_wait_def ask_peer_ready [OF uc] await_commit_def)
    next
      case Blocked
      with \<open>bld_committed b\<close> uc a show ?thesis
        by (intro failed [of Blocked tr']) (simp_all add: operate_wait_def ask_peer_ready [OF uc] await_commit_def)
    qed
  qed
qed

lemma operate_keeps:
  assumes "operate S op b tr = (oc, b', tr')"
  shows "bld_operations b' = bld_operations b \<and> bld_gateway b' = bld_gateway b \<and>
    bld_transaction b' = bld_transaction b"
proof (cases op)
  case (Propose r)
  with assms show ?thesis by (cases rule: propose_cases [of S b tr r]) auto
next
  case Submit
  with assms show ?thesis by (cases rule: submit_cases [of b S tr]) auto
next
  case (WaitForCommit r timeout)
  with assms show ?thesis by (cases rule: wait_cases [of b S r timeout tr]) auto
qed

section \<open>The invariant of the builder\<close>

definition any_event :: "event \<Rightarrow> bool" where
  "any_event e = True"

lemma any_event [simp]: "any_event e"
  by (simp add: any_event_def)

lemma emits_any_D: "emits any_event m \<Longrightarrow> m tr = (oc, tr') \<Longrightarrow> prefix tr tr'"
  by (erule emitsD) auto

lemma emits_await_loop:
  "(\<And>p. emits P (on_peer p)) \<Longrightarrow> emits P (await_loop on_peer e ps)"
  by (induction ps arbitrary: e) (simp_all add: emits_intros)

lemma emits_await_commit:
  assumes "\<And>e. local_event e \<Longrightarrow> P e" "\<And>p envelope. P (DeliverRequested (PeerDeliverFiltered p) envelope)"
  shows "emits P (await_commit S u c r timeout etx ps)"
proof -
  have "emits P (await_on_peer S u c r timeout etx p)" for p
    unfolding await_on_peer_def Let_def need_def using assms by (intro emits_intros) simp_all
  then show ?thesis unfolding await_commit_def by (rule emits_await_loop)
qed

lemma operate_extends:
  assumes "operate S op b tr = (oc, b', tr')"
  shows "prefix tr tr'"
proof (cases op)
  case (Propose r)
  have "emits any_event (propose_tx S ps g)" for ps g by (intro emits_propose) simp
  note D = emits_any_D [OF this]
  with Propose assms show ?thesis by (cases rule: propose_cases [of S b tr r]) (auto dest: D)
next
  case Submit
  have "emits any_event (commit_tx S u os etx)" for u os etx by (intro emits_commit) simp_all
  note D = emits_any_D [OF this]
  with Submit assms show ?thesis
    by (cases "gw_requestor (bld_gateway b)"; cases rule: submit_cases [of b S tr]) (auto dest: D)
next
  case (WaitForCommit r timeout)
  have "emits any_event (await_commit S u c r timeout etx ps)" for u c etx ps
    by (intro emits_await_commit) simp_all
  note D = emits_any_D [OF this]
  with WaitForCommit assms show ?thesis
    by (cases "gw_requestor (bld_gateway b)"; cases "gw_channel (bld_gateway b)";
        cases rule: wait_cases [of b S r timeout tr]) (auto dest: D)
qed

interpretation builder_queue: queued_operations "operate S"
  by unfold_locales (rule operate_keeps operate_extends, assumption)+

definition endorsement_of :: "Peer list \<Rightarrow> GeneratedTX \<Rightarrow> trace \<Rightarrow> EndorsedTX \<Rightarrow> bool" where
  "endorsement_of peers g tr etx \<longleftrightarrow>
    etx_tx_context etx = gtx_tx_context g \<and> etx_proposal etx = gtx_proposal g \<and>
    etx_header etx = gtx_header g \<and>
    length (etx_peer_responses etx) = length peers \<and> etx_peer_responses etx \<noteq> [] \<and>
    (\<forall>p \<in> set peers. ProposalSent p (gtx_signed_proposal g) \<in> set tr)"

definition builder_inv :: "GatewayTXBuilder \<Rightarrow> trace \<Rightarrow> bool" where
  "builder_inv b tr \<longleftrightarrow>
    (\<forall>etx. bld_endorsed_tx b = Some etx \<longrightarrow> 
      endorsement_of (gw_endorsing_peers (bld_gateway b)) (bld_transaction b) tr etx) \<and>
    (bld_committed b \<longrightarrow> bld_endorsed_tx b \<noteq> None \<and>
      (\<exists>ord envelope. ord \<in> set (gw_orderers (bld_gateway b)) \<and> EnvelopeBroadcast ord envelope \<in> set tr)) \<and>
    (\<forall>t. bld_filtered_tx b = Some t \<longrightarrow> bld_committed b \<and> ftx_tx_id t = GeneratedTX_tx_id (bld_transaction b))"

lemma builder_inv_new [simp]: "builder_inv (new_GatewayTXBuilder gw g) tr"
  by (simp add: builder_inv_def new_GatewayTXBuilder_def)

lemma builder_inv_mono: "builder_inv b tr \<Longrightarrow> set tr \<subseteq> set tr' \<Longrightarrow> builder_inv b tr'"
  unfolding builder_inv_def endorsement_of_def by blast

lemma propose_endorsement:
  assumes "propose_tx S peers g tr = (Returned etx, tr')"
  shows "endorsement_of peers g tr' etx"
  using propose_tx_Returned_D [OF assms] by (auto simp: endorsement_of_def)

lemma commit_broadcasts:
  assumes "commit_tx S u ords etx tr = (Returned r, tr')"
  shows "\<exists>ord envelope. ord \<in> set ords \<and> EnvelopeBroadcast ord envelope \<in> set tr'"
proof -
  from commit_tx_Returned_D [OF assms] obtain envelope tr1 where
    b: "broadcast_to_orderers S envelope ords (EndorsedTX_tx_id etx) tr1 = (Returned r, tr')" by blast
  from broadcast_Returned_D [OF b] obtain k where "k < length ords"
    "tr' = tr1 @ map (\<lambda>ord. EnvelopeBroadcast ord envelope) (take (Suc k) ords)" by blast
  then show ?thesis by (intro exI [of _ "ords ! k"] exI [of _ envelope]) (simp add: take_Suc_conv_app_nth)
qed

lemma await_on_peer_tx_id:
  assumes "await_on_peer S u c r timeout (Some etx) p tr = (Returned t, tr')"
  shows "ftx_tx_id t = EndorsedTX_tx_id etx"
proof (cases r)
  case True
  with assms check_transaction_Returned_D show ?thesis by (auto simp: await_on_peer_def need_def)
next
  case False
  with assms obtain time bs fin where
    "find_transaction (PeerFilteredEvents u c p) (EndorsedTX_tx_id etx) 0 bs fin = (time, Returned t)"
    by (auto simp: await_on_peer_def need_def wait_for_Returned_iff timed_get_transaction_Returned_iff)
  then show ?thesis
    unfolding filtered.find_transaction_Returned_iff by (auto dest: find_Some_D)
qed

text \<open>The peers that fail over, one after the other, from a trace to a longer one.\<close>

inductive failed_over :: "(Peer \<Rightarrow> FilteredTX io) \<Rightarrow> Peer list \<Rightarrow> trace \<Rightarrow> trace \<Rightarrow> bool" for on_peer where
  none: "failed_over on_peer [] tr tr"
| one: "failed_over on_peer (p # ps) tr tr''"
    if "on_peer p tr = (Raised e, tr')" "is_ConnectionError e \<or> is_BlockRetrievalError e"
      "failed_over on_peer ps tr' tr''"

inductive_simps failed_over_simps [simp]:
  "failed_over on_peer [] tr tr'" "failed_over on_peer (p # ps) tr tr'"

lemma await_loop_Returned_iff:
  "await_loop on_peer err peers tr = (Returned t, tr') \<longleftrightarrow>
    (\<exists>us p vs tr1. peers = us @ p # vs \<and> failed_over on_peer us tr tr1 \<and> on_peer p tr1 = (Returned t, tr'))"
proof (induction peers arbitrary: err tr)
  case (Cons q peers)
  show ?case (is "?L \<longleftrightarrow> ?R")
  proof
    assume ?L
    then consider "on_peer q tr = (Returned t, tr')"
      | e tr2 where "on_peer q tr = (Raised e, tr2)" "is_ConnectionError e \<or> is_BlockRetrievalError e"
          "await_loop on_peer e peers tr2 = (Returned t, tr')"
      by (auto simp: try_Returned_iff split: if_splits)
    then show ?R
    proof cases
      case 1
      then show ?thesis by (intro exI [of _ "[]"]) auto
    next
      case 2
      from 2(3) obtain us p vs tr1 where "peers = us @ p # vs" "failed_over on_peer us tr2 tr1"
        "on_peer p tr1 = (Returned t, tr')" unfolding Cons.IH by blast
      with 2(1,2) show ?thesis by (intro exI [of _ "q # us"] exI [of _ p] exI [of _ vs] exI [of _ tr1]) auto
    qed
  next
    assume ?R
    then obtain us p vs tr1 where *: "q # peers = us @ p # vs" "failed_over on_peer us tr tr1"
      "on_peer p tr1 = (Returned t, tr')" by blast
    show ?L
    proof (cases us)
      case Nil
      with * show ?thesis by (simp add: try_io_def)
    next
      case (Cons u us')
      with * obtain e tr2 where e: "on_peer q tr = (Raised e, tr2)" "is_ConnectionError e \<or> is_BlockRetrievalError e"
        "failed_over on_peer us' tr2 tr1" by auto
      with * Cons have "await_loop on_peer e peers tr2 = (Returned t, tr')" unfolding Cons.IH by auto
      with e show ?thesis by (simp add: try_io_eval)
    qed
  qed
qed simp

lemma operate_builder_inv:
  assumes inv: "builder_inv b tr" and run: "operate S op b tr = (oc, b', tr')"
  shows "builder_inv b' tr'"
proof -
  from operate_extends [OF run] have sub: "set tr \<subseteq> set tr'" by (rule set_mono_prefix)
  note inv' = builder_inv_mono [OF inv sub]
  show ?thesis
  proof (cases op)
    case (Propose r)
    with run show ?thesis
    proof (cases rule: propose_cases [of S b tr r])
      case (returned etx tr1)
      with Propose run propose_endorsement [OF returned(1)] inv' show ?thesis
        by (auto simp: builder_inv_def)
    qed (use inv' in auto)
  next
    case Submit
    with run show ?thesis
    proof (cases rule: submit_cases [of b S tr])
      case (returned etx u r tr1)
      with Submit run commit_broadcasts [OF returned(3)] inv' show ?thesis
        by (auto simp: builder_inv_def)
    qed (use inv' in auto)
  next
    case (WaitForCommit r timeout)
    with run show ?thesis
    proof (cases rule: wait_cases [of b S r timeout tr])
      case (returned u c t tr1)
      from inv returned(1) obtain etx where etx: "bld_endorsed_tx b = Some etx"
        "etx_tx_context etx = gtx_tx_context (bld_transaction b)"
        by (auto simp: builder_inv_def endorsement_of_def)
      from returned(4) etx obtain p tr2 where
        "await_on_peer S u c r timeout (Some etx) p tr2 = (Returned t, tr1)"
        by (auto simp: await_commit_def await_loop_Returned_iff)
      from await_on_peer_tx_id [OF this] etx have "ftx_tx_id t = GeneratedTX_tx_id (bld_transaction b)"
        by (simp add: EndorsedTX_tx_id_def GeneratedTX_tx_id_def)
      with WaitForCommit run returned inv' show ?thesis by (auto simp: builder_inv_def)
    qed (use inv' in auto)
  qed
qed

interpretation builder: invariant_operations "operate S" builder_inv
proof unfold_locales
  show "builder_inv b tr \<Longrightarrow> operate S op b tr = (oc, b', tr') \<Longrightarrow> builder_inv b' tr'" for op b tr oc b' tr'
    by (rule operate_builder_inv)
  show "builder_inv (b\<lparr>bld_operations := q\<rparr>) tr = builder_inv b tr" for b q tr
    by (simp add: builder_inv_def)
qed

text \<open>How awaiting the builder can end.\<close>

lemma run_operations_cases:
  obtains (empty) "bld_operations b = None \<or> bld_operations b = Some []"
    "run_operations S b tr = (Raised never_proposed, b, tr)"
  | (finished) ops b1 tr1 where "bld_operations b = Some ops" "ops \<noteq> []"
    "run_queue (operate S) ops b tr = (Returned (), b1, tr1)"
    "run_operations S b tr =
      (case bld_endorsed_tx b1 of None \<Rightarrow> Raised never_proposed | Some etx \<Rightarrow> Returned etx,
       b1\<lparr>bld_operations := Some []\<rparr>, tr1)"
  | (raised) ops e b1 tr1 where "bld_operations b = Some ops" "ops \<noteq> []"
    "run_queue (operate S) ops b tr = (Raised e, b1, tr1)" "run_operations S b tr = (Raised e, b1, tr1)"
  | (blocked) ops b1 tr1 where "bld_operations b = Some ops" "ops \<noteq> []"
    "run_queue (operate S) ops b tr = (Blocked, b1, tr1)" "run_operations S b tr = (Blocked, b1, tr1)"
proof (cases "bld_operations b" rule: truthy_cases)
  case (some o1 os)
  obtain oc b1 tr1 where r: "run_queue (operate S) (o1 # os) b tr = (oc, b1, tr1)" using prod_cases3 by blast
  show ?thesis
  proof (cases oc)
    case (Returned u)
    with some r show ?thesis
      by (intro finished [of "o1 # os" b1 tr1]) (auto simp: run_operations_def split: option.split)
  qed (use some r in \<open>auto simp: run_operations_def intro: raised blocked\<close>)
qed (auto simp: run_operations_def intro: empty)

text \<open>
  What a client can do with a builder: queue operations and await it; meanwhile others may
  act on the network.
\<close>

inductive client_step ::
  "sys \<Rightarrow> GatewayTXBuilder \<times> trace \<Rightarrow> GatewayTXBuilder \<times> trace \<Rightarrow> bool" for S where
  cs_propose: "client_step S (b, tr) (propose r b, tr)"
| cs_submit: "client_step S (b, tr) (submit b, tr)"
| cs_wait: "client_step S (b, tr) (wait_for_commit r timeout b, tr)"
| cs_await: "client_step S (b, tr) (b', tr')" if "run_operations S b tr = (oc, b', tr')"
| cs_other: "client_step S (b, tr) (b, tr @ evs)"

inductive_cases client_stepE: "client_step S (b, tr) c"

lemma run_operations_builder_inv:
  assumes "builder_inv b tr" "run_operations S b tr = (oc, b', tr')"
  shows "builder_inv b' tr'"
  using assms builder.run_preserves [OF assms(1)]
  by (cases rule: run_operations_cases [of b S tr]) (auto simp: builder.queue_irrelevant)

lemma run_operations_keeps:
  assumes "run_operations S b tr = (oc, b', tr')"
  shows "bld_gateway b' = bld_gateway b \<and> bld_transaction b' = bld_transaction b"
  using assms builder_queue.run_keeps
  by (cases rule: run_operations_cases [of b S tr]) fastforce+

lemma client_step_preserves:
  assumes "client_step S (b, tr) (b', tr')" "builder_inv b tr"
  shows "builder_inv b' tr' \<and> bld_gateway b' = bld_gateway b \<and> bld_transaction b' = bld_transaction b"
proof (rule client_stepE [OF assms(1)])
  fix oc b1 tr1
  assume "(b', tr') = (b1, tr1)" "run_operations S b tr = (oc, b1, tr1)"
  with assms(2) run_operations_builder_inv run_operations_keeps show ?thesis by blast
next
  fix evs
  assume "(b', tr') = (b, tr @ evs)"
  with assms(2) builder_inv_mono [of b tr "tr @ evs"] show ?thesis by simp
qed (use assms(2) in \<open>simp_all add: propose_def submit_def wait_for_commit_def builder.add_operation_preserves\<close>)

lemma client_steps_preserve:
  assumes "(client_step S)\<^sup>*\<^sup>* (b, tr) (b', tr')" "builder_inv b tr"
  shows "builder_inv b' tr' \<and> bld_gateway b' = bld_gateway b \<and> bld_transaction b' = bld_transaction b"
  using assms(1)
proof (induction "(b', tr')" arbitrary: b' tr' rule: rtranclp_induct)
  case base
  with assms(2) show ?case by simp
next
  case (step c)
  obtain b1 tr1 where "c = (b1, tr1)" by fastforce
  with step client_step_preserves [of S b1 tr1 b' tr'] show ?case by simp
qed

text \<open>
  Whatever a client does with a builder, in any order and any number of times: its
  endorsed transaction is the one it was made with, answered by as many responses as there
  are endorsing peers, all of which got the proposal; it is marked committed only if it was
  proposed and an envelope went to one of its orderers; and the transaction it was told to be
  in a block is its own.
\<close>

theorem builder_stays_sound:
  assumes "(client_step S)\<^sup>*\<^sup>* (new_GatewayTXBuilder gw g, tr) (b, tr')"
  shows "bld_gateway b = gw \<and> bld_transaction b = g \<and>
    (\<forall>etx. bld_endorsed_tx b = Some etx \<longrightarrow>
       EndorsedTX_tx_id etx = GeneratedTX_tx_id g \<and> etx_proposal etx = gtx_proposal g \<and>
       length (etx_peer_responses etx) = length (gw_endorsing_peers gw) \<and>
       (\<forall>p \<in> set (gw_endorsing_peers gw). ProposalSent p (gtx_signed_proposal g) \<in> set tr')) \<and>
    (bld_committed b \<longrightarrow> bld_endorsed_tx b \<noteq> None \<and>
       (\<exists>ord envelope. ord \<in> set (gw_orderers gw) \<and> EnvelopeBroadcast ord envelope \<in> set tr')) \<and>
    (\<forall>t. bld_filtered_tx b = Some t \<longrightarrow> bld_committed b \<and> ftx_tx_id t = GeneratedTX_tx_id g)"
proof -
  from client_steps_preserve [OF assms builder_inv_new]
  have "builder_inv b tr'" "bld_gateway b = gw" "bld_transaction b = g" by simp_all
  then show ?thesis
    by (auto simp: builder_inv_def endorsement_of_def EndorsedTX_tx_id_def GeneratedTX_tx_id_def)
qed

text \<open>
  A builder can be awaited only once: after an await that returned its transaction, the
  queue is empty, and awaiting it again raises \<open>Transaction never proposed\<close>, although it was
  proposed.
\<close>

theorem second_await_fails:
  assumes "run_operations S b tr = (Returned etx, b', tr')"
  shows "run_operations S b' tr'' = (Raised (BlockchainError (lit ''Transaction never proposed'')), b', tr'') \<and>
    bld_endorsed_tx b' = Some etx"
  using assms
proof (cases rule: run_operations_cases [of b S tr])
  case (finished ops b1 tr1)
  with assms have "b' = b1\<lparr>bld_operations := Some []\<rparr>" "bld_endorsed_tx b1 = Some etx"
    by (auto split: option.splits)
  then show ?thesis by (simp add: run_operations_def never_proposed_def)
qed auto

lemma propose_sends:
  assumes "propose_tx S peers g tr = (oc, tr')" "p \<in> set peers"
  shows "\<exists>evs. tr' = tr @ evs \<and> ProposalSent p (gtx_signed_proposal g) \<in> set evs"
proof -
  from assms(2) have "peers \<noteq> []" by auto
  with assms show ?thesis by (auto simp: propose_tx_eq)
qed

lemma run_operations_raised:
  assumes "run_operations S b tr = (Raised e, b', tr')" "e \<noteq> never_proposed"
  shows "bld_operations b' = bld_operations b \<and> bld_gateway b' = bld_gateway b \<and>
    bld_transaction b' = bld_transaction b"
  using assms builder_queue.run_keeps
  by (cases rule: run_operations_cases [of b S tr]) (fastforce split: option.splits)+

text \<open>
  A failed await is not resumed but repeated: the queue is kept, so awaiting the builder
  again starts with its first operation; a builder that began by proposing proposes the same
  transaction to every endorsing peer again, even if it had been committed.
\<close>

theorem failed_await_is_repeated:
  assumes "run_operations S b tr = (Raised e, b', tr')" "e \<noteq> BlockchainError (lit ''Transaction never proposed'')"
    and "bld_operations b = Some (Propose r # ops)" "run_operations S b' tr1 = (oc, b'', tr2)"
  shows "bld_operations b' = Some (Propose r # ops) \<and>
    (\<exists>evs. tr2 = tr1 @ evs \<and> (\<forall>p \<in> set (gw_endorsing_peers (bld_gateway b)).
       ProposalSent p (gtx_signed_proposal (bld_transaction b)) \<in> set evs))"
proof -
  note k = run_operations_raised [OF assms(1) assms(2) [folded never_proposed_def]]
  then have ops: "bld_operations b' = Some (Propose r # ops)" using assms(3) by simp
  let ?sp = "gtx_signed_proposal (bld_transaction b)" and ?peers = "gw_endorsing_peers (bld_gateway b)"
  obtain oc0 b0 tr0 where o: "operate S (Propose r) b' tr1 = (oc0, b0, tr0)" using prod_cases3 by blast
  have "\<exists>evs. tr0 = tr1 @ evs \<and> (\<forall>p \<in> set ?peers. ProposalSent p ?sp \<in> set evs)"
  proof -
    obtain oc3 where p: "propose_tx S ?peers (bld_transaction b) tr1 = (oc3, tr0)"
      using o k by (cases rule: propose_cases [of S b' tr1 r]) auto
    have "emits any_event (propose_tx S ?peers (bld_transaction b))" by (intro emits_propose) simp
    from emits_any_D [OF this p] obtain evs where "tr0 = tr1 @ evs" by (auto elim: prefixE)
    with propose_sends [OF p] show ?thesis by auto
  qed
  moreover have "prefix tr0 tr2"
  proof (cases oc0)
    case (Returned x)
    then obtain oc4 b4 where "run_queue (operate S) (Propose r # ops) b' tr1 = (oc4, b4, tr2)"
      using ops assms(4) by (cases rule: run_operations_cases [of b' S tr1]) auto
    with o Returned have "run_queue (operate S) ops b0 tr0 = (oc4, b4, tr2)" by simp
    then show ?thesis by (rule builder_queue.run_extends)
  qed (use o ops assms(4) in \<open>auto simp: run_operations_def\<close>)
  ultimately show ?thesis using ops by (auto elim!: prefixE)
qed

text \<open>
  The order of the operations is enforced: a builder that was not proposed refuses to
  submit and one that was not committed refuses to wait, both with a \<open>ValueError\<close>, before
  anything is sent and without running what is queued behind.
\<close>

theorem premature_operations_refused:
  "(bld_endorsed_tx b = None \<and> bld_operations b = Some (Submit # ops) \<longrightarrow>
      run_operations S b tr =
        (Raised (Py (ValueError (lit ''Must propose transaction before committing it''))), b, tr)) \<and>
   (\<not> bld_committed b \<and> bld_operations b = Some (WaitForCommit r timeout # ops) \<longrightarrow>
      run_operations S b tr =
        (Raised (Py (ValueError (lit ''Must commit transaction before waiting''))), b, tr))"
  by (simp add: run_operations_def operate_submit_def operate_wait_def)

text \<open>
  With \<open>propose(raise_errors=False)\<close> nothing keeps a refused transaction from being
  submitted: the builder commits what not all peers endorsed, and the orderers get it, where
  \<open>propose()\<close> would have raised and sent them nothing.
\<close>

theorem unendorsed_submit_commits:
  assumes "gw_requestor gw = Some u" "propose_tx S (gw_endorsing_peers gw) g tr = (Returned etx, tr1)"
    and "\<not> fully_endorsed etx" "commit_tx S u (gw_orderers gw) etx tr1 = (Returned r, tr2)"
  shows "(\<exists>b. run_operations S (submit (propose False (new_GatewayTXBuilder gw g))) tr = (Returned etx, b, tr2) \<and>
      bld_committed b) \<and>
    (\<exists>ord envelope. ord \<in> set (gw_orderers gw) \<and> EnvelopeBroadcast ord envelope \<in> set tr2) \<and>
    (\<exists>b. run_operations S (submit (propose True (new_GatewayTXBuilder gw g))) tr =
      (Raised (TransactionProposalError (lit ''A peer failed to endorse the transaction'') etx), b, tr1)) \<and>
    broadcasts tr1 = broadcasts tr"
proof (intro conjI)
  let ?b = "\<lambda>r. submit (propose r (new_GatewayTXBuilder gw g))"
  have ops: "bld_operations (?b r) = Some [Propose r, Submit]" for r
    by (simp add: submit_def propose_def)
  have sel: "bld_gateway (?b r) = gw" "bld_transaction (?b r) = g" for r
    by (simp_all add: submit_def propose_def)
  show "\<exists>b. run_operations S (?b False) tr = (Returned etx, b, tr2) \<and> bld_committed b"
    using assms by (simp add: run_operations_def ops sel operate_propose_def operate_submit_def need_def)
  show "\<exists>b. run_operations S (?b True) tr =
      (Raised (TransactionProposalError (lit ''A peer failed to endorse the transaction'') etx), b, tr1)"
    using assms(2,3)
    by (simp add: run_operations_def ops sel operate_propose_def raise_tx_proposal_error_def)
  show "\<exists>ord envelope. ord \<in> set (gw_orderers gw) \<and> EnvelopeBroadcast ord envelope \<in> set tr2"
    by (rule commit_broadcasts [OF assms(4)])
  show "broadcasts tr1 = broadcasts tr" by (rule propose_broadcasts [OF assms(2)])
qed

section \<open>Examples\<close>

text \<open>A gateway to one or two peers and one orderer of the example world.\<close>

definition example_gateway :: "Peer list \<Rightarrow> Gateway" where
  "example_gateway peers =
    \<lparr>gw_endorsing_peers = peers, gw_orderers = [example_orderer ''o1''],
     gw_channel = Some example_channel, gw_requestor = Some example_user,
     gw_chaincode = Some example_spec\<rparr>"

lemma example_gateway_sel [simp]:
  "gw_endorsing_peers (example_gateway peers) = peers"
  "gw_orderers (example_gateway peers) = [example_orderer ''o1'']"
  "gw_channel (example_gateway peers) = Some example_channel"
  "gw_requestor (example_gateway peers) = Some example_user"
  by (simp_all add: example_gateway_def)

text \<open>Proposals in a world where every peer accepts.\<close>

lemma example_propose:
  "propose_tx example_sys [example_peer n] example_generated tr =
    (Returned \<lparr>etx_peer_responses = [example_response 200 []], etx_proposal = gtx_proposal example_generated,
       etx_header = gtx_header example_generated, etx_tx_context = gtx_tx_context example_generated\<rparr>,
     tr @ [ProposalSent (example_peer n) (gtx_signed_proposal example_generated)])"
proof -
  have "map (endorsement example_sys sp [example_peer n] tr) [0..<length [example_peer n]] =
      map Returned [example_response 200 []]" for sp
    by (simp add: endorsement_def example_sys_def)
  then show ?thesis by (simp add: propose_tx_eq settle_def)
qed

abbreviation example_builder :: "Peer list \<Rightarrow> GatewayTXBuilder" where
  "example_builder peers \<equiv> new_GatewayTXBuilder (example_gateway peers) example_generated"

lemma example_run:
  "\<exists>etx b tr'. run_operations example_sys (propose r (example_builder [example_peer n])) tr = (Returned etx, b, tr')"
  by (simp add: run_operations_def propose_def operate_propose_def example_propose
      raise_tx_proposal_error_def fully_endorsed_def example_response_def)

theorem builder_stays_sound_witness:
  "\<exists>b tr' etx. (client_step example_sys)\<^sup>*\<^sup>* (example_builder [example_peer ''p1''], []) (b, tr') \<and>
    bld_endorsed_tx b = Some etx \<and> EndorsedTX_tx_id etx = lit ''ab'' \<and> length (etx_peer_responses etx) = 1"
proof -
  obtain etx b tr' where r: "run_operations example_sys (propose True (example_builder [example_peer ''p1''])) [] =
      (Returned etx, b, tr')" using example_run by blast
  let ?b1 = "propose True (example_builder [example_peer ''p1''])"
  have "client_step example_sys (example_builder [example_peer ''p1''], []) (?b1, [])" by (rule cs_propose)
  moreover have "client_step example_sys (?b1, []) (b, tr')" by (rule cs_await) (rule r)
  ultimately have s: "(client_step example_sys)\<^sup>*\<^sup>* (example_builder [example_peer ''p1''], []) (b, tr')" by simp
  have e: "bld_endorsed_tx b = Some etx"
    using r by (cases rule: run_operations_cases [of ?b1 example_sys "[]"]) (auto split: option.splits)
  have "GeneratedTX_tx_id example_generated = lit ''ab''"
    by (simp add: GeneratedTX_tx_id_def example_generated_def example_endorsed_def)
  with builder_stays_sound [OF s] e have "EndorsedTX_tx_id etx = lit ''ab''" "length (etx_peer_responses etx) = 1"
    by simp_all
  with s e show ?thesis by blast
qed

theorem second_await_fails_witness:
  "\<exists>etx b tr'. run_operations example_sys (propose True (example_builder [example_peer ''p1''])) [] =
      (Returned etx, b, tr') \<and>
    run_operations example_sys b tr' = (Raised (BlockchainError (lit ''Transaction never proposed'')), b, tr')"
proof -
  obtain etx b tr' where r: "run_operations example_sys (propose True (example_builder [example_peer ''p1''])) [] =
      (Returned etx, b, tr')" using example_run by blast
  from second_await_fails [OF r] r show ?thesis by blast
qed

text \<open>Two peers of which the second refuses.\<close>

lemma refused_propose:
  "\<exists>etx. propose_tx refusing_sys [example_peer ''p1'', example_peer ''p2''] example_generated tr =
    (Returned etx, tr @ map (\<lambda>p. ProposalSent p (gtx_signed_proposal example_generated))
       [example_peer ''p1'', example_peer ''p2'']) \<and> \<not> fully_endorsed etx \<and> etx_peer_responses etx \<noteq> []"
proof -
  let ?ps = "[example_peer ''p1'', example_peer ''p2'']"
  have "example_peer ''p1'' \<noteq> example_peer ''p2''" by (simp add: example_peer_def)
  then have "map (endorsement refusing_sys (gtx_signed_proposal example_generated) ?ps tr) [0..<length ?ps] =
      map Returned [example_response 200 [], example_response 500 ''no'']"
    by (simp add: endorsement_def refusing_sys_def)
  then show ?thesis
    by (simp add: propose_tx_eq settle_def fully_endorsed_iff) (simp add: example_response_def)
qed

theorem failed_await_is_repeated_witness:
  "\<exists>e b b2 tr1 oc tr2. run_operations refusing_sys (propose True
      (example_builder [example_peer ''p1'', example_peer ''p2''])) [] = (Raised e, b, tr1) \<and>
    run_operations refusing_sys b tr1 = (oc, b2, tr2) \<and>
    bld_operations b = Some [Propose True] \<and>
    (\<exists>evs. tr2 = tr1 @ evs \<and> ProposalSent (example_peer ''p1'') (gtx_signed_proposal example_generated) \<in> set evs)"
proof -
  let ?b = "propose True (example_builder [example_peer ''p1'', example_peer ''p2''])"
  have ops: "bld_operations ?b = Some [Propose True]" by (simp add: propose_def)
  have gw: "bld_gateway ?b = example_gateway [example_peer ''p1'', example_peer ''p2'']"
    "bld_transaction ?b = example_generated" by (simp_all add: propose_def)
  obtain etx tr1 where "propose_tx refusing_sys [example_peer ''p1'', example_peer ''p2''] example_generated [] =
      (Returned etx, tr1)" "\<not> fully_endorsed etx" using refused_propose [of "[]"] by blast
  then obtain b where r: "run_operations refusing_sys ?b [] =
      (Raised (TransactionProposalError (lit ''A peer failed to endorse the transaction'') etx), b, tr1)"
    by (simp add: run_operations_def ops operate_propose_def gw raise_tx_proposal_error_def)
  obtain oc b2 tr2 where r2: "run_operations refusing_sys b tr1 = (oc, b2, tr2)" using prod_cases3 by blast
  from failed_await_is_repeated [OF r _ ops r2] r r2 gw show ?thesis by fastforce
qed

theorem premature_operations_refused_witness:
  "run_operations example_sys (submit (example_builder [example_peer ''p1''])) [] =
    (Raised (Py (ValueError (lit ''Must propose transaction before committing it''))),
     submit (example_builder [example_peer ''p1'']), [])"
proof -
  let ?b = "submit (example_builder [example_peer ''p1''])"
  have "bld_endorsed_tx ?b = None \<and> bld_operations ?b = Some (Submit # [])" by (simp add: submit_def)
  with premature_operations_refused [of ?b "[]" example_sys "[]" True 30] show ?thesis by blast
qed

lemma refusing_broadcast:
  "broadcast_to_orderers refusing_sys envelope [example_orderer ''o1''] i tr =
    (Returned (Some \<lparr>br_status = 200, br_info = []\<rparr>), tr @ [EnvelopeBroadcast (example_orderer ''o1'') envelope])"
  by (simp add: broadcast_to_orderers_def try_io_def broadcast_to_orderer_eq refusing_sys_def example_sys_def)

theorem unendorsed_submit_commits_witness:
  "\<exists>etx b tr2. run_operations refusing_sys (submit (propose False
      (example_builder [example_peer ''p1'', example_peer ''p2'']))) [] = (Returned etx, b, tr2) \<and>
    bld_committed b \<and> \<not> fully_endorsed etx"
proof -
  let ?ps = "[example_peer ''p1'', example_peer ''p2'']"
  obtain etx tr1 where p: "propose_tx refusing_sys (gw_endorsing_peers (example_gateway ?ps)) example_generated [] =
      (Returned etx, tr1)" and nf: "\<not> fully_endorsed etx" and ne: "etx_peer_responses etx \<noteq> []"
    using refused_propose [of "[]"] by auto
  obtain envelope tr2 where "build_endorsed_tx_envelope refusing_sys etx example_user tr1 = (Returned envelope, tr2)"
    using build_endorsed_tx_envelope_total [OF ne example_user_ready] by blast
  then obtain r tr3 where c: "commit_tx refusing_sys example_user (gw_orderers (example_gateway ?ps)) etx tr1 =
      (Returned r, tr3)" by (simp add: commit_tx_def bind_io_def refusing_broadcast)
  from unendorsed_submit_commits [OF _ p nf c] nf show ?thesis by auto
qed

end
