(* ===== verification/Channel_Operations.thy ===== *)
theory Channel_Operations
  imports Transact
begin

text \<open>
  Creating and joining channels (\<open>create_channel\<close> and \<open>join_channel\<close> of
  \<open>src/snakeskin/operations.py\<close>).
\<close>

section \<open>Operations\<close>

definition read_file :: "sys \<Rightarrow> pystr \<Rightarrow> bytes io" where
  "read_file S path = bind_io (emit (FileRead path)) (\<lambda>_. lift_res (sys_fs S path))"

definition create_channel :: "sys \<Rightarrow> User \<Rightarrow> Orderer list \<Rightarrow> Channel \<Rightarrow> pystr \<Rightarrow> unit io" where
  "create_channel S requestor ords channel tx_file_path =
    bind_io (read_file S tx_file_path) (\<lambda>content.
    bind_io (lift_res (FromString (pb_Envelope (sys_pb S)) content)) (\<lambda>env.
    bind_io (lift_res (FromString (pb_Payload (sys_pb S)) (env_payload env))) (\<lambda>payload.
    bind_io (lift_res (FromString (pb_ConfigUpdateEnvelope (sys_pb S)) (pl_data payload))) (\<lambda>configtx.
    bind_io (tx_context_from_user (sys_pb S) requestor) (\<lambda>ctx.
    bind_io (build_config_update_envelope S channel ctx requestor (cue_config_update configtx)) (\<lambda>envelope.
    bind_io (broadcast_to_orderers S envelope ords (txc_tx_id ctx)) (\<lambda>_.
      return_io ())))))))"

text \<open>\<open>async for block in events.stream_blocks(start=0, stop=0): break\<close>\<close>

fun first_block :: "'block stream \<Rightarrow> 'block option io" where
  "first_block ((d, b) # rest, fin) = return_io (Some b)"
| "first_block ([], d, Closed) = return_io None"
| "first_block ([], d, Failed e) = raise_io e"
| "first_block ([], d, Pending) = block_io"

definition origin_block :: "sys \<Rightarrow> User \<Rightarrow> Channel \<Rightarrow> Orderer \<Rightarrow> RawBlock option io" where
  "origin_block S requestor channel ord =
    bind_io (stream_blocks S (OrdererEvents requestor channel ord) (Some 0) (Some 0) BlockUntilReady) first_block"

text \<open>The loop over the orderers, with the local variables \<open>block\<close> and \<open>conn_error\<close>.\<close>

fun origin_loop ::
  "sys \<Rightarrow> User \<Rightarrow> Channel \<Rightarrow> Orderer list \<Rightarrow> RawBlock option \<Rightarrow> exn option \<Rightarrow> (RawBlock option \<times> exn option) io" where
  "origin_loop S requestor channel [] blk err = return_io (blk, err)"
| "origin_loop S requestor channel (ord # ords) blk err =
    bind_io
      (try_io
        (bind_io (origin_block S requestor channel ord) (\<lambda>b.
           return_io (case b of None \<Rightarrow> blk | Some x \<Rightarrow> Some x, err)))
        (\<lambda>e. if is_ConnectionError e then return_io (blk, Some e) else raise_io e))
      (\<lambda>r. origin_loop S requestor channel ords (fst r) (snd r))"

definition join_channel :: "sys \<Rightarrow> User \<Rightarrow> Orderer list \<Rightarrow> Channel \<Rightarrow> Peer \<Rightarrow> unit io" where
  "join_channel S requestor ords channel peer =
    bind_io (guard_io (ords \<noteq> []) (ValueError (lit ''Must provide at least one orderer''))) (\<lambda>_.
    bind_io (origin_loop S requestor channel ords None None) (\<lambda>r.
    bind_io (case snd r of None \<Rightarrow> return_io () | Some e \<Rightarrow> raise_io e) (\<lambda>_.
    bind_io (lift_exn (of_option
      (BlockRetrievalError (lit ''Could not retrieve channel origin block from orderer'') None) (fst r))) (\<lambda>blk.
    bind_io (lift_res (encode_proto_bytes (lit ''JoinChain''))) (\<lambda>fcn.
    bind_io (build_generated_tx S requestor (lit ''cscc'')
      [fcn, ser (pb_Block (sys_pb S)) (RawBlock_as_proto blk)] None None) (\<lambda>generated_tx.
    bind_io (propose_tx S [peer] generated_tx) (\<lambda>etx.
    lift_exn (raise_tx_proposal_error etx
      (lit ''Failed to join peer '' @ opt_text (peer_name peer) @ lit '' to channel '' @ channel_name channel)))))))))"

section \<open>Creating\<close>

lemma decode_built_config_update:
  assumes "runtime_ok (sys_pb S)"
    and "build_config_update_envelope S channel ctx u bs tr = (Returned env, tr')"
    and "FromString (pb_ConfigUpdate (sys_pb S)) bs = Inr cu"
  shows "\<exists>d chdr s. DecodedTX_decode (sys_pb S) (ser (pb_Envelope (sys_pb S)) env) = Inr d \<and>
    d = \<lparr>dtx_signature = env_signature env, dtx_payload = \<lparr>dp_header =
          \<lparr>dh_channel_header = chdr, dh_signature_header =
             \<lparr>dsh_creator = txc_identity ctx, dsh_nonce = txc_nonce ctx\<rparr>\<rparr>,
        dp_data = ConfigUpdateData \<lparr>dcue_config_update = cu, dcue_signatures =
          [\<lparr>dcus_signature_header = \<lparr>dsh_creator = txc_identity ctx, dsh_nonce = txc_nonce ctx\<rparr>,
            dcus_signature = s\<rparr>]\<rparr>\<rparr>\<rparr> \<and>
    ch_tx_id chdr = txc_tx_id ctx \<and> encode_proto_str (channel_name channel) = Inr (ch_channel_id chdr) \<and>
    (\<exists>k. private_key u = Some k \<and> sign_message (user_suite u) (length tr) k
      (ser (pb_SignatureHeader (sys_pb S)) (signature_header (sys_pb S) ctx) @ bs) = Inr s)"
proof -
  let ?pb = "sys_pb S"
  let ?hb = "ser (pb_SignatureHeader ?pb) (signature_header ?pb ctx)"
  let ?data = "\<lambda>s. ser (pb_ConfigUpdateEnvelope ?pb) \<lparr>cue_config_update = bs,
      cue_signatures = [\<lparr>csig_signature_header = ?hb, csig_signature = s\<rparr>]\<rparr>"
  from assms(2) obtain s tr1 where s: "sign u (?hb @ bs) tr = (Returned s, tr1)" and
    e: "build_envelope S u ctx (?data s) (Some channel) None None TT_ConfigUpdate tr1 = (Returned env, tr')"
    by (auto simp: build_config_update_envelope_def Let_def bind_Returned_iff)
  from build_envelope_Returned_D [OF e] obtain h where
    h: "build_header S ctx (Some channel) None TT_ConfigUpdate None tr1 = (Returned h, tr1 @ [ClockRead])" and
    pl: "env_payload env = ser (pb_Payload ?pb) \<lparr>pl_header = h, pl_data = ?data s\<rparr>" by blast
  from decode_built_header [OF assms(1) h] obtain chdr where
    dh: "decode_header ?pb h = Inr \<lparr>dh_channel_header = chdr,
      dh_signature_header = \<lparr>dsh_creator = txc_identity ctx, dsh_nonce = txc_nonce ctx\<rparr>\<rparr>" and
    ch: "ch_tx_id chdr = txc_tx_id ctx" "ch_type chdr = TransactionType_value TT_ConfigUpdate"
      "encode_proto_str (channel_name channel) = Inr (ch_channel_id chdr)"
    by (auto simp: channel_text_def)
  have "decode_signature_header ?pb ?hb = Inr \<lparr>dsh_creator = txc_identity ctx, dsh_nonce = txc_nonce ctx\<rparr>"
    using runtime_okD [OF assms(1)] by (simp add: decode_signature_header_def signature_header_def)
  then have body: "decode_payload_data ?pb TT_ConfigUpdate (?data s) =
      Inr (ConfigUpdateData \<lparr>dcue_config_update = cu, dcue_signatures =
          [\<lparr>dcus_signature_header = \<lparr>dsh_creator = txc_identity ctx, dsh_nonce = txc_nonce ctx\<rparr>,
            dcus_signature = s\<rparr>]\<rparr>)"
    using runtime_okD [OF assms(1)] assms(3)
    by (simp add: decode_payload_data_def decode_config_update_envelope_def)
  have "env = \<lparr>env_payload = ser (pb_Payload ?pb) \<lparr>pl_header = h, pl_data = ?data s\<rparr>,
      env_signature = env_signature env\<rparr>" using pl by (cases env) simp
  with decode_transaction_envelope [OF assms(1) dh, of TT_ConfigUpdate "?data s" "env_signature env"] ch(2) body
  have "DecodedTX_decode ?pb (ser (pb_Envelope ?pb) env) = Inr
      \<lparr>dtx_signature = env_signature env, dtx_payload = \<lparr>dp_header =
          \<lparr>dh_channel_header = chdr, dh_signature_header =
             \<lparr>dsh_creator = txc_identity ctx, dsh_nonce = txc_nonce ctx\<rparr>\<rparr>,
        dp_data = ConfigUpdateData \<lparr>dcue_config_update = cu, dcue_signatures =
          [\<lparr>dcus_signature_header = \<lparr>dsh_creator = txc_identity ctx, dsh_nonce = txc_nonce ctx\<rparr>,
            dcus_signature = s\<rparr>]\<rparr>\<rparr>\<rparr>"
    by (metis (no_types, lifting) DecodedHeader.select_convs(1) TransactionType_of_value bind_res.simps(2))
  then show ?thesis using ch(1,3) s by (auto simp: sign_Returned_iff)
qed

lemma create_channel_Returned_D:
  assumes "create_channel S u ords channel path tr = (Returned x, tr')"
  shows "\<exists>content env payload cue ctx tr1 envelope tr2 r. sys_fs S path = Inr content \<and>
    des (pb_Envelope (sys_pb S)) content = Some env \<and>
    des (pb_Payload (sys_pb S)) (env_payload env) = Some payload \<and>
    des (pb_ConfigUpdateEnvelope (sys_pb S)) (pl_data payload) = Some cue \<and>
    tx_context_from_user (sys_pb S) u (tr @ [FileRead path]) = (Returned ctx, tr1) \<and>
    build_config_update_envelope S channel ctx u (cue_config_update cue) tr1 = (Returned envelope, tr2) \<and>
    broadcast_to_orderers S envelope ords (txc_tx_id ctx) tr2 = (Returned r, tr')"
  using assms by (auto simp: create_channel_def read_file_def bind_Returned_iff)

lemma config_envelope_signed:
  assumes "build_config_update_envelope S channel ctx u bs tr = (Returned env, tr')"
  shows "\<exists>key seed. private_key u = Some key \<and>
    sign_message (user_suite u) seed key (env_payload env) = Inr (env_signature env)"
  using assms by (auto simp: build_config_update_envelope_def Let_def bind_Returned_iff sign_Returned_iff
      dest!: build_envelope_Returned_D)

text \<open>
  C20. What creating a channel sends when it returns. The file is read and parsed down to its
  configuration update; one envelope is made, signed by the requestor over the bytes of its
  whole payload, and goes to the orderers in order up to the first that does not fail to
  connect, and to no other; that one answers with status 200 or closes its stream without an
  answer. When the update in the file parses, the envelope decodes as that same update for the
  given channel, with one signature, the requestor's over signature header and the update's
  bytes as the file has them.
\<close>

theorem create_channel_sends_update:
  assumes "runtime_ok (sys_pb S)"
    and "create_channel S u ords channel path tr = (Returned x, tr')"
  shows "\<exists>content env payload cue envelope key seed evs tx_id k r. sys_fs S path = Inr content \<and>
    des (pb_Envelope (sys_pb S)) content = Some env \<and>
    des (pb_Payload (sys_pb S)) (env_payload env) = Some payload \<and>
    des (pb_ConfigUpdateEnvelope (sys_pb S)) (pl_data payload) = Some cue \<and>
    private_key u = Some key \<and>
    sign_message (user_suite u) seed key (env_payload envelope) = Inr (env_signature envelope) \<and>
    list_all local_event evs \<and> k < length ords \<and>
    tr' = tr @ FileRead path # evs @ map (\<lambda>ord. EnvelopeBroadcast ord envelope) (take (Suc k) ords) \<and>
    (\<forall>i < k. connection_failed (attempt S envelope tx_id ords (tr @ FileRead path # evs) i)) \<and>
    attempt S envelope tx_id ords (tr @ FileRead path # evs) k = Returned r \<and>
    (\<forall>resp. r = Some resp \<longrightarrow> br_status resp = 200) \<and>
    (\<forall>cu. des (pb_ConfigUpdate (sys_pb S)) (cue_config_update cue) = Some cu \<longrightarrow>
      (\<exists>d sg seed' header_bytes. DecodedTX_decode (sys_pb S) (ser (pb_Envelope (sys_pb S)) envelope) = Inr d \<and>
        dtx_signature d = env_signature envelope \<and>
        dp_data (dtx_payload d) = ConfigUpdateData \<lparr>dcue_config_update = cu, dcue_signatures = [sg]\<rparr> \<and>
        dsh_creator (dcus_signature_header sg) = user_identity u \<and>
        sign_message (user_suite u) seed' key (header_bytes @ cue_config_update cue) = Inr (dcus_signature sg) \<and>
        decode_signature_header (sys_pb S) header_bytes = Inr (dcus_signature_header sg) \<and>
        ch_tx_id (dh_channel_header (dp_header (dtx_payload d))) = tx_id \<and>
        encode_proto_str (channel_name channel) =
          Inr (ch_channel_id (dh_channel_header (dp_header (dtx_payload d))))))"
proof -
  from create_channel_Returned_D [OF assms(2)] obtain content env payload cue ctx tr1 envelope tr2 r where
    parsed: "sys_fs S path = Inr content" "des (pb_Envelope (sys_pb S)) content = Some env"
      "des (pb_Payload (sys_pb S)) (env_payload env) = Some payload"
      "des (pb_ConfigUpdateEnvelope (sys_pb S)) (pl_data payload) = Some cue" and
    ctx: "tx_context_from_user (sys_pb S) u (tr @ [FileRead path]) = (Returned ctx, tr1)" and
    be: "build_config_update_envelope S channel ctx u (cue_config_update cue) tr1 = (Returned envelope, tr2)" and
    br: "broadcast_to_orderers S envelope ords (txc_tx_id ctx) tr2 = (Returned r, tr')" by blast
  have ident: "txc_identity ctx = user_identity u" using ctx by (auto simp: tx_context_Returned_iff)
  have "emits local_event (build_config_update_envelope S channel ctx u (cue_config_update cue))"
    by (rule emits_factories)
  from emitsD [OF this be] obtain evs2 where "tr2 = tr1 @ evs2" "list_all local_event evs2" .
  moreover obtain b where "tr1 = tr @ FileRead path # [NonceDrawn b]" using ctx by (auto simp: tx_context_Returned_iff)
  ultimately obtain evs where tr2: "tr2 = tr @ FileRead path # evs" and evs: "list_all local_event evs"
    using that [of "NonceDrawn b # evs2"] by simp
  from broadcast_Returned_D [OF br] obtain k where
    k: "k < length ords" "attempt S envelope (txc_tx_id ctx) ords tr2 k = Returned r"
      "tr' = tr2 @ map (\<lambda>ord. EnvelopeBroadcast ord envelope) (take (Suc k) ords)"
      "\<forall>i < k. connection_failed (attempt S envelope (txc_tx_id ctx) ords tr2 i)"
      "\<forall>resp. r = Some resp \<longrightarrow> br_status resp = 200" by blast
  have tr': "tr' = tr @ FileRead path # evs @ map (\<lambda>ord. EnvelopeBroadcast ord envelope) (take (Suc k) ords)"
    by (simp add: k(3) tr2)
  from config_envelope_signed [OF be] obtain key seed where
    key: "private_key u = Some key" "sign_message (user_suite u) seed key (env_payload envelope) = Inr (env_signature envelope)"
    by blast
  have hb: "decode_signature_header (sys_pb S) (ser (pb_SignatureHeader (sys_pb S)) (signature_header (sys_pb S) ctx)) =
      Inr \<lparr>dsh_creator = user_identity u, dsh_nonce = txc_nonce ctx\<rparr>"
    using runtime_okD [OF assms(1)] ident by (simp add: decode_signature_header_def signature_header_def)
  have dec: "\<exists>d sg seed' header_bytes. DecodedTX_decode (sys_pb S) (ser (pb_Envelope (sys_pb S)) envelope) = Inr d \<and>
        dtx_signature d = env_signature envelope \<and>
        dp_data (dtx_payload d) = ConfigUpdateData \<lparr>dcue_config_update = cu, dcue_signatures = [sg]\<rparr> \<and>
        dsh_creator (dcus_signature_header sg) = user_identity u \<and>
        sign_message (user_suite u) seed' key (header_bytes @ cue_config_update cue) = Inr (dcus_signature sg) \<and>
        decode_signature_header (sys_pb S) header_bytes = Inr (dcus_signature_header sg) \<and>
        ch_tx_id (dh_channel_header (dp_header (dtx_payload d))) = txc_tx_id ctx \<and>
        encode_proto_str (channel_name channel) =
          Inr (ch_channel_id (dh_channel_header (dp_header (dtx_payload d))))"
    if "des (pb_ConfigUpdate (sys_pb S)) (cue_config_update cue) = Some cu" for cu
  proof -
    from that have "FromString (pb_ConfigUpdate (sys_pb S)) (cue_config_update cue) = Inr cu" by simp
    from decode_built_config_update [OF assms(1) be this] obtain d chdr s where
      d: "DecodedTX_decode (sys_pb S) (ser (pb_Envelope (sys_pb S)) envelope) = Inr d"
        "d = \<lparr>dtx_signature = env_signature envelope, dtx_payload = \<lparr>dp_header =
          \<lparr>dh_channel_header = chdr, dh_signature_header =
             \<lparr>dsh_creator = txc_identity ctx, dsh_nonce = txc_nonce ctx\<rparr>\<rparr>,
        dp_data = ConfigUpdateData \<lparr>dcue_config_update = cu, dcue_signatures =
          [\<lparr>dcus_signature_header = \<lparr>dsh_creator = txc_identity ctx, dsh_nonce = txc_nonce ctx\<rparr>,
            dcus_signature = s\<rparr>]\<rparr>\<rparr>\<rparr>"
        "ch_tx_id chdr = txc_tx_id ctx" "encode_proto_str (channel_name channel) = Inr (ch_channel_id chdr)"
        "\<exists>k. private_key u = Some k \<and> sign_message (user_suite u) (length tr1) k
          (ser (pb_SignatureHeader (sys_pb S)) (signature_header (sys_pb S) ctx) @ cue_config_update cue) = Inr s"
      by blast
    with hb ident key(1) show ?thesis by (intro exI conjI) (rule d(1), auto)
  qed
  show ?thesis
    using parsed key evs k(1,5) tr' k(2,4) [unfolded tr2] dec
    by (intro exI [of _ content] exI [of _ env] exI [of _ payload] exI [of _ cue] exI [of _ envelope] exI [of _ key]
        exI [of _ seed] exI [of _ evs] exI [of _ "txc_tx_id ctx"] exI [of _ k] exI [of _ r] conjI allI impI)
      (assumption | blast)+
qed

section \<open>Joining\<close>

text \<open>When the loop ends without a connection error, no orderer's stream failed to connect.\<close>

lemma origin_loop_no_error:
  "origin_loop S u channel ords blk err tr = (Returned (b, None), tr') \<Longrightarrow>
    err = None \<and> (\<forall>ord \<in> set ords. \<exists>t x t'. origin_block S u channel ord t = (Returned x, t'))"
proof (induction ords arbitrary: blk err tr)
  case (Cons ord ords)
  from Cons.prems obtain r tr1 where
    step: "try_io (bind_io (origin_block S u channel ord) (\<lambda>b.
           return_io (case b of None \<Rightarrow> blk | Some x \<Rightarrow> Some x, err)))
        (\<lambda>e. if is_ConnectionError e then return_io (blk, Some e) else raise_io e) tr = (Returned r, tr1)" and
    rest: "origin_loop S u channel ords (fst r) (snd r) tr1 = (Returned (b, None), tr')"
    by (auto simp: bind_Returned_iff)
  from Cons.IH [OF rest] have "snd r = None"
    "\<forall>ord \<in> set ords. \<exists>t x t'. origin_block S u channel ord t = (Returned x, t')" by simp_all
  moreover from step this(1) have "err = None \<and> (\<exists>x. origin_block S u channel ord tr = (Returned x, tr1))"
    by (auto simp: try_Returned_iff bind_Returned_iff split: if_splits)
  ultimately show ?case by auto
qed simp

lemma join_channel_Returned_D:
  assumes "join_channel S u ords channel peer tr = (Returned x, tr')"
  shows "\<exists>blk tr1 fcn g tr2 etx. origin_loop S u channel ords None None tr = (Returned (Some blk, None), tr1) \<and>
    encode_proto_bytes (lit ''JoinChain'') = Inr fcn \<and>
    build_generated_tx S u (lit ''cscc'') [fcn, ser (pb_Block (sys_pb S)) (RawBlock_as_proto blk)] None None tr1 =
      (Returned g, tr2) \<and>
    propose_tx S [peer] g tr2 = (Returned etx, tr') \<and> fully_endorsed etx"
proof -
  from assms obtain r tr1 where loop: "origin_loop S u channel ords None None tr = (Returned r, tr1)" and
    rest: "bind_io (case snd r of None \<Rightarrow> return_io () | Some e \<Rightarrow> raise_io e) (\<lambda>_.
      bind_io (lift_exn (of_option
        (BlockRetrievalError (lit ''Could not retrieve channel origin block from orderer'') None) (fst r))) (\<lambda>blk.
      bind_io (lift_res (encode_proto_bytes (lit ''JoinChain''))) (\<lambda>fcn.
      bind_io (build_generated_tx S u (lit ''cscc'')
        [fcn, ser (pb_Block (sys_pb S)) (RawBlock_as_proto blk)] None None) (\<lambda>generated_tx.
      bind_io (propose_tx S [peer] generated_tx) (\<lambda>etx.
      lift_exn (raise_tx_proposal_error etx
        (lit ''Failed to join peer '' @ opt_text (peer_name peer) @ lit '' to channel '' @ channel_name channel)))))))
      tr1 = (Returned x, tr')"
    by (auto simp: join_channel_def bind_Returned_iff)
  from rest have none: "snd r = None" by (cases "snd r") simp_all
  with rest obtain blk where blk: "fst r = Some blk" by (auto simp: bind_Returned_iff)
  with none loop have "origin_loop S u channel ords None None tr = (Returned (Some blk, None), tr1)"
    by (metis prod.collapse)
  with rest none blk show ?thesis
    by (auto simp: bind_Returned_iff raise_tx_proposal_error_iff)
qed

text \<open>
  All orderers asked in turn, the answer of each being the first block of its stream or none
  if it closed empty.
\<close>

inductive delivered ::
  "(Orderer \<Rightarrow> RawBlock option io) \<Rightarrow> Orderer list \<Rightarrow> trace \<Rightarrow> RawBlock option list \<Rightarrow> trace \<Rightarrow> bool" for ask where
  asked_none: "delivered ask [] tr [] tr"
| asked_one: "delivered ask (ord # ords) tr (b # bs) tr''"
    if "ask ord tr = (Returned b, tr')" "delivered ask ords tr' bs tr''"

inductive_simps delivered_simps [simp]:
  "delivered ask [] tr bs tr'" "delivered ask (ord # ords) tr bs tr'"

text \<open>The block that is left in the variable: the last one delivered.\<close>

fun last_block :: "RawBlock option \<Rightarrow> RawBlock option list \<Rightarrow> RawBlock option" where
  "last_block blk [] = blk"
| "last_block blk (None # bs) = last_block blk bs"
| "last_block blk (Some b # bs) = last_block (Some b) bs"

lemma origin_loop_delivered_iff:
  "origin_loop S u channel ords blk None tr = (Returned (b, None), tr') \<longleftrightarrow>
    (\<exists>bs. delivered (origin_block S u channel) ords tr bs tr' \<and> b = last_block blk bs)"
proof (induction ords arbitrary: blk tr)
  case (Cons ord ords)
  let ?step = "try_io (bind_io (origin_block S u channel ord) (\<lambda>b.
           return_io (case b of None \<Rightarrow> blk | Some x \<Rightarrow> Some x, None)))
        (\<lambda>e. if is_ConnectionError e then return_io (blk, Some e) else raise_io e)"
  have loop: "origin_loop S u channel (ord # ords) blk None tr = (Returned (b, None), tr') \<longleftrightarrow>
      (\<exists>x tr1. origin_block S u channel ord tr = (Returned x, tr1) \<and>
        origin_loop S u channel ords (case x of None \<Rightarrow> blk | Some y \<Rightarrow> Some y) None tr1 = (Returned (b, None), tr'))"
    (is "?l \<longleftrightarrow> ?r")
  proof
    assume ?l
    then obtain r tr1 where st: "?step tr = (Returned r, tr1)" and
      rest: "origin_loop S u channel ords (fst r) (snd r) tr1 = (Returned (b, None), tr')"
      by (auto simp: bind_Returned_iff)
    from origin_loop_no_error [OF rest] have "snd r = None" by blast
    with st rest show ?r by (auto simp: try_Returned_iff bind_Returned_iff split: if_splits)
  next
    assume ?r
    then obtain x tr1 where x: "origin_block S u channel ord tr = (Returned x, tr1)" and
      rest: "origin_loop S u channel ords (case x of None \<Rightarrow> blk | Some y \<Rightarrow> Some y) None tr1 = (Returned (b, None), tr')"
      by blast
    from x have "?step tr = (Returned (case x of None \<Rightarrow> blk | Some y \<Rightarrow> Some y, None), tr1)"
      by (simp add: try_io_def bind_io_def io_eval)
    with rest show ?l by (simp add: bind_io_eval)
  qed
  have last: "last_block blk (x # bs) = last_block (case x of None \<Rightarrow> blk | Some y \<Rightarrow> Some y) bs" for x bs
    by (cases x) simp_all
  show ?case unfolding loop Cons.IH by (fastforce simp: last)
qed auto

lemma split_Cons_iff:
  "(\<exists>us vs. x # bs = us @ y # vs \<and> P vs) \<longleftrightarrow> x = y \<and> P bs \<or> (\<exists>us vs. bs = us @ y # vs \<and> P vs)"
  by (simp add: Cons_eq_append_conv) blast

lemma last_block_Some_iff:
  "last_block None bs = Some b \<longleftrightarrow> (\<exists>us vs. bs = us @ Some b # vs \<and> set vs \<subseteq> {None})"
proof -
  have "last_block x bs = Some b \<longleftrightarrow>
      (\<exists>us vs. bs = us @ Some b # vs \<and> set vs \<subseteq> {None}) \<or> (x = Some b \<and> set bs \<subseteq> {None})" for x
    by (induction x bs rule: last_block.induct) (auto simp: split_Cons_iff)
  then show ?thesis by simp
qed

lemma propose_to_one:
  "propose_tx S [peer] g tr = (Returned etx, tr') \<and> fully_endorsed etx \<longleftrightarrow>
    (\<exists>resp. sys_ProcessProposal S tr peer (gtx_signed_proposal g) = Returned resp \<and> status_of resp = 200 \<and>
      etx = \<lparr>etx_peer_responses = [resp], etx_proposal = gtx_proposal g, etx_header = gtx_header g,
        etx_tx_context = gtx_tx_context g\<rparr> \<and>
      tr' = tr @ [ProposalSent peer (gtx_signed_proposal g)])"
proof -
  have one: "settle c [Returned resp] = Returned [resp]" for c and resp :: ProposalResponse
    by (simp add: settle_Returned_iff)
  show ?thesis
    by (auto simp: propose_tx_eq endorsement_def settle_Returned_iff fully_endorsed_iff Cons_eq_map_conv one
        split: outcome.splits)
qed

text \<open>
  C19. When joining a channel returns. Exactly when every listed orderer answers the request for
  the origin block, at least one of them with a block, and the peer endorses the join
  transaction with status 200. The transaction calls \<open>JoinChain\<close> of \<open>cscc\<close> with the block that
  the last of those orderers delivered, under no channel; it goes to that peer only, and is the
  last thing that is sent.
\<close>

theorem join_channel_returns_iff:
  "join_channel S u ords channel peer tr = (Returned (), tr') \<longleftrightarrow>
    ords \<noteq> [] \<and>
    (\<exists>us blk vs tr1 g tr2 resp.
      delivered (origin_block S u channel) ords tr (us @ Some blk # vs) tr1 \<and> set vs \<subseteq> {None} \<and>
      build_generated_tx S u (lit ''cscc'')
        [map of_nat (lit ''JoinChain''), ser (pb_Block (sys_pb S)) (RawBlock_as_proto blk)] None None tr1 =
        (Returned g, tr2) \<and>
      sys_ProcessProposal S tr2 peer (gtx_signed_proposal g) = Returned resp \<and> status_of resp = 200 \<and>
      tr' = tr2 @ [ProposalSent peer (gtx_signed_proposal g)])"
    (is "?L \<longleftrightarrow> ?R")
proof
  let ?fcn = "map of_nat (lit ''JoinChain'') :: bytes"
  have fcn: "encode_proto_bytes (lit ''JoinChain'') = Inr ?fcn"
    by (simp add: encode_proto_bytes_def latin1_encode_def)
  {
    assume ?L
    from join_channel_Returned_D [OF this] obtain blk tr1 g tr2 etx where
      loop: "origin_loop S u channel ords None None tr = (Returned (Some blk, None), tr1)" and
      g: "build_generated_tx S u (lit ''cscc'') [?fcn, ser (pb_Block (sys_pb S)) (RawBlock_as_proto blk)] None None tr1 =
        (Returned g, tr2)" and p: "propose_tx S [peer] g tr2 = (Returned etx, tr') \<and> fully_endorsed etx"
      unfolding fcn by auto
    from \<open>?L\<close> have "ords \<noteq> []" by (auto simp: join_channel_def)
    with loop [unfolded origin_loop_delivered_iff] g p [unfolded propose_to_one] show ?R
      by (auto simp: eq_commute [of "Some blk"] last_block_Some_iff) blast
  next
    assume ?R
    then obtain us blk vs tr1 g tr2 resp where ne: "ords \<noteq> []" and
      d: "delivered (origin_block S u channel) ords tr (us @ Some blk # vs) tr1" "set vs \<subseteq> {None}" and
      g: "build_generated_tx S u (lit ''cscc'') [?fcn, ser (pb_Block (sys_pb S)) (RawBlock_as_proto blk)] None None tr1 =
        (Returned g, tr2)" and
      r: "sys_ProcessProposal S tr2 peer (gtx_signed_proposal g) = Returned resp" "status_of resp = 200"
        "tr' = tr2 @ [ProposalSent peer (gtx_signed_proposal g)]" by blast
    from d have "last_block None (us @ Some blk # vs) = Some blk" unfolding last_block_Some_iff by blast
    with d(1) have loop: "origin_loop S u channel ords None None tr = (Returned (Some blk, None), tr1)"
      unfolding origin_loop_delivered_iff by metis
    from r obtain etx where p: "propose_tx S [peer] g tr2 = (Returned etx, tr')" "fully_endorsed etx"
      using propose_to_one by blast
    show ?L
      using ne unfolding join_channel_def fcn
      by (simp add: guard_io_bind bind_io_def loop g [simplified] p raise_tx_proposal_error_def require_def io_eval)
  }
qed

text \<open>
  Joining a channel succeeds only if every listed orderer answered the request for the
  origin block without a connection error, not just one of them, and then the peer alone
  was proposed the join transaction with the origin block and endorsed it with status 200.
\<close>

theorem join_channel_needs_every_orderer:
  assumes "join_channel S u ords channel peer tr = (Returned x, tr')"
  shows "ords \<noteq> [] \<and> (\<forall>ord \<in> set ords. \<exists>t y t'. origin_block S u channel ord t = (Returned y, t')) \<and>
    (\<exists>blk tr1 fcn g tr2 resp. origin_loop S u channel ords None None tr = (Returned (Some blk, None), tr1) \<and>
      bytes_nats fcn = lit ''JoinChain'' \<and>
      build_generated_tx S u (lit ''cscc'') [fcn, ser (pb_Block (sys_pb S)) (RawBlock_as_proto blk)] None None tr1 =
        (Returned g, tr2) \<and>
      endorsement S (gtx_signed_proposal g) [peer] tr2 0 = Returned resp \<and> status_of resp = 200 \<and>
      tr' = tr2 @ [ProposalSent peer (gtx_signed_proposal g)])"
proof -
  from join_channel_Returned_D [OF assms] obtain blk tr1 fcn g tr2 etx where
    loop: "origin_loop S u channel ords None None tr = (Returned (Some blk, None), tr1)" and
    fcn: "encode_proto_bytes (lit ''JoinChain'') = Inr fcn" and
    gen: "build_generated_tx S u (lit ''cscc'') [fcn, ser (pb_Block (sys_pb S)) (RawBlock_as_proto blk)] None None tr1 =
      (Returned g, tr2)" and
    pr: "propose_tx S [peer] g tr2 = (Returned etx, tr')" and fe: "fully_endorsed etx" by blast
  have ne: "ords \<noteq> []" using assms by (auto simp: join_channel_def)
  from fcn have "bytes_nats fcn = lit ''JoinChain''" by (simp add: encode_proto_bytes_def latin1_encode_Inr_iff)
  moreover from propose_tx_Returned_D [OF pr] fe
  have "endorsement S (gtx_signed_proposal g) [peer] tr2 0 = Returned (etx_peer_responses etx ! 0) \<and>
      status_of (etx_peer_responses etx ! 0) = 200 \<and> tr' = tr2 @ [ProposalSent peer (gtx_signed_proposal g)]"
    by (simp add: fully_endorsed_iff)
  ultimately show ?thesis using ne origin_loop_no_error [OF loop] loop gen by blast
qed

text \<open>
  One unreachable orderer makes joining fail although another one has delivered the origin
  block, whichever of them is asked first: the connection error is raised and the peer is
  not sent anything.
\<close>

theorem join_channel_one_orderer_down:
  assumes "origin_block S u channel o1 tr = (oc1, tr1)" "origin_block S u channel o2 tr1 = (oc2, tr2)"
    and "oc1 = Raised e \<and> oc2 = Returned (Some b) \<or> oc1 = Returned (Some b) \<and> oc2 = Raised e"
    and "is_ConnectionError e"
  shows "join_channel S u [o1, o2] channel peer tr = (Raised e, tr2) \<and>
    filter (\<lambda>v. \<exists>p sp. v = ProposalSent p sp) tr2 = filter (\<lambda>v. \<exists>p sp. v = ProposalSent p sp) tr"
proof
  show "join_channel S u [o1, o2] channel peer tr = (Raised e, tr2)"
    using assms by (auto simp: join_channel_def bind_io_def try_io_def io_eval)
next
  let ?P = "\<lambda>v. local_event v \<or> (\<exists>m envelope. v = DeliverRequested m envelope)"
  let ?Q = "\<lambda>v. \<exists>p sp. v = ProposalSent p sp"
  have "emits ?P (first_block s)" for s :: "RawBlock stream"
    by (cases s rule: first_block.cases) (simp_all add: emits_intros)
  then have em: "emits ?P (origin_block S u channel ord)" for ord
    unfolding origin_block_def by (intro emits_intros) auto
  have out: "\<not> ?Q v" if "?P v" for v using that by auto
  from emits_filter [OF em assms(1) out] emits_filter [OF em assms(2) out]
  show "filter ?Q tr2 = filter ?Q tr" by simp
qed

section \<open>Examples\<close>

text \<open>
  A world with the transaction file of a channel, and orderers that deliver a block; in a
  variant the orderer \<open>o1\<close> is down.
\<close>

definition example_config_update :: ConfigUpdate where
  "example_config_update = \<lparr>cu_channel_id = lit ''mychannel'', cu_read_set = ConfigGroup 0 [] [] [] [],
     cu_write_set = ConfigGroup 0 [] [] [] [], cu_isolated_data = []\<rparr>"

definition example_tx_file :: bytes where
  "example_tx_file = ser (pb_Envelope reference_runtime)
     \<lparr>env_payload = ser (pb_Payload reference_runtime)
        \<lparr>pl_header = \<lparr>hdr_channel_header = [], hdr_signature_header = []\<rparr>,
         pl_data = ser (pb_ConfigUpdateEnvelope reference_runtime)
           \<lparr>cue_config_update = ser (pb_ConfigUpdate reference_runtime) example_config_update,
            cue_signatures = []\<rparr>\<rparr>,
      env_signature = []\<rparr>"

definition channel_sys :: sys where
  "channel_sys = example_sys\<lparr>sys_fs := (\<lambda>p. Inr example_tx_file),
     sys_Deliver := (\<lambda>tr m envelope. ([(5, DeliverBlock default_Block)], 0, Pending))\<rparr>"

definition orderer_down_sys :: sys where
  "orderer_down_sys = channel_sys\<lparr>sys_Deliver := (\<lambda>tr m envelope.
     if m = OrdererDeliver (example_orderer ''o1'') then ([], 0, Failed (RpcError (lit ''UNAVAILABLE'') []))
     else ([(5, DeliverBlock default_Block)], 0, Pending))\<rparr>"

lemma channel_sys_pb [simp]: "sys_pb channel_sys = reference_runtime" "sys_pb orderer_down_sys = reference_runtime"
  by (simp_all add: channel_sys_def orderer_down_sys_def example_sys_def)

lemma example_origin_block:
  assumes "sys_pb S = reference_runtime"
    and "\<forall>tr envelope. sys_Deliver S tr (OrdererDeliver (example_orderer n)) envelope = (bs, fin)"
  shows "\<exists>tr1. origin_block S example_user example_channel (example_orderer n) tr =
    first_block (blocks_of (OrdererEvents example_user example_channel (example_orderer n)) bs fin) tr1"
proof -
  let ?hub = "OrdererEvents example_user example_channel (example_orderer n)"
  have "runtime_ok (sys_pb S)" by (simp add: assms(1) reference_runtime_ok)
  moreover have "seekable (Some 0) \<and> seekable (Some 0)" by simp
  moreover have "encode_proto_str (channel_name (hub_channel ?hub)) = Inr (lit ''mychannel'')"
    using example_channel_text by (simp add: channel_text_def OrdererEvents_def)
  moreover have "\<not> truthy (hub_client_cert ?hub)" "user_ready (hub_requestor ?hub)"
    by (simp_all add: OrdererEvents_def example_orderer_def)
  ultimately obtain envelope tr1 where "stream_blocks S ?hub (Some 0) (Some 0) BlockUntilReady tr =
      (Returned (blocks_of ?hub (fst (sys_Deliver S tr1 (hub_method ?hub) envelope))
                                (snd (sys_Deliver S tr1 (hub_method ?hub) envelope))),
       tr1 @ [DeliverRequested (hub_method ?hub) envelope])"
    by (meson stream_blocks_total)
  moreover have "hub_method ?hub = OrdererDeliver (example_orderer n)" by (simp add: OrdererEvents_def)
  ultimately have "origin_block S example_user example_channel (example_orderer n) tr =
      first_block (blocks_of ?hub bs fin) (tr1 @ [DeliverRequested (hub_method ?hub) envelope])"
    using assms(2) by (simp add: origin_block_def bind_io_def)
  then show ?thesis by blast
qed

lemma origin_delivered:
  "first_block (blocks_of (OrdererEvents u c ord) [(5, DeliverBlock default_Block)] fin) tr =
    (Returned (Some (RawBlock_from_proto default_Block)), tr)"
  by (cases fin; cases "snd fin")
    (simp_all add: next_block_def OrdererEvents_def io_eval)

lemma example_origin_delivered:
  assumes "sys_pb S = reference_runtime"
    and "\<forall>tr envelope. sys_Deliver S tr (OrdererDeliver (example_orderer n)) envelope =
      ([(5, DeliverBlock default_Block)], fin)"
  shows "\<exists>tr1. origin_block S example_user example_channel (example_orderer n) tr =
    (Returned (Some (RawBlock_from_proto default_Block)), tr1)"
  using example_origin_block [OF assms, of tr] unfolding origin_delivered by blast

theorem join_channel_one_orderer_down_witness:
  "\<exists>tr2. join_channel orderer_down_sys example_user [example_orderer ''o1'', example_orderer ''o2'']
    example_channel (example_peer ''p1'') [] = (Raised (BlockchainConnectionError (lit ''UNAVAILABLE'') []), tr2)"
proof -
  have diff: "example_orderer ''o2'' \<noteq> example_orderer ''o1''" by (simp add: example_orderer_def)
  obtain tr1 where o1: "origin_block orderer_down_sys example_user example_channel (example_orderer ''o1'') [] =
      (Raised (BlockchainConnectionError (lit ''UNAVAILABLE'') []), tr1)"
    using example_origin_block [of orderer_down_sys "''o1''" "[]" "(0, Failed (RpcError (lit ''UNAVAILABLE'') []))" "[]"]
    by (auto simp: orderer_down_sys_def io_eval)
  obtain tr2 where o2: "origin_block orderer_down_sys example_user example_channel (example_orderer ''o2'') tr1 =
      (Returned (Some (RawBlock_from_proto default_Block)), tr2)"
    using example_origin_delivered [of orderer_down_sys "''o2''" "(0, Pending)" tr1] diff
    by (simp add: orderer_down_sys_def) (metis channel_sys_pb(2) orderer_down_sys_def)
  from join_channel_one_orderer_down [OF o1 o2, of "BlockchainConnectionError (lit ''UNAVAILABLE'') []"]
  show ?thesis by auto
qed

lemma example_join:
  "\<exists>tr'. join_channel channel_sys example_user [example_orderer ''o1''] example_channel (example_peer n) tr =
    (Returned (), tr')"
proof -
  have "\<forall>tr envelope. sys_Deliver channel_sys tr (OrdererDeliver (example_orderer ''o1'')) envelope =
      ([(5, DeliverBlock default_Block)], (0, Pending))" by (simp add: channel_sys_def)
  from example_origin_delivered [OF channel_sys_pb(1) this] obtain tr1 where
    o: "origin_block channel_sys example_user example_channel (example_orderer ''o1'') tr =
      (Returned (Some (RawBlock_from_proto default_Block)), tr1)" by blast
  let ?args = "[map of_nat (lit ''JoinChain''),
    ser (pb_Block (sys_pb channel_sys)) (RawBlock_as_proto (RawBlock_from_proto default_Block))]"
  have pb: "runtime_ok (sys_pb channel_sys)" by (simp add: reference_runtime_ok)
  have "encode_proto_str (channel_text None) = Inr []"
    by (simp add: channel_text_def encode_proto_str_ascii ascii_def)
  from build_generated_tx_total [OF pb this example_user_ready] obtain g tr2 where
    g: "build_generated_tx channel_sys example_user (lit ''cscc'') ?args None None tr1 = (Returned g, tr2)" by blast
  have "map (endorsement channel_sys (gtx_signed_proposal g) [example_peer n] tr2)
      [0..<length [example_peer n]] = map Returned [example_response 200 []]"
    by (simp add: endorsement_def channel_sys_def example_sys_def)
  then obtain tr3 where p: "propose_tx channel_sys [example_peer n] g tr2 =
      (Returned \<lparr>etx_peer_responses = [example_response 200 []], etx_proposal = gtx_proposal g,
         etx_header = gtx_header g, etx_tx_context = gtx_tx_context g\<rparr>, tr3)"
    by (simp add: propose_tx_eq settle_def)
  have fcn: "encode_proto_bytes (lit ''JoinChain'') = Inr (map of_nat (lit ''JoinChain''))"
    by (simp add: encode_proto_bytes_def latin1_encode_def)
  have "join_channel channel_sys example_user [example_orderer ''o1''] example_channel
      (example_peer n) tr = (Returned (), tr3)"
    using o g p by (simp add: join_channel_def bind_io_def try_io_def io_eval fcn [simplified]
        raise_tx_proposal_error_def require_def fully_endorsed_def example_response_def)
  then show ?thesis by blast
qed

theorem join_channel_needs_every_orderer_witness:
  "\<exists>tr' t y t'. join_channel channel_sys example_user [example_orderer ''o1''] example_channel
      (example_peer ''p1'') [] = (Returned (), tr') \<and>
    origin_block channel_sys example_user example_channel (example_orderer ''o1'') t = (Returned y, t')"
proof -
  obtain tr' where j: "join_channel channel_sys example_user [example_orderer ''o1''] example_channel
      (example_peer ''p1'') [] = (Returned (), tr')" using example_join by blast
  with join_channel_needs_every_orderer [OF j] show ?thesis by fastforce
qed

lemma build_config_update_envelope_total:
  assumes "runtime_ok (sys_pb S)" "encode_proto_str (channel_name channel) = Inr cid" "txc_epoch ctx = 0"
    and "user_ready u"
  shows "\<exists>env tr'. build_config_update_envelope S channel ctx u bs tr = (Returned env, tr')"
proof -
  obtain s where s: "sign u (ser (pb_SignatureHeader (sys_pb S)) (signature_header (sys_pb S) ctx) @ bs) tr =
      (Returned s, tr @ [SignDrawn (ser (pb_SignatureHeader (sys_pb S)) (signature_header (sys_pb S) ctx) @ bs)])"
    using sign_total [OF assms(4)] by blast
  have "encode_proto_str (channel_text (Some channel)) = Inr cid" using assms(2) by (simp add: channel_text_def)
  moreover have "\<not> truthy (None :: bytes option)" by simp
  ultimately show ?thesis
    using build_envelope_total [OF assms(1) _ _ assms(3,4)] s
    unfolding build_config_update_envelope_def Let_def bind_Returned_iff by blast
qed

theorem create_channel_sends_update_witness:
  "\<exists>tr' envelope d sg. create_channel channel_sys example_user [example_orderer ''o1''] example_channel
      (lit ''mychannel.tx'') [] = (Returned (), tr') \<and>
    broadcasts tr' = [(example_orderer ''o1'', envelope)] \<and>
    DecodedTX_decode reference_runtime (ser (pb_Envelope reference_runtime) envelope) = Inr d \<and>
    dp_data (dtx_payload d) = ConfigUpdateData
      \<lparr>dcue_config_update = example_config_update, dcue_signatures = [sg]\<rparr>"
proof -
  note rt = runtime_okD [OF reference_runtime_ok, unfolded coder_ok_def]
  have pb: "runtime_ok (sys_pb channel_sys)" by (simp add: reference_runtime_ok)
  let ?path = "lit ''mychannel.tx''"
  let ?cu = "ser (pb_ConfigUpdate reference_runtime) example_config_update"
  obtain ctx tr1 where ctx: "tx_context_from_user (sys_pb channel_sys) example_user ([] @ [FileRead ?path]) =
      (Returned ctx, tr1)" using tx_context_never_fails by blast
  then have "txc_epoch ctx = 0" by (auto simp: tx_context_Returned_iff)
  moreover have "encode_proto_str (channel_name example_channel) = Inr (lit ''mychannel'')"
    using example_channel_text by (simp add: channel_text_def)
  ultimately obtain envelope tr2 where
    be: "build_config_update_envelope channel_sys example_channel ctx example_user ?cu tr1 = (Returned envelope, tr2)"
    using build_config_update_envelope_total [OF pb _ _ example_user_ready] by blast
  have br: "broadcast_to_orderers channel_sys envelope [example_orderer ''o1''] (txc_tx_id ctx) tr2 =
      (Returned (Some \<lparr>br_status = 200, br_info = []\<rparr>), tr2 @ [EnvelopeBroadcast (example_orderer ''o1'') envelope])"
    by (simp add: broadcast_to_orderers_def try_io_def broadcast_to_orderer_eq channel_sys_def example_sys_def)
  have fs: "sys_fs channel_sys ?path = Inr example_tx_file" by (simp add: channel_sys_def)
  have cc: "create_channel channel_sys example_user [example_orderer ''o1''] example_channel ?path [] =
      (Returned (), tr2 @ [EnvelopeBroadcast (example_orderer ''o1'') envelope])"
    using ctx be br fs unfolding create_channel_def read_file_def bind_Returned_iff
    by (simp add: example_tx_file_def rt)
  obtain content env payload cue envelope' evs k where
    parsed: "sys_fs channel_sys ?path = Inr content" "des (pb_Envelope (sys_pb channel_sys)) content = Some env"
      "des (pb_Payload (sys_pb channel_sys)) (env_payload env) = Some payload"
      "des (pb_ConfigUpdateEnvelope (sys_pb channel_sys)) (pl_data payload) = Some cue" and
    k: "k < length [example_orderer ''o1'']" "list_all local_event evs"
      "tr2 @ [EnvelopeBroadcast (example_orderer ''o1'') envelope] = [] @ FileRead ?path # evs @
        map (\<lambda>ord. EnvelopeBroadcast ord envelope') (take (Suc k) [example_orderer ''o1''])" and
    dec: "\<forall>cu. des (pb_ConfigUpdate (sys_pb channel_sys)) (cue_config_update cue) = Some cu \<longrightarrow>
      (\<exists>d sg. DecodedTX_decode (sys_pb channel_sys) (ser (pb_Envelope (sys_pb channel_sys)) envelope') = Inr d \<and>
        dp_data (dtx_payload d) = ConfigUpdateData \<lparr>dcue_config_update = cu, dcue_signatures = [sg]\<rparr>)"
    using create_channel_sends_update [OF pb cc] by (elim exE conjE) (rule that, (assumption | blast)+)
  note parsed = parsed [unfolded channel_sys_pb] and dec = dec [unfolded channel_sys_pb]
  have e: "envelope' = envelope" "tr2 = FileRead ?path # evs" using k(1,3) by simp_all
  have "broadcasts evs = []" using k(2) by (induction evs) (auto simp: broadcasts_def local_event_def split: event.splits)
  then have b: "broadcasts (tr2 @ [EnvelopeBroadcast (example_orderer ''o1'') envelope]) = [(example_orderer ''o1'', envelope')]"
    by (simp add: e broadcasts_def)
  from parsed have "des (pb_ConfigUpdate reference_runtime) (cue_config_update cue) = Some example_config_update"
    by (auto simp: channel_sys_def example_tx_file_def rt)
  with dec obtain d sg where "DecodedTX_decode reference_runtime (ser (pb_Envelope reference_runtime) envelope') = Inr d"
    "dp_data (dtx_payload d) = ConfigUpdateData \<lparr>dcue_config_update = example_config_update, dcue_signatures = [sg]\<rparr>"
    by blast
  with cc b show ?thesis by (intro exI [of _ "tr2 @ [EnvelopeBroadcast (example_orderer ''o1'') envelope]"]
    exI [of _ envelope'] exI [of _ d] exI [of _ sg]) simp
qed

end
