(* ===== verification/Gateways.thy ===== *)
theory Gateways
  imports Gateway_Builder Channel_Operations
begin

text \<open>
  The \<open>Gateway\<close> of \<open>src/snakeskin/models/gateway.py\<close>: its guarded operations, and how its
  invocation and query relate to the operations of the same name in \<open>operations.py\<close>.
\<close>

section \<open>The gateway\<close>

definition transact ::
  "sys \<Rightarrow> Gateway \<Rightarrow> pystr \<Rightarrow> pystr list option \<Rightarrow> (pystr \<times> bytes) list option \<Rightarrow> GatewayTXBuilder io" where
  "transact S gw fcn args transient_map =
    bind_io (guard_io (gw_endorsing_peers gw \<noteq> []) (ValueError (lit ''Must provided at least one endorsing peer''))) (\<lambda>_.
    bind_io (lift_res (of_option (ValueError (lit ''Must specify a channel'')) (gw_channel gw))) (\<lambda>channel.
    bind_io (lift_res (of_option (ValueError (lit ''Must specify a requestor'')) (gw_requestor gw))) (\<lambda>requestor.
    bind_io (guard_io (case gw_chaincode gw of None \<Rightarrow> False | Some cc \<Rightarrow> truthy (cc_name cc))
      (ValueError (lit ''Must specify a chaincode name''))) (\<lambda>_.
    bind_io (generate_cc_tx S requestor (the (cc_name (the (gw_chaincode gw)))) channel fcn args transient_map)
      (\<lambda>generated_tx. return_io (new_GatewayTXBuilder gw generated_tx))))))"

definition Gateway_invoke ::
  "sys \<Rightarrow> Gateway \<Rightarrow> pystr \<Rightarrow> pystr list option \<Rightarrow> (pystr \<times> bytes) list option \<Rightarrow> int \<Rightarrow> EndorsedTX io" where
  "Gateway_invoke S gw fcn args transient_map timeout =
    bind_io (transact S gw fcn args transient_map) (\<lambda>b.
      await_builder S (wait_for_commit True timeout (submit (propose True b))))"

definition Gateway_query ::
  "sys \<Rightarrow> Gateway \<Rightarrow> pystr \<Rightarrow> pystr list option \<Rightarrow> (pystr \<times> bytes) list option \<Rightarrow> EndorsedTX io" where
  "Gateway_query S gw fcn args transient_map =
    bind_io (transact S gw fcn args transient_map) (\<lambda>b. await_builder S (propose True b))"

definition Gateway_create_channel :: "sys \<Rightarrow> Gateway \<Rightarrow> pystr \<Rightarrow> unit io" where
  "Gateway_create_channel S gw tx_file_path =
    bind_io (guard_io (gw_orderers gw \<noteq> []) (ValueError (lit ''Must provided at least one orderer''))) (\<lambda>_.
    bind_io (lift_res (of_option (ValueError (lit ''Must specify a channel'')) (gw_channel gw))) (\<lambda>channel.
    bind_io (lift_res (of_option (ValueError (lit ''Must specify a requestor'')) (gw_requestor gw))) (\<lambda>requestor.
      create_channel S requestor (gw_orderers gw) channel tx_file_path)))"

fun join_peers :: "(Peer \<Rightarrow> unit io) \<Rightarrow> Peer list \<Rightarrow> unit io" where
  "join_peers join [] = return_io ()"
| "join_peers join (peer # peers) = bind_io (join peer) (\<lambda>_. join_peers join peers)"

definition Gateway_join_channel :: "sys \<Rightarrow> Gateway \<Rightarrow> Peer list option \<Rightarrow> unit io" where
  "Gateway_join_channel S gw peers =
    (let peers = (if truthy peers then the peers else gw_endorsing_peers gw) in
     bind_io (lift_res (of_option (ValueError (lit ''Must specify a channel'')) (gw_channel gw))) (\<lambda>channel.
     bind_io (lift_res (of_option (ValueError (lit ''Must specify a requestor'')) (gw_requestor gw))) (\<lambda>requestor.
       join_peers (join_channel S requestor (gw_orderers gw) channel) peers)))"

definition Gateway_query_instantiated_chaincodes :: "sys \<Rightarrow> Gateway \<Rightarrow> ChaincodeQueryResponse io" where
  "Gateway_query_instantiated_chaincodes S gw =
    bind_io (lift_res (of_option (ValueError (lit ''Must specify a channel'')) (gw_channel gw))) (\<lambda>channel.
    bind_io (lift_res (of_option (ValueError (lit ''Must specify a requestor'')) (gw_requestor gw))) (\<lambda>requestor.
    bind_io (guard_io (gw_endorsing_peers gw \<noteq> []) (ValueError (lit ''Must specify at least one endorsing peer''))) (\<lambda>_.
      query_instantiated_chaincodes S requestor (gw_endorsing_peers gw) channel)))"

definition Gateway_install_chaincode :: "sys \<Rightarrow> host \<Rightarrow> Gateway \<Rightarrow> Peer list option \<Rightarrow> EndorsedTX io" where
  "Gateway_install_chaincode S H gw peers =
    (let peers = (if truthy peers then the peers else gw_endorsing_peers gw) in
     bind_io (lift_res (of_option (ValueError (lit ''Must specify a requestor'')) (gw_requestor gw))) (\<lambda>requestor.
     bind_io (guard_io (peers \<noteq> []) (ValueError (lit ''Must specify at least one peer''))) (\<lambda>_.
     bind_io (lift_res (of_option (ValueError (lit ''Must specify chaincode'')) (gw_chaincode gw))) (\<lambda>chaincode.
       install_chaincode S H requestor peers chaincode))))"

definition Gateway_instantiate_chaincode ::
  "sys \<Rightarrow> Gateway \<Rightarrow> EndorsementPolicy option \<Rightarrow> bool \<Rightarrow> int \<Rightarrow> EndorsedTX io" where
  "Gateway_instantiate_chaincode S gw endorsement_policy upgrade timeout =
    bind_io (lift_res (of_option (ValueError (lit ''Must specify a requestor'')) (gw_requestor gw))) (\<lambda>requestor.
    bind_io (lift_res (of_option (ValueError (lit ''Must specify a channel'')) (gw_channel gw))) (\<lambda>channel.
    bind_io (guard_io (gw_endorsing_peers gw \<noteq> []) (ValueError (lit ''Must specify at least one endorsing peer''))) (\<lambda>_.
    bind_io (guard_io (gw_orderers gw \<noteq> []) (ValueError (lit ''Must specify at least one orderer''))) (\<lambda>_.
    bind_io (lift_res (of_option (ValueError (lit ''Must specify chaincode'')) (gw_chaincode gw))) (\<lambda>chaincode.
      instantiate_chaincode S requestor (gw_endorsing_peers gw) (gw_orderers gw) channel chaincode
        endorsement_policy upgrade timeout)))))"

text \<open>\<open>dataclasses.replace(None, ...)\<close> raises \<open>TypeError\<close>.\<close>

definition update_chaincode_version :: "Gateway \<Rightarrow> pystr \<Rightarrow> Gateway result" where
  "update_chaincode_version gw version =
    (case gw_chaincode gw of
       None \<Rightarrow> Inl TypeError
     | Some cc \<Rightarrow> Inr (gw\<lparr>gw_chaincode := Some (cc\<lparr>cc_version := Some version\<rparr>)\<rparr>))"

section \<open>Querying and invoking\<close>

definition refusal :: pystr where
  "refusal = lit ''A peer failed to endorse the transaction''"

lemma await_proposed:
  "await_builder S (propose True (new_GatewayTXBuilder gw g)) tr =
    endorse_tx S (gw_endorsing_peers gw) refusal (return_io g) tr"
proof -
  obtain oc tr' where p: "propose_tx S (gw_endorsing_peers gw) g tr = (oc, tr')" by fastforce
  then show ?thesis
    by (cases oc) (simp_all add: await_builder_def run_operations_def propose_def operate_propose_def
        endorse_tx_def bind_io_def io_eval raise_tx_proposal_error_def require_def refusal_def)
qed

lemma await_submitted:
  assumes "gw_requestor gw = Some u" "gw_channel gw = Some c"
  shows "await_builder S (wait_for_commit True timeout (submit (propose True (new_GatewayTXBuilder gw g)))) tr =
    bind_io (endorse_tx S (gw_endorsing_peers gw) refusal (return_io g)) (\<lambda>etx.
    bind_io (commit_tx S u (gw_orderers gw) etx) (\<lambda>_.
    bind_io (await_commit S u c True timeout (Some etx) (gw_endorsing_peers gw)) (\<lambda>_. return_io etx))) tr"
proof -
  let ?b = "wait_for_commit True timeout (submit (propose True (new_GatewayTXBuilder gw g)))"
  have ops: "bld_operations ?b = Some [Propose True, Submit, WaitForCommit True timeout]"
    by (simp add: wait_for_commit_def submit_def propose_def)
  have sel: "bld_gateway ?b = gw" "bld_transaction ?b = g"
    by (simp_all add: wait_for_commit_def submit_def propose_def)
  obtain oc tr1 where p: "propose_tx S (gw_endorsing_peers gw) g tr = (oc, tr1)" by fastforce
  show ?thesis
  proof (cases "\<exists>etx. oc = Returned etx \<and> fully_endorsed etx")
    case False
    with p show ?thesis
      by (cases oc) (auto simp: await_builder_def run_operations_def ops sel operate_propose_def endorse_tx_def
          bind_io_def io_eval raise_tx_proposal_error_def require_def refusal_def)
  next
    case True
    then obtain etx where oc: "oc = Returned etx" and fe: "fully_endorsed etx" by blast
    obtain oc2 tr2 where c: "commit_tx S u (gw_orderers gw) etx tr1 = (oc2, tr2)" by fastforce
    obtain oc3 tr3 where a: "await_commit S u c True timeout (Some etx) (gw_endorsing_peers gw) tr2 = (oc3, tr3)"
      by fastforce
    from oc p fe c a assms show ?thesis
      by (cases oc2; cases oc3) (simp_all add: await_builder_def run_operations_def ops sel operate_propose_def
          operate_submit_def operate_wait_def ask_peer_def [abs_def] need_def await_commit_def endorse_tx_def
          bind_io_def io_eval raise_tx_proposal_error_def require_def refusal_def)
  qed
qed

definition gateway_ready :: "Gateway \<Rightarrow> User \<Rightarrow> Channel \<Rightarrow> pystr \<Rightarrow> bool" where
  "gateway_ready gw u c ccname \<longleftrightarrow>
    gw_endorsing_peers gw \<noteq> [] \<and> gw_channel gw = Some c \<and> gw_requestor gw = Some u \<and>
    (\<exists>cc. gw_chaincode gw = Some cc \<and> cc_name cc = Some ccname) \<and> ccname \<noteq> []"

lemma transact_ready:
  assumes "gateway_ready gw u c ccname"
  shows "transact S gw fcn args tm =
    bind_io (generate_cc_tx S u ccname c fcn args tm) (\<lambda>g. return_io (new_GatewayTXBuilder gw g))"
proof -
  from assms obtain cc a as where "gw_endorsing_peers gw \<noteq> []" "gw_channel gw = Some c" "gw_requestor gw = Some u"
    "gw_chaincode gw = Some cc" "cc_name cc = Some ccname" "ccname = a # as"
    unfolding gateway_ready_def by (cases ccname) auto
  then show ?thesis by (simp add: transact_def)
qed

lemma endorse_tx_bind:
  "endorse_tx S peers msg gen = bind_io gen (\<lambda>g. endorse_tx S peers msg (return_io g))"
  by (simp add: endorse_tx_def)

lemma Gateway_query_ready:
  assumes "gateway_ready gw u c ccname"
  shows "Gateway_query S gw fcn args tm =
    endorse_tx S (gw_endorsing_peers gw) refusal (generate_cc_tx S u ccname c fcn args tm)"
proof -
  have "(\<lambda>g. await_builder S (propose True (new_GatewayTXBuilder gw g))) =
      (\<lambda>g. endorse_tx S (gw_endorsing_peers gw) refusal (return_io g))"
    by (intro ext await_proposed)
  then show ?thesis
    unfolding Gateway_query_def transact_ready [OF assms] endorse_tx_bind [of S _ _ "generate_cc_tx S u ccname c fcn args tm"]
    by (simp add: bind_io_assoc)
qed

lemma Gateway_invoke_ready:
  assumes "gateway_ready gw u c ccname"
  shows "Gateway_invoke S gw fcn args tm timeout =
    bind_io (endorse_tx S (gw_endorsing_peers gw) refusal (generate_cc_tx S u ccname c fcn args tm)) (\<lambda>etx.
    bind_io (commit_tx S u (gw_orderers gw) etx) (\<lambda>_.
    bind_io (await_commit S u c True timeout (Some etx) (gw_endorsing_peers gw)) (\<lambda>_. return_io etx)))"
proof -
  have uc: "gw_requestor gw = Some u" "gw_channel gw = Some c" using assms by (simp_all add: gateway_ready_def)
  have "(\<lambda>g. await_builder S (wait_for_commit True timeout (submit (propose True (new_GatewayTXBuilder gw g))))) =
      (\<lambda>g. bind_io (endorse_tx S (gw_endorsing_peers gw) refusal (return_io g)) (\<lambda>etx.
        bind_io (commit_tx S u (gw_orderers gw) etx) (\<lambda>_.
        bind_io (await_commit S u c True timeout (Some etx) (gw_endorsing_peers gw)) (\<lambda>_. return_io etx))))"
    by (intro ext await_submitted uc)
  then show ?thesis
    unfolding Gateway_invoke_def transact_ready [OF assms] endorse_tx_bind [of S _ _ "generate_cc_tx S u ccname c fcn args tm"]
    by (simp add: bind_io_assoc)
qed

text \<open>Two wordings of the refusal make no other difference.\<close>

lemma endorse_tx_Returned_msg:
  "endorse_tx S peers msg gen tr = (Returned etx, tr') \<longleftrightarrow> endorse_tx S peers msg' gen tr = (Returned etx, tr')"
  by (auto simp: endorse_tx_def bind_Returned_iff raise_tx_proposal_error_iff)

lemma endorse_tx_Raised_msg:
  assumes "endorse_tx S peers msg gen tr = (Raised e, tr')"
  shows "endorse_tx S peers msg' gen tr = (Raised e, tr') \<or>
    (\<exists>etx. e = TransactionProposalError msg etx \<and>
      endorse_tx S peers msg' gen tr = (Raised (TransactionProposalError msg' etx), tr'))"
proof -
  obtain oc1 tr1 where g: "gen tr = (oc1, tr1)" by fastforce
  show ?thesis
  proof (cases oc1)
    case (Returned g')
    obtain oc2 tr2 where "propose_tx S peers g' tr1 = (oc2, tr2)" by fastforce
    with g Returned assms show ?thesis
      by (cases oc2) (auto simp: endorse_tx_def bind_io_def raise_tx_proposal_error_def require_def io_eval
          split: if_splits)
  qed (use g assms in \<open>auto simp: endorse_tx_def bind_io_def\<close>)
qed

lemma await_on_peer_check:
  "await_on_peer S u c True timeout (Some etx) =
    (\<lambda>p. check_transaction S (PeerFilteredEvents u c p) (EndorsedTX_tx_id etx) timeout None BlockUntilReady)"
  by (rule ext) (simp add: await_on_peer_def need_def)

text \<open>
  C29. The query of a gateway is the operation \<open>query\<close> on its peers: the same answers, the same
  traffic and the same errors, except that a refusal is worded differently.
\<close>

theorem Gateway_query_matches_query:
  assumes "gateway_ready gw u c ccname"
    and "query S u (gw_endorsing_peers gw) c ccname fcn args tm tr = (oc, tr')"
  shows "\<exists>oc'. Gateway_query S gw fcn args tm tr = (oc', tr') \<and>
    (\<forall>etx. oc' = Returned etx \<longleftrightarrow> oc = Returned etx) \<and>
    (\<forall>e. oc = Raised e \<longrightarrow> oc' = Raised e \<or>
      (\<exists>etx. e = TransactionProposalError
           (lit ''Failed to query chaincode '' @ ccname @ lit '' with function '' @ fcn) etx \<and>
         oc' = Raised (TransactionProposalError (lit ''A peer failed to endorse the transaction'') etx)))"
proof -
  note q = assms(2) [unfolded query_endorse]
  obtain oc' tr'' where r: "Gateway_query S gw fcn args tm tr = (oc', tr'')" by fastforce
  note r' = r [unfolded Gateway_query_ready [OF assms(1)]]
  show ?thesis
  proof (cases oc)
    case (Returned etx)
    with q have "endorse_tx S (gw_endorsing_peers gw) refusal (generate_cc_tx S u ccname c fcn args tm) tr =
        (Returned etx, tr')"
      by (simp add: endorse_tx_Returned_msg [of S _ refusal _ _ _ _
          "lit ''Failed to query chaincode '' @ ccname @ lit '' with function '' @ fcn"])
    with r r' Returned show ?thesis by simp
  next
    case (Raised e)
    from endorse_tx_Raised_msg [OF q [unfolded Raised], of refusal] r'
    have "tr'' = tr' \<and> (oc' = Raised e \<or> (\<exists>etx. e = TransactionProposalError
        (lit ''Failed to query chaincode '' @ ccname @ lit '' with function '' @ fcn) etx \<and>
        oc' = Raised (TransactionProposalError refusal etx)))" by auto
    with r Raised show ?thesis unfolding refusal_def by blast
  next
    case Blocked
    obtain oc1 tr1 where g: "generate_cc_tx S u ccname c fcn args tm tr = (oc1, tr1)" by fastforce
    have "oc' = Blocked \<and> tr'' = tr'"
    proof (cases oc1)
      case (Returned g')
      obtain oc2 tr2 where "propose_tx S (gw_endorsing_peers gw) g' tr1 = (oc2, tr2)" by fastforce
      with g Returned q r' Blocked show ?thesis
        by (cases oc2) (auto simp: endorse_tx_def bind_io_def raise_tx_proposal_error_def require_def io_eval
            split: if_splits)
    qed (use g q r' Blocked in \<open>auto simp: endorse_tx_def bind_io_def\<close>)
    with r Blocked show ?thesis by simp
  qed
qed

text \<open>
  C2. A gateway's invocation returns the endorsed transaction exactly when every endorsing
  peer endorsed it, an orderer took it, and some endorsing peer reported it as valid while
  the peers before it failed to deliver blocks: a peer that times out or reports an invalid
  transaction ends the wait, one that cannot be reached does not.
\<close>

theorem Gateway_invoke_fails_over:
  assumes "gateway_ready gw u c ccname"
  shows "Gateway_invoke S gw fcn args tm timeout tr = (Returned etx, tr') \<longleftrightarrow>
    (\<exists>g tr1 tr2 r tr3 us p vs tr4 t.
      generate_cc_tx S u ccname c fcn args tm tr = (Returned g, tr1) \<and>
      propose_tx S (gw_endorsing_peers gw) g tr1 = (Returned etx, tr2) \<and> fully_endorsed etx \<and>
      commit_tx S u (gw_orderers gw) etx tr2 = (Returned r, tr3) \<and>
      gw_endorsing_peers gw = us @ p # vs \<and>
      failed_over (\<lambda>q. check_transaction S (PeerFilteredEvents u c q) (GeneratedTX_tx_id g) timeout
        None BlockUntilReady) us tr3 tr4 \<and>
      check_transaction S (PeerFilteredEvents u c p) (GeneratedTX_tx_id g) timeout None BlockUntilReady tr4 =
        (Returned t, tr') \<and>
      ftx_tx_id t = GeneratedTX_tx_id g \<and> ftx_tx_validation_code t = TxValidationCode_VALID)"
    (is "?L \<longleftrightarrow> ?R")
proof
  assume ?L
  then obtain tr2 r tr3 t where
    en: "endorse_tx S (gw_endorsing_peers gw) refusal (generate_cc_tx S u ccname c fcn args tm) tr = (Returned etx, tr2)" and
    co: "commit_tx S u (gw_orderers gw) etx tr2 = (Returned r, tr3)" and
    aw: "await_commit S u c True timeout (Some etx) (gw_endorsing_peers gw) tr3 = (Returned t, tr')"
    unfolding Gateway_invoke_ready [OF assms] by (auto simp: bind_Returned_iff)
  from invocation.endorse_Returned_D [OF en] obtain g tr1 where
    g: "generate_cc_tx S u ccname c fcn args tm tr = (Returned g, tr1)" and
    pr: "propose_tx S (gw_endorsing_peers gw) g tr1 = (Returned etx, tr2)" and fe: "fully_endorsed etx" by blast
  have id: "EndorsedTX_tx_id etx = GeneratedTX_tx_id g"
    using propose_tx_Returned_D [OF pr] by (simp add: EndorsedTX_tx_id_def GeneratedTX_tx_id_def)
  from aw obtain us p vs tr4 where "gw_endorsing_peers gw = us @ p # vs"
    "failed_over (\<lambda>q. check_transaction S (PeerFilteredEvents u c q) (GeneratedTX_tx_id g) timeout
        None BlockUntilReady) us tr3 tr4" and
    ch: "check_transaction S (PeerFilteredEvents u c p) (GeneratedTX_tx_id g) timeout None BlockUntilReady tr4 =
        (Returned t, tr')"
    unfolding await_commit_def await_on_peer_check id await_loop_Returned_iff by blast
  with g pr fe co check_transaction_Returned_D [OF ch] show ?R by blast
next
  assume ?R
  then obtain g tr1 tr2 r tr3 us p vs tr4 t where
    g: "generate_cc_tx S u ccname c fcn args tm tr = (Returned g, tr1)" and
    pr: "propose_tx S (gw_endorsing_peers gw) g tr1 = (Returned etx, tr2)" and fe: "fully_endorsed etx" and
    co: "commit_tx S u (gw_orderers gw) etx tr2 = (Returned r, tr3)" and
    us: "gw_endorsing_peers gw = us @ p # vs"
      "failed_over (\<lambda>q. check_transaction S (PeerFilteredEvents u c q) (GeneratedTX_tx_id g) timeout
        None BlockUntilReady) us tr3 tr4"
      "check_transaction S (PeerFilteredEvents u c p) (GeneratedTX_tx_id g) timeout None BlockUntilReady tr4 =
        (Returned t, tr')" by blast
  have id: "EndorsedTX_tx_id etx = GeneratedTX_tx_id g"
    using propose_tx_Returned_D [OF pr] by (simp add: EndorsedTX_tx_id_def GeneratedTX_tx_id_def)
  from us have "await_commit S u c True timeout (Some etx) (gw_endorsing_peers gw) tr3 = (Returned t, tr')"
    unfolding await_commit_def await_on_peer_check id await_loop_Returned_iff by blast
  moreover have "endorse_tx S (gw_endorsing_peers gw) refusal (generate_cc_tx S u ccname c fcn args tm) tr =
      (Returned etx, tr2)"
    using g pr fe by (simp add: endorse_tx_def bind_io_def raise_tx_proposal_error_def require_def io_eval)
  ultimately show ?L unfolding Gateway_invoke_ready [OF assms] using co by (simp add: bind_io_def io_eval)
qed

text \<open>
  C10. The gateway's invocation refines the operation \<open>invoke\<close>: wherever \<open>invoke\<close> on the
  gateway's peers and orderers returns, the gateway returns the same transaction after the
  same traffic.
\<close>

theorem Gateway_invoke_refines_invoke:
  assumes "gateway_ready gw u c ccname"
    and "invoke S u (gw_endorsing_peers gw) (gw_orderers gw) c ccname fcn args timeout tm tr = (Returned etx, tr')"
  shows "Gateway_invoke S gw fcn args tm timeout tr = (Returned etx, tr')"
proof -
  from assms(2) [unfolded invoke_endorse endorse_and_commit_def] obtain tr2 where
    en: "endorse_tx S (gw_endorsing_peers gw) (lit ''Failed to invoke chaincode '' @ ccname @
      lit '' with function '' @ fcn) (generate_cc_tx S u ccname c fcn args tm) tr = (Returned etx, tr2)" and
    co: "commit_tx_and_wait S u c (gw_endorsing_peers gw) (gw_orderers gw) etx timeout tr2 = (Returned (), tr')"
    by (auto simp: bind_Returned_iff)
  from commit_tx_and_wait_Returned_D [OF co] obtain r tr3 p ps t where
    "commit_tx S u (gw_orderers gw) etx tr2 = (Returned r, tr3)" "gw_endorsing_peers gw = p # ps"
    "check_transaction S (PeerFilteredEvents u c p) (EndorsedTX_tx_id etx) timeout None BlockUntilReady tr3 =
      (Returned t, tr')" by blast
  moreover from this have "await_commit S u c True timeout (Some etx) (gw_endorsing_peers gw) tr3 = (Returned t, tr')"
    by (simp add: await_commit_def await_on_peer_check try_io_def)
  moreover have "endorse_tx S (gw_endorsing_peers gw) refusal (generate_cc_tx S u ccname c fcn args tm) tr =
      (Returned etx, tr2)" using en endorse_tx_Returned_msg by blast
  ultimately show ?thesis unfolding Gateway_invoke_ready [OF assms(1)] by (simp add: bind_io_def io_eval)
qed

section \<open>Guards and joining\<close>

text \<open>
  A gateway without a requestor or without a channel refuses with a \<open>ValueError\<close>
  before anything is sent: nothing is appended to the trace, whatever is asked of it.
\<close>

theorem incomplete_gateway_refuses:
  assumes "gw_requestor gw = None \<or> gw_channel gw = None"
  shows "(\<exists>m. transact S gw fcn args tm tr = (Raised (Py (ValueError m)), tr)) \<and>
    (\<exists>m. Gateway_invoke S gw fcn args tm timeout tr = (Raised (Py (ValueError m)), tr)) \<and>
    (\<exists>m. Gateway_query S gw fcn args tm tr = (Raised (Py (ValueError m)), tr)) \<and>
    (\<exists>m. Gateway_create_channel S gw path tr = (Raised (Py (ValueError m)), tr)) \<and>
    (\<exists>m. Gateway_join_channel S gw peers tr = (Raised (Py (ValueError m)), tr)) \<and>
    (\<exists>m. Gateway_query_instantiated_chaincodes S gw tr = (Raised (Py (ValueError m)), tr)) \<and>
    (\<exists>m. Gateway_instantiate_chaincode S gw policy upgrade timeout tr = (Raised (Py (ValueError m)), tr))"
proof -
  have t: "\<exists>m. transact S gw fcn args tm = raise_io (Py (ValueError m))"
    using assms by (cases "gw_channel gw") (auto simp: transact_def guard_io_bind)
  then obtain m where m: "transact S gw fcn args tm = raise_io (Py (ValueError m))" ..
  have "\<exists>m. Gateway_create_channel S gw path = raise_io (Py (ValueError m))"
    using assms by (cases "gw_channel gw") (auto simp: Gateway_create_channel_def guard_io_bind)
  moreover have "\<exists>m. Gateway_join_channel S gw peers = raise_io (Py (ValueError m))"
    using assms by (cases "gw_channel gw") (auto simp: Gateway_join_channel_def)
  moreover have "\<exists>m. Gateway_query_instantiated_chaincodes S gw = raise_io (Py (ValueError m))"
    using assms by (cases "gw_channel gw") (auto simp: Gateway_query_instantiated_chaincodes_def)
  moreover have "\<exists>m. Gateway_instantiate_chaincode S gw policy upgrade timeout = raise_io (Py (ValueError m))"
    using assms by (cases "gw_requestor gw") (auto simp: Gateway_instantiate_chaincode_def)
  ultimately show ?thesis
    unfolding Gateway_invoke_def Gateway_query_def m by (auto simp: io_eval)
qed

lemma emits_origin_block:
  assumes "\<And>e. local_event e \<Longrightarrow> P e" "\<And>ord envelope. P (DeliverRequested (OrdererDeliver ord) envelope)"
  shows "emits P (origin_block S u channel ord)"
proof -
  have "emits P (first_block s)" for s :: "RawBlock stream"
    by (cases s rule: first_block.cases) (simp_all add: emits_intros)
  then show ?thesis
    unfolding origin_block_def using assms by (intro emits_intros) (auto simp: OrdererEvents_def)
qed

lemma emits_join_channel: "emits any_event (join_channel S u ords channel p)"
proof -
  have o: "emits any_event (origin_block S u channel ord)" for ord by (rule emits_origin_block) simp_all
  have "emits any_event (origin_loop S u channel ords blk err)" for blk err
    by (induction ords arbitrary: blk err) (auto intro!: emits_intros o)
  moreover have "emits any_event (case e of None \<Rightarrow> return_io () | Some e \<Rightarrow> raise_io e)" for e
    by (cases e) (simp_all add: emits_intros)
  ultimately show ?thesis unfolding join_channel_def by (intro emits_intros) simp_all
qed

lemma join_peers_Returned_D:
  assumes "join_peers join peers tr = (Returned x, tr')" "\<And>p. emits any_event (join p)" "p \<in> set peers"
  shows "\<exists>tr1 tr2. join p tr1 = (Returned (), tr2) \<and> prefix tr tr1 \<and> prefix tr2 tr'"
  using assms(1,3)
proof (induction peers arbitrary: tr)
  case (Cons q qs)
  then obtain tr1 where q: "join q tr = (Returned (), tr1)" and r: "join_peers join qs tr1 = (Returned x, tr')"
    by (auto simp: bind_Returned_iff)
  have "emits any_event (join_peers join qs)"
  proof (induction qs)
    case Nil
    show ?case unfolding join_peers.simps by (rule emits_return)
  next
    case (Cons a qs)
    then show ?case unfolding join_peers.simps by (intro emits_bind assms(2))
  qed
  from emits_any_D [OF this r] have "prefix tr1 tr'" .
  moreover have "prefix tr tr1" using emits_any_D [OF assms(2) q] .
  moreover from Cons.IH [OF r] have "\<exists>tr2 tr3. join p tr2 = (Returned (), tr3) \<and> prefix tr1 tr2 \<and> prefix tr3 tr'"
    if "p \<in> set qs" using that by blast
  ultimately show ?case using Cons.prems(2) q by (auto intro: prefix_order.trans)
qed simp

text \<open>
  Joining through a gateway returns only after every given peer, or if none is given every
  endorsing peer, has joined: each of them was proposed a join transaction on the gateway's
  channel and accepted it.
\<close>

theorem Gateway_join_channel_joins_all:
  assumes "Gateway_join_channel S gw peers tr = (Returned (), tr')"
  shows "\<exists>u c. gw_requestor gw = Some u \<and> gw_channel gw = Some c \<and>
    (\<forall>p \<in> set (if truthy peers then the peers else gw_endorsing_peers gw).
      (\<exists>tr1 tr2. join_channel S u (gw_orderers gw) c p tr1 = (Returned (), tr2) \<and> prefix tr2 tr') \<and>
      (\<exists>sp. ProposalSent p sp \<in> set tr'))"
proof -
  let ?ps = "if truthy peers then the peers else gw_endorsing_peers gw"
  from assms obtain u c where uc: "gw_requestor gw = Some u" "gw_channel gw = Some c" and
    j: "join_peers (join_channel S u (gw_orderers gw) c) ?ps tr = (Returned (), tr')"
    by (auto simp: Gateway_join_channel_def bind_Returned_iff Let_def)
  have "(\<exists>tr1 tr2. join_channel S u (gw_orderers gw) c p tr1 = (Returned (), tr2) \<and> prefix tr2 tr') \<and>
      (\<exists>sp. ProposalSent p sp \<in> set tr')" if "p \<in> set ?ps" for p
  proof -
    from join_peers_Returned_D [OF j emits_join_channel that] obtain tr1 tr2 where
      p: "join_channel S u (gw_orderers gw) c p tr1 = (Returned (), tr2)" and pre: "prefix tr2 tr'" by blast
    from join_channel_Returned_D [OF p] obtain g tr3 etx where
      "propose_tx S [p] g tr3 = (Returned etx, tr2)" by blast
    from propose_tx_Returned_D [OF this] have "ProposalSent p (gtx_signed_proposal g) \<in> set tr2" by simp
    with set_mono_prefix [OF pre] p pre show ?thesis by blast
  qed
  with uc show ?thesis by blast
qed

section \<open>Examples\<close>

lemma example_gateway_ready:
  "gateway_ready (example_gateway (p # ps)) example_user example_channel (lit ''cc'')"
  by (simp add: gateway_ready_def example_gateway_def example_spec_def)

theorem incomplete_gateway_refuses_witness:
  "\<exists>m. Gateway_query example_sys (new_Gateway\<lparr>gw_channel := Some example_channel\<rparr>) (lit ''get'') None None [] =
    (Raised (Py (ValueError m)), [])"
proof -
  have "gw_requestor (new_Gateway\<lparr>gw_channel := Some example_channel\<rparr>) = None \<or>
      gw_channel (new_Gateway\<lparr>gw_channel := Some example_channel\<rparr>) = None"
    by (simp add: new_Gateway_def)
  from incomplete_gateway_refuses [OF this] show ?thesis by blast
qed

theorem Gateway_join_channel_joins_all_witness:
  "\<exists>tr' sp. Gateway_join_channel channel_sys (example_gateway [example_peer ''p1'', example_peer ''p2'']) None [] =
    (Returned (), tr') \<and> ProposalSent (example_peer ''p2'') sp \<in> set tr'"
proof -
  obtain tr1 where 1: "join_channel channel_sys example_user [example_orderer ''o1''] example_channel
      (example_peer ''p1'') [] = (Returned (), tr1)" using example_join by blast
  obtain tr2 where 2: "join_channel channel_sys example_user [example_orderer ''o1''] example_channel
      (example_peer ''p2'') tr1 = (Returned (), tr2)" using example_join by blast
  from 1 2 have j: "Gateway_join_channel channel_sys (example_gateway [example_peer ''p1'', example_peer ''p2'']) None [] =
      (Returned (), tr2)"
    by (simp add: Gateway_join_channel_def bind_io_def io_eval)
  from Gateway_join_channel_joins_all [OF j] j show ?thesis by auto
qed

text \<open>A world in which the first peer's event stream cannot be reached.\<close>

definition hub_down_sys :: sys where
  "hub_down_sys = example_sys\<lparr>sys_Deliver := (\<lambda>tr m envelope.
     if m = PeerDeliverFiltered (example_peer ''p1'') then ([], 0, Failed (RpcError (lit ''UNAVAILABLE'') []))
     else sys_Deliver example_sys tr m envelope)\<rparr>"

lemma check_down:
  assumes "stream_blocks S hub None (Some INDEFINITE_STOP_POSITION) b tr = (Returned ([], 0, Failed e), tr')" "0 < T"
  shows "check_transaction S hub i T None b tr = (Raised e, tr')"
  using assms by (simp add: check_transaction_def wait_for_def timed_get_transaction_def in_time_def
      bind_io_def io_eval outcome_io_def)

lemma hub_down_failed_over:
  "\<exists>tr'. failed_over (\<lambda>q. check_transaction hub_down_sys (PeerFilteredEvents example_user example_channel q) i 30
      None BlockUntilReady) [example_peer ''p1''] tr tr'"
proof -
  have "runtime_ok (sys_pb hub_down_sys)" by (simp add: hub_down_sys_def)
  from example_hub_stream [OF this, of "''p1''" BlockUntilReady tr] obtain tr' where
    "stream_blocks hub_down_sys (PeerFilteredEvents example_user example_channel (example_peer ''p1'')) None
      (Some INDEFINITE_STOP_POSITION) BlockUntilReady tr =
      (Returned ([], 0, Failed (BlockchainConnectionError (lit ''UNAVAILABLE'') [])), tr')"
    by (auto simp: hub_down_sys_def)
  from check_down [OF this, of 30 i] show ?thesis
    by (intro exI [of _ tr'] failed_over.one [OF _ _ failed_over.none]) (assumption | simp)+
qed

theorem Gateway_invoke_fails_over_witness:
  "\<exists>etx tr'. Gateway_invoke hub_down_sys (example_gateway [example_peer ''p1'', example_peer ''p2''])
    (lit ''put'') None None 30 [] = (Returned etx, tr')"
proof -
  let ?ps = "[example_peer ''p1'', example_peer ''p2'']"
  have pb: "runtime_ok (sys_pb hub_down_sys)" by (simp add: hub_down_sys_def)
  have "encode_proto_str (channel_name example_channel) = Inr (lit ''mychannel'')"
    using example_channel_text by (simp add: channel_text_def)
  moreover have args: "map_res encode_proto_bytes ([lit ''put''] @ or_else None []) = Inr [map of_nat (lit ''put'')]"
    by (simp add: encode_proto_bytes_def latin1_encode_def)
  ultimately obtain g tr1 where g: "generate_cc_tx hub_down_sys example_user (lit ''cc'') example_channel
      (lit ''put'') None None [] = (Returned g, tr1)"
    using generate_cc_tx_total [OF pb _ example_user_ready] by blast
  from generate_cc_tx_Returned_D [OF g] generated_id have id: "GeneratedTX_tx_id g = lit ''07''"
    by (metis example_hash example_tx_id next_tx_id_def)
  let ?etx = "\<lparr>etx_peer_responses = [example_response 200 [], example_response 200 []],
    etx_proposal = gtx_proposal g, etx_header = gtx_header g, etx_tx_context = gtx_tx_context g\<rparr>"
  have "map (endorsement hub_down_sys (gtx_signed_proposal g) ?ps tr1) [0..<length ?ps] =
      map Returned [example_response 200 [], example_response 200 []]"
    by (simp add: endorsement_def hub_down_sys_def example_sys_def)
  then obtain tr2 where p: "propose_tx hub_down_sys ?ps g tr1 = (Returned ?etx, tr2)"
    by (simp add: propose_tx_eq settle_def)
  have fe: "fully_endorsed ?etx" by (simp add: fully_endorsed_def example_response_def)
  obtain envelope tr3 where "build_endorsed_tx_envelope hub_down_sys ?etx example_user tr2 = (Returned envelope, tr3)"
    using build_endorsed_tx_envelope_total [OF _ example_user_ready] by fastforce
  moreover have "broadcast_to_orderers hub_down_sys envelope [example_orderer ''o1''] i tr3 =
      (Returned (Some \<lparr>br_status = 200, br_info = []\<rparr>), tr3 @ [EnvelopeBroadcast (example_orderer ''o1'') envelope])"
    for i by (simp add: broadcast_to_orderers_def try_io_def broadcast_to_orderer_eq hub_down_sys_def example_sys_def)
  ultimately obtain r tr4 where c: "commit_tx hub_down_sys example_user [example_orderer ''o1''] ?etx tr2 =
      (Returned r, tr4)" by (simp add: commit_tx_def bind_io_def)
  obtain tr5 where f: "failed_over (\<lambda>q. check_transaction hub_down_sys
      (PeerFilteredEvents example_user example_channel q) (GeneratedTX_tx_id g) 30 None BlockUntilReady)
      [example_peer ''p1''] tr4 tr5" using hub_down_failed_over by blast
  have "example_peer ''p2'' \<noteq> example_peer ''p1''" by (simp add: example_peer_def)
  then obtain bs fin t tr6 where "stream_blocks hub_down_sys
      (PeerFilteredEvents example_user example_channel (example_peer ''p2'')) None (Some INDEFINITE_STOP_POSITION)
      BlockUntilReady tr5 = (Returned (bs, fin), tr6)" "first_arrival (lit ''07'') bs = Some (40, t)"
    "ftx_tx_validation_code t = TxValidationCode_VALID"
    using example_stream_of [OF pb, of "''p2''" BlockUntilReady tr5] by (auto simp: hub_down_sys_def example_sys_def)
  then have ch: "check_transaction hub_down_sys (PeerFilteredEvents example_user example_channel (example_peer ''p2''))
      (GeneratedTX_tx_id g) 30 None BlockUntilReady tr5 = (Returned t, tr6)"
    unfolding check_transaction_Returned_iff id by force
  have "Gateway_invoke hub_down_sys (example_gateway ?ps) (lit ''put'') None None 30 [] = (Returned ?etx, tr6)"
    unfolding Gateway_invoke_fails_over [OF example_gateway_ready] example_gateway_sel
    by (intro exI [of _ g] exI [of _ tr1] exI [of _ tr2] exI [of _ r] exI [of _ tr4] exI [of _ "[example_peer ''p1'']"]
        exI [of _ "example_peer ''p2''"] exI [of _ "[]"] exI [of _ tr5] exI [of _ t] conjI g p fe c f ch)
      (use check_transaction_Returned_D [OF ch] in simp_all)
  then show ?thesis by blast
qed

theorem Gateway_invoke_refines_invoke_witness:
  "\<exists>etx tr'. Gateway_invoke example_sys (example_gateway [example_peer ''p1'', example_peer ''p2''])
    (lit ''put'') (Some [lit ''k'', lit ''v'']) None 30 [] = (Returned etx, tr')"
proof -
  obtain etx tr' where "invoke example_sys example_user [example_peer ''p1'', example_peer ''p2'']
      [example_orderer ''o1''] example_channel (lit ''cc'') (lit ''put'') (Some [lit ''k'', lit ''v'']) 30 None [] =
      (Returned etx, tr')" using example_invoke [of "[]"] by blast
  then have "invoke example_sys example_user (gw_endorsing_peers (example_gateway
      [example_peer ''p1'', example_peer ''p2''])) (gw_orderers (example_gateway [example_peer ''p1'', example_peer ''p2'']))
      example_channel (lit ''cc'') (lit ''put'') (Some [lit ''k'', lit ''v'']) 30 None [] = (Returned etx, tr')"
    unfolding example_gateway_sel .
  from Gateway_invoke_refines_invoke [OF example_gateway_ready this] show ?thesis by blast
qed

theorem Gateway_query_matches_query_witness:
  "\<exists>oc tr'. query example_sys example_user [example_peer ''p1''] example_channel (lit ''cc'') (lit ''get'') None None [] =
      (oc, tr') \<and>
    (\<exists>oc'. Gateway_query example_sys (example_gateway [example_peer ''p1'']) (lit ''get'') None None [] = (oc', tr'))"
proof -
  obtain oc tr' where q: "query example_sys example_user (gw_endorsing_peers (example_gateway [example_peer ''p1'']))
    example_channel (lit ''cc'') (lit ''get'') None None [] = (oc, tr')" by fastforce
  from Gateway_query_matches_query [OF example_gateway_ready q] q [unfolded example_gateway_sel] show ?thesis by blast
qed

end
