(* ===== verification/Config.thy ===== *)
theory Config
  imports Gateways
begin

text \<open>
  The configuration (\<open>src/snakeskin/config.py\<close>): dictionaries of peers, orderers, users,
  chaincodes and gateways, kept as association lists in insertion order; the names that
  \<open>__post_init__\<close> fills in; the getters and the assembly of a \<open>Gateway\<close>; and loading from a
  file. The parsers of JSON and YAML and \<open>dacite.from_dict\<close>, which turns the parsed data into
  the constructor's arguments, are parameters.
\<close>

section \<open>Data\<close>

type_synonym 'a dict = "(pystr \<times> 'a) list"

record GatewayConfig =
  gc_channel :: pystr
  gc_requestor :: pystr
  gc_endorsing_peers :: "pystr list"
  gc_orderers :: "pystr list"
  gc_chaincode :: "pystr option"

record BlockchainConfig =
  cfg_peers :: "Peer dict"
  cfg_orderers :: "Orderer dict"
  cfg_users :: "User dict"
  cfg_chaincodes :: "ChaincodeSpec dict"
  cfg_gateways :: "GatewayConfig dict"

definition new_BlockchainConfig :: BlockchainConfig where
  "new_BlockchainConfig =
    \<lparr>cfg_peers = [], cfg_orderers = [], cfg_users = [], cfg_chaincodes = [], cfg_gateways = []\<rparr>"

section \<open>Names\<close>

text \<open>\<open>{name: f(name, x) for name, x in d.items()}\<close>, where \<open>f\<close> may raise.\<close>

fun map_items :: "(pystr \<Rightarrow> 'a \<Rightarrow> 'b result) \<Rightarrow> 'a dict \<Rightarrow> 'b dict result" where
  "map_items f [] = Inr []"
| "map_items f ((name, x) # d) =
    bind_res (f name x) (\<lambda>y. bind_res (map_items f d) (\<lambda>d'. Inr ((name, y) # d')))"

text \<open>\<open>dataclasses.replace\<close> runs \<open>__post_init__\<close> of the class again on the copied fields.\<close>

definition named_peer :: "(pystr \<Rightarrow> bytes result) \<Rightarrow> pystr \<Rightarrow> Peer \<Rightarrow> Peer result" where
  "named_peer fs name peer = Peer_init fs (peer\<lparr>peer_name := Some (or_else (peer_name peer) name)\<rparr>)"

definition named_orderer :: "(pystr \<Rightarrow> bytes result) \<Rightarrow> pystr \<Rightarrow> Orderer \<Rightarrow> Orderer result" where
  "named_orderer fs name ord = Orderer_init fs (ord\<lparr>orderer_name := Some (or_else (orderer_name ord) name)\<rparr>)"

definition named_user ::
  "(pystr \<Rightarrow> bytes result) \<Rightarrow> (bytes \<Rightarrow> priv_key result) \<Rightarrow> pystr \<Rightarrow> User \<Rightarrow> User result" where
  "named_user fs load_pem name user =
    User_post_init fs load_pem (user\<lparr>user_name := Some (or_else (user_name user) name)\<rparr>)"

definition named_chaincode :: "pystr \<Rightarrow> ChaincodeSpec \<Rightarrow> ChaincodeSpec result" where
  "named_chaincode name cc = Inr (cc\<lparr>cc_name := Some (or_else (cc_name cc) name)\<rparr>)"

definition BlockchainConfig_post_init ::
  "(pystr \<Rightarrow> bytes result) \<Rightarrow> (bytes \<Rightarrow> priv_key result) \<Rightarrow> BlockchainConfig \<Rightarrow> BlockchainConfig result" where
  "BlockchainConfig_post_init fs load_pem c =
    bind_res (map_items (named_peer fs) (cfg_peers c)) (\<lambda>peers.
    bind_res (map_items (named_orderer fs) (cfg_orderers c)) (\<lambda>orderers.
    bind_res (map_items (named_user fs load_pem) (cfg_users c)) (\<lambda>users.
    bind_res (map_items named_chaincode (cfg_chaincodes c)) (\<lambda>chaincodes.
      Inr (c\<lparr>cfg_peers := peers, cfg_orderers := orderers, cfg_users := users,
             cfg_chaincodes := chaincodes\<rparr>)))))"

section \<open>Getters\<close>

definition no_such :: "string \<Rightarrow> pystr \<Rightarrow> py_error" where
  "no_such kind name = KeyError (Some (lit ''No '' @ lit kind @ lit '' defined with name \"'' @ name @ lit ''\"''))"

definition get_peer :: "BlockchainConfig \<Rightarrow> pystr \<Rightarrow> Peer result" where
  "get_peer c name = of_option (no_such ''peer'' name) (map_of (cfg_peers c) name)"

definition get_orderer :: "BlockchainConfig \<Rightarrow> pystr \<Rightarrow> Orderer result" where
  "get_orderer c name = of_option (no_such ''orderer'' name) (map_of (cfg_orderers c) name)"

definition get_user :: "BlockchainConfig \<Rightarrow> pystr \<Rightarrow> User result" where
  "get_user c name = of_option (no_such ''user'' name) (map_of (cfg_users c) name)"

definition get_chaincode :: "BlockchainConfig \<Rightarrow> pystr \<Rightarrow> ChaincodeSpec result" where
  "get_chaincode c name = of_option (no_such ''chaincode'' name) (map_of (cfg_chaincodes c) name)"

definition get_gateway :: "BlockchainConfig \<Rightarrow> pystr \<Rightarrow> Gateway result" where
  "get_gateway c name =
    bind_res (of_option (no_such ''gateway'' name) (map_of (cfg_gateways c) name)) (\<lambda>config.
    bind_res (map_res (get_peer c) (gc_endorsing_peers config)) (\<lambda>peers.
    bind_res (if truthy (gc_chaincode config)
              then bind_res (get_chaincode c (the (gc_chaincode config))) (\<lambda>cc. Inr (Some cc))
              else Inr None) (\<lambda>chaincode.
    bind_res (get_user c (gc_requestor config)) (\<lambda>requestor.
    bind_res (map_res (get_orderer c) (gc_orderers config)) (\<lambda>orderers.
      Inr \<lparr>gw_endorsing_peers = peers, gw_orderers = orderers,
           gw_channel = Some \<lparr>channel_name = gc_channel config\<rparr>,
           gw_requestor = Some requestor, gw_chaincode = chaincode\<rparr>)))))"

section \<open>Loading from a file\<close>

text \<open>
  \<open>os.path.splitext(path)[1]\<close>: from the last dot of the last component, if a character other
  than a dot comes before it. 46 is the dot and 47 the slash.
\<close>

definition splitext_ext :: "pystr \<Rightarrow> pystr" where
  "splitext_ext path =
    (let name = takeWhile (\<lambda>c. c \<noteq> 47) (rev path);
         ext = takeWhile (\<lambda>c. c \<noteq> 46) name;
         stem = drop (Suc (length ext)) name
     in if list_ex (\<lambda>c. c \<noteq> 46) stem then 46 # rev ext else [])"

record 'v config_lib =
  lib_open :: "pystr \<Rightarrow> pystr result"
  lib_json_load :: "pystr \<Rightarrow> 'v result"
  lib_yaml_load :: "pystr \<Rightarrow> 'v result"
  lib_from_dict :: "'v \<Rightarrow> BlockchainConfig result"
  lib_read_bytes :: "pystr \<Rightarrow> bytes result"
  lib_load_pem :: "bytes \<Rightarrow> priv_key result"

definition BlockchainConfig_from_dict :: "'v config_lib \<Rightarrow> 'v \<Rightarrow> BlockchainConfig result" where
  "BlockchainConfig_from_dict L v =
    bind_res (lib_from_dict L v) (BlockchainConfig_post_init (lib_read_bytes L) (lib_load_pem L))"

definition BlockchainConfig_from_file :: "'v config_lib \<Rightarrow> pystr \<Rightarrow> BlockchainConfig result" where
  "BlockchainConfig_from_file L file_path =
    (let ext = splitext_ext file_path in
     bind_res (lib_open L file_path) (\<lambda>content.
       if ext = lit ''.json'' then bind_res (lib_json_load L content) (BlockchainConfig_from_dict L)
       else if ext = lit ''.yaml'' \<or> ext = lit ''.yml''
       then bind_res (lib_yaml_load L content) (BlockchainConfig_from_dict L)
       else Inl (ValueError (lit ''Unrecognized file extension for file '' @ file_path))))"

section \<open>Dictionaries\<close>

lemma map_items_keys: "map_items f d = Inr d' \<Longrightarrow> map fst d' = map fst d"
  by (induction d arbitrary: d') auto

lemma map_items_lookup:
  "map_items f d = Inr d' \<Longrightarrow>
    map_of d' n = Some y \<longleftrightarrow> (\<exists>x. map_of d n = Some x \<and> f n x = Inr y)"
  by (induction d arbitrary: d') auto

lemma map_items_idem:
  assumes "map_items f d = Inr d'" "\<And>n x y. f n x = Inr y \<Longrightarrow> f n y = Inr y"
  shows "map_items f d' = Inr d'"
  using assms(1) by (induction d arbitrary: d') (auto simp: assms(2))

lemma map_res_lookup_iff:
  "map_res (\<lambda>n. of_option (e n) (m n)) ns = Inr xs \<longleftrightarrow> map m ns = map Some xs"
  by (induction ns arbitrary: xs) (auto simp: Cons_eq_map_conv)

lemma of_option_Inl_iff [simp]: "of_option e x = Inl d \<longleftrightarrow> x = None \<and> d = e"
  by (cases x) auto

lemma map_res_Inl_mem: "map_res f xs = Inl e \<Longrightarrow> \<exists>x \<in> set xs. f x = Inl e"
  by (induction xs) (auto simp: bind_res_Inl_iff)

text \<open>What the getters share: a name resolves exactly if it is a key.\<close>

lemmas getter_defs = get_peer_def get_orderer_def get_user_def get_chaincode_def

section \<open>Naming\<close>

lemma or_else_idem [simp]: "or_else (Some (or_else x d)) d = or_else x d"
  by (cases x rule: truthy_cases) (auto simp: or_else_def)

lemma ConnectedModel_post_init_Inr_D:
  assumes "ConnectedModel_post_init fs m = Inr m'"
  shows "ConnectedModel_post_init fs m' = Inr m' \<and> endpoint m' = endpoint m \<and>
    ConnectedModel.more m' = ConnectedModel.more m"
proof -
  from assms obtain ca ct ky where l: "load_field fs (tls_ca_cert m) (tls_ca_cert_path m) = Inr ca"
    "load_field fs (client_cert m) (client_cert_path m) = Inr ct"
    "load_field fs (client_key m) (client_key_path m) = Inr ky"
    and m': "m' = m\<lparr>tls_ca_cert := ca, client_cert := ct, client_key := ky,
      grpc_channel := Some (open_channel (m\<lparr>tls_ca_cert := ca, client_cert := ct, client_key := ky\<rparr>))\<rparr>"
    unfolding ConnectedModel_post_init_def Let_def by auto
  note i = l [THEN load_field_idem]
  have "ConnectedModel_post_init fs m' = Inr m'"
    unfolding m' ConnectedModel_post_init_def Let_def using i
    by (simp add: open_channel_def)
  then show ?thesis by (simp add: m')
qed

lemma named_peer_D:
  assumes "named_peer fs n p = Inr q"
  shows "named_peer fs n q = Inr q \<and> peer_name q = Some (or_else (peer_name p) n) \<and> endpoint q = endpoint p"
proof -
  from ConnectedModel_post_init_Inr_D [OF assms [unfolded named_peer_def Peer_init_def]]
  have i: "ConnectedModel_post_init fs q = Inr q" and e: "endpoint q = endpoint p" and
    m: "ConnectedModel.more q = ConnectedModel.more (p\<lparr>peer_name := Some (or_else (peer_name p) n)\<rparr>)" by simp_all
  from m have n: "peer_name q = Some (or_else (peer_name p) n)" by (cases p; cases q) simp
  have q: "q\<lparr>peer_name := Some (or_else (peer_name q) n)\<rparr> = q" unfolding n or_else_idem using n by (cases q) simp
  have "named_peer fs n q = Inr q" unfolding named_peer_def Peer_init_def q by (rule i)
  with n e show ?thesis by simp
qed

lemma named_orderer_D:
  assumes "named_orderer fs n p = Inr q"
  shows "named_orderer fs n q = Inr q \<and> orderer_name q = Some (or_else (orderer_name p) n) \<and> endpoint q = endpoint p"
proof -
  from ConnectedModel_post_init_Inr_D [OF assms [unfolded named_orderer_def Orderer_init_def]]
  have i: "ConnectedModel_post_init fs q = Inr q" and e: "endpoint q = endpoint p" and
    m: "ConnectedModel.more q = ConnectedModel.more (p\<lparr>orderer_name := Some (or_else (orderer_name p) n)\<rparr>)" by simp_all
  from m have n: "orderer_name q = Some (or_else (orderer_name p) n)" by (cases p; cases q) simp
  have q: "q\<lparr>orderer_name := Some (or_else (orderer_name q) n)\<rparr> = q"
    unfolding n or_else_idem using n by (cases q) simp
  have "named_orderer fs n q = Inr q" unfolding named_orderer_def Orderer_init_def q by (rule i)
  with n e show ?thesis by simp
qed

lemma User_post_init_Inr_D:
  assumes "User_post_init fs load_pem u = Inr v"
  shows "User_post_init fs load_pem v = Inr v \<and> user_name v = user_name u \<and> msp_id v = msp_id u \<and>
    user_suite v = user_suite u \<and> private_key v \<noteq> None"
proof -
  from assms obtain u1 u2 pk where u1: "User_load_cert fs u = Inr u1" and u2: "User_load_key fs u1 = Inr u2"
    and pk: "load_pem (the (key u2)) = Inr pk" and v: "v = u2\<lparr>private_key := Some pk\<rparr>"
    unfolding User_post_init_def by force
  from u1 obtain c where c: "if truthy (cert u) then cert u = Some c
      else truthy (cert_path u) \<and> fs (the (cert_path u)) = Inr c" "u1 = u\<lparr>cert := Some c\<rparr>"
    unfolding User_load_cert_Inr_iff by blast
  have sel: "key u1 = key u" "key_path u1 = key_path u" using c(2) by simp_all
  from u2 obtain k where k: "if truthy (key u) then key u = Some k
      else truthy (key_path u) \<and> fs (the (key_path u)) = Inr k" "u2 = u1\<lparr>key := Some k\<rparr>"
    unfolding User_load_key_Inr_iff sel by blast
  have v': "cert v = Some c" "key v = Some k" "cert_path v = cert_path u" "key_path v = key_path u"
    "private_key v = Some pk" unfolding v k c by simp_all
  have upd: "v\<lparr>cert := Some c\<rparr> = v" "v\<lparr>key := Some k\<rparr> = v" "v\<lparr>private_key := Some pk\<rparr> = v"
    using v' by (cases v; simp)+
  have "User_load_cert fs v = Inr v"
    unfolding User_load_cert_Inr_iff v' using c(1) upd(1) by (intro exI [of _ c]) (auto split: if_splits)
  moreover have "User_load_key fs v = Inr v"
    unfolding User_load_key_Inr_iff v' using k(1) upd(2) by (intro exI [of _ k]) (auto split: if_splits)
  ultimately have "User_post_init fs load_pem v = Inr v"
    using pk v'(2) upd(3) by (simp add: User_post_init_def v)
  then show ?thesis unfolding v k c by simp
qed

lemma named_user_D:
  assumes "named_user fs load_pem n p = Inr q"
  shows "named_user fs load_pem n q = Inr q \<and> user_name q = Some (or_else (user_name p) n) \<and>
    user_suite q = user_suite p \<and> private_key q \<noteq> None"
proof -
  note d = User_post_init_Inr_D [OF assms [unfolded named_user_def]]
  then have n: "user_name q = Some (or_else (user_name p) n)" by simp
  have q: "q\<lparr>user_name := Some (or_else (user_name q) n)\<rparr> = q" unfolding n or_else_idem using n by (cases q) simp
  have "named_user fs load_pem n q = Inr q" unfolding named_user_def q using d by simp
  with n d show ?thesis by simp
qed

lemma named_chaincode_D:
  assumes "named_chaincode n p = Inr q"
  shows "named_chaincode n q = Inr q \<and> cc_name q = Some (or_else (cc_name p) n)"
proof -
  from assms have n: "cc_name q = Some (or_else (cc_name p) n)" by (auto simp: named_chaincode_def)
  have "q\<lparr>cc_name := Some (or_else (cc_name q) n)\<rparr> = q" unfolding n or_else_idem using n by (cases q) simp
  with n show ?thesis by (simp only: named_chaincode_def simp_thms)
qed

text \<open>
  The contract of the four: naming twice is naming once, and an entity keeps the name it has
  or else takes the key.
\<close>

locale naming =
  fixes f :: "pystr \<Rightarrow> 'a \<Rightarrow> 'a result" and nm :: "'a \<Rightarrow> pystr option"
  assumes naming: "f n x = Inr y \<Longrightarrow> f n y = Inr y \<and> nm y = Some (or_else (nm x) n)"
begin

lemma items:
  assumes "map_items f d = Inr d'"
  shows "map_items f d' = Inr d' \<and> map fst d' = map fst d \<and>
    (\<forall>n. map_option nm (map_of d' n) = map_option (\<lambda>x. Some (or_else (nm x) n)) (map_of d n))"
  using assms
proof (induction d arbitrary: d')
  case (Cons nx d)
  obtain n x where nx: "nx = (n, x)" by fastforce
  with Cons.prems obtain y e where y: "f n x = Inr y" and e: "map_items f d = Inr e" and d': "d' = (n, y) # e"
    by auto
  from naming [OF y] Cons.IH [OF e] show ?case by (simp add: nx d')
qed simp

lemma names_nonempty:
  assumes "map_items f d = Inr d'" "map_of d' n = Some y" "n \<noteq> []"
  shows "\<exists>m. nm y = Some m \<and> m \<noteq> []"
proof -
  from assms(1,2) obtain x where "f n x = Inr y" by (auto simp: map_items_lookup)
  with naming or_else_nonempty [OF assms(3)] show ?thesis by blast
qed

end

interpretation peers: naming "named_peer fs" peer_name
  by unfold_locales (blast dest: named_peer_D)

interpretation orderers: naming "named_orderer fs" orderer_name
  by unfold_locales (blast dest: named_orderer_D)

interpretation users: naming "named_user fs load_pem" user_name
  by unfold_locales (blast dest: named_user_D)

interpretation chaincodes: naming named_chaincode cc_name
  by unfold_locales (blast dest: named_chaincode_D)

lemma BlockchainConfig_post_init_Inr_D:
  assumes "BlockchainConfig_post_init fs load_pem c = Inr c'"
  shows "map_items (named_peer fs) (cfg_peers c) = Inr (cfg_peers c') \<and>
    map_items (named_orderer fs) (cfg_orderers c) = Inr (cfg_orderers c') \<and>
    map_items (named_user fs load_pem) (cfg_users c) = Inr (cfg_users c') \<and>
    map_items named_chaincode (cfg_chaincodes c) = Inr (cfg_chaincodes c') \<and>
    cfg_gateways c' = cfg_gateways c"
  using assms by (auto simp: BlockchainConfig_post_init_def)

text \<open>
  A loaded configuration has the entries it was given, every one with the name it was
  given or else its key, in all four dictionaries; and loading its parts again changes nothing.
\<close>

theorem config_names_default_to_keys:
  assumes "BlockchainConfig_post_init fs load_pem c = Inr c'"
  shows "BlockchainConfig_post_init fs load_pem c' = Inr c' \<and> cfg_gateways c' = cfg_gateways c \<and>
    map fst (cfg_peers c') = map fst (cfg_peers c) \<and> map fst (cfg_orderers c') = map fst (cfg_orderers c) \<and>
    map fst (cfg_users c') = map fst (cfg_users c) \<and> map fst (cfg_chaincodes c') = map fst (cfg_chaincodes c) \<and>
    map_option peer_name (map_of (cfg_peers c') n) =
      map_option (\<lambda>x. Some (or_else (peer_name x) n)) (map_of (cfg_peers c) n) \<and>
    map_option orderer_name (map_of (cfg_orderers c') n) =
      map_option (\<lambda>x. Some (or_else (orderer_name x) n)) (map_of (cfg_orderers c) n) \<and>
    map_option user_name (map_of (cfg_users c') n) =
      map_option (\<lambda>x. Some (or_else (user_name x) n)) (map_of (cfg_users c) n) \<and>
    map_option cc_name (map_of (cfg_chaincodes c') n) =
      map_option (\<lambda>x. Some (or_else (cc_name x) n)) (map_of (cfg_chaincodes c) n)"
proof -
  note D = BlockchainConfig_post_init_Inr_D [OF assms]
  note P = peers.items [of fs "cfg_peers c"] and O = orderers.items [of fs "cfg_orderers c"]
    and U = users.items [of fs load_pem "cfg_users c"] and C = chaincodes.items [of "cfg_chaincodes c"]
  from D P O U C have "BlockchainConfig_post_init fs load_pem c' = Inr c'"
    by (simp add: BlockchainConfig_post_init_def)
  with D P O U C show ?thesis by simp
qed

section \<open>Resolving gateways\<close>

text \<open>
  C32. A gateway is returned exactly when it is configured and all the names in its
  configuration are; it then holds the configured peers and orderers in the listed order, the
  user, the channel of the given name, and the chaincode if one is named.
\<close>

theorem get_gateway_resolves:
  "get_gateway c name = Inr gw \<longleftrightarrow>
    (\<exists>g. map_of (cfg_gateways c) name = Some g \<and>
      map (map_of (cfg_peers c)) (gc_endorsing_peers g) = map Some (gw_endorsing_peers gw) \<and>
      map (map_of (cfg_orderers c)) (gc_orderers g) = map Some (gw_orderers gw) \<and>
      gw_channel gw = Some \<lparr>channel_name = gc_channel g\<rparr> \<and>
      gw_requestor gw = map_of (cfg_users c) (gc_requestor g) \<and> gw_requestor gw \<noteq> None \<and>
      gw_chaincode gw = (if truthy (gc_chaincode g) then map_of (cfg_chaincodes c) (the (gc_chaincode g)) else None) \<and>
      (gw_chaincode gw = None) = (\<not> truthy (gc_chaincode g)))"
proof -
  have p: "map_res (get_peer c) ns = Inr ps \<longleftrightarrow> map (map_of (cfg_peers c)) ns = map Some ps" for ns ps
    unfolding get_peer_def by (rule map_res_lookup_iff)
  have o: "map_res (get_orderer c) ns = Inr ps \<longleftrightarrow> map (map_of (cfg_orderers c)) ns = map Some ps" for ns ps
    unfolding get_orderer_def by (rule map_res_lookup_iff)
  have u: "get_user c n = Inr u \<longleftrightarrow> map_of (cfg_users c) n = Some u" for n u
    by (simp add: get_user_def)
  have cc: "(if truthy k then bind_res (get_chaincode c (the k)) (\<lambda>cc. Inr (Some cc)) else Inr None) = Inr x \<longleftrightarrow>
      x = (if truthy k then map_of (cfg_chaincodes c) (the k) else None) \<and> (truthy k \<longrightarrow> x \<noteq> None)" for k x
    by (auto simp: get_chaincode_def)
  show ?thesis
  proof (cases "map_of (cfg_gateways c) name")
    case None
    then show ?thesis by (simp add: get_gateway_def)
  next
    case (Some g)
    obtain ps os ch rq cs where gw: "gw = \<lparr>gw_endorsing_peers = ps, gw_orderers = os, gw_channel = ch,
        gw_requestor = rq, gw_chaincode = cs\<rparr>" by (cases gw)
    have one_point: "(\<exists>x. P x \<and> (\<exists>xa. C xa \<and> (\<exists>xb. U = Some xb \<and> (\<exists>xc. Q xc \<and> x = ps \<and> xc = os \<and>
        X = ch \<and> Some xb = rq \<and> xa = cs \<and> () = ())))) \<longleftrightarrow>
      P ps \<and> Q os \<and> ch = X \<and> rq = U \<and> rq \<noteq> None \<and> C cs" for P C U Q X by blast
    have none: "cs = (if t then x else None) \<and> (t \<longrightarrow> cs \<noteq> None) \<longleftrightarrow>
      cs = (if t then x else None) \<and> (cs = None) = (\<not> t)" for t x by auto
    show ?thesis
      unfolding get_gateway_def Some of_option_simps bind_res.simps bind_res_Inr_iff p o u cc gw
        sum.inject Gateway.iffs one_point none by simp
  qed
qed

text \<open>
  When a gateway cannot be built, the \<open>KeyError\<close> names a missing entry and its kind: the
  gateway itself, or a peer, chaincode, user or orderer that its configuration refers to.
\<close>

theorem get_gateway_names_the_missing:
  assumes "get_gateway c name = Inl e"
  shows "\<exists>kind n. e = KeyError (Some (lit ''No '' @ lit kind @ lit '' defined with name \"'' @ n @ lit ''\"'')) \<and>
    (kind = ''gateway'' \<and> n = name \<and> map_of (cfg_gateways c) name = None \<or>
     (\<exists>g. map_of (cfg_gateways c) name = Some g \<and>
       (kind = ''peer'' \<and> n \<in> set (gc_endorsing_peers g) \<and> map_of (cfg_peers c) n = None \<or>
        kind = ''chaincode'' \<and> gc_chaincode g = Some n \<and> map_of (cfg_chaincodes c) n = None \<or>
        kind = ''user'' \<and> n = gc_requestor g \<and> map_of (cfg_users c) n = None \<or>
        kind = ''orderer'' \<and> n \<in> set (gc_orderers g) \<and> map_of (cfg_orderers c) n = None)))"
proof (cases "map_of (cfg_gateways c) name")
  case None
  with assms have "e = no_such ''gateway'' name" by (simp add: get_gateway_def)
  with None show ?thesis unfolding no_such_def by blast
next
  case (Some g)
  from assms Some consider
      (p) "map_res (get_peer c) (gc_endorsing_peers g) = Inl e"
    | (c) k where "gc_chaincode g = Some k" "get_chaincode c k = Inl e"
    | (u) "get_user c (gc_requestor g) = Inl e"
    | (o) "map_res (get_orderer c) (gc_orderers g) = Inl e"
    by (cases "gc_chaincode g") (auto simp: get_gateway_def bind_res_Inl_iff split: if_splits)
  then show ?thesis
  proof cases
    case p
    from map_res_Inl_mem [OF this] obtain n where "n \<in> set (gc_endorsing_peers g)" "get_peer c n = Inl e" by blast
    with Some show ?thesis
      by (intro exI [of _ "''peer''"] exI [of _ n]) (simp add: get_peer_def no_such_def)
  next
    case c
    with Some show ?thesis
      by (intro exI [of _ "''chaincode''"] exI [of _ k]) (simp add: get_chaincode_def no_such_def)
  next
    case u
    with Some show ?thesis
      by (intro exI [of _ "''user''"] exI [of _ "gc_requestor g"]) (simp add: get_user_def no_such_def)
  next
    case o
    from map_res_Inl_mem [OF this] obtain n where "n \<in> set (gc_orderers g)" "get_orderer c n = Inl e" by blast
    with Some show ?thesis
      by (intro exI [of _ "''orderer''"] exI [of _ n]) (simp add: get_orderer_def no_such_def)
  qed
qed

text \<open>
  C31. From configuration to transaction: a gateway of a loaded configuration that lists an
  endorsing peer and names a chaincode passes all checks of \<open>transact\<close>, whose chaincode is
  called by its own name or else by its key, and gets a builder for itself.
\<close>

theorem configured_gateway_transacts:
  assumes "runtime_ok (sys_pb S)" "BlockchainConfig_post_init fs load_pem c0 = Inr c"
    and "map_of (cfg_gateways c) name = Some g" "get_gateway c name = Inr gw"
    and "gc_endorsing_peers g \<noteq> []" "gc_chaincode g = Some k" "k \<noteq> []"
    and "\<And>u seed pk b. map_of (cfg_users c0) (gc_requestor g) = Some u \<Longrightarrow> \<exists>s. sign_message (user_suite u) seed pk b = Inr s"
    and "encode_proto_str (gc_channel g) = Inr cid"
    and "map_res encode_proto_bytes ([fcn] @ or_else args []) = Inr full_args"
  shows "\<exists>u cc b tr'. map_of (cfg_chaincodes c0) k = Some cc \<and>
    gateway_ready gw u \<lparr>channel_name = gc_channel g\<rparr> (or_else (cc_name cc) k) \<and>
    transact S gw fcn args tm tr = (Returned b, tr') \<and> bld_gateway b = gw"
proof -
  note D = BlockchainConfig_post_init_Inr_D [OF assms(2)]
  obtain k0 ks where k: "k = k0 # ks" using assms(7) by (cases k) auto
  from assms(4) [unfolded get_gateway_resolves] obtain g1 where "map_of (cfg_gateways c) name = Some g1" and
    ps: "map (map_of (cfg_peers c)) (gc_endorsing_peers g1) = map Some (gw_endorsing_peers gw)" and
    ch: "gw_channel gw = Some \<lparr>channel_name = gc_channel g1\<rparr>" and
    u: "gw_requestor gw = map_of (cfg_users c) (gc_requestor g1)" "gw_requestor gw \<noteq> None" and
    cc: "gw_chaincode gw =
      (if truthy (gc_chaincode g1) then map_of (cfg_chaincodes c) (the (gc_chaincode g1)) else None)"
      "(gw_chaincode gw = None) = (\<not> truthy (gc_chaincode g1))" by (elim exE conjE)
  then have g1: "g1 = g" using assms(3) by simp
  note ps = ps [unfolded g1] and ch = ch [unfolded g1]
  obtain u where u: "gw_requestor gw = Some u" "map_of (cfg_users c) (gc_requestor g) = Some u"
    using u unfolding g1 by (metis option.exhaust)
  have "truthy (gc_chaincode g)" "the (gc_chaincode g) = k" using assms(6) k by simp_all
  with cc obtain cc' where cc: "gw_chaincode gw = Some cc'" "map_of (cfg_chaincodes c) k = Some cc'"
    unfolding g1 by (metis option.exhaust)
  from ps assms(5) have "gw_endorsing_peers gw \<noteq> []" by auto
  moreover from cc(2) D obtain cc where cc0: "map_of (cfg_chaincodes c0) k = Some cc" "named_chaincode k cc = Inr cc'"
    by (auto simp: map_items_lookup)
  ultimately have r: "gateway_ready gw u \<lparr>channel_name = gc_channel g\<rparr> (or_else (cc_name cc) k)"
    using ch u(1) cc(1) named_chaincode_D [OF cc0(2)] or_else_nonempty [OF assms(7)] by (simp add: gateway_ready_def)
  from u(2) D obtain u0 where "map_of (cfg_users c0) (gc_requestor g) = Some u0"
    "named_user fs load_pem (gc_requestor g) u0 = Inr u"
    by (auto simp: map_items_lookup)
  with named_user_D assms(8) have "user_ready u" by (fastforce simp: user_ready_def)
  with generate_cc_tx_total [OF assms(1) _ _ assms(10)] assms(9) obtain g' tr' where
    "generate_cc_tx S u (or_else (cc_name cc) k) \<lparr>channel_name = gc_channel g\<rparr> fcn args tm tr = (Returned g', tr')"
    by (metis Channel.select_convs(1))
  then have "transact S gw fcn args tm tr = (Returned (new_GatewayTXBuilder gw g'), tr')"
    unfolding transact_ready [OF r] by (simp add: bind_io_def io_eval)
  with r cc0(1) show ?thesis by fastforce
qed

section \<open>Files\<close>

lemma splitext_ext_eq:
  assumes "46 \<notin> set e" "47 \<notin> set e" "47 \<notin> set stem" "list_ex (\<lambda>c. c \<noteq> 46) stem" "folder = [] \<or> last folder = 47"
  shows "splitext_ext (folder @ stem @ 46 # e) = 46 # e"
proof -
  have "takeWhile (\<lambda>c. c \<noteq> 47) (rev e @ 46 # rev stem @ rev folder) = rev e @ 46 # rev stem"
    using assms(2,3,5) by (cases folder rule: rev_cases) (auto simp: takeWhile_append)
  moreover have "takeWhile (\<lambda>c. c \<noteq> 46) (rev e @ 46 # rev stem) = rev e"
    using assms(1) by (auto simp: takeWhile_append)
  ultimately show ?thesis using assms(4) by (simp add: splitext_ext_def Let_def list_ex_iff)
qed

text \<open>
  Loading a file goes by its extension: \<open>.json\<close> through the JSON parser, \<open>.yaml\<close> and
  \<open>.yml\<close> through the YAML parser, and the constructor's post-processing runs on the result. A
  file with another extension is opened and then refused with a \<open>ValueError\<close> that quotes
  the path.
\<close>

theorem from_file_by_extension:
  assumes "lib_open L path = Inr content"
  shows "BlockchainConfig_from_file L path =
    (let load = (\<lambda>parse. bind_res (parse content) (\<lambda>v. bind_res (lib_from_dict L v)
         (BlockchainConfig_post_init (lib_read_bytes L) (lib_load_pem L)))) in
     if splitext_ext path = lit ''.json'' then load (lib_json_load L)
     else if splitext_ext path \<in> {lit ''.yaml'', lit ''.yml''} then load (lib_yaml_load L)
     else Inl (ValueError (lit ''Unrecognized file extension for file '' @ path)))"
  using assms by (simp add: BlockchainConfig_from_file_def BlockchainConfig_from_dict_def[abs_def] Let_def)

section \<open>Examples\<close>

definition example_key :: "bytes \<Rightarrow> priv_key result" where
  "example_key b = Inr (PrivateKey 5)"

definition example_config :: BlockchainConfig where
  "example_config =
    \<lparr>cfg_peers = [(lit ''p1'', (example_peer ''p1'')\<lparr>peer_name := None\<rparr>)],
     cfg_orderers = [(lit ''o1'', example_orderer ''o1'')],
     cfg_users = [(lit ''admin'', example_user)],
     cfg_chaincodes = [(lit ''cc'', example_spec\<lparr>cc_name := None\<rparr>)],
     cfg_gateways = [(lit ''gw'', \<lparr>gc_channel = lit ''mychannel'', gc_requestor = lit ''admin'',
       gc_endorsing_peers = [lit ''p1''], gc_orderers = [lit ''o1''], gc_chaincode = Some (lit ''cc'')\<rparr>)]\<rparr>"

lemma example_config_loads: "\<exists>c. BlockchainConfig_post_init example_fs example_key example_config = Inr c \<and>
    get_gateway c (lit ''gw'') = Inr \<lparr>gw_endorsing_peers = map snd (cfg_peers c), gw_orderers = map snd (cfg_orderers c),
      gw_channel = Some \<lparr>channel_name = lit ''mychannel''\<rparr>, gw_requestor = Some (snd (hd (cfg_users c))),
      gw_chaincode = Some (snd (hd (cfg_chaincodes c)))\<rparr> \<and>
    map_of (cfg_peers c) (lit ''p1'') \<noteq> None"
  by (simp add: BlockchainConfig_post_init_def example_config_def named_peer_def named_orderer_def named_user_def
      named_chaincode_def Peer_init_def Orderer_init_def ConnectedModel_post_init_def User_post_init_def
      User_load_cert_def User_load_key_def load_field_def example_peer_def example_orderer_def example_user_def
      example_key_def get_gateway_def get_peer_def get_orderer_def get_user_def get_chaincode_def)

theorem config_names_default_to_keys_witness:
  "\<exists>c p. BlockchainConfig_post_init example_fs example_key example_config = Inr c \<and>
    map_of (cfg_peers c) (lit ''p1'') = Some p \<and> peer_name p = Some (lit ''p1'')"
proof -
  obtain c where c: "BlockchainConfig_post_init example_fs example_key example_config = Inr c"
    using example_config_loads by blast
  from config_names_default_to_keys [OF c, of "lit ''p1''"]
  have "map_option peer_name (map_of (cfg_peers c) (lit ''p1'')) =
      map_option (\<lambda>x. Some (or_else (peer_name x) (lit ''p1''))) (map_of (cfg_peers example_config) (lit ''p1''))"
    by (elim conjE)
  with c show ?thesis by (auto simp: example_config_def)
qed

theorem get_gateway_names_the_missing_witness:
  "\<exists>n. get_gateway (example_config\<lparr>cfg_peers := []\<rparr>) (lit ''gw'') = Inl (KeyError (Some n))"
proof -
  have "get_gateway (example_config\<lparr>cfg_peers := []\<rparr>) (lit ''gw'') = Inl (no_such ''peer'' (lit ''p1''))"
    by (simp add: get_gateway_def get_peer_def example_config_def)
  from get_gateway_names_the_missing [OF this] this show ?thesis by auto
qed

definition example_lib :: "pystr config_lib" where
  "example_lib = \<lparr>lib_open = (\<lambda>p. Inr (lit ''data'')), lib_json_load = Inr, lib_yaml_load = Inr,
    lib_from_dict = (\<lambda>v. Inr example_config), lib_read_bytes = example_fs, lib_load_pem = example_key\<rparr>"

theorem from_file_by_extension_witness:
  "BlockchainConfig_from_file example_lib (lit ''net/genesis.block'') =
    Inl (ValueError (lit ''Unrecognized file extension for file net/genesis.block''))"
proof -
  have "splitext_ext (lit ''net/'' @ lit ''genesis'' @ 46 # lit ''block'') = 46 # lit ''block''"
    by (rule splitext_ext_eq) simp_all
  then have "splitext_ext (lit ''net/genesis.block'') = lit ''.block''" by simp
  moreover have "lib_open example_lib (lit ''net/genesis.block'') = Inr (lit ''data'')" by (simp add: example_lib_def)
  ultimately show ?thesis using from_file_by_extension [of example_lib "lit ''net/genesis.block''" "lit ''data''"]
    by (simp add: Let_def)
qed

theorem configured_gateway_transacts_witness:
  "\<exists>c gw b tr'. BlockchainConfig_post_init example_fs example_key example_config = Inr c \<and>
    get_gateway c (lit ''gw'') = Inr gw \<and>
    transact example_sys gw (lit ''put'') None None [] = (Returned b, tr') \<and> bld_gateway b = gw"
proof -
  obtain c gw where c: "BlockchainConfig_post_init example_fs example_key example_config = Inr c" and
    gw: "get_gateway c (lit ''gw'') = Inr gw" using example_config_loads by blast
  define g where "g = \<lparr>gc_channel = lit ''mychannel'', gc_requestor = lit ''admin'',
       gc_endorsing_peers = [lit ''p1''], gc_orderers = [lit ''o1''], gc_chaincode = Some (lit ''cc'')\<rparr>"
  have "cfg_gateways c = [(lit ''gw'', g)]"
    using BlockchainConfig_post_init_Inr_D [OF c] by (simp add: example_config_def g_def)
  then have g: "map_of (cfg_gateways c) (lit ''gw'') = Some g" by simp
  have "gc_endorsing_peers g \<noteq> []" "gc_chaincode g = Some (lit ''cc'')" "lit ''cc'' \<noteq> []"
    by (simp_all add: g_def)
  moreover have "\<exists>s. sign_message (user_suite u) seed pk b = Inr s"
    if "map_of (cfg_users example_config) (gc_requestor g) = Some u" for u seed pk b
    using that by (simp add: example_config_def g_def example_user_def example_suite_def split: if_splits) auto
  moreover have "encode_proto_str (gc_channel g) = Inr (lit ''mychannel'')"
    using example_channel_text by (simp add: channel_text_def example_channel_def g_def)
  moreover have "map_res encode_proto_bytes ([lit ''put''] @ or_else None []) = Inr [map of_nat (lit ''put'')]"
    by (simp add: encode_proto_bytes_def latin1_encode_def)
  ultimately obtain b tr' where "transact example_sys gw (lit ''put'') None None [] = (Returned b, tr') \<and> bld_gateway b = gw"
    using configured_gateway_transacts [OF example_sys_pb c g gw] by blast
  with c gw show ?thesis by blast
qed

end
