(* ===== verification/Progress.thy ===== *)
theory Progress
  imports Config
begin

text \<open>
  Which operations always come to an end. An operation \<open>settles\<close> if it never waits forever,
  whatever happened before. Building messages always settles, and so does checking a
  transaction, by its timeout; proposing and broadcasting settle if peers and orderers answer
  or fail (\<open>responsive\<close>), whatever their event streams do. The operations compose from these.
\<close>

definition settles :: "'a io \<Rightarrow> bool" where
  "settles m \<longleftrightarrow> (\<forall>tr. fst (m tr) \<noteq> Blocked)"

named_theorems settles_intros \<open>operations that never wait forever\<close>

lemma settles_I: "(\<And>tr tr'. m tr \<noteq> (Blocked, tr')) \<Longrightarrow> settles m"
  unfolding settles_def by (metis prod.collapse)

lemma settles_D: "settles m \<Longrightarrow> m tr \<noteq> (Blocked, tr')"
  unfolding settles_def by (metis fst_conv)

lemma bind_Blocked_iff:
  "bind_io m f tr = (Blocked, tr'') \<longleftrightarrow> m tr = (Blocked, tr'') \<or>
    (\<exists>x tr'. m tr = (Returned x, tr') \<and> f x tr' = (Blocked, tr''))"
  by (cases "m tr"; cases "fst (m tr)") (auto simp: bind_io_def)

lemma try_Blocked_iff:
  "try_io m h tr = (Blocked, tr'') \<longleftrightarrow> m tr = (Blocked, tr'') \<or>
    (\<exists>e tr'. m tr = (Raised e, tr') \<and> h e tr' = (Blocked, tr''))"
  by (cases "m tr"; cases "fst (m tr)") (auto simp: try_io_def)

lemma settles_basic [settles_intros]:
  "settles (return_io x)" "settles (raise_io e)" "settles (emit v)"
  by (simp_all add: settles_def io_eval)

lemma settles_lift [settles_intros]: "settles (lift_res r)" "settles (lift_exn q)" "settles (guard_io c e)"
  by (cases r; simp add: settles_basic; fail) (cases q; cases c; simp add: settles_basic)+

lemma settles_bind [settles_intros]: "settles m \<Longrightarrow> (\<And>x. settles (f x)) \<Longrightarrow> settles (bind_io m f)"
  by (rule settles_I) (auto simp: bind_Blocked_iff dest: settles_D)

lemma settles_try [settles_intros]: "settles m \<Longrightarrow> (\<And>e. settles (h e)) \<Longrightarrow> settles (try_io m h)"
  by (rule settles_I) (auto simp: try_Blocked_iff dest: settles_D)

lemma settles_with_seed [settles_intros]: "(\<And>n. settles (f n)) \<Longrightarrow> settles (with_seed f)"
  by (simp add: settles_def with_seed_def)

lemma settles_conn [settles_intros]: "settles m \<Longrightarrow> settles (handle_conn_errors m)"
  unfolding handle_conn_errors_def by (intro settles_intros)

lemma settles_if [settles_intros]: "settles m \<Longrightarrow> settles n \<Longrightarrow> settles (if c then m else n)"
  by simp

section \<open>Building messages\<close>

lemma settles_factories [settles_intros]:
  "settles (tx_context_from_user pb u)" "settles (sign u bs)" "settles (wrap_transaction pb u pl)"
  "settles (build_header S ctx channel extension tx_type tls_cert)"
  "settles (build_envelope S u ctx data channel tls_cert extension tx_type)"
  "settles (build_generated_tx S u ccname args channel tm)"
  "settles (build_endorsed_tx_envelope S etx u)"
proof -
  show ctx: "settles (tx_context_from_user pb u)" for pb u
    unfolding tx_context_from_user_def Let_def by (intro settles_intros)
  show sign: "settles (sign u bs)" for u bs
    unfolding sign_def by (intro settles_intros)
  show wrap: "settles (wrap_transaction pb u pl)" for pb u pl
    unfolding wrap_transaction_def Let_def by (intro settles_intros sign)
  have clock: "settles (read_clock S)" by (simp add: settles_def read_clock_def)
  show header: "settles (build_header S ctx channel extension tx_type tls_cert)"
    for ctx channel extension tx_type tls_cert
    unfolding build_header_def by (intro settles_intros clock)
  show "settles (build_envelope S u ctx data channel tls_cert extension tx_type)"
    unfolding build_envelope_def by (intro settles_intros header wrap)
  show "settles (build_generated_tx S u ccname args channel tm)"
    unfolding build_generated_tx_def Let_def by (intro settles_intros ctx header sign)
  show "settles (build_endorsed_tx_envelope S etx u)"
    unfolding build_endorsed_tx_envelope_def Let_def by (intro settles_intros wrap)
qed

lemma settles_generate [settles_intros]:
  "settles (generate_cc_tx S u ccname channel fcn args tm)"
  "settles (generate_instantiate_cc_tx S u cc_spec channel policy upgrade)"
proof -
  show "settles (generate_cc_tx S u ccname channel fcn args tm)"
    unfolding generate_cc_tx_def by (intro settles_intros)
  have "settles (case policy of None \<Rightarrow> return_io []
      | Some p \<Rightarrow> bind_io (lift_res (build_signature_policy_envelope (sys_pb S) (sys_uni S) (sys_iter S) p))
          (\<lambda>env. return_io (ser (pb_SignaturePolicyEnvelope (sys_pb S)) env)))"
    by (cases policy) (simp_all add: settles_basic settles_bind settles_lift)
  then show "settles (generate_instantiate_cc_tx S u cc_spec channel policy upgrade)"
    unfolding generate_instantiate_cc_tx_def Let_def by (intro settles_intros)
qed

section \<open>Checking\<close>

lemma settles_stream [settles_intros]: "settles (stream_blocks S hub start stop behavior)"
proof -
  have "settles (build_stream S hub envelope)" for envelope by (simp add: settles_def build_stream_def)
  moreover have "settles (get_connection_envelope S hub behavior start stop)"
    unfolding get_connection_envelope_def by (intro settles_intros)
  ultimately show ?thesis unfolding stream_blocks_def by (intro settles_intros)
qed

lemma settles_wait_for [settles_intros]:
  "settles (wait_for timeout (timed_get_transaction S hub tx_id start behavior))"
proof -
  have "in_time timeout r \<noteq> Blocked" for r :: "nat \<times> 'x outcome" by (cases "snd r") (auto simp: in_time_def)
  then have o: "settles (outcome_io (in_time timeout r))" for r :: "nat \<times> 'x outcome"
    by (simp add: settles_def outcome_io_def)
  have "settles (timed_get_transaction S hub tx_id start behavior)"
    unfolding timed_get_transaction_def by (intro settles_intros)
  then show ?thesis unfolding wait_for_def by (intro settles_intros o)
qed

lemma settles_check [settles_intros]: "settles (check_transaction S hub tx_id timeout start behavior)"
  unfolding check_transaction_def by (intro settles_intros)

text \<open>
  Checking a transaction always ends, however the event stream behaves: a stream that
  stays open without the transaction ends in a \<open>TimeoutError\<close>.
\<close>

lemma check_transaction_terminates:
  "fst (check_transaction S hub tx_id timeout start behavior tr) \<noteq> Blocked"
  using settles_check by (simp add: settles_def)

section \<open>Proposing and broadcasting\<close>

definition responsive :: "sys \<Rightarrow> bool" where
  "responsive S \<longleftrightarrow>
    (\<forall>tr p sp. sys_ProcessProposal S tr p sp \<noteq> Blocked) \<and>
    (\<forall>tr ord envelope d. sys_Broadcast S tr ord envelope \<noteq> ([], d, Pending))"

lemma settles_propose:
  assumes "responsive S"
  shows "settles (propose_tx S peers g)"
proof (cases "peers = []")
  case True
  then show ?thesis by (simp add: propose_tx_Nil settles_basic)
next
  case False
  have "endorsement S sp peers tr i \<noteq> Blocked" for sp tr i
    using assms by (simp add: endorsement_def responsive_def)
  then have "Blocked \<notin> set (map (endorsement S sp peers tr) [0..<length peers])" for sp tr
    by (simp add: image_iff) metis
  then have "settle cord (map (endorsement S sp peers tr) [0..<length peers]) \<noteq> Blocked" for cord sp tr
    using settle_Blocked_D by blast
  with False show ?thesis by (auto simp: settles_def propose_tx_eq split: outcome.split)
qed

lemma settles_broadcast:
  assumes "responsive S"
  shows "settles (broadcast_to_orderers S envelope ords tx_id)"
proof -
  have o: "broadcast_outcome tx_id s \<noteq> Blocked" if "\<forall>d. s \<noteq> ([], d, Pending)" for s
    using that by (cases "(tx_id, s)" rule: broadcast_outcome.cases) auto
  have one: "settles (broadcast_to_orderer S envelope ord tx_id)" for ord
    unfolding settles_def broadcast_to_orderer_eq using o assms by (simp add: responsive_def)
  have "settles (broadcast_loop S envelope tx_id err ords)" for err
    by (induction ords arbitrary: err) (auto intro!: settles_intros one split: option.split)
  then show ?thesis unfolding broadcast_to_orderers_def by (intro settles_intros)
qed

section \<open>Operations\<close>

lemma settles_endorse:
  "responsive S \<Longrightarrow> settles gen \<Longrightarrow> settles (endorse_tx S peers msg gen)"
  unfolding endorse_tx_def by (intro settles_intros settles_propose)

lemma settles_commit: "responsive S \<Longrightarrow> settles (commit_tx S u ords etx)"
  unfolding commit_tx_def by (intro settles_intros settles_broadcast)

lemma settles_endorse_and_commit:
  "responsive S \<Longrightarrow> settles gen \<Longrightarrow> settles (endorse_and_commit S u peers ords channel timeout msg gen)"
  unfolding endorse_and_commit_def commit_tx_and_wait_def
  by (intro settles_intros settles_endorse settles_commit)

lemma settles_await_loop: "(\<And>p. settles (on_peer p)) \<Longrightarrow> settles (await_loop on_peer e ps)"
  by (induction ps arbitrary: e) (simp_all add: settles_intros)

lemma settles_await_commit: "settles (await_commit S u c True timeout (Some etx) ps)"
  unfolding await_commit_def await_on_peer_check by (intro settles_await_loop settles_intros)

lemma transact_not_ready:
  assumes "\<nexists>u c n. gateway_ready gw u c n"
  shows "\<exists>e. transact S gw fcn args tm = raise_io e"
proof -
  have "gw_endorsing_peers gw = [] \<or> gw_channel gw = None \<or> gw_requestor gw = None \<or>
      \<not> (case gw_chaincode gw of None \<Rightarrow> False | Some cc \<Rightarrow> truthy (cc_name cc))"
  proof (rule ccontr)
    assume "\<not> ?thesis"
    then obtain c u cc where "gw_endorsing_peers gw \<noteq> []" "gw_channel gw = Some c" "gw_requestor gw = Some u"
      "gw_chaincode gw = Some cc" "truthy (cc_name cc)" by (auto split: option.splits)
    then have "gateway_ready gw u c (the (cc_name cc))"
      by (cases "cc_name cc" rule: truthy_cases) (auto simp: gateway_ready_def)
    with assms show False by blast
  qed
  then show ?thesis
    by (cases "gw_channel gw"; cases "gw_requestor gw") (auto simp: transact_def guard_io_bind)
qed

text \<open>
  C18. Queries, invocations and instantiations or upgrades of chaincode end, directly or through a
  gateway, as long as peers answer or fail proposals and orderers answer or close broadcasts: the
  event streams, on which they wait for the commit, may do anything.
\<close>

theorem operations_terminate:
  assumes "responsive S"
  shows "fst (query S u peers channel ccname fcn args tm tr) \<noteq> Blocked \<and>
    fst (invoke S u peers ords channel ccname fcn args timeout tm tr) \<noteq> Blocked \<and>
    fst (instantiate_chaincode S u peers ords channel cc_spec policy upgrade timeout tr) \<noteq> Blocked \<and>
    fst (Gateway_query S gw fcn args tm tr) \<noteq> Blocked \<and>
    fst (Gateway_invoke S gw fcn args tm timeout tr) \<noteq> Blocked \<and>
    fst (Gateway_instantiate_chaincode S gw policy upgrade timeout tr) \<noteq> Blocked"
proof (intro conjI)
  have "settles (query S u peers channel ccname fcn args tm)"
    unfolding query_endorse by (intro settles_endorse settles_intros assms)
  then show "fst (query S u peers channel ccname fcn args tm tr) \<noteq> Blocked" by (simp add: settles_def)
  have "settles (invoke S u peers ords channel ccname fcn args timeout tm)"
    unfolding invoke_endorse by (intro settles_endorse_and_commit settles_intros assms)
  then show "fst (invoke S u peers ords channel ccname fcn args timeout tm tr) \<noteq> Blocked" by (simp add: settles_def)
  have inst: "settles (instantiate_chaincode S u peers ords channel cc_spec policy upgrade timeout)"
    for u peers ords channel cc_spec
    unfolding instantiate_endorse by (intro settles_endorse_and_commit settles_intros assms)
  then show "fst (instantiate_chaincode S u peers ords channel cc_spec policy upgrade timeout tr) \<noteq> Blocked"
    by (simp add: settles_def)
  have "settles (Gateway_query S gw fcn args tm) \<and> settles (Gateway_invoke S gw fcn args tm timeout)"
  proof (cases "\<exists>u c n. gateway_ready gw u c n")
    case True
    then obtain u c n where r: "gateway_ready gw u c n" by blast
    show ?thesis unfolding Gateway_query_ready [OF r] Gateway_invoke_ready [OF r]
      by (intro conjI settles_intros settles_endorse settles_commit settles_await_commit assms)
  next
    case False
    from transact_not_ready [OF this] obtain e where "transact S gw fcn args tm = raise_io e" by blast
    then show ?thesis by (simp add: Gateway_query_def Gateway_invoke_def settles_basic)
  qed
  then show "fst (Gateway_query S gw fcn args tm tr) \<noteq> Blocked"
    "fst (Gateway_invoke S gw fcn args tm timeout tr) \<noteq> Blocked" by (simp_all add: settles_def)
  have "settles (Gateway_instantiate_chaincode S gw policy upgrade timeout)"
    unfolding Gateway_instantiate_chaincode_def by (intro settles_intros inst)
  then show "fst (Gateway_instantiate_chaincode S gw policy upgrade timeout tr) \<noteq> Blocked" by (simp add: settles_def)
qed

text \<open>A world that answers proposals and broadcasts, but whose event streams stay silent.\<close>

definition silent_sys :: sys where
  "silent_sys = example_sys\<lparr>sys_Deliver := (\<lambda>tr m envelope. ([], 0, Pending))\<rparr>"

theorem operations_terminate_witness:
  "fst (invoke silent_sys example_user [example_peer ''p1''] [example_orderer ''o1''] example_channel
      (lit ''cc'') (lit ''put'') None 30 None []) \<noteq> Blocked \<and>
    (\<exists>tr'. stream_blocks silent_sys (PeerFilteredEvents example_user example_channel (example_peer ''p1''))
      None (Some INDEFINITE_STOP_POSITION) BlockUntilReady [] = (Returned ([], 0, Pending), tr'))"
proof -
  have "responsive silent_sys" by (simp add: responsive_def silent_sys_def example_sys_def)
  note operations_terminate [OF this]
  moreover have "runtime_ok (sys_pb silent_sys)" by (simp add: silent_sys_def)
  from example_hub_stream [OF this, of "''p1''" BlockUntilReady "[]"]
  have "\<exists>tr'. stream_blocks silent_sys (PeerFilteredEvents example_user example_channel (example_peer ''p1''))
      None (Some INDEFINITE_STOP_POSITION) BlockUntilReady [] = (Returned ([], 0, Pending), tr')"
    by (auto simp: silent_sys_def)
  ultimately show ?thesis by blast
qed

end
