(* ===== verification/Gateway_Traffic.thy ===== *)
theory Gateway_Traffic
  imports Progress
begin

text \<open>
  Everything an invocation of a gateway sends, whatever its outcome (\<open>Gateway.invoke\<close> of
  \<open>models/gateway.py\<close>): no request is repeated and none is sent out of order.
\<close>

text \<open>What leaves the process: not the drawing of randomness or the reading of the clock.\<close>

definition remote :: "event list \<Rightarrow> event list" where
  "remote = filter (\<lambda>e. \<not> local_event e)"

lemma remote_simps [simp]:
  "remote [] = []" "remote (as @ bs) = remote as @ remote bs"
  "remote (map (\<lambda>p. ProposalSent p sp) ps) = map (\<lambda>p. ProposalSent p sp) ps"
  "remote (map (\<lambda>q. EnvelopeBroadcast q envelope) qs) = map (\<lambda>q. EnvelopeBroadcast q envelope) qs"
  "remote (DeliverRequested m envelope # bs) = DeliverRequested m envelope # remote bs"
  by (induction ps; induction qs; simp add: remote_def local_event_def)+

text \<open>Runs of an action whose remote traffic satisfies a condition, given the outcome.\<close>

definition traffic :: "('a outcome \<Rightarrow> event list \<Rightarrow> bool) \<Rightarrow> 'a io \<Rightarrow> bool" where
  "traffic P m \<longleftrightarrow> (\<forall>tr oc tr'. m tr = (oc, tr') \<longrightarrow> (\<exists>evs. tr' = tr @ evs \<and> P oc (remote evs)))"

lemma traffic_I: "(\<And>tr oc tr'. m tr = (oc, tr') \<Longrightarrow> \<exists>evs. tr' = tr @ evs \<and> P oc (remote evs)) \<Longrightarrow> traffic P m"
  by (simp add: traffic_def)

lemma traffic_D:
  assumes "traffic P m" "m tr = (oc, tr')"
  obtains evs where "tr' = tr @ evs" "P oc (remote evs)"
  using assms unfolding traffic_def by blast

lemma traffic_local: "emits local_event m \<Longrightarrow> traffic (\<lambda>oc evs. evs = []) m"
  by (rule traffic_I) (auto simp: remote_def list_all_iff elim!: emitsD)

lemma traffic_mono: "traffic P m \<Longrightarrow> (\<And>oc evs. P oc evs \<Longrightarrow> Q oc evs) \<Longrightarrow> traffic Q m"
  unfolding traffic_def by blast

text \<open>Sequencing: the first action returns and the second runs, or it is the whole run.\<close>

lemma traffic_bind:
  assumes "traffic P m" "\<And>x. traffic (Q x) (f x)"
    and "\<And>x oc as bs. P (Returned x) as \<Longrightarrow> Q x oc bs \<Longrightarrow> R oc (as @ bs)"
    and "\<And>e as. P (Raised e) as \<Longrightarrow> R (Raised e) as" "\<And>as. P Blocked as \<Longrightarrow> R Blocked as"
  shows "traffic R (bind_io m f)"
proof (rule traffic_I)
  fix tr oc tr'
  assume run: "bind_io m f tr = (oc, tr')"
  obtain oc1 tr1 where m: "m tr = (oc1, tr1)" by fastforce
  from traffic_D [OF assms(1) m] obtain as where as: "tr1 = tr @ as" "P oc1 (remote as)" .
  show "\<exists>evs. tr' = tr @ evs \<and> R oc (remote evs)"
  proof (cases oc1)
    case (Returned x)
    with run m have "f x tr1 = (oc, tr')" by (simp add: bind_io_def)
    from traffic_D [OF assms(2) this] obtain bs where "tr' = tr1 @ bs" "Q x oc (remote bs)" .
    with as Returned assms(3) show ?thesis by (intro exI [of _ "as @ bs"]) simp
  qed (use run m as assms(4,5) in \<open>auto simp: bind_io_def\<close>)
qed

section \<open>The three phases\<close>

definition proposes :: "Peer list \<Rightarrow> 'a outcome \<Rightarrow> event list \<Rightarrow> bool" where
  "proposes ps oc evs \<longleftrightarrow> (\<exists>sp. evs = map (\<lambda>p. ProposalSent p sp) ps) \<or> evs = [] \<and> (\<forall>x. oc \<noteq> Returned x)"

definition commits :: "Orderer list \<Rightarrow> 'a outcome \<Rightarrow> event list \<Rightarrow> bool" where
  "commits ords oc evs \<longleftrightarrow> (\<exists>envelope qs. evs = map (\<lambda>q. EnvelopeBroadcast q envelope) qs \<and> prefix qs ords \<and>
    (\<forall>x. oc = Returned x \<longrightarrow> qs \<noteq> []))"

definition listens :: "Peer list \<Rightarrow> 'a outcome \<Rightarrow> event list \<Rightarrow> bool" where
  "listens ps oc evs \<longleftrightarrow> (\<exists>reqs. evs = map (\<lambda>(p, r). DeliverRequested (PeerDeliverFiltered p) r) reqs \<and>
    subseq (map fst reqs) ps \<and> (\<forall>x. oc = Returned x \<longrightarrow> reqs \<noteq> []))"

lemma endorse_traffic:
  assumes "emits local_event gen"
  shows "traffic (proposes peers) (endorse_tx S peers msg gen)"
proof -
  have "traffic (proposes peers) (propose_tx S peers g)" for g
    by (cases "peers = []") (auto intro!: traffic_I simp: propose_tx_Nil propose_tx_eq io_eval proposes_def)
  moreover have "traffic (\<lambda>oc evs. evs = []) (bind_io (lift_exn (raise_tx_proposal_error etx msg)) (\<lambda>_. return_io etx))" for etx
    by (rule traffic_local) (intro emits_intros)
  ultimately have "traffic (proposes peers) (bind_io (propose_tx S peers g) (\<lambda>etx.
      bind_io (lift_exn (raise_tx_proposal_error etx msg)) (\<lambda>_. return_io etx)))" for g
    by (rule traffic_bind) (auto simp: proposes_def)
  then show ?thesis unfolding endorse_tx_def
    by (rule traffic_bind [OF traffic_local [OF assms]]) (auto simp: proposes_def)
qed

lemma commit_traffic: "traffic (commits ords) (commit_tx S u ords etx)"
proof -
  have "traffic (commits ords) (broadcast_to_orderers S envelope ords tx_id)" for envelope tx_id
  proof (rule traffic_I)
    fix tr oc tr'
    assume run: "broadcast_to_orderers S envelope ords tx_id tr = (oc, tr')"
    show "\<exists>evs. tr' = tr @ evs \<and> commits ords oc (remote evs)"
    proof (cases "ords = []")
      case False
      from broadcast_loop_outcome [OF False, of S envelope tx_id None tr] run obtain k where
        tr': "tr' = tr @ map (\<lambda>q. EnvelopeBroadcast q envelope) (take (Suc k) ords)"
        by (auto simp: broadcast_to_orderers_Cons [OF False])
      have "commits ords oc (map (\<lambda>q. EnvelopeBroadcast q envelope) (take (Suc k) ords))"
        unfolding commits_def using False by (intro exI conjI) (auto simp: take_is_prefix)
      with tr' show ?thesis by (intro exI [of _ "map (\<lambda>q. EnvelopeBroadcast q envelope) (take (Suc k) ords)"]) simp
    qed (use run in \<open>auto simp: io_eval commits_def\<close>)
  qed
  moreover have "emits local_event (build_endorsed_tx_envelope S etx u)" by (rule emits_factories)
  ultimately show ?thesis unfolding commit_tx_def
    by (intro traffic_bind [OF traffic_local, of _ "\<lambda>_. commits ords"]) (simp, simp, auto simp: commits_def)
qed

text \<open>One peer's events are asked for at most once, and surely if it reports the transaction.\<close>

definition asks :: "Peer \<Rightarrow> 'a outcome \<Rightarrow> event list \<Rightarrow> bool" where
  "asks p oc evs \<longleftrightarrow> (\<exists>r. evs = [DeliverRequested (PeerDeliverFiltered p) r]) \<or> evs = [] \<and> (\<forall>x. oc \<noteq> Returned x)"

lemma stream_traffic: "traffic (asks p) (stream_blocks S (PeerFilteredEvents u c p) start stop b)"
proof -
  have "traffic (\<lambda>oc evs. \<exists>r. evs = [DeliverRequested (PeerDeliverFiltered p) r])
      (build_stream S (PeerFilteredEvents u c p) envelope)" for envelope
    by (rule traffic_I) (auto simp: build_stream_def PeerFilteredEvents_def)
  then have s: "traffic (asks p) (bind_io (build_stream S (PeerFilteredEvents u c p) envelope)
      (\<lambda>stream. return_io (blocks_of (PeerFilteredEvents u c p) (fst stream) (snd stream))))" for envelope
    by (rule traffic_bind [OF _ traffic_local]) (auto simp: asks_def intro: emits_intros)
  have "emits local_event (get_connection_envelope S (PeerFilteredEvents u c p) b start stop)"
    unfolding get_connection_envelope_def by (intro emits_intros)
  from traffic_bind [OF traffic_local [OF this] s, of "asks p"] show ?thesis
    unfolding stream_blocks_def by (auto simp: asks_def)
qed

lemma check_traffic: "traffic (asks p) (check_transaction S (PeerFilteredEvents u c p) tx_id timeout start b)"
proof -
  have l: "emits local_event (outcome_io oc)" for oc :: "'a outcome"
    by (simp add: emits_def outcome_io_def)
  have t: "traffic (asks p) (timed_get_transaction S (PeerFilteredEvents u c p) tx_id start b)"
    unfolding timed_get_transaction_def
    by (rule traffic_bind [OF stream_traffic traffic_local]) (auto simp: asks_def intro: emits_intros)
  then have "traffic (asks p) (bind_io (timed_get_transaction S (PeerFilteredEvents u c p) tx_id start b)
      (\<lambda>r. outcome_io (in_time timeout r)))"
    by (rule traffic_bind [OF _ traffic_local]) (auto simp: asks_def intro: l)
  moreover have "traffic (asks p) (raise_io e :: FilteredTX io)" for e
    by (rule traffic_I) (auto simp: io_eval asks_def)
  ultimately have "traffic (asks p) (wait_for timeout (timed_get_transaction S (PeerFilteredEvents u c p) tx_id start b))"
    by (simp add: wait_for_def)
  then show ?thesis unfolding check_transaction_def
    by (rule traffic_bind [OF _ traffic_local]) (auto simp: asks_def intro: emits_intros)
qed

lemma try_cases:
  assumes "try_io m h tr = (oc, tr')"
  obtains e tr1 where "m tr = (Raised e, tr1)" "h e tr1 = (oc, tr')"
    | "m tr = (oc, tr')" "\<forall>e. oc \<noteq> Raised e"
proof (cases "fst (m tr)")
  case (Raised e)
  then obtain tr1 where "m tr = (Raised e, tr1)" by (metis prod.collapse)
  with assms that(1) show ?thesis by (simp add: try_io_def)
qed (use assms that(2) in \<open>cases "m tr"; auto simp: try_io_def\<close>)+

lemma listens_Cons:
  "asks p oc as \<Longrightarrow> listens ps oc' bs \<Longrightarrow> (\<And>x. oc \<noteq> Returned x) \<Longrightarrow> listens (p # ps) oc' (as @ bs)"
  unfolding asks_def listens_def
proof (elim disjE conjE exE)
  fix r reqs
  assume "as = [DeliverRequested (PeerDeliverFiltered p) r]" "subseq (map fst reqs) ps"
    "bs = map (\<lambda>(p, r). DeliverRequested (PeerDeliverFiltered p) r) reqs"
  then show "\<exists>reqs. as @ bs = map (\<lambda>(p, r). DeliverRequested (PeerDeliverFiltered p) r) reqs \<and>
      subseq (map fst reqs) (p # ps) \<and> (\<forall>x. oc' = Returned x \<longrightarrow> reqs \<noteq> [])"
    by (intro exI [of _ "(p, r) # reqs"]) simp
next
  fix reqs
  assume "as = []" "subseq (map fst reqs) ps" "\<forall>x. oc' = Returned x \<longrightarrow> reqs \<noteq> []"
    "bs = map (\<lambda>(p, r). DeliverRequested (PeerDeliverFiltered p) r) reqs"
  then show "\<exists>reqs. as @ bs = map (\<lambda>(p, r). DeliverRequested (PeerDeliverFiltered p) r) reqs \<and>
      subseq (map fst reqs) (p # ps) \<and> (\<forall>x. oc' = Returned x \<longrightarrow> reqs \<noteq> [])"
    by (intro exI [of _ reqs]) auto
qed

lemma asks_listens: "asks p oc evs \<Longrightarrow> listens (p # ps) oc evs"
  unfolding asks_def listens_def
  by (elim disjE exE conjE)
    (rule exI [of _ "[(p, r)]" for r], simp, rule exI [of _ "[]"], simp)

lemma await_traffic: "traffic (listens ps) (await_commit S u c True timeout (Some etx) ps)"
proof -
  have "traffic (listens ps) (await_loop (\<lambda>p. check_transaction S (PeerFilteredEvents u c p) tx_id timeout None
      BlockUntilReady) err ps)" for tx_id err
  proof (induction ps arbitrary: err)
    case Nil
    show ?case by (rule traffic_I) (auto simp: io_eval listens_def)
  next
    case (Cons p ps)
    show ?case
    proof (rule traffic_I)
      fix tr oc tr'
      assume "await_loop (\<lambda>p. check_transaction S (PeerFilteredEvents u c p) tx_id timeout None BlockUntilReady)
        err (p # ps) tr = (oc, tr')"
      then show "\<exists>evs. tr' = tr @ evs \<and> listens (p # ps) oc (remote evs)"
        unfolding await_loop.simps
      proof (cases rule: try_cases)
        case (1 e tr1)
        from traffic_D [OF check_traffic 1(1)] obtain as where as: "tr1 = tr @ as" "asks p (Raised e :: FilteredTX outcome) (remote as)" .
        show ?thesis
        proof (cases "is_ConnectionError e \<or> is_BlockRetrievalError e")
          case True
          with 1(2) have "await_loop (\<lambda>p. check_transaction S (PeerFilteredEvents u c p) tx_id timeout None
            BlockUntilReady) e ps tr1 = (oc, tr')" by simp
          from traffic_D [OF Cons.IH this] obtain bs where "tr' = tr1 @ bs" "listens ps oc (remote bs)" .
          with as listens_Cons [OF as(2)] show ?thesis by (intro exI [of _ "as @ bs"]) simp
        next
          case False
          with 1(2) have "oc = Raised e" "tr' = tr1" by (simp_all add: io_eval)
          with as show ?thesis using asks_listens by blast
        qed
      next
        case 2
        from traffic_D [OF check_traffic 2(1)] show ?thesis using asks_listens by metis
      qed
    qed
  qed
  then show ?thesis unfolding await_commit_def await_on_peer_check .
qed

section \<open>All of it\<close>

definition commits_and_listens :: "Orderer list \<Rightarrow> Peer list \<Rightarrow> 'a outcome \<Rightarrow> event list \<Rightarrow> bool" where
  "commits_and_listens ords peers oc evs \<longleftrightarrow> (\<exists>envelope qs reqs.
    evs = map (\<lambda>q. EnvelopeBroadcast q envelope) qs @
      map (\<lambda>(p, r). DeliverRequested (PeerDeliverFiltered p) r) reqs \<and>
    prefix qs ords \<and> subseq (map fst reqs) peers \<and> (reqs \<noteq> [] \<longrightarrow> qs \<noteq> []) \<and> (\<forall>x. oc = Returned x \<longrightarrow> reqs \<noteq> []))"

lemma listens_mono: "listens ps oc evs \<Longrightarrow> (\<And>x. oc' = Returned x \<Longrightarrow> \<exists>y. oc = Returned y) \<Longrightarrow> listens ps oc' evs"
  unfolding listens_def by blast

lemma commits_only:
  assumes "commits ords oc evs" "\<And>x. oc' \<noteq> Returned x"
  shows "commits_and_listens ords peers oc' evs"
proof -
  from assms(1) obtain envelope qs where "evs = map (\<lambda>q. EnvelopeBroadcast q envelope) qs" "prefix qs ords"
    unfolding commits_def by blast
  with assms(2) show ?thesis
    unfolding commits_and_listens_def by (intro exI [of _ envelope] exI [of _ qs] exI [of _ "[]"]) simp
qed

lemma commits_then_listens:
  assumes "commits ords (Returned x) as" "listens peers oc bs"
  shows "commits_and_listens ords peers oc (as @ bs)"
proof -
  from assms(1) obtain envelope qs where "as = map (\<lambda>q. EnvelopeBroadcast q envelope) qs" "prefix qs ords" "qs \<noteq> []"
    unfolding commits_def by blast
  moreover from assms(2) obtain reqs where "bs = map (\<lambda>(p, r). DeliverRequested (PeerDeliverFiltered p) r) reqs"
    "subseq (map fst reqs) peers" "\<forall>x. oc = Returned x \<longrightarrow> reqs \<noteq> []" unfolding listens_def by blast
  ultimately show ?thesis
    unfolding commits_and_listens_def by (intro exI [of _ envelope] exI [of _ qs] exI [of _ reqs]) simp
qed

lemma tail_traffic:
  "traffic (commits_and_listens ords peers) (bind_io (commit_tx S u ords etx) (\<lambda>_.
    bind_io (await_commit S u c True timeout (Some etx) peers) (\<lambda>_. return_io etx)))"
proof -
  have "traffic (listens peers) (bind_io (await_commit S u c True timeout (Some etx) peers) (\<lambda>_. return_io etx))"
    by (rule traffic_bind [OF await_traffic traffic_local]) (auto intro: emits_intros listens_mono)
  with commit_traffic show ?thesis
    by (rule traffic_bind) (auto intro: commits_then_listens commits_only)
qed

text \<open>
  C9. All that an invocation of a gateway sends, however it ends: the same signed proposal to
  each endorsing peer, in their order; then one envelope to some of the first orderers, in
  their order; then requests for block events to some of the endorsing peers, in their order.
  A later phase is entered only after the earlier one took place, nothing is sent twice to the
  same position of a list, and an invocation that returns went through all three.
\<close>

theorem Gateway_invoke_traffic:
  assumes "Gateway_invoke S gw fcn args tm timeout tr = (oc, tr')"
  shows "\<exists>evs sp envelope ps qs reqs. tr' = tr @ evs \<and>
    remote evs = map (\<lambda>p. ProposalSent p sp) ps @ map (\<lambda>q. EnvelopeBroadcast q envelope) qs @
      map (\<lambda>(p, r). DeliverRequested (PeerDeliverFiltered p) r) reqs \<and>
    (ps = [] \<or> ps = gw_endorsing_peers gw) \<and> prefix qs (gw_orderers gw) \<and>
    subseq (map fst reqs) (gw_endorsing_peers gw) \<and>
    (reqs \<noteq> [] \<longrightarrow> qs \<noteq> []) \<and> (qs \<noteq> [] \<longrightarrow> ps \<noteq> []) \<and> (\<forall>etx. oc = Returned etx \<longrightarrow> reqs \<noteq> []) \<and>
    length (remote evs) \<le> 2 * length (gw_endorsing_peers gw) + length (gw_orderers gw)"
proof (cases "\<exists>u c n. gateway_ready gw u c n")
  case False
  from transact_not_ready [OF this] obtain e where "transact S gw fcn args tm = raise_io e" by blast
  with assms have "oc = Raised e" "tr' = tr" by (simp_all add: Gateway_invoke_def bind_io_def io_eval)
  then show ?thesis by (intro exI [of _ "[]"]) simp
next
  case True
  then obtain u c n where r: "gateway_ready gw u c n" by blast
  then have ne: "gw_endorsing_peers gw \<noteq> []" by (simp add: gateway_ready_def)
  have "emits local_event (generate_cc_tx S u n c fcn args tm)" by (rule emits_generate)
  from endorse_traffic [OF this, of "gw_endorsing_peers gw" S refusal]
  have "traffic (\<lambda>oc evs. \<exists>sp ps tail. evs = map (\<lambda>p. ProposalSent p sp) ps @ tail \<and>
      (ps = [] \<or> ps = gw_endorsing_peers gw) \<and> (tail \<noteq> [] \<longrightarrow> ps \<noteq> []) \<and>
      commits_and_listens (gw_orderers gw) (gw_endorsing_peers gw) oc tail)
    (Gateway_invoke S gw fcn args tm timeout)" (is "traffic ?P _")
    unfolding Gateway_invoke_ready [OF r]
  proof (rule traffic_bind [OF _ tail_traffic])
    fix x :: EndorsedTX and oc :: "EndorsedTX outcome" and as bs
    assume "proposes (gw_endorsing_peers gw) (Returned x) as"
      and bs: "commits_and_listens (gw_orderers gw) (gw_endorsing_peers gw) oc bs"
    then obtain sp where "as = map (\<lambda>p. ProposalSent p sp) (gw_endorsing_peers gw)"
      unfolding proposes_def by blast
    with bs ne show "?P oc (as @ bs)" by blast
  next
    have "?P oc as" if "proposes (gw_endorsing_peers gw) oc as" "\<forall>x. oc \<noteq> Returned x" for oc :: "EndorsedTX outcome" and as
    proof -
      have "commits_and_listens (gw_orderers gw) (gw_endorsing_peers gw) oc []"
        using that(2) by (simp add: commits_and_listens_def)
      moreover from that(1) obtain sp ps where "as = map (\<lambda>p. ProposalSent p sp) ps @ []"
        "ps = [] \<or> ps = gw_endorsing_peers gw" unfolding proposes_def by fastforce
      ultimately show ?thesis by blast
    qed
    then show "\<And>e as. proposes (gw_endorsing_peers gw) (Raised e :: EndorsedTX outcome) as \<Longrightarrow> ?P (Raised e) as"
      "\<And>as. proposes (gw_endorsing_peers gw) (Blocked :: EndorsedTX outcome) as \<Longrightarrow> ?P Blocked as" by blast+
  qed
  from traffic_D [OF this assms] obtain evs where tr': "tr' = tr @ evs" and "?P oc (remote evs)" .
  then obtain sp ps tail where evs:
    "remote evs = map (\<lambda>p. ProposalSent p sp) ps @ tail" "ps = [] \<or> ps = gw_endorsing_peers gw" "tail \<noteq> [] \<longrightarrow> ps \<noteq> []"
    and "commits_and_listens (gw_orderers gw) (gw_endorsing_peers gw) oc tail"
    by (elim exE conjE)
  then obtain envelope qs reqs where tail: "tail = map (\<lambda>q. EnvelopeBroadcast q envelope) qs @
      map (\<lambda>(p, r). DeliverRequested (PeerDeliverFiltered p) r) reqs" and
    qs: "prefix qs (gw_orderers gw)" "subseq (map fst reqs) (gw_endorsing_peers gw)"
      "reqs \<noteq> [] \<longrightarrow> qs \<noteq> []" "\<forall>x. oc = Returned x \<longrightarrow> reqs \<noteq> []"
    unfolding commits_and_listens_def by blast
  have "length ps \<le> length (gw_endorsing_peers gw)" "length qs \<le> length (gw_orderers gw)"
    "length reqs \<le> length (gw_endorsing_peers gw)"
    using evs(2) prefix_length_le [OF qs(1)] list_emb_length [OF qs(2)] by auto
  with evs(1) tail have len: "length (remote evs) \<le> 2 * length (gw_endorsing_peers gw) + length (gw_orderers gw)" by simp
  have ev: "remote evs = map (\<lambda>p. ProposalSent p sp) ps @ map (\<lambda>q. EnvelopeBroadcast q envelope) qs @
      map (\<lambda>(p, r). DeliverRequested (PeerDeliverFiltered p) r) reqs" using evs(1) tail by simp
  have ph: "qs \<noteq> [] \<longrightarrow> ps \<noteq> []" using evs(3) tail by auto
  show ?thesis
    by (rule exI [of _ evs], rule exI [of _ sp], rule exI [of _ envelope], rule exI [of _ ps], rule exI [of _ qs],
        rule exI [of _ reqs]) (intro conjI tr' evs(2) ev qs ph len)
qed

text \<open>With two peers and one orderer there are at most five requests.\<close>

theorem Gateway_invoke_traffic_witness:
  "\<exists>oc tr'. Gateway_invoke example_sys (example_gateway [example_peer ''p1'', example_peer ''p2'']) (lit ''put'') None None 30 [] =
    (oc, tr') \<and> length (remote tr') \<le> 5"
proof -
  obtain oc tr' where run: "Gateway_invoke example_sys (example_gateway [example_peer ''p1'', example_peer ''p2''])
    (lit ''put'') None None 30 [] = (oc, tr')" by fastforce
  from Gateway_invoke_traffic [OF run] run show ?thesis by auto
qed

end
