(* ===== verification/Gateway_Progress.thy ===== *)
theory Gateway_Progress
  imports Gateways
begin

text \<open>
  When the invocation of a gateway (\<open>Gateway.invoke\<close> of \<open>models/gateway.py\<close>) succeeds although
  orderers and event streams fail: the failover of \<open>connect.py\<close> and that of
  \<open>GatewayTXBuilder._wait\<close>, put together with the progress of the transaction flow.
\<close>

lemma failed_over_breaks:
  assumes "\<forall>q \<in> set qs. hub_breaks S (PeerFilteredEvents u c q) tx_id timeout" "0 < timeout"
  shows "\<exists>tr'. failed_over (\<lambda>q. check_transaction S (PeerFilteredEvents u c q) tx_id timeout None BlockUntilReady) qs tr tr'"
  using assms(1)
proof (induction qs arbitrary: tr)
  case Nil
  show ?case by (rule exI) (rule failed_over.none)
next
  case (Cons q qs)
  from check_breaks [OF _ assms(2), of S u c q tx_id tr] Cons.prems obtain e tr1 where
    "check_transaction S (PeerFilteredEvents u c q) tx_id timeout None BlockUntilReady tr = (Raised e, tr1)"
    "is_ConnectionError e \<or> is_BlockRetrievalError e" by auto
  with Cons.IH [of tr1] Cons.prems show ?case by (auto intro: failed_over.one)
qed

lemma await_past_breaks:
  assumes "\<forall>q \<in> set qs. hub_breaks S (PeerFilteredEvents u c q) (EndorsedTX_tx_id etx) timeout" "0 < timeout"
    and "hub_reports S (PeerFilteredEvents u c p) (EndorsedTX_tx_id etx) timeout"
  shows "\<exists>t tr'. await_commit S u c True timeout (Some etx) (qs @ p # ps) tr = (Returned t, tr')"
proof -
  obtain tr1 where f: "failed_over (\<lambda>q. check_transaction S (PeerFilteredEvents u c q) (EndorsedTX_tx_id etx) timeout
      None BlockUntilReady) qs tr tr1" using failed_over_breaks [OF assms(1,2)] by blast
  moreover from check_reports [OF assms(3,2)] obtain t tr' where
    "check_transaction S (PeerFilteredEvents u c p) (EndorsedTX_tx_id etx) timeout None BlockUntilReady tr1 = (Returned t, tr')"
    by blast
  ultimately show ?thesis unfolding await_commit_def await_on_peer_check await_loop_Returned_iff by blast
qed

text \<open>
  C14. The gateway hides failures of single nodes. As long as all endorsing peers endorse,
  some orderer accepts and the ones listed before it cannot be reached, and some endorsing
  peer reports the transaction as \<open>VALID\<close> in time and the event streams of the peers before it
  break off, an invocation returns: with the id that follows from nonce and identity, and
  with the same envelope sent to each orderer up to the one that accepts and to no other.
\<close>

theorem Gateway_invoke_succeeds:
  assumes "runtime_ok (sys_pb S)" "user_ready u" "encode_proto_str (channel_name c) = Inr cid"
    and "map_res encode_proto_bytes ([fcn] @ or_else args []) = Inr full_args"
    and "gateway_ready gw u c ccname" "0 < timeout"
    and "\<forall>p \<in> set (gw_endorsing_peers gw). endorses S p"
    and "gw_orderers gw = qs @ ord # ords" "\<forall>q \<in> set qs. orderer_down S q" "orderer_accepts S ord"
    and "gw_endorsing_peers gw = us @ p # vs"
      "\<forall>q \<in> set us. hub_breaks S (PeerFilteredEvents u c q) (next_tx_id S u tr) timeout"
      "hub_reports S (PeerFilteredEvents u c p) (next_tx_id S u tr) timeout"
  shows "\<exists>etx tr' envelope. Gateway_invoke S gw fcn args tm timeout tr = (Returned etx, tr') \<and>
    EndorsedTX_tx_id etx = next_tx_id S u tr \<and>
    broadcasts tr' = broadcasts tr @ map (\<lambda>q. (q, envelope)) (qs @ [ord])"
proof -
  obtain g tr1 where g: "generate_cc_tx S u ccname c fcn args tm tr = (Returned g, tr1)"
    using generate_cc_tx_total [OF assms(1,3,2,4)] by blast
  from generate_cc_tx_Returned_D [OF g] generated_id have id: "GeneratedTX_tx_id g = next_tx_id S u tr" by blast
  have "\<forall>i < length (gw_endorsing_peers gw). \<exists>r.
      endorsement S (gtx_signed_proposal g) (gw_endorsing_peers gw) tr1 i = Returned r \<and> status_of r = 200"
    by (rule endorsement_accepting [OF assms(7)])
  from invocation.endorse_live [OF g _ this, of refusal] assms(5) obtain etx where
    en: "endorse_tx S (gw_endorsing_peers gw) refusal (generate_cc_tx S u ccname c fcn args tm) tr =
      (Returned etx, tr1 @ map (\<lambda>p. ProposalSent p (gtx_signed_proposal g)) (gw_endorsing_peers gw))"
    (is "_ = (_, ?tr2)")
    and etx: "etx_peer_responses etx \<noteq> []" "etx_tx_context etx = gtx_tx_context g"
    unfolding gateway_ready_def by fastforce
  have id': "EndorsedTX_tx_id etx = next_tx_id S u tr"
    using etx(2) id by (simp add: EndorsedTX_tx_id_def GeneratedTX_tx_id_def)
  obtain envelope r tr3 where b3: "broadcasts tr3 = broadcasts ?tr2" and co: "commit_tx S u (gw_orderers gw) etx ?tr2 =
      (Returned r, tr3 @ map (\<lambda>q. EnvelopeBroadcast q envelope) (qs @ [ord]))" (is "_ = (_, ?tr4)")
    unfolding assms(8) using commit_past_down [OF assms(9,10) etx(1) assms(2)] by blast
  obtain t tr' where aw: "await_commit S u c True timeout (Some etx) (gw_endorsing_peers gw) ?tr4 = (Returned t, tr')"
    unfolding assms(11) using await_past_breaks [OF _ assms(6), of us S u c etx p vs ?tr4] assms(12,13) by (auto simp: id')
  have run: "Gateway_invoke S gw fcn args tm timeout tr = (Returned etx, tr')"
    unfolding Gateway_invoke_ready [OF assms(5)] using en co aw by (simp add: bind_io_def io_eval)
  have "broadcasts tr1 = broadcasts tr"
    by (rule emits_broadcasts [OF emits_generate(1) g, of local_event]) simp_all
  moreover have "emits (\<lambda>e. local_event e \<or> (\<exists>m env. e = DeliverRequested m env))
      (await_commit S u c True timeout (Some etx) (gw_endorsing_peers gw))"
    by (rule emits_await_commit) auto
  then have "broadcasts tr' = broadcasts ?tr4" using aw by (rule emits_broadcasts) simp
  ultimately have "broadcasts tr' = broadcasts tr @ map (\<lambda>q. (q, envelope)) (qs @ [ord])"
    using b3 by simp
  with run id' show ?thesis by blast
qed

text \<open>A world in which the first orderer and the first peer's event stream are down.\<close>

definition half_down_sys :: sys where
  "half_down_sys = hub_down_sys\<lparr>sys_Broadcast := sys_Broadcast failover_sys\<rparr>"

definition half_down_gateway :: Gateway where
  "half_down_gateway = (example_gateway [example_peer ''p1'', example_peer ''p2''])
    \<lparr>gw_orderers := [example_orderer ''o1'', example_orderer ''o2'']\<rparr>"

lemma half_down_id: "next_tx_id half_down_sys example_user [] = lit ''07''"
  by (simp add: next_tx_id_def example_tx_id)

lemma half_down_pb: "runtime_ok (sys_pb half_down_sys)"
  by (simp add: half_down_sys_def hub_down_sys_def)

theorem Gateway_invoke_succeeds_witness:
  "\<exists>etx tr' envelope. Gateway_invoke half_down_sys half_down_gateway (lit ''put'') None None 30 [] = (Returned etx, tr') \<and>
    broadcasts tr' = [(example_orderer ''o1'', envelope), (example_orderer ''o2'', envelope)]"
proof -
  have name: "encode_proto_str (channel_name example_channel) = Inr (lit ''mychannel'')"
    using example_channel_text by (simp add: channel_text_def)
  have args: "map_res encode_proto_bytes ([lit ''put''] @ or_else None []) = Inr [map of_nat (lit ''put'')]"
    by (simp add: encode_proto_bytes_def latin1_encode_def)
  have ready: "gateway_ready half_down_gateway example_user example_channel (lit ''cc'')"
    using example_gateway_ready by (simp add: half_down_gateway_def gateway_ready_def)
  have peers: "gw_endorsing_peers half_down_gateway = [example_peer ''p1''] @ example_peer ''p2'' # []"
    and ords: "gw_orderers half_down_gateway = [example_orderer ''o1''] @ example_orderer ''o2'' # []"
    by (simp_all add: half_down_gateway_def)
  have ends: "\<forall>p \<in> set (gw_endorsing_peers half_down_gateway). endorses half_down_sys p"
    by (simp add: endorses_def half_down_sys_def hub_down_sys_def example_sys_def example_response_def)
  have "example_orderer ''o2'' \<noteq> example_orderer ''o1''" by (simp add: example_orderer_def)
  then have ords': "\<forall>q \<in> set [example_orderer ''o1'']. orderer_down half_down_sys q"
    "orderer_accepts half_down_sys (example_orderer ''o2'')"
    by (simp_all add: orderer_down_def orderer_accepts_def half_down_sys_def failover_sys_def)
  have d: "sys_Deliver half_down_sys tr (PeerDeliverFiltered (example_peer ''p1'')) envelope =
      ([], 0, Failed (RpcError (lit ''UNAVAILABLE'') []))" for tr envelope
    by (simp add: half_down_sys_def hub_down_sys_def)
  have "\<exists>tr'. stream_blocks half_down_sys (PeerFilteredEvents example_user example_channel (example_peer ''p1'')) None
      (Some INDEFINITE_STOP_POSITION) BlockUntilReady tr =
      (Returned ([], 0, Failed (BlockchainConnectionError (lit ''UNAVAILABLE'') [])), tr')" for tr
    using example_hub_stream [OF half_down_pb, of "''p1''" BlockUntilReady tr] by (auto simp: d)
  then have "hub_breaks half_down_sys (PeerFilteredEvents example_user example_channel (example_peer ''p1'')) i 30" for i
    unfolding hub_breaks_def by (fastforce simp: first_arrival_def)
  then have breaks: "\<forall>q \<in> set [example_peer ''p1'']. hub_breaks half_down_sys
      (PeerFilteredEvents example_user example_channel q) (next_tx_id half_down_sys example_user []) 30" by simp
  have "example_peer ''p2'' \<noteq> example_peer ''p1''" by (simp add: example_peer_def)
  then have reports: "hub_reports half_down_sys (PeerFilteredEvents example_user example_channel (example_peer ''p2''))
      (next_tx_id half_down_sys example_user []) 30"
    using example_stream_of [OF half_down_pb, of "''p2''" BlockUntilReady]
    unfolding hub_reports_def half_down_id
    by (fastforce simp: half_down_sys_def hub_down_sys_def example_sys_def)
  from Gateway_invoke_succeeds [OF half_down_pb example_user_ready name args ready _ ends ords ords' peers breaks reports]
  have "\<exists>etx tr' envelope. Gateway_invoke half_down_sys half_down_gateway (lit ''put'') None None 30 [] = (Returned etx, tr') \<and>
      EndorsedTX_tx_id etx = next_tx_id half_down_sys example_user [] \<and> broadcasts tr' = broadcasts [] @
        map (\<lambda>q. (q, envelope)) ([example_orderer ''o1''] @ [example_orderer ''o2''])" by simp
  then show ?thesis by auto
qed

end
