(* ===== verification/Builder_Tasks.thy ===== *)
theory Builder_Tasks
  imports Gateway_Builder
begin

text \<open>
  A \<open>GatewayTXBuilder\<close> of \<open>src/snakeskin/models/gateway.py\<close> that several tasks share: each
  \<open>await\<close> is a coroutine of its own that runs \<open>_run_operations\<close>, and the event loop may switch
  between them wherever one waits for the network. What a coroutine does from one such point to
  the next is one step: it sends the proposals of a transaction, an envelope to one orderer or a
  request for events to one peer, and it goes on when that is answered, reading the attributes
  of the builder as they are by then. The queue is a list object: an operation queued during a run is
  appended to the list that is being iterated over, and \<open>clear\<close> empties the list that is current,
  which need not be that one. A schedule is a sequence of steps of any tasks; the end of an
  operation and the start of the next are two steps, so there are more schedules than the event
  loop has.
\<close>

section \<open>Operations between two waits\<close>

text \<open>
  What a coroutine waits for, with its local variables and the answer it will get: the
  peers' answers to a proposal; one orderer's, in the loop of \<open>broadcast_to_orderers\<close>, with the
  orderers left; one peer's events, in the loop of \<open>wait_for_commit\<close>, with the peers left.
\<close>

datatype activity =
    Proposing bool "EndorsedTX outcome"
  | Broadcasting Envelope pystr "Orderer list" "BroadcastResponse option outcome"
  | Listening bool int "Peer list" "FilteredTX outcome"

text \<open>The next round of a loop: its next request, or its end, at which it raises the last error.\<close>

fun next_orderer :: "sys \<Rightarrow> Envelope \<Rightarrow> pystr \<Rightarrow> exn \<Rightarrow> Orderer list \<Rightarrow> activity io" where
  "next_orderer S envelope tx_id err [] tr = (Raised err, tr)"
| "next_orderer S envelope tx_id err (ord # ords) tr =
    (case broadcast_to_orderer S envelope ord tx_id tr of
       (oc, tr') \<Rightarrow> (Returned (Broadcasting envelope tx_id ords oc), tr'))"

fun next_peer :: "sys \<Rightarrow> bool \<Rightarrow> int \<Rightarrow> GatewayTXBuilder \<Rightarrow> exn \<Rightarrow> Peer list \<Rightarrow> activity io" where
  "next_peer S raise_errors timeout b err [] tr = (Raised err, tr)"
| "next_peer S raise_errors timeout b err (peer # peers) tr =
    (case ask_peer S raise_errors timeout b peer tr of
       (oc, tr') \<Rightarrow> (Returned (Listening raise_errors timeout peers oc), tr'))"

text \<open>From the call of an operation to its first wait.\<close>

fun begin_operation :: "sys \<Rightarrow> operation \<Rightarrow> GatewayTXBuilder \<Rightarrow> activity io" where
  "begin_operation S (Propose raise_errors) b tr =
    (case propose_tx S (gw_endorsing_peers (bld_gateway b)) (bld_transaction b) tr of
       (oc, tr') \<Rightarrow> (Returned (Proposing raise_errors oc), tr'))"
| "begin_operation S Submit b tr =
    (case bld_endorsed_tx b of
       None \<Rightarrow> (Raised (Py (ValueError (lit ''Must propose transaction before committing it''))), tr)
     | Some etx \<Rightarrow>
         bind_io (need (gw_requestor (bld_gateway b))) (\<lambda>requestor.
         bind_io (build_endorsed_tx_envelope S etx requestor) (\<lambda>envelope.
         bind_io (guard_io (gw_orderers (bld_gateway b) \<noteq> []) (ValueError (lit ''Must provide at least one orderer''))) (\<lambda>_.
           next_orderer S envelope (EndorsedTX_tx_id etx) (Py (UnboundLocalError (lit ''error'')))
             (gw_orderers (bld_gateway b))))) tr)"
| "begin_operation S (WaitForCommit raise_errors timeout) b tr =
    (if \<not> bld_committed b
     then (Raised (Py (ValueError (lit ''Must commit transaction before waiting''))), tr)
     else next_peer S raise_errors timeout b
            (BlockchainError (lit ''Failed waiting for committed transaction''))
            (gw_endorsing_peers (bld_gateway b)) tr)"

text \<open>
  From an answer to the next wait or the end of the operation, which is \<open>Returned None\<close>.
\<close>

fun resume :: "sys \<Rightarrow> activity \<Rightarrow> activity option method_io" where
  "resume S (Proposing raise_errors (Returned etx)) b tr =
    (case (if raise_errors
           then raise_tx_proposal_error etx (lit ''A peer failed to endorse the transaction'')
           else Inr ()) of
       Inl e \<Rightarrow> (Raised e, b\<lparr>bld_endorsed_tx := Some etx\<rparr>, tr)
     | Inr u \<Rightarrow> (Returned None, b\<lparr>bld_endorsed_tx := Some etx\<rparr>, tr))"
| "resume S (Proposing raise_errors (Raised e)) b tr = (Raised e, b, tr)"
| "resume S (Broadcasting envelope tx_id ords (Returned resp)) b tr =
    (Returned None, b\<lparr>bld_committed := True\<rparr>, tr)"
| "resume S (Broadcasting envelope tx_id ords (Raised e)) b tr =
    (if is_BlockchainConnectionError e
     then (case bind_io (next_orderer S envelope tx_id e ords) (\<lambda>act. return_io (Some act)) tr of
       (oc, tr') \<Rightarrow> (oc, b, tr'))
     else (Raised e, b, tr))"
| "resume S (Listening raise_errors timeout peers (Returned t)) b tr =
    (Returned None, b\<lparr>bld_filtered_tx := Some t\<rparr>, tr)"
| "resume S (Listening raise_errors timeout peers (Raised e)) b tr =
    (if is_ConnectionError e \<or> is_BlockRetrievalError e
     then (case bind_io (next_peer S raise_errors timeout b e peers) (\<lambda>act. return_io (Some act)) tr of
       (oc, tr') \<Rightarrow> (oc, b, tr'))
     else (Raised e, b, tr))"
| "resume S (Proposing raise_errors Blocked) b tr = (Blocked, b, tr)"
| "resume S (Broadcasting envelope tx_id ords Blocked) b tr = (Blocked, b, tr)"
| "resume S (Listening raise_errors timeout peers Blocked) b tr = (Blocked, b, tr)"

section \<open>Tasks\<close>

text \<open>
  A task inside the \<open>for\<close> loop, with the list it iterates over and its position there;
  waiting in the operation at that position; and done.
\<close>

datatype task =
    Looping nat nat
  | Awaiting nat nat activity
  | Ended "EndorsedTX outcome"

text \<open>
  The builder's attributes, the list objects by their addresses, which of them \<open>_operations\<close>
  is, and the tasks in the order of their creation. The field \<open>bld_operations\<close> is not used.
\<close>

record shared =
  sh_builder :: GatewayTXBuilder
  sh_lists :: "operation list list"
  sh_current :: "nat option"
  sh_tasks :: "task list"

definition new_shared :: "Gateway \<Rightarrow> GeneratedTX \<Rightarrow> shared" where
  "new_shared gateway generated_tx =
    \<lparr>sh_builder = new_GatewayTXBuilder gateway generated_tx, sh_lists = [], sh_current = None, sh_tasks = []\<rparr>"

definition queue_of :: "shared \<Rightarrow> operation list" where
  "queue_of st = (case sh_current st of None \<Rightarrow> [] | Some l \<Rightarrow> sh_lists st ! l)"

text \<open>\<open>_add_operation\<close>: a list that is not empty is appended to, otherwise a new one is made.\<close>

definition queue_operation :: "operation \<Rightarrow> shared \<Rightarrow> shared" where
  "queue_operation op st =
    (case sh_current st of
       Some l \<Rightarrow>
         if sh_lists st ! l \<noteq> [] then st\<lparr>sh_lists := (sh_lists st)[l := sh_lists st ! l @ [op]]\<rparr>
         else st\<lparr>sh_lists := sh_lists st @ [[op]], sh_current := Some (length (sh_lists st))\<rparr>
     | None \<Rightarrow> st\<lparr>sh_lists := sh_lists st @ [[op]], sh_current := Some (length (sh_lists st))\<rparr>)"

text \<open>The start of \<open>_run_operations\<close>.\<close>

definition start_await :: "shared \<Rightarrow> shared" where
  "start_await st = st\<lparr>sh_tasks := sh_tasks st @
    [case sh_current st of
       Some l \<Rightarrow> if sh_lists st ! l \<noteq> [] then Looping l 0 else Ended (Raised never_proposed)
     | None \<Rightarrow> Ended (Raised never_proposed)]\<rparr>"

text \<open>Its end, once the iterator finds nothing more.\<close>

definition finish_await :: "shared \<Rightarrow> shared \<times> EndorsedTX outcome" where
  "finish_await st =
    (case sh_current st of None \<Rightarrow> st | Some l \<Rightarrow> st\<lparr>sh_lists := (sh_lists st)[l := []]\<rparr>,
     case bld_endorsed_tx (sh_builder st) of Some etx \<Rightarrow> Returned etx | None \<Rightarrow> Raised never_proposed)"

text \<open>
  One step of a task. One that waits forever has no step, and neither has one that has ended.
\<close>

fun task_step :: "sys \<Rightarrow> nat \<Rightarrow> task \<Rightarrow> shared \<Rightarrow> trace \<Rightarrow> (shared \<times> trace) option" where
  "task_step S i (Looping l k) st tr =
    (if k < length (sh_lists st ! l)
     then (case begin_operation S (sh_lists st ! l ! k) (sh_builder st) tr of
         (Returned act, tr') \<Rightarrow> Some (st\<lparr>sh_tasks := (sh_tasks st)[i := Awaiting l k act]\<rparr>, tr')
       | (Raised e, tr') \<Rightarrow> Some (st\<lparr>sh_tasks := (sh_tasks st)[i := Ended (Raised e)]\<rparr>, tr')
       | (Blocked, tr') \<Rightarrow> None)
     else (case finish_await st of
       (st', oc) \<Rightarrow> Some (st'\<lparr>sh_tasks := (sh_tasks st')[i := Ended oc]\<rparr>, tr)))"
| "task_step S i (Awaiting l k act) st tr =
    (case resume S act (sh_builder st) tr of
       (Returned None, b, tr') \<Rightarrow>
         Some (st\<lparr>sh_builder := b, sh_tasks := (sh_tasks st)[i := Looping l (Suc k)]\<rparr>, tr')
     | (Returned (Some act'), b, tr') \<Rightarrow>
         Some (st\<lparr>sh_builder := b, sh_tasks := (sh_tasks st)[i := Awaiting l k act']\<rparr>, tr')
     | (Raised e, b, tr') \<Rightarrow>
         Some (st\<lparr>sh_builder := b, sh_tasks := (sh_tasks st)[i := Ended (Raised e)]\<rparr>, tr')
     | (Blocked, b, tr') \<Rightarrow> None)"
| "task_step S i (Ended oc) st tr = None"

datatype action =
    Queue operation
  | Await
  | Step nat
  | Others "event list"

fun task_action :: "sys \<Rightarrow> action \<Rightarrow> shared \<times> trace \<Rightarrow> (shared \<times> trace) option" where
  "task_action S (Queue op) (st, tr) = Some (queue_operation op st, tr)"
| "task_action S Await (st, tr) = Some (start_await st, tr)"
| "task_action S (Step i) (st, tr) =
    (if i < length (sh_tasks st) then task_step S i (sh_tasks st ! i) st tr else None)"
| "task_action S (Others evs) (st, tr) = Some (st, tr @ evs)"

fun schedule :: "sys \<Rightarrow> action list \<Rightarrow> shared \<times> trace \<Rightarrow> (shared \<times> trace) option" where
  "schedule S [] c = Some c"
| "schedule S (a # as) c = (case task_action S a c of None \<Rightarrow> None | Some c' \<Rightarrow> schedule S as c')"

section \<open>The invariant, for any number of tasks\<close>

text \<open>What a waiting task may rely on, whatever the others do meanwhile.\<close>

fun activity_inv :: "GatewayTXBuilder \<Rightarrow> trace \<Rightarrow> activity \<Rightarrow> bool" where
  "activity_inv b tr (Proposing r oc) \<longleftrightarrow> (\<forall>etx. oc = Returned etx \<longrightarrow>
    endorsement_of (gw_endorsing_peers (bld_gateway b)) (bld_transaction b) tr etx)"
| "activity_inv b tr (Broadcasting envelope tx_id ords oc) \<longleftrightarrow> bld_endorsed_tx b \<noteq> None \<and>
    set ords \<subseteq> set (gw_orderers (bld_gateway b)) \<and>
    (\<exists>ord \<in> set (gw_orderers (bld_gateway b)). EnvelopeBroadcast ord envelope \<in> set tr)"
| "activity_inv b tr (Listening r timeout ps oc) \<longleftrightarrow> bld_committed b \<and>
    (\<forall>t. oc = Returned t \<longrightarrow> ftx_tx_id t = GeneratedTX_tx_id (bld_transaction b))"

text \<open>What every step of a task does to the builder: it sets attributes and resets none.\<close>

definition evolves :: "GatewayTXBuilder \<Rightarrow> GatewayTXBuilder \<Rightarrow> bool" where
  "evolves b b' \<longleftrightarrow> bld_gateway b' = bld_gateway b \<and> bld_transaction b' = bld_transaction b \<and>
    (bld_endorsed_tx b \<noteq> None \<longrightarrow> bld_endorsed_tx b' \<noteq> None) \<and> (bld_committed b \<longrightarrow> bld_committed b')"

lemma evolves_refl [simp]: "evolves b b"
  by (simp add: evolves_def)

lemma endorsement_of_mono: "endorsement_of ps g tr etx \<Longrightarrow> set tr \<subseteq> set tr' \<Longrightarrow> endorsement_of ps g tr' etx"
  unfolding endorsement_of_def by blast

lemma activity_inv_stable:
  assumes "activity_inv b tr act" "evolves b b'" "set tr \<subseteq> set tr'"
  shows "activity_inv b' tr' act"
  using assms
proof (cases act)
  case (Proposing r oc)
  with assms endorsement_of_mono [OF _ assms(3)] show ?thesis by (auto simp: evolves_def)
next
  case (Broadcasting envelope tx_id ords oc)
  with assms show ?thesis unfolding evolves_def by auto
qed (auto simp: evolves_def)

lemma builder_inv_id:
  assumes "builder_inv b tr" "bld_endorsed_tx b = Some etx"
  shows "EndorsedTX_tx_id etx = GeneratedTX_tx_id (bld_transaction b)"
  using assms by (auto simp: builder_inv_def endorsement_of_def EndorsedTX_tx_id_def GeneratedTX_tx_id_def)

lemma ask_peer_emits: "emits any_event (ask_peer S r timeout b p)"
  unfolding ask_peer_def await_on_peer_def Let_def need_def by (intro emits_intros) simp_all

lemma ask_peer_id:
  assumes "builder_inv b tr0" "ask_peer S r timeout b p tr = (Returned t, tr')"
  shows "ftx_tx_id t = GeneratedTX_tx_id (bld_transaction b)"
proof -
  from assms(2) obtain u c where aw: "await_on_peer S u c r timeout (bld_endorsed_tx b) p tr = (Returned t, tr')"
    by (auto simp: ask_peer_def need_def bind_Returned_iff)
  then obtain etx where "bld_endorsed_tx b = Some etx"
    by (auto simp: await_on_peer_def Let_def need_def bind_Returned_iff)
  with aw await_on_peer_tx_id builder_inv_id [OF assms(1)] show ?thesis by metis
qed

lemma next_peer_inv:
  assumes "builder_inv b tr" "bld_committed b" "next_peer S r timeout b err ps tr = (oc, tr')"
  shows "prefix tr tr' \<and> (\<forall>act. oc = Returned act \<longrightarrow> activity_inv b tr' act)"
proof (cases ps)
  case (Cons p ps')
  obtain oc1 tr1 where a: "ask_peer S r timeout b p tr = (oc1, tr1)" by fastforce
  from emits_any_D [OF ask_peer_emits a] ask_peer_id [OF assms(1)] a assms(2,3) Cons show ?thesis by auto
qed (use assms in auto)

lemma next_orderer_inv:
  assumes "bld_endorsed_tx b \<noteq> None" "set ords \<subseteq> set (gw_orderers (bld_gateway b))"
    "next_orderer S envelope tx_id err ords tr = (oc, tr')"
  shows "prefix tr tr' \<and> (\<forall>act. oc = Returned act \<longrightarrow> activity_inv b tr' act)"
  using assms by (cases ords) (auto simp: broadcast_to_orderer_eq)

lemma bind_outcome:
  assumes "bind_io m f tr = (oc, tr')" "emits any_event m"
    and "\<And>x tr1. m tr = (Returned x, tr1) \<Longrightarrow> prefix tr tr1 \<Longrightarrow> f x tr1 = (oc, tr') \<Longrightarrow>
      prefix tr1 tr' \<and> (\<forall>y. oc = Returned y \<longrightarrow> Q y tr')"
  shows "prefix tr tr' \<and> (\<forall>y. oc = Returned y \<longrightarrow> Q y tr')"
proof -
  obtain oc1 tr1 where m: "m tr = (oc1, tr1)" by fastforce
  note pre = emits_any_D [OF assms(2) m]
  show ?thesis
  proof (cases oc1)
    case (Returned x)
    with assms(1) m have "f x tr1 = (oc, tr')" by (simp add: bind_io_def)
    from assms(3) [OF m [unfolded Returned] pre this] pre show ?thesis by (auto intro: prefix_order.trans)
  qed (use assms(1) m pre in \<open>auto simp: bind_io_def\<close>)
qed

lemma begin_operation_inv:
  assumes inv: "builder_inv b tr" and run: "begin_operation S op b tr = (oc, tr')"
  shows "prefix tr tr' \<and> (\<forall>act. oc = Returned act \<longrightarrow> activity_inv b tr' act)"
proof (cases op)
  case (Propose r)
  have e: "emits any_event (propose_tx S ps g)" for ps g by (intro emits_propose) simp
  obtain oc1 tr1 where p: "propose_tx S (gw_endorsing_peers (bld_gateway b)) (bld_transaction b) tr = (oc1, tr1)" by fastforce
  from emits_any_D [OF e p] Propose run p propose_endorsement show ?thesis by auto
next
  case Submit
  show ?thesis
  proof (cases "bld_endorsed_tx b")
    case (Some etx)
    have "emits any_event (need x)" for x :: "User option" unfolding need_def by (intro emits_intros)
    moreover have "emits any_event (build_endorsed_tx_envelope S etx u)" for u by (rule emits_factories) simp
    moreover have "emits any_event (guard_io c e)" for c e by (intro emits_intros)
    moreover have "prefix tr1 tr' \<and> (\<forall>act. oc = Returned act \<longrightarrow> activity_inv b tr' act)"
      if "next_orderer S envelope i e (gw_orderers (bld_gateway b)) tr1 = (oc, tr')" for envelope i e tr1
      using next_orderer_inv [OF _ subset_refl that] Some by simp
    ultimately show ?thesis using run Some Submit
      by (auto elim!: bind_outcome)
  qed (use run Submit in auto)
next
  case (WaitForCommit r timeout)
  with run next_peer_inv [OF inv] show ?thesis by (auto split: if_splits)
qed

text \<open>An answer keeps the invariant of the builder, and of what the task waits for next.\<close>

lemma builder_inv_endorsed:
  "builder_inv b tr \<Longrightarrow> endorsement_of (gw_endorsing_peers (bld_gateway b)) (bld_transaction b) tr etx \<Longrightarrow>
    builder_inv (b\<lparr>bld_endorsed_tx := Some etx\<rparr>) tr"
  by (simp add: builder_inv_def)

lemma builder_inv_committed:
  "builder_inv b tr \<Longrightarrow> activity_inv b tr (Broadcasting envelope tx_id ords oc) \<Longrightarrow>
    builder_inv (b\<lparr>bld_committed := True\<rparr>) tr"
  by (auto simp: builder_inv_def)

lemma builder_inv_filtered:
  "builder_inv b tr \<Longrightarrow> activity_inv b tr (Listening r timeout ps (Returned t)) \<Longrightarrow>
    builder_inv (b\<lparr>bld_filtered_tx := Some t\<rparr>) tr"
  by (simp add: builder_inv_def)

lemma resume_inv:
  assumes inv: "builder_inv b tr" and act: "activity_inv b tr act" and run: "resume S act b tr = (oc, b', tr')"
  shows "prefix tr tr' \<and> evolves b b' \<and> builder_inv b' tr' \<and>
    (\<forall>act'. oc = Returned (Some act') \<longrightarrow> activity_inv b' tr' act')"
proof -
  have loop: "prefix tr tr' \<and> evolves b b' \<and> builder_inv b' tr' \<and>
      (\<forall>act'. oc = Returned (Some act') \<longrightarrow> activity_inv b' tr' act')"
    if "(case bind_io m (\<lambda>act. return_io (Some act)) tr of (oc, tr') \<Rightarrow> (oc, b, tr')) = (oc, b', tr')"
      and nx: "\<And>oc tr'. m tr = (oc, tr') \<Longrightarrow> prefix tr tr' \<and> (\<forall>act. oc = Returned act \<longrightarrow> activity_inv b tr' act)" for m
  proof -
    obtain oc1 tr1 where m: "m tr = (oc1, tr1)" by fastforce
    note n = nx [OF m]
    then have "builder_inv b tr1" using builder_inv_mono [OF inv set_mono_prefix] by blast
    with that(1) m n show ?thesis by (cases oc1) (auto simp: bind_io_def io_eval)
  qed
  show ?thesis
  proof (cases "(S, act, b, tr)" rule: resume.cases)
    case (1 S r etx b tr)
    with run act builder_inv_endorsed [OF inv, of etx] show ?thesis by (auto simp: evolves_def split: if_splits sum.splits)
  next
    case (3 S envelope tx_id ords resp b tr)
    with run builder_inv_committed [OF inv] act show ?thesis by (auto simp: evolves_def)
  next
    case (4 S1 envelope tx_id ords e b1 tr1)
    show ?thesis
    proof (cases "is_BlockchainConnectionError e")
      case True
      have e: "bld_endorsed_tx b \<noteq> None" "set ords \<subseteq> set (gw_orderers (bld_gateway b))" using act 4 by auto
      show ?thesis
        by (rule loop [OF _ next_orderer_inv [OF e]]) (use run True 4 in auto)
    qed (use run 4 inv in auto)
  next
    case (5 S1 r timeout ps t b1 tr1)
    with run builder_inv_filtered [OF inv] act show ?thesis by (auto simp: evolves_def)
  next
    case (6 S1 r timeout ps e b1 tr1)
    show ?thesis
    proof (cases "is_ConnectionError e \<or> is_BlockRetrievalError e")
      case True
      have c: "bld_committed b" using act 6 by simp
      show ?thesis
        by (rule loop [OF _ next_peer_inv [OF inv c]]) (use run True 6 in auto)
    qed (use run 6 inv in auto)
  qed (use run inv in auto)
qed

definition tasks_inv :: "GatewayTXBuilder \<Rightarrow> trace \<Rightarrow> task list \<Rightarrow> bool" where
  "tasks_inv b tr ts \<longleftrightarrow> (\<forall>l k act. Awaiting l k act \<in> set ts \<longrightarrow> activity_inv b tr act)"

definition shared_inv :: "shared \<Rightarrow> trace \<Rightarrow> bool" where
  "shared_inv st tr \<longleftrightarrow> builder_inv (sh_builder st) tr \<and> tasks_inv (sh_builder st) tr (sh_tasks st)"

lemma tasks_inv_stable:
  "tasks_inv b tr ts \<Longrightarrow> evolves b b' \<Longrightarrow> set tr \<subseteq> set tr' \<Longrightarrow> tasks_inv b' tr' ts"
  unfolding tasks_inv_def using activity_inv_stable by blast

lemma tasks_inv_update:
  assumes "tasks_inv b tr ts" "\<And>l k act. t = Awaiting l k act \<Longrightarrow> activity_inv b tr act"
  shows "tasks_inv b tr (ts[i := t])"
  using assms set_update_subset_insert [of ts i t] unfolding tasks_inv_def by blast

lemma shared_inv_step:
  assumes "shared_inv st tr" "prefix tr tr'" "evolves (sh_builder st) b" "builder_inv b tr'"
    and "\<And>l k act. t = Awaiting l k act \<Longrightarrow> activity_inv b tr' act"
  shows "shared_inv (st\<lparr>sh_builder := b, sh_tasks := (sh_tasks st)[i := t]\<rparr>) tr'"
  using assms tasks_inv_stable [OF _ assms(3) set_mono_prefix [OF assms(2)]]
  by (simp add: shared_inv_def tasks_inv_update)

lemma task_step_inv:
  assumes "shared_inv st tr" "task_step S i t st tr = Some (st', tr')" "t \<in> set (sh_tasks st)"
  shows "shared_inv st' tr' \<and> evolves (sh_builder st) (sh_builder st')"
proof (cases t)
  case (Looping l k)
  have inv: "builder_inv (sh_builder st) tr" using assms(1) by (simp add: shared_inv_def)
  show ?thesis
  proof (cases "k < length (sh_lists st ! l)")
    case True
    obtain oc tr1 where r: "begin_operation S (sh_lists st ! l ! k) (sh_builder st) tr = (oc, tr1)" by fastforce
    from begin_operation_inv [OF inv r] have pre: "prefix tr tr1" and
      act: "\<forall>act. oc = Returned act \<longrightarrow> activity_inv (sh_builder st) tr1 act" by blast+
    note inv1 = builder_inv_mono [OF inv set_mono_prefix [OF pre]]
    have up: "st\<lparr>sh_tasks := ts\<rparr> = st\<lparr>sh_builder := sh_builder st, sh_tasks := ts\<rparr>" for ts by simp
    show ?thesis
    proof (cases oc)
      case (Returned a)
      with assms(2) Looping True r have "st' = st\<lparr>sh_tasks := (sh_tasks st)[i := Awaiting l k a]\<rparr>" "tr' = tr1" by simp_all
      with shared_inv_step [OF assms(1) pre evolves_refl inv1, of "Awaiting l k a" i] act Returned show ?thesis by simp
    next
      case (Raised e)
      with assms(2) Looping True r have "st' = st\<lparr>sh_tasks := (sh_tasks st)[i := Ended (Raised e)]\<rparr>" "tr' = tr1" by simp_all
      with shared_inv_step [OF assms(1) pre evolves_refl inv1, of "Ended (Raised e)" i] show ?thesis by simp
    qed (use assms(2) Looping True r in simp)
  next
    case False
    with assms(1,2) Looping show ?thesis
      by (auto simp: shared_inv_def finish_await_def intro!: tasks_inv_update split: option.splits)
  qed
next
  case (Awaiting l k act)
  obtain oc b tr1 where r: "resume S act (sh_builder st) tr = (oc, b, tr1)" using prod_cases3 by blast
  have "builder_inv (sh_builder st) tr" "activity_inv (sh_builder st) tr act"
    using assms(1,3) Awaiting by (auto simp: shared_inv_def tasks_inv_def)
  note i = resume_inv [OF this r]
  from assms(2) Awaiting r i show ?thesis
    by (auto split: outcome.splits option.splits intro!: shared_inv_step [OF assms(1)])
qed (use assms(2) in simp)

lemma task_action_inv:
  assumes "shared_inv st tr" "task_action S act (st, tr) = Some (st', tr')"
  shows "shared_inv st' tr' \<and> evolves (sh_builder st) (sh_builder st')"
proof (cases act)
  case (Queue op)
  then show ?thesis using assms by (auto simp: queue_operation_def shared_inv_def split: option.splits if_splits)
next
  case Await
  have "Awaiting l k a \<in> set (sh_tasks (start_await st)) \<Longrightarrow> Awaiting l k a \<in> set (sh_tasks st)" for l k a
    by (auto simp: start_await_def split: option.splits if_splits)
  then have "tasks_inv (sh_builder st) tr (sh_tasks (start_await st))"
    using assms(1) unfolding shared_inv_def tasks_inv_def by blast
  moreover have "sh_builder (start_await st) = sh_builder st" by (simp add: start_await_def)
  ultimately show ?thesis using assms Await by (auto simp: shared_inv_def)
next
  case (Step i)
  then show ?thesis using assms task_step_inv [OF assms(1)] by (auto split: if_splits)
next
  case (Others evs)
  then show ?thesis using assms builder_inv_mono [of "sh_builder st" tr "tr @ evs"]
      tasks_inv_stable [OF _ evolves_refl, of "sh_builder st" tr "sh_tasks st" "tr @ evs"] by (auto simp: shared_inv_def)
qed

lemma evolves_trans: "evolves a b \<Longrightarrow> evolves b c \<Longrightarrow> evolves a c"
  by (simp add: evolves_def)

lemma schedule_inv:
  assumes "shared_inv st tr" "schedule S acts (st, tr) = Some (st', tr')"
  shows "shared_inv st' tr' \<and> evolves (sh_builder st) (sh_builder st')"
  using assms
proof (induction acts arbitrary: st tr)
  case (Cons a acts)
  from Cons.prems(2) obtain st1 tr1 where "task_action S a (st, tr) = Some (st1, tr1)"
    "schedule S acts (st1, tr1) = Some (st', tr')" by (auto split: option.splits)
  with Cons.IH [of st1 tr1] task_action_inv [OF Cons.prems(1)] evolves_trans show ?case by blast
qed simp

lemma new_shared_inv: "shared_inv (new_shared gw g) tr"
  by (simp add: shared_inv_def tasks_inv_def new_shared_def)

text \<open>
  C8. However many tasks await one builder, however their steps interleave and whatever is
  queued meanwhile: the builder's endorsed transaction is the one it was made with, all its
  peers got the proposal, it is marked committed only if an envelope went to one of its
  orderers, and the transaction it was told to be in a block is its own.
\<close>

theorem shared_builder_stays_sound:
  assumes "schedule S acts (new_shared gw g, tr) = Some (st, tr')"
  shows "bld_gateway (sh_builder st) = gw \<and> bld_transaction (sh_builder st) = g \<and>
    (\<forall>etx. bld_endorsed_tx (sh_builder st) = Some etx \<longrightarrow>
       EndorsedTX_tx_id etx = GeneratedTX_tx_id g \<and> etx_proposal etx = gtx_proposal g \<and>
       length (etx_peer_responses etx) = length (gw_endorsing_peers gw) \<and>
       (\<forall>p \<in> set (gw_endorsing_peers gw). ProposalSent p (gtx_signed_proposal g) \<in> set tr')) \<and>
    (bld_committed (sh_builder st) \<longrightarrow> bld_endorsed_tx (sh_builder st) \<noteq> None \<and>
       (\<exists>ord envelope. ord \<in> set (gw_orderers gw) \<and> EnvelopeBroadcast ord envelope \<in> set tr')) \<and>
    (\<forall>t. bld_filtered_tx (sh_builder st) = Some t \<longrightarrow>
       bld_committed (sh_builder st) \<and> ftx_tx_id t = GeneratedTX_tx_id g)"
proof -
  from schedule_inv [OF new_shared_inv assms]
  have "builder_inv (sh_builder st) tr'" "bld_gateway (sh_builder st) = gw" "bld_transaction (sh_builder st) = g"
    by (simp_all add: shared_inv_def evolves_def new_shared_def)
  then show ?thesis
    by (auto simp: builder_inv_def endorsement_of_def EndorsedTX_tx_id_def GeneratedTX_tx_id_def)
qed

section \<open>One task alone\<close>

lemma queue_irrelevant [simp]:
  "ask_peer S r timeout (b\<lparr>bld_operations := q\<rparr>) = ask_peer S r timeout b"
  "next_peer S r timeout (b\<lparr>bld_operations := q\<rparr>) err ps = next_peer S r timeout b err ps"
proof -
  show a: "ask_peer S r timeout (b\<lparr>bld_operations := q\<rparr>) = ask_peer S r timeout b"
    by (rule ext) (simp add: ask_peer_def)
  show "next_peer S r timeout (b\<lparr>bld_operations := q\<rparr>) err ps = next_peer S r timeout b err ps"
    by (cases ps) (simp_all add: fun_eq_iff a)
qed

lemma schedule_append:
  "schedule S as c = Some c' \<Longrightarrow> schedule S (as @ bs) c = schedule S bs c'"
  by (induction as arbitrary: c) (auto split: option.splits)

text \<open>
  The steps of one task alone lead from a state to one in which the builder and this task are
  changed as given.
\<close>

definition alone :: "sys \<Rightarrow> nat \<Rightarrow> shared \<times> trace \<Rightarrow> GatewayTXBuilder \<Rightarrow> task \<Rightarrow> trace \<Rightarrow> bool" where
  "alone S i c b t tr' \<longleftrightarrow> (\<exists>n. schedule S (replicate n (Step i)) c =
    Some ((fst c)\<lparr>sh_builder := b, sh_tasks := (sh_tasks (fst c))[i := t]\<rparr>, tr'))"

lemma alone_step:
  assumes "task_step S i t st tr = Some (st\<lparr>sh_builder := b, sh_tasks := (sh_tasks st)[i := t']\<rparr>, tr')"
    and "i < length (sh_tasks st)" "sh_tasks st ! i = t"
  shows "alone S i (st, tr) b t' tr'"
  unfolding alone_def using assms by (intro exI [of _ 1]) simp

lemma alone_trans:
  assumes "alone S i (st, tr) b t tr1"
    and "alone S i (st\<lparr>sh_builder := b, sh_tasks := (sh_tasks st)[i := t]\<rparr>, tr1) b' t' tr'"
  shows "alone S i (st, tr) b' t' tr'"
proof -
  from assms obtain m n where
    m: "schedule S (replicate m (Step i)) (st, tr) = Some (st\<lparr>sh_builder := b, sh_tasks := (sh_tasks st)[i := t]\<rparr>, tr1)" and
    n: "schedule S (replicate n (Step i)) (st\<lparr>sh_builder := b, sh_tasks := (sh_tasks st)[i := t]\<rparr>, tr1) =
      Some (st\<lparr>sh_builder := b', sh_tasks := (sh_tasks st)[i := t']\<rparr>, tr')"
    by (auto simp: alone_def)
  from schedule_append [OF m, of "replicate n (Step i)"] n show ?thesis
    unfolding alone_def by (intro exI [of _ "m + n"]) (simp add: replicate_add)
qed

text \<open>Where a task goes when its operation ends.\<close>

fun after_operation :: "nat \<Rightarrow> nat \<Rightarrow> unit outcome \<Rightarrow> task" where
  "after_operation l k (Raised e) = Ended (Raised e)"
| "after_operation l k oc = Looping l (Suc k)"

lemma broadcasting_alone:
  assumes "broadcast_loop S envelope tx_id err (ord # ords) tr = (oc, tr')" "oc \<noteq> Blocked"
    and "broadcast_to_orderer S envelope ord tx_id tr = (oc1, tr1)" "sh_builder st = b"
    and "i < length (sh_tasks st)" "sh_tasks st ! i = Awaiting l k (Broadcasting envelope tx_id ords oc1)"
  shows "alone S i (st, tr1)
    (case oc of Returned r \<Rightarrow> b\<lparr>bld_committed := True\<rparr> | _ \<Rightarrow> b)
    (after_operation l k (case oc of Returned r \<Rightarrow> Returned () | Raised e \<Rightarrow> Raised e | Blocked \<Rightarrow> Blocked)) tr'"
  using assms
proof (induction ords arbitrary: ord err tr oc1 tr1 st)
  case Nil
  then show ?case
    by (cases oc1) (auto simp: try_io_def bind_io_def io_eval intro!: alone_step split: if_splits)
next
  case (Cons o2 os)
  show ?case
  proof (cases "\<exists>e. oc1 = Raised e \<and> is_BlockchainConnectionError e")
    case True
    then obtain e where e: "oc1 = Raised e" "is_BlockchainConnectionError e" by blast
    obtain oc2 tr2 where n: "broadcast_to_orderer S envelope o2 tx_id tr1 = (oc2, tr2)" by fastforce
    let ?act = "Broadcasting envelope tx_id os oc2"
    let ?st1 = "st\<lparr>sh_builder := b, sh_tasks := (sh_tasks st)[i := Awaiting l k ?act]\<rparr>"
    have 1: "alone S i (st, tr1) b (Awaiting l k ?act) tr2"
      using Cons.prems(4,6) e n by (intro alone_step [OF _ Cons.prems(5,6)]) (simp add: bind_io_def io_eval)
    have "broadcast_loop S envelope tx_id (Some e) (o2 # os) tr1 = (oc, tr')"
      using Cons.prems(1,3) e by (simp add: try_io_def)
    from Cons.IH [OF this Cons.prems(2) n, of ?st1] Cons.prems(5)
    have "alone S i (?st1, tr2) (case oc of Returned r \<Rightarrow> b\<lparr>bld_committed := True\<rparr> | _ \<Rightarrow> b)
      (after_operation l k (case oc of Returned r \<Rightarrow> Returned () | Raised e \<Rightarrow> Raised e | Blocked \<Rightarrow> Blocked)) tr'" by simp
    with alone_trans [OF 1] show ?thesis by blast
  next
    case False
    with Cons.prems show ?thesis
      by (cases oc1) (auto simp: try_io_def io_eval intro!: alone_step split: if_splits)
  qed
qed

lemma listening_alone:
  assumes "await_loop (ask_peer S r timeout b) err (p # ps) tr = (oc, tr')" "oc \<noteq> Blocked"
    and "ask_peer S r timeout b p tr = (oc1, tr1)" "sh_builder st = b"
    and "i < length (sh_tasks st)" "sh_tasks st ! i = Awaiting l k (Listening r timeout ps oc1)"
  shows "alone S i (st, tr1)
    (case oc of Returned t \<Rightarrow> b\<lparr>bld_filtered_tx := Some t\<rparr> | _ \<Rightarrow> b)
    (after_operation l k (case oc of Returned t \<Rightarrow> Returned () | Raised e \<Rightarrow> Raised e | Blocked \<Rightarrow> Blocked)) tr'"
  using assms
proof (induction ps arbitrary: p err tr oc1 tr1 st)
  case Nil
  then show ?case
    by (cases oc1) (auto simp: try_io_def bind_io_def io_eval intro!: alone_step split: if_splits)
next
  case (Cons p2 ps)
  show ?case
  proof (cases "\<exists>e. oc1 = Raised e \<and> (is_ConnectionError e \<or> is_BlockRetrievalError e)")
    case True
    then obtain e where e: "oc1 = Raised e" "is_ConnectionError e \<or> is_BlockRetrievalError e" by blast
    obtain oc2 tr2 where n: "ask_peer S r timeout b p2 tr1 = (oc2, tr2)" by fastforce
    let ?act = "Listening r timeout ps oc2"
    let ?st1 = "st\<lparr>sh_builder := b, sh_tasks := (sh_tasks st)[i := Awaiting l k ?act]\<rparr>"
    have 1: "alone S i (st, tr1) b (Awaiting l k ?act) tr2"
      using Cons.prems(4,6) e n by (intro alone_step [OF _ Cons.prems(5,6)]) (simp add: bind_io_def io_eval)
    have "await_loop (ask_peer S r timeout b) e (p2 # ps) tr1 = (oc, tr')"
      using Cons.prems(1,3) e by (simp add: try_io_def)
    from Cons.IH [OF this Cons.prems(2) n, of ?st1] Cons.prems(5)
    have "alone S i (?st1, tr2)
      (case oc of Returned t \<Rightarrow> b\<lparr>bld_filtered_tx := Some t\<rparr> | _ \<Rightarrow> b)
      (after_operation l k (case oc of Returned t \<Rightarrow> Returned () | Raised e \<Rightarrow> Raised e | Blocked \<Rightarrow> Blocked)) tr'" by simp
    with alone_trans [OF 1] show ?thesis by blast
  next
    case False
    with Cons.prems show ?thesis
      by (cases oc1) (auto simp: try_io_def io_eval intro!: alone_step split: if_splits)
  qed
qed

lemma alone_begin:
  assumes "i < length (sh_tasks st)" "sh_tasks st ! i = Looping l k" "k < length (sh_lists st ! l)"
    and "begin_operation S (sh_lists st ! l ! k) (sh_builder st) tr = (oc, tr')"
  shows "oc = Returned act \<Longrightarrow> alone S i (st, tr) (sh_builder st) (Awaiting l k act) tr'"
    and "oc = Raised e \<Longrightarrow> alone S i (st, tr) (sh_builder st) (Ended (Raised e)) tr'"
  using assms by (auto intro!: alone_step)

text \<open>The start of \<open>submit\<close>, compared with the whole operation.\<close>

lemma submit_begins:
  assumes "begin_operation S Submit b tr = (Returned act, tr1)"
  obtains envelope tx_id ord ords oc2 tr2 where "act = Broadcasting envelope tx_id ords oc2"
    "broadcast_to_orderer S envelope ord tx_id tr2 = (oc2, tr1)"
    "operate S Submit b tr = (case broadcast_loop S envelope tx_id None (ord # ords) tr2 of
      (Returned r, tr') \<Rightarrow> (Returned (), b\<lparr>bld_committed := True\<rparr>, tr')
    | (Raised e, tr') \<Rightarrow> (Raised e, b, tr') | (Blocked, tr') \<Rightarrow> (Blocked, b, tr'))"
proof -
  from assms obtain etx u envelope tr2 where e: "bld_endorsed_tx b = Some etx" "gw_requestor (bld_gateway b) = Some u"
    "build_endorsed_tx_envelope S etx u tr = (Returned envelope, tr2)" "gw_orderers (bld_gateway b) \<noteq> []"
    "next_orderer S envelope (EndorsedTX_tx_id etx) (Py (UnboundLocalError (lit ''error''))) (gw_orderers (bld_gateway b)) tr2
      = (Returned act, tr1)"
    by (auto simp: need_def bind_Returned_iff guard_io_def split: option.splits if_splits)
  then obtain ord ords where o: "gw_orderers (bld_gateway b) = ord # ords" by (meson neq_Nil_conv)
  obtain oc2 tr3 where n: "broadcast_to_orderer S envelope ord (EndorsedTX_tx_id etx) tr2 = (oc2, tr3)" by fastforce
  show ?thesis
    by (rule that [of envelope "EndorsedTX_tx_id etx" ords oc2 ord tr2])
      (use e o n in \<open>simp_all add: operate_submit_def need_def bind_io_def io_eval commit_tx_def broadcast_to_orderers_def
        del: broadcast_loop.simps\<close>)
qed

lemma submit_ends:
  assumes "begin_operation S Submit b tr = (oc, tr1)" "\<forall>act. oc \<noteq> Returned act"
  shows "operate S Submit b tr = (case oc of Raised e \<Rightarrow> Raised e | _ \<Rightarrow> Blocked, b, tr1)"
proof (cases "bld_endorsed_tx b")
  case (Some etx)
  note etx = this
  show ?thesis
  proof (cases "gw_requestor (bld_gateway b)")
    case (Some u)
    obtain oc2 tr2 where e: "build_endorsed_tx_envelope S etx u tr = (oc2, tr2)" by fastforce
    show ?thesis
    proof (cases "\<exists>envelope. oc2 = Returned envelope \<and> gw_orderers (bld_gateway b) \<noteq> []")
      case True
      then obtain envelope where "oc2 = Returned envelope" "gw_orderers (bld_gateway b) \<noteq> []" by blast
      moreover from this obtain ord ords where "gw_orderers (bld_gateway b) = ord # ords" by (meson neq_Nil_conv)
      ultimately show ?thesis using assms etx Some e
        by (auto simp: need_def bind_io_def io_eval split: prod.splits)
    next
      case False
      with assms etx Some e show ?thesis
        by (cases oc2) (auto simp: operate_submit_def commit_tx_def broadcast_to_orderers_def need_def bind_io_def io_eval)
    qed
  qed (use assms etx in \<open>auto simp: operate_submit_def need_def bind_io_def io_eval\<close>)
qed (use assms in \<open>auto simp: operate_submit_def\<close>)

lemma operation_alone:
  assumes "operate S (sh_lists st ! l ! k) (sh_builder st) tr = (oc, b', tr')" "oc \<noteq> Blocked"
    and at: "i < length (sh_tasks st)" "sh_tasks st ! i = Looping l k" "k < length (sh_lists st ! l)"
  shows "alone S i (st, tr) b' (after_operation l k oc) tr'"
proof -
  let ?b = "sh_builder st"
  let ?at = "\<lambda>act. st\<lparr>sh_builder := ?b, sh_tasks := (sh_tasks st)[i := Awaiting l k act]\<rparr>"
  note beg = alone_begin [OF at]
  show ?thesis
  proof (cases "sh_lists st ! l ! k")
    case (Propose r)
    obtain oc1 tr1 where p: "propose_tx S (gw_endorsing_peers (bld_gateway ?b)) (bld_transaction ?b) tr = (oc1, tr1)" by fastforce
    have 1: "alone S i (st, tr) ?b (Awaiting l k (Proposing r oc1)) tr1" by (rule beg(1)) (use Propose p in simp_all)
    have "alone S i (?at (Proposing r oc1), tr1) b' (after_operation l k oc) tr'"
      using assms(1,2) Propose p at
      by (cases oc1) (auto simp: operate_propose_def intro!: alone_step split: sum.splits if_splits)
    with alone_trans [OF 1] show ?thesis by blast
  next
    case Submit
    show ?thesis
    proof (cases "begin_operation S Submit ?b tr")
      case (Pair oc1 tr1)
      note beg1 = this
      show ?thesis
      proof (cases oc1)
        case (Returned act)
        obtain envelope tx_id ord ords oc2 tr2 where
          a: "act = Broadcasting envelope tx_id ords oc2" "broadcast_to_orderer S envelope ord tx_id tr2 = (oc2, tr1)" and
          o: "operate S Submit ?b tr = (case broadcast_loop S envelope tx_id None (ord # ords) tr2 of
            (Returned r, tr') \<Rightarrow> (Returned (), ?b\<lparr>bld_committed := True\<rparr>, tr')
          | (Raised e, tr') \<Rightarrow> (Raised e, ?b, tr') | (Blocked, tr') \<Rightarrow> (Blocked, ?b, tr'))"
          by (rule submit_begins [OF beg1 [unfolded Returned]])
        obtain oc3 tr3 where b: "broadcast_loop S envelope tx_id None (ord # ords) tr2 = (oc3, tr3)" by fastforce
        have 1: "alone S i (st, tr) ?b (Awaiting l k act) tr1" by (rule beg(1)) (use Submit beg1 Returned in simp_all)
        have o3: "(oc, b', tr') = (case (oc3, tr3) of
            (Returned r, tr') \<Rightarrow> (Returned (), ?b\<lparr>bld_committed := True\<rparr>, tr')
          | (Raised e, tr') \<Rightarrow> (Raised e, ?b, tr') | (Blocked, tr') \<Rightarrow> (Blocked, ?b, tr'))"
          unfolding assms(1) [symmetric] Submit o b ..
        have nb: "oc3 \<noteq> Blocked" using assms(2) o3 by auto
        have "alone S i (?at act, tr1) b' (after_operation l k oc) tr'"
          using broadcasting_alone [OF b nb a(2), of "?at act" _ i l k] at(1) a(1) o3
          by (cases oc3) simp_all
        with alone_trans [OF 1] show ?thesis by blast
      next
        case (Raised e)
        from submit_ends [OF beg1] Raised assms(1) Submit have "oc = Raised e" "b' = ?b" "tr' = tr1" by simp_all
        with beg(2) [of S tr] beg1 Raised Submit show ?thesis by simp
      qed (use submit_ends [OF beg1] assms(1,2) Submit in simp)
    qed
  next
    case (WaitForCommit r timeout)
    let ?err = "BlockchainError (lit ''Failed waiting for committed transaction'')"
    show ?thesis
    proof (cases "bld_committed ?b \<and> gw_endorsing_peers (bld_gateway ?b) \<noteq> []")
      case True
      then obtain p ps where ps: "gw_endorsing_peers (bld_gateway ?b) = p # ps" by (meson neq_Nil_conv)
      obtain oc1 tr1 where a: "ask_peer S r timeout ?b p tr = (oc1, tr1)" by fastforce
      obtain oc3 tr3 where b: "await_loop (ask_peer S r timeout ?b) ?err (p # ps) tr = (oc3, tr3)" by fastforce
      have 1: "alone S i (st, tr) ?b (Awaiting l k (Listening r timeout ps oc1)) tr1"
        by (rule beg(1)) (use WaitForCommit a ps True in simp_all)
      have o: "(oc, b', tr') = (case (oc3, tr3) of
          (Returned t, tr') \<Rightarrow> (Returned (), ?b\<lparr>bld_filtered_tx := Some t\<rparr>, tr')
        | (Raised e, tr') \<Rightarrow> (Raised e, ?b, tr') | (Blocked, tr') \<Rightarrow> (Blocked, ?b, tr'))"
        using assms(1) WaitForCommit True b by (simp add: operate_wait_def ps del: await_loop.simps)
      have nb: "oc3 \<noteq> Blocked" using assms(2) o by auto
      have "alone S i (?at (Listening r timeout ps oc1), tr1) b' (after_operation l k oc) tr'"
        using listening_alone [OF b nb a, of "?at (Listening r timeout ps oc1)" i l k] at(1) o
        by (cases oc3) simp_all
      with alone_trans [OF 1] show ?thesis by blast
    next
      case False
      with assms(1) WaitForCommit have "\<exists>e. oc = Raised e \<and> begin_operation S (WaitForCommit r timeout) ?b tr = (Raised e, tr)"
        "b' = ?b" "tr' = tr" by (auto simp: operate_wait_def io_eval split: if_splits)
      with beg(2) [of S tr] WaitForCommit show ?thesis by auto
    qed
  qed
qed

lemma operate_queue:
  "operate S op (b\<lparr>bld_operations := q\<rparr>) tr =
    (case operate S op b tr of (oc, b', tr') \<Rightarrow> (oc, b'\<lparr>bld_operations := q\<rparr>, tr'))"
  by (cases op) (auto simp: operate_propose_def operate_submit_def operate_wait_def
      split: outcome.split sum.split option.split prod.split)

text \<open>The loop of one task is the run of the queue from its position on.\<close>

lemma lone_loop:
  assumes "run_queue (operate S) ops ((sh_builder st)\<lparr>bld_operations := q\<rparr>) tr = (oc, b', tr')" "oc \<noteq> Blocked"
    and "i < length (sh_tasks st)" "sh_tasks st ! i = Looping l k"
    and "drop k (sh_lists st ! l) = ops" "k \<le> length (sh_lists st ! l)"
  shows "\<exists>b. alone S i (st, tr) b
      (case oc of Raised e \<Rightarrow> Ended (Raised e) | _ \<Rightarrow> Looping l (length (sh_lists st ! l))) tr' \<and>
    b' = b\<lparr>bld_operations := q\<rparr>"
  using assms
proof (induction ops arbitrary: st tr k)
  case Nil
  then have "k = length (sh_lists st ! l)" by simp
  with Nil have "(sh_tasks st)[i := Looping l (length (sh_lists st ! l))] = sh_tasks st" by (metis list_update_id)
  with Nil show ?case
    by (intro exI [of _ "sh_builder st"]) (auto simp: alone_def intro!: exI [of _ 0])
next
  case (Cons op ops)
  from Cons.prems(5) have k: "k < length (sh_lists st ! l)" "sh_lists st ! l ! k = op"
    "drop (Suc k) (sh_lists st ! l) = ops"
    by (metis drop_all list.distinct(1) not_le, metis nth_via_drop,
      metis drop_Suc list.sel(3) tl_drop)
  obtain oc1 b1 tr1 where r: "operate S op (sh_builder st) tr = (oc1, b1, tr1)" using prod_cases3 by blast
  then have o: "operate S op ((sh_builder st)\<lparr>bld_operations := q\<rparr>) tr = (oc1, b1\<lparr>bld_operations := q\<rparr>, tr1)"
    by (simp add: operate_queue)
  have nb: "oc1 \<noteq> Blocked" using Cons.prems(1,2) o by auto
  note 1 = operation_alone [OF _ nb Cons.prems(3,4) k(1), unfolded k(2), OF r]
  show ?case
  proof (cases oc1)
    case (Returned u)
    let ?st1 = "st\<lparr>sh_builder := b1, sh_tasks := (sh_tasks st)[i := Looping l (Suc k)]\<rparr>"
    have "run_queue (operate S) ops ((sh_builder ?st1)\<lparr>bld_operations := q\<rparr>) tr1 = (oc, b', tr')"
      using Cons.prems(1) o Returned by simp
    moreover have "i < length (sh_tasks ?st1)" "sh_tasks ?st1 ! i = Looping l (Suc k)"
      "drop (Suc k) (sh_lists ?st1 ! l) = ops" "Suc k \<le> length (sh_lists ?st1 ! l)"
      using Cons.prems(3) k by simp_all
    moreover have L: "sh_lists ?st1 = sh_lists st" by simp
    ultimately obtain b where b: "b' = b\<lparr>bld_operations := q\<rparr>" "alone S i (?st1, tr1) b
        (case oc of Raised e \<Rightarrow> Ended (Raised e) | _ \<Rightarrow> Looping l (length (sh_lists st ! l))) tr'"
      using Cons.IH [of ?st1 tr1 "Suc k"] Cons.prems(2) unfolding L by blast
    with alone_trans [OF 1] Returned show ?thesis by auto
  next
    case (Raised e)
    with Cons.prems(1) o 1 show ?thesis by (intro exI [of _ b1]) auto
  qed (use nb in simp)
qed

definition current_exists :: "shared \<Rightarrow> bool" where
  "current_exists st \<longleftrightarrow> (\<forall>l. sh_current st = Some l \<longrightarrow> l < length (sh_lists st))"

text \<open>
  C11. The sequential builder is the case of one task at a time: where \<open>run_operations\<close> on the
  current queue returns or raises, an \<open>await\<close> whose task is the only one to take steps ends in
  the same outcome, after the same traffic, with the same attributes and the same queue.
\<close>

theorem lone_await_is_run_operations:
  assumes "current_exists st"
    and "run_operations S ((sh_builder st)\<lparr>bld_operations := Some (queue_of st)\<rparr>) tr = (oc, b', tr')" "oc \<noteq> Blocked"
  shows "\<exists>n st'. schedule S (Await # replicate n (Step (length (sh_tasks st)))) (st, tr) = Some (st', tr') \<and>
    sh_tasks st' = sh_tasks st @ [Ended oc] \<and> b' = (sh_builder st')\<lparr>bld_operations := Some (queue_of st')\<rparr>"
proof (cases "queue_of st")
  case Nil
  then have "run_operations S ((sh_builder st)\<lparr>bld_operations := Some (queue_of st)\<rparr>) tr =
      (Raised never_proposed, (sh_builder st)\<lparr>bld_operations := Some (queue_of st)\<rparr>, tr)"
    by (simp add: run_operations_def)
  with assms(2) Nil show ?thesis
    by (intro exI [of _ 0] exI [of _ "start_await st"])
      (auto simp: start_await_def queue_of_def split: option.splits)
next
  case (Cons o1 os)
  then obtain l where l: "sh_current st = Some l" "sh_lists st ! l = o1 # os" "l < length (sh_lists st)"
    using assms(1) by (auto simp: queue_of_def current_exists_def split: option.splits)
  let ?i = "length (sh_tasks st)" and ?q = "Some (queue_of st)"
  let ?st1 = "start_await st"
  have st1: "?st1 = st\<lparr>sh_tasks := sh_tasks st @ [Looping l 0]\<rparr>" by (simp add: start_await_def l)
  obtain oc1 b1 tr1 where q: "run_queue (operate S) (o1 # os) ((sh_builder st)\<lparr>bld_operations := ?q\<rparr>) tr = (oc1, b1, tr1)"
    using prod_cases3 by blast
  have nb: "oc1 \<noteq> Blocked" using assms(2,3) q Cons by (auto simp: run_operations_def)
  have sel: "sh_lists ?st1 = sh_lists st" "sh_builder ?st1 = sh_builder st" "sh_tasks ?st1 ! ?i = Looping l 0"
    "?i < length (sh_tasks ?st1)" by (simp_all add: st1)
  have "drop 0 (sh_lists ?st1 ! l) = o1 # os" "0 \<le> length (sh_lists ?st1 ! l)" by (simp_all add: sel l)
  from lone_loop [OF q [folded sel(2)] nb sel(4,3) this] obtain n b ts where
    n: "schedule S (replicate n (Step ?i)) (?st1, tr) = Some (?st1\<lparr>sh_builder := b, sh_tasks := ts\<rparr>, tr1)"
    "b1 = b\<lparr>bld_operations := ?q\<rparr>"
    "ts = (sh_tasks ?st1)[?i := case oc1 of Raised e \<Rightarrow> Ended (Raised e) | _ \<Rightarrow> Looping l (length (sh_lists st ! l))]"
    unfolding sel(1) alone_def by auto
  have run: "schedule S (Await # replicate n (Step ?i)) (st, tr) = Some (?st1\<lparr>sh_builder := b, sh_tasks := ts\<rparr>, tr1)"
    using n(1) by simp
  show ?thesis
  proof (cases oc1)
    case (Raised e)
    with assms(2) q Cons have "oc = Raised e" "b' = b1" "tr' = tr1" by (auto simp: run_operations_def)
    with run n(2,3) Raised show ?thesis
      by (intro exI [of _ n] exI [of _ "?st1\<lparr>sh_builder := b, sh_tasks := ts\<rparr>"]) (simp add: st1 queue_of_def l)
  next
    case (Returned u)
    let ?st2 = "?st1\<lparr>sh_builder := b, sh_tasks := ts\<rparr>"
    let ?oc = "case bld_endorsed_tx b of Some etx \<Rightarrow> Returned etx | None \<Rightarrow> Raised never_proposed"
    let ?st3 = "?st2\<lparr>sh_lists := (sh_lists st)[l := []], sh_tasks := sh_tasks st @ [Ended ?oc]\<rparr>"
    have "schedule S [Step ?i] (?st2, tr1) = Some (?st3, tr1)"
      using n(3) Returned l by (simp add: st1 finish_await_def)
    then have "schedule S ((Await # replicate n (Step ?i)) @ [Step ?i]) (st, tr) = Some (?st3, tr1)"
      using schedule_append [OF run] by simp
    moreover have "(Await # replicate n (Step ?i)) @ [Step ?i] = Await # replicate (Suc n) (Step ?i)"
      by (simp add: replicate_append_same)
    ultimately have "schedule S (Await # replicate (Suc n) (Step ?i)) (st, tr) = Some (?st3, tr1)" by metis
    moreover have "oc = ?oc" "b' = b1\<lparr>bld_operations := Some []\<rparr>" "tr' = tr1"
      using assms(2) q Cons Returned n(2) by (cases "bld_endorsed_tx b"; simp add: run_operations_def Let_def del: run_queue.simps)+
    ultimately show ?thesis using n(2) l
      by (intro exI [of _ "Suc n"] exI [of _ ?st3]) (simp add: queue_of_def st1)
  qed (use nb in simp)
qed

section \<open>Two tasks at once\<close>

text \<open>
  Orders in which two tasks go through one queue. In the first both propose before either is
  answered, and each submits when its answer comes. In the second they begin the same way, but
  the first task is through with its run before the second gets the answer to its proposal.
\<close>

definition two_awaits :: "action list" where
  "two_awaits = [Step 0, Step 1, Step 0, Step 0, Step 1, Step 1, Step 0, Step 0, Step 1, Step 1]"

definition one_outruns :: "action list" where
  "one_outruns = [Step 0, Step 1, Step 0, Step 0, Step 0, Step 0, Step 1, Step 1]"

text \<open>A builder with its proposal and submission queued, and several tasks that await it.\<close>

definition awaited_by :: "nat \<Rightarrow> action list" where
  "awaited_by n = [Queue (Propose True), Queue Submit] @ replicate n Await"

definition always_endorsed :: "sys \<Rightarrow> Peer list \<Rightarrow> GeneratedTX \<Rightarrow> bool" where
  "always_endorsed S ps g \<longleftrightarrow> (\<forall>tr. \<exists>etx tr'. propose_tx S ps g tr = (Returned etx, tr') \<and> fully_endorsed etx)"

lemma accepted_begin:
  assumes "bld_endorsed_tx b = Some etx" "gw_requestor (bld_gateway b) = Some u"
    and "gw_orderers (bld_gateway b) = ord # ords" "orderer_accepts S ord"
    and "build_endorsed_tx_envelope S etx u tr = (Returned envelope, tr')"
  shows "\<exists>r. begin_operation S Submit b tr = (Returned (Broadcasting envelope (EndorsedTX_tx_id etx) ords (Returned r)),
    tr' @ [EnvelopeBroadcast ord envelope])"
proof -
  from assms(4) obtain d resp rest fin where
    "sys_Broadcast S tr' ord envelope = ((d, resp) # rest, fin)" "br_status resp = 200"
    unfolding orderer_accepts_def by blast
  with assms show ?thesis by (simp add: need_def bind_io_def io_eval broadcast_to_orderer_eq)
qed

lemma propose_has_responses:
  "propose_tx S ps g tr = (Returned etx, tr') \<Longrightarrow> ps \<noteq> [] \<Longrightarrow> etx_peer_responses etx \<noteq> []"
  using propose_endorsement by (fastforce simp: endorsement_of_def)

lemma awaits_schedule:
  assumes "sh_current st = Some l" "sh_lists st ! l \<noteq> []"
  shows "schedule S (replicate n Await @ ss) (st, tr) =
    schedule S ss (st\<lparr>sh_tasks := sh_tasks st @ replicate n (Looping l 0)\<rparr>, tr)"
  using assms
proof (induction n arbitrary: st)
  case (Suc n)
  then have "start_await st = st\<lparr>sh_tasks := sh_tasks st @ [Looping l 0]\<rparr>" by (simp add: start_await_def)
  with Suc show ?case by simp
qed simp

lemma awaited_by_schedule:
  "schedule S (awaited_by n @ ss) (new_shared gw g, tr) =
    schedule S ss (\<lparr>sh_builder = new_GatewayTXBuilder gw g, sh_lists = [[Propose True, Submit]],
      sh_current = Some 0, sh_tasks = replicate n (Looping 0 0)\<rparr>, tr)"
proof -
  have q: "queue_operation Submit (queue_operation (Propose True) (new_shared gw g)) =
      \<lparr>sh_builder = new_GatewayTXBuilder gw g, sh_lists = [[Propose True, Submit]], sh_current = Some 0, sh_tasks = []\<rparr>"
    by (simp add: queue_operation_def new_shared_def)
  show ?thesis by (simp add: awaited_by_def q awaits_schedule)
qed

subsection \<open>In every order\<close>

fun may_submit :: "task \<Rightarrow> bool" where
  "may_submit (Looping l k) \<longleftrightarrow> k \<le> 1"
| "may_submit (Awaiting l k act) \<longleftrightarrow> k = 0"
| "may_submit (Ended oc) \<longleftrightarrow> False"

definition has_endorsement :: "GatewayTXBuilder \<Rightarrow> bool" where
  "has_endorsement b \<longleftrightarrow> (\<exists>etx. bld_endorsed_tx b = Some etx \<and> etx_peer_responses etx \<noteq> [])"

fun going_well :: "GatewayTXBuilder \<Rightarrow> task \<Rightarrow> bool" where
  "going_well b (Looping l k) \<longleftrightarrow> l = 0 \<and> k \<le> 2 \<and> (0 < k \<longrightarrow> has_endorsement b)"
| "going_well b (Awaiting l k act) \<longleftrightarrow> l = 0 \<and>
    (k = 0 \<and> (\<exists>etx. act = Proposing True (Returned etx) \<and> fully_endorsed etx \<and> etx_peer_responses etx \<noteq> []) \<or>
     k = 1 \<and> has_endorsement b \<and> (\<exists>env i ords r. act = Broadcasting env i ords (Returned r)))"
| "going_well b (Ended oc) \<longleftrightarrow> (\<exists>etx. oc = Returned etx)"

text \<open>The invariant of such a run; \<open>n\<close> is the number of broadcasts before it.\<close>

definition awaits_inv :: "Gateway \<Rightarrow> GeneratedTX \<Rightarrow> nat \<Rightarrow> nat \<Rightarrow> shared \<Rightarrow> trace \<Rightarrow> bool" where
  "awaits_inv gw g n m st tr \<longleftrightarrow> bld_gateway (sh_builder st) = gw \<and> bld_transaction (sh_builder st) = g \<and>
    sh_current st = Some 0 \<and>
    (sh_lists st = [[Propose True, Submit]] \<or>
     sh_lists st = [[]] \<and> n < length (broadcasts tr) \<and> has_endorsement (sh_builder st)) \<and>
    length (sh_tasks st) = m \<and> (\<forall>t \<in> set (sh_tasks st). going_well (sh_builder st) t \<and>
      (\<not> may_submit t \<longrightarrow> n < length (broadcasts tr))) \<and>
    n \<le> length (broadcasts tr) \<and>
    length (broadcasts tr) + length (filter may_submit (sh_tasks st)) \<le> n + m"

lemma length_filter_update:
  "i < length xs \<Longrightarrow> length (filter P (xs[i := x])) + (if P (xs ! i) then 1 else 0) =
    length (filter P xs) + (if P x then 1 else 0)"
proof (induction xs arbitrary: i)
  case (Cons y xs)
  then show ?case by (cases i) auto
qed simp

lemma going_well_mono:
  "has_endorsement b \<longrightarrow> has_endorsement b' \<Longrightarrow> going_well b t \<Longrightarrow> going_well b' t"
  by (cases t) auto

lemma awaits_inv_update:
  assumes "awaits_inv gw g n m st tr" "i < length (sh_tasks st)"
    and "going_well b t" "bld_gateway b = gw" "bld_transaction b = g" "has_endorsement (sh_builder st) \<longrightarrow> has_endorsement b"
    and "qs = sh_lists st \<or> qs = [[]] \<and> n < length (broadcasts tr') \<and> has_endorsement b"
    and "\<not> may_submit t \<longrightarrow> n < length (broadcasts tr')"
    and "may_submit t \<longrightarrow> may_submit (sh_tasks st ! i)"
    and "length (broadcasts tr') = length (broadcasts tr) \<or>
      length (broadcasts tr') = Suc (length (broadcasts tr)) \<and> may_submit (sh_tasks st ! i) \<and> \<not> may_submit t"
  shows "awaits_inv gw g n m (st\<lparr>sh_builder := b, sh_lists := qs, sh_tasks := (sh_tasks st)[i := t]\<rparr>) tr'"
proof -
  note inv = assms(1) [unfolded awaits_inv_def]
  have le: "length (broadcasts tr) \<le> length (broadcasts tr')" using assms(10) by auto
  have "length (broadcasts tr') + length (filter may_submit ((sh_tasks st)[i := t])) \<le> n + m"
    using length_filter_update [OF assms(2), of may_submit t] inv assms(9,10) by (auto split: if_splits)
  moreover have "\<forall>u \<in> set ((sh_tasks st)[i := t]). going_well b u \<and> (\<not> may_submit u \<longrightarrow> n < length (broadcasts tr'))"
  proof
    fix u assume "u \<in> set ((sh_tasks st)[i := t])"
    then consider "u = t" | "u \<in> set (sh_tasks st)" using set_update_subset_insert by fastforce
    then show "going_well b u \<and> (\<not> may_submit u \<longrightarrow> n < length (broadcasts tr'))"
      using assms(3,8) going_well_mono [OF assms(6)] inv le by cases (blast, meson less_le_trans)
  qed
  moreover have "qs = [[Propose True, Submit]] \<or> qs = [[]] \<and> n < length (broadcasts tr') \<and> has_endorsement b"
    using assms(6,7) inv le by auto
  ultimately show ?thesis using inv assms(4,5) le by (simp add: awaits_inv_def)
qed

text \<open>What the world of such a run does.\<close>

definition awaits_world :: "sys \<Rightarrow> Gateway \<Rightarrow> GeneratedTX \<Rightarrow> User \<Rightarrow> Orderer \<Rightarrow> bool" where
  "awaits_world S gw g u ord \<longleftrightarrow> gw_requestor gw = Some u \<and> user_ready u \<and> gw_endorsing_peers gw \<noteq> [] \<and>
    (\<exists>ords. gw_orderers gw = ord # ords) \<and> orderer_accepts S ord \<and> always_endorsed S (gw_endorsing_peers gw) g"

lemma awaits_world_propose:
  assumes "awaits_world S gw g u ord"
  obtains etx tr' where "propose_tx S (gw_endorsing_peers gw) g tr = (Returned etx, tr')" "fully_endorsed etx"
    "etx_peer_responses etx \<noteq> []" "broadcasts tr' = broadcasts tr"
proof -
  from assms obtain etx tr' where e: "propose_tx S (gw_endorsing_peers gw) g tr = (Returned etx, tr')" "fully_endorsed etx"
    unfolding awaits_world_def always_endorsed_def by blast
  with assms show ?thesis
    using that propose_has_responses propose_broadcasts [OF e(1)] unfolding awaits_world_def by blast
qed

lemma awaits_world_submit:
  assumes "awaits_world S gw g u ord" "bld_gateway b = gw" "bld_endorsed_tx b = Some etx" "etx_peer_responses etx \<noteq> []"
  obtains envelope tr1 ords r where "build_endorsed_tx_envelope S etx u tr = (Returned envelope, tr1)"
    "begin_operation S Submit b tr = (Returned (Broadcasting envelope (EndorsedTX_tx_id etx) ords (Returned r)),
      tr1 @ [EnvelopeBroadcast ord envelope])"
    "broadcasts (tr1 @ [EnvelopeBroadcast ord envelope]) = broadcasts tr @ [(ord, envelope)]"
proof -
  from assms(1) obtain ords where w: "gw_requestor (bld_gateway b) = Some u" "user_ready u"
    "gw_orderers (bld_gateway b) = ord # ords" "orderer_accepts S ord"
    unfolding awaits_world_def assms(2) by blast
  from build_endorsed_tx_envelope_total [OF assms(4) w(2)] obtain envelope tr1 where
    e: "build_endorsed_tx_envelope S etx u tr = (Returned envelope, tr1)" by blast
  from accepted_begin [OF assms(3) w(1,3,4) e] obtain r where
    "begin_operation S Submit b tr = (Returned (Broadcasting envelope (EndorsedTX_tx_id etx) ords (Returned r)),
      tr1 @ [EnvelopeBroadcast ord envelope])" by blast
  with e that endorsed_envelope_broadcasts [OF e] show ?thesis by simp
qed

lemma task_step_keeps_awaits_inv:
  assumes w: "awaits_world S gw g u ord" and inv: "awaits_inv gw g n m st tr" and i: "i < length (sh_tasks st)"
    and step: "task_step S i (sh_tasks st ! i) st tr = Some (st', tr')"
  shows "awaits_inv gw g n m st' tr'"
proof -
  let ?b = "sh_builder st"
  note I = inv [unfolded awaits_inv_def]
  from I i have ok: "going_well ?b (sh_tasks st ! i)"
    and sent: "\<not> may_submit (sh_tasks st ! i) \<Longrightarrow> n < length (broadcasts tr)" by auto
  have upd: "awaits_inv gw g n m (st\<lparr>sh_tasks := (sh_tasks st)[i := t]\<rparr>) tr'"
    if "going_well ?b t" "\<not> may_submit t \<longrightarrow> n < length (broadcasts tr')" "may_submit t \<longrightarrow> may_submit (sh_tasks st ! i)"
      "length (broadcasts tr') = length (broadcasts tr) \<or>
       length (broadcasts tr') = Suc (length (broadcasts tr)) \<and> may_submit (sh_tasks st ! i) \<and> \<not> may_submit t" for t
    using awaits_inv_update [OF inv i that(1), of "sh_lists st" tr'] that(2-) I by simp
  show ?thesis
  proof (cases "sh_tasks st ! i")
    case (Looping l k)
    with ok have k: "l = 0" "k \<le> 2" "0 < k \<Longrightarrow> has_endorsement ?b" by auto
    show ?thesis
    proof (cases "k < length (sh_lists st ! 0)")
      case True
      with I have q: "sh_lists st = [[Propose True, Submit]]" by auto
      with True consider "k = 0" | "k = 1" by fastforce
      then show ?thesis
      proof cases
        case 1
        obtain etx tr1 where "propose_tx S (gw_endorsing_peers gw) g tr = (Returned etx, tr1)" "fully_endorsed etx"
          "etx_peer_responses etx \<noteq> []" "broadcasts tr1 = broadcasts tr" using awaits_world_propose [OF w] .
        with step Looping k(1) q 1 I upd [of "Awaiting 0 0 (Proposing True (Returned etx))"] show ?thesis by auto
      next
        case 2
        with k obtain etx where "bld_endorsed_tx ?b = Some etx" "etx_peer_responses etx \<noteq> []"
          by (auto simp: has_endorsement_def)
        from awaits_world_submit [OF w _ this] I obtain envelope tr1 ords r where
          "begin_operation S Submit ?b tr = (Returned (Broadcasting envelope (EndorsedTX_tx_id etx) ords (Returned r)), tr1)"
          "broadcasts tr1 = broadcasts tr @ [(ord, envelope)]" by metis
        with step Looping k q 2 I upd [of "Awaiting 0 1 (Broadcasting envelope (EndorsedTX_tx_id etx) ords (Returned r))"]
        show ?thesis by (auto simp del: begin_operation.simps)
      qed
    next
      case False
      with I k(2,3) sent Looping have e: "has_endorsement ?b" "n < length (broadcasts tr)" by auto
      then obtain etx where "bld_endorsed_tx ?b = Some etx" by (auto simp: has_endorsement_def)
      with step Looping k(1) False I have st': "tr' = tr"
        "st' = st\<lparr>sh_lists := (sh_lists st)[0 := []], sh_tasks := (sh_tasks st)[i := Ended (Returned etx)]\<rparr>"
        by (auto simp: finish_await_def)
      moreover have "(sh_lists st)[0 := []] = [[]]" using I by auto
      ultimately show ?thesis
        using awaits_inv_update [OF inv i, of ?b "Ended (Returned etx)" "[[]]" tr] I e by simp
    qed
  next
    case (Awaiting l k act)
    with ok consider (p) etx where "l = 0" "k = 0" "act = Proposing True (Returned etx)" "fully_endorsed etx" "etx_peer_responses etx \<noteq> []"
      | (b) env j ords r where "l = 0" "k = 1" "has_endorsement ?b" "act = Broadcasting env j ords (Returned r)" by auto
    then show ?thesis
    proof cases
      case p
      with step Awaiting have "tr' = tr"
        "st' = st\<lparr>sh_builder := ?b\<lparr>bld_endorsed_tx := Some etx\<rparr>, sh_tasks := (sh_tasks st)[i := Looping 0 1]\<rparr>"
        by (auto simp: raise_tx_proposal_error_def require_def)
      moreover have "has_endorsement (?b\<lparr>bld_endorsed_tx := Some etx\<rparr>)" using p by (simp add: has_endorsement_def)
      ultimately show ?thesis
        using awaits_inv_update [OF inv i, of "?b\<lparr>bld_endorsed_tx := Some etx\<rparr>" "Looping 0 1" "sh_lists st" tr] I Awaiting p
          by simp
    next
      case b
      with step Awaiting have "tr' = tr"
        "st' = st\<lparr>sh_builder := ?b\<lparr>bld_committed := True\<rparr>, sh_tasks := (sh_tasks st)[i := Looping 0 2]\<rparr>"
        by (auto simp: numeral_2_eq_2)
      moreover have "has_endorsement (?b\<lparr>bld_committed := True\<rparr>)" using b by (simp add: has_endorsement_def)
      ultimately show ?thesis
        using awaits_inv_update [OF inv i, of "?b\<lparr>bld_committed := True\<rparr>" "Looping 0 2" "sh_lists st" tr] I Awaiting b sent
          by simp
    qed
  qed (use step in simp)
qed

lemma steps_keep_awaits_inv:
  assumes "awaits_world S gw g u ord" "awaits_inv gw g n m st tr" "set ss \<subseteq> range Step"
    and "schedule S ss (st, tr) = Some (st', tr')"
  shows "awaits_inv gw g n m st' tr'"
  using assms(2-)
proof (induction ss arbitrary: st tr)
  case (Cons a ss)
  then obtain i st1 tr1 where a: "a = Step i" and i: "i < length (sh_tasks st)"
    and step: "task_step S i (sh_tasks st ! i) st tr = Some (st1, tr1)" and rest: "schedule S ss (st1, tr1) = Some (st', tr')"
    by (auto split: option.splits if_splits)
  from Cons.IH [OF task_step_keeps_awaits_inv [OF assms(1) Cons.prems(1) i step] _ rest] Cons.prems(2) show ?case by simp
qed simp

lemma awaits_inv_start:
  "awaits_inv gw g (length (broadcasts tr)) m (\<lparr>sh_builder = new_GatewayTXBuilder gw g, sh_lists = [[Propose True, Submit]],
      sh_current = Some 0, sh_tasks = replicate m (Looping 0 0)\<rparr>) tr"
  by (simp add: awaits_inv_def)

lemma awaits_inv_ended:
  assumes "awaits_inv gw g n m st tr" "\<forall>t \<in> set (sh_tasks st). \<exists>oc. t = Ended oc" "0 < m"
  shows "length (sh_tasks st) = m \<and> (\<forall>t \<in> set (sh_tasks st). \<exists>etx. t = Ended (Returned etx)) \<and>
    n < length (broadcasts tr) \<and> length (broadcasts tr) \<le> n + m"
proof -
  note I = assms(1) [unfolded awaits_inv_def]
  from I assms(3) obtain t where "t \<in> set (sh_tasks st)" by (metis length_greater_0_conv list.set_sel(1))
  moreover from assms(2) this obtain oc where "t = Ended oc" by blast
  ultimately have "n < length (broadcasts tr)" using I by fastforce
  moreover have "\<forall>t \<in> set (sh_tasks st). \<exists>etx. t = Ended (Returned etx)" using I assms(2) by fastforce
  ultimately show ?thesis using I by simp
qed

subsection \<open>In two of the orders\<close>

lemma two_tasks_schedule:
  assumes "propose_tx S (gw_endorsing_peers gw) g tr = (Returned e0, tr1)" "fully_endorsed e0"
    and "propose_tx S (gw_endorsing_peers gw) g tr1 = (Returned e1, tr2)" "fully_endorsed e1"
    and "begin_operation S Submit ((new_GatewayTXBuilder gw g)\<lparr>bld_endorsed_tx := Some e0\<rparr>) tr2 = (Returned (Broadcasting envelope i ords (Returned r)), tr3)"
  shows "\<exists>st. schedule S (awaited_by 2 @ one_outruns) (new_shared gw g, tr) = Some (st, tr3) \<and>
      sh_tasks st = [Ended (Returned e0), Ended (Returned e1)]" (is ?one)
    and "begin_operation S Submit ((new_GatewayTXBuilder gw g)\<lparr>bld_endorsed_tx := Some e1\<rparr>) tr3 =
      (Returned (Broadcasting envelope' i' ords' (Returned r')), tr4) \<Longrightarrow>
    \<exists>st. schedule S (awaited_by 2 @ two_awaits) (new_shared gw g, tr) = Some (st, tr4) \<and>
      sh_tasks st = [Ended (Returned e1), Ended (Returned e1)] \<and> bld_endorsed_tx (sh_builder st) = Some e1"
  using assms
  by (simp_all add: awaited_by_schedule two_awaits_def one_outruns_def eval_nat_numeral finish_await_def
      raise_tx_proposal_error_def require_def del: begin_operation.simps(2))

text \<open>
  C21. When several tasks await one builder at the same time, the order in which they run
  decides how often its transaction is submitted. Let the proposal and the submission be queued
  once, the peers endorse every proposal and the first orderer accept every envelope. In any
  order of the steps of \<open>n\<close> such tasks, and of no others, in which all come to their end, all
  return an endorsement, and the transaction is broadcast at least once and at most \<open>n\<close> times. With two tasks it is broadcast twice in one
  order (\<open>two_awaits\<close>), with both endorsements, and both tasks return the second endorsement,
  the first task although it submitted the other; in another (\<open>one_outruns\<close>) it is broadcast once,
  since the first task clears the list that the second goes through, and the second returns
  its endorsement without having submitted anything.
\<close>

theorem concurrent_awaits_order_decides:
  assumes "awaits_world S gw g u ord"
  shows "(\<forall>n ss st tr'. 0 < n \<and> set ss \<subseteq> range Step \<and>
      schedule S (awaited_by n @ ss) (new_shared gw g, tr) = Some (st, tr') \<and>
      (\<forall>t \<in> set (sh_tasks st). \<exists>oc. t = Ended oc) \<longrightarrow>
        length (sh_tasks st) = n \<and> (\<forall>t \<in> set (sh_tasks st). \<exists>etx. t = Ended (Returned etx)) \<and>
        length (broadcasts tr) < length (broadcasts tr') \<and>
        length (broadcasts tr') \<le> length (broadcasts tr) + n) \<and>
    (\<exists>e0 tr1 e1 tr2 envelope tr3 envelope' tr4 st tr5 st' tr6.
      propose_tx S (gw_endorsing_peers gw) g tr = (Returned e0, tr1) \<and>
      propose_tx S (gw_endorsing_peers gw) g tr1 = (Returned e1, tr2) \<and>
      build_endorsed_tx_envelope S e0 u tr2 = (Returned envelope, tr3) \<and>
      build_endorsed_tx_envelope S e1 u (tr3 @ [EnvelopeBroadcast ord envelope]) = (Returned envelope', tr4) \<and>
      schedule S (awaited_by 2 @ two_awaits) (new_shared gw g, tr) = Some (st, tr5) \<and>
      sh_tasks st = [Ended (Returned e1), Ended (Returned e1)] \<and>
      broadcasts tr5 = broadcasts tr @ [(ord, envelope), (ord, envelope')] \<and>
      schedule S (awaited_by 2 @ one_outruns) (new_shared gw g, tr) = Some (st', tr6) \<and>
      sh_tasks st' = [Ended (Returned e0), Ended (Returned e1)] \<and>
      broadcasts tr6 = broadcasts tr @ [(ord, envelope)])"
    (is "?bounds \<and> ?orders")
proof
  show ?bounds
  proof (intro allI impI, elim conjE)
    fix n ss st tr'
    assume n: "0 < n" and ss: "set ss \<subseteq> range Step" and
      run: "schedule S (awaited_by n @ ss) (new_shared gw g, tr) = Some (st, tr')" and
      ended: "\<forall>t \<in> set (sh_tasks st). \<exists>oc. t = Ended oc"
    from awaits_inv_ended [OF steps_keep_awaits_inv [OF assms awaits_inv_start ss run [unfolded awaited_by_schedule]] ended n]
    show "length (sh_tasks st) = n \<and> (\<forall>t \<in> set (sh_tasks st). \<exists>etx. t = Ended (Returned etx)) \<and>
      length (broadcasts tr) < length (broadcasts tr') \<and> length (broadcasts tr') \<le> length (broadcasts tr) + n" .
  qed
next
  obtain e0 tr1 where p: "propose_tx S (gw_endorsing_peers gw) g tr = (Returned e0, tr1)" "fully_endorsed e0"
    "etx_peer_responses e0 \<noteq> []" "broadcasts tr1 = broadcasts tr" using awaits_world_propose [OF assms] .
  obtain e1 tr2 where p': "propose_tx S (gw_endorsing_peers gw) g tr1 = (Returned e1, tr2)" "fully_endorsed e1"
    "etx_peer_responses e1 \<noteq> []" "broadcasts tr2 = broadcasts tr1" using awaits_world_propose [OF assms] .
  let ?b = "\<lambda>etx. (new_GatewayTXBuilder gw g)\<lparr>bld_endorsed_tx := Some etx\<rparr>"
  have b: "bld_gateway (?b e) = gw" "bld_endorsed_tx (?b e) = Some e" for e by simp_all
  obtain envelope tr3 ords r where s: "build_endorsed_tx_envelope S e0 u tr2 = (Returned envelope, tr3)"
    "begin_operation S Submit (?b e0) tr2 = (Returned (Broadcasting envelope (EndorsedTX_tx_id e0) ords (Returned r)),
      tr3 @ [EnvelopeBroadcast ord envelope])"
    "broadcasts (tr3 @ [EnvelopeBroadcast ord envelope]) = broadcasts tr2 @ [(ord, envelope)]"
    by (rule awaits_world_submit [OF assms b p(3)])
  obtain envelope' tr4 ords' r' where s': "build_endorsed_tx_envelope S e1 u (tr3 @ [EnvelopeBroadcast ord envelope]) = (Returned envelope', tr4)"
    "begin_operation S Submit (?b e1) (tr3 @ [EnvelopeBroadcast ord envelope]) =
      (Returned (Broadcasting envelope' (EndorsedTX_tx_id e1) ords' (Returned r')), tr4 @ [EnvelopeBroadcast ord envelope'])"
    "broadcasts (tr4 @ [EnvelopeBroadcast ord envelope']) = broadcasts (tr3 @ [EnvelopeBroadcast ord envelope]) @ [(ord, envelope')]"
    by (rule awaits_world_submit [OF assms b p'(3)])
  note run = two_tasks_schedule [OF p(1,2) p'(1,2) s(2)]
  from run(1) obtain st' where one: "schedule S (awaited_by 2 @ one_outruns) (new_shared gw g, tr) =
      Some (st', tr3 @ [EnvelopeBroadcast ord envelope])"
    "sh_tasks st' = [Ended (Returned e0), Ended (Returned e1)]" by blast
  from run(2) [OF s'(2)] obtain st where two: "schedule S (awaited_by 2 @ two_awaits) (new_shared gw g, tr) =
      Some (st, tr4 @ [EnvelopeBroadcast ord envelope'])"
    "sh_tasks st = [Ended (Returned e1), Ended (Returned e1)]" by blast
  show ?orders
    by (intro exI conjI, rule p(1), rule p'(1), rule s(1), rule s'(1), rule two(1), rule two(2),
        simp only: s'(3) s(3) p'(4) p(4) append.assoc append.simps,
        rule one(1), rule one(2), simp only: s(3) p'(4) p(4))
qed

section \<open>Examples\<close>

lemma example_accepts: "orderer_accepts example_sys ord"
  by (simp add: orderer_accepts_def example_sys_def)

abbreviation example_endorsement :: EndorsedTX where
  "example_endorsement \<equiv> \<lparr>etx_peer_responses = [example_response 200 []], etx_proposal = gtx_proposal example_generated,
    etx_header = gtx_header example_generated, etx_tx_context = gtx_tx_context example_generated\<rparr>"

lemma example_two:
  "\<exists>tr1. propose_tx example_sys (gw_endorsing_peers (example_gateway [example_peer ''p1''])) example_generated tr =
    (Returned example_endorsement, tr1) \<and> fully_endorsed example_endorsement"
  by (simp add: example_propose fully_endorsed_def example_response_def)

lemma example_begin:
  assumes "bld_endorsed_tx b = Some example_endorsement" "bld_gateway b = example_gateway ps"
  obtains envelope i r tr' where
    "begin_operation example_sys Submit b tr = (Returned (Broadcasting envelope i [] (Returned r)), tr')"
proof -
  have "etx_peer_responses example_endorsement \<noteq> []" by simp
  from build_endorsed_tx_envelope_total [OF this example_user_ready] obtain envelope tr1 where
    e: "build_endorsed_tx_envelope example_sys example_endorsement example_user tr = (Returned envelope, tr1)" by blast
  have gw: "gw_requestor (bld_gateway b) = Some example_user" "gw_orderers (bld_gateway b) = example_orderer ''o1'' # []"
    by (simp_all add: assms(2))
  from accepted_begin [OF assms(1) gw example_accepts e] that show ?thesis by fastforce
qed

text \<open>Two awaits of one builder in the example world.\<close>

lemma example_submits_twice:
  obtains st tr' where
    "schedule example_sys (awaited_by 2 @ two_awaits) (new_shared (example_gateway [example_peer ''p1'']) example_generated, []) = Some (st, tr')"
    "length (sh_tasks st) = 2" "bld_endorsed_tx (sh_builder st) = Some example_endorsement"
proof -
  let ?gw = "example_gateway [example_peer ''p1'']"
  obtain tr1 where 1: "propose_tx example_sys (gw_endorsing_peers ?gw) example_generated [] =
      (Returned example_endorsement, tr1)" and f: "fully_endorsed example_endorsement" using example_two by blast
  obtain tr2 where 2: "propose_tx example_sys (gw_endorsing_peers ?gw) example_generated tr1 =
      (Returned example_endorsement, tr2)" using example_two by blast
  let ?b = "(new_GatewayTXBuilder ?gw example_generated)\<lparr>bld_endorsed_tx := Some example_endorsement\<rparr>"
  have b: "bld_endorsed_tx ?b = Some example_endorsement" "bld_gateway ?b = ?gw" by simp_all
  obtain envelope i r tr3 where 3: "begin_operation example_sys Submit ?b tr2 =
      (Returned (Broadcasting envelope i [] (Returned r)), tr3)" by (rule example_begin [OF b])
  obtain envelope' i' r' tr4 where 4: "begin_operation example_sys Submit ?b tr3 =
      (Returned (Broadcasting envelope' i' [] (Returned r')), tr4)" by (rule example_begin [OF b])
  from two_tasks_schedule(2) [OF 1 f 2 f 3 4] that show ?thesis by auto
qed

theorem concurrent_awaits_order_decides_witness:
  "\<exists>st tr' st' tr''. schedule example_sys (awaited_by 2 @ two_awaits)
      (new_shared (example_gateway [example_peer ''p1'']) example_generated, []) = Some (st, tr') \<and>
    schedule example_sys (awaited_by 2 @ one_outruns)
      (new_shared (example_gateway [example_peer ''p1'']) example_generated, []) = Some (st', tr'') \<and>
    length (broadcasts tr') = 2 \<and> length (broadcasts tr'') = 1"
proof -
  let ?gw = "example_gateway [example_peer ''p1'']"
  have "awaits_world example_sys ?gw example_generated example_user (example_orderer ''o1'')"
    using example_two example_user_ready example_accepts by (simp add: awaits_world_def always_endorsed_def) blast
  from concurrent_awaits_order_decides [OF this, of "[]", THEN conjunct2] show ?thesis
    by (elim exE conjE) (intro exI conjI, assumption, assumption, simp_all)
qed

theorem shared_builder_stays_sound_witness:
  "\<exists>st tr' etx. schedule example_sys (awaited_by 2 @ two_awaits) (new_shared (example_gateway [example_peer ''p1'']) example_generated, []) =
      Some (st, tr') \<and> length (sh_tasks st) = 2 \<and> bld_endorsed_tx (sh_builder st) = Some etx \<and>
    EndorsedTX_tx_id etx = lit ''ab'' \<and> length (etx_peer_responses etx) = 1"
proof -
  obtain st tr' where
    st: "schedule example_sys (awaited_by 2 @ two_awaits) (new_shared (example_gateway [example_peer ''p1'']) example_generated, []) = Some (st, tr')"
    "length (sh_tasks st) = 2" "bld_endorsed_tx (sh_builder st) = Some example_endorsement" by (rule example_submits_twice)
  have "GeneratedTX_tx_id example_generated = lit ''ab''"
    by (simp add: GeneratedTX_tx_id_def example_generated_def example_endorsed_def)
  with shared_builder_stays_sound [OF st(1)] st(3) have "EndorsedTX_tx_id example_endorsement = lit ''ab''"
    "length (etx_peer_responses example_endorsement) = 1" by simp_all
  with st show ?thesis by blast
qed

theorem lone_await_is_run_operations_witness:
  "\<exists>n st' etx tr'. schedule example_sys (Await # replicate n (Step 0))
      (queue_operation (Propose True) (new_shared (example_gateway [example_peer ''p1'']) example_generated), []) =
      Some (st', tr') \<and> sh_tasks st' = [Ended (Returned etx)]"
proof -
  let ?st = "queue_operation (Propose True) (new_shared (example_gateway [example_peer ''p1'']) example_generated)"
  have ok: "current_exists ?st" and q: "queue_of ?st = [Propose True]" and b: "sh_builder ?st = example_builder [example_peer ''p1'']"
    and ts: "sh_tasks ?st = []"
    by (simp_all add: current_exists_def queue_of_def queue_operation_def new_shared_def)
  obtain etx b' tr' where "run_operations example_sys (propose True (example_builder [example_peer ''p1''])) [] =
      (Returned etx, b', tr')" using example_run by blast
  moreover have "propose True (example_builder [example_peer ''p1'']) =
      (sh_builder ?st)\<lparr>bld_operations := Some (queue_of ?st)\<rparr>"
    by (simp add: propose_def add_operation_def q b)
  ultimately have r: "run_operations example_sys ((sh_builder ?st)\<lparr>bld_operations := Some (queue_of ?st)\<rparr>) [] =
      (Returned etx, b', tr')" by simp
  from lone_await_is_run_operations [OF ok r] ts show ?thesis by auto
qed

end
