(* ===== verification/Class_Table.thy ===== *)
theory Class_Table
  imports Events Packaging
begin

text \<open>
  The classes of \<open>src/snakeskin/errors.py\<close>, \<open>src/snakeskin/events.py\<close> and
  \<open>src/snakeskin/_hfc/crypto.py\<close> as their \<open>class\<close> statements declare them. A statement is
  executed as Python executes it: it makes a class object with its method resolution order
  (the C3 linearization of its bases) and, when its metaclass is \<open>ABCMeta\<close>, its set of abstract
  methods. From the table of class objects follow which \<open>except\<close> clause catches which
  exception, which the other theories decide by predicates on the datatype \<open>exn\<close>; which classes
  can be instantiated; and that no method without a body is ever the one that a call finds.
\<close>

section \<open>Executing a class statement\<close>

text \<open>
  What a class body binds a name to: a method or property with a body, one that is marked
  \<open>abstractmethod\<close>, and one whose body is \<open>raise NotImplementedError\<close>.
\<close>

datatype attr = Concrete | Abstract | Unimplemented

record class_stmt =
  cs_name :: string
  cs_bases :: "string list"
  cs_abc :: bool
  cs_body :: "(string \<times> attr) list"

record class_obj =
  co_mro :: "string list"
  co_abc :: bool
  co_body :: "(string \<times> attr) list"
  co_abstract :: "string list"

text \<open>The global names, the latest first.\<close>

type_synonym classes = "(string \<times> class_obj) list"

text \<open>
  Merging linearizations: the next class is the head of the first list that occurs in no other
  list's tail. There need not be one.
\<close>

lemma sum_lengths_less:
  "l \<in> set ls \<Longrightarrow> l \<noteq> [] \<Longrightarrow>
    (\<Sum>m \<leftarrow> ls. length (if take 1 m = [hd l] then tl m else m)) < (\<Sum>m \<leftarrow> ls. length m)"
proof (induction ls)
  case (Cons m ls)
  have "(\<Sum>m \<leftarrow> ls. length (if take 1 m = [hd l] then tl m else m)) \<le> (\<Sum>m \<leftarrow> ls. length m)"
    by (rule sum_list_mono) simp
  with Cons show ?case by (cases l; cases m) auto
qed simp

function c3_merge :: "string list list \<Rightarrow> string list option" where
  "c3_merge ls =
    (if list_all (\<lambda>l. l = []) ls then Some []
     else case find (\<lambda>l. l \<noteq> [] \<and> list_all (\<lambda>m. hd l \<notin> set (tl m)) ls) ls of
       None \<Rightarrow> None
     | Some l \<Rightarrow> map_option (\<lambda>rest. hd l # rest)
         (c3_merge (map (\<lambda>m. if take 1 m = [hd l] then tl m else m) ls)))"
  by auto

termination
proof (relation "measure (\<lambda>ls. \<Sum>m \<leftarrow> ls. length m)")
  fix ls l assume "find (\<lambda>l. l \<noteq> [] \<and> list_all (\<lambda>m. hd l \<notin> set (tl m)) ls) ls = Some l"
  then have "l \<in> set ls" "l \<noteq> []" by (auto simp: find_Some_iff)
  from sum_lengths_less [OF this]
  show "(map (\<lambda>m. if take 1 m = [hd l] then tl m else m) ls, ls) \<in> measure (\<lambda>ls. \<Sum>m \<leftarrow> ls. length m)"
    by (simp add: comp_def)
qed simp

declare c3_merge.simps [simp del]

text \<open>
  \<open>getattr\<close> on a class: the first body along its resolution order that binds the name, that is
  its first entry in all of them one after the other.
\<close>

definition attributes :: "classes \<Rightarrow> string list \<Rightarrow> (string \<times> attr) list" where
  "attributes env mro = concat (map (\<lambda>c. case map_of env c of None \<Rightarrow> [] | Some C \<Rightarrow> co_body C) mro)"

definition resolve :: "classes \<Rightarrow> string list \<Rightarrow> string \<Rightarrow> attr option" where
  "resolve env mro name = map_of (attributes env mro) name"

text \<open>
  A statement raises when a base is not defined or the linearizations cannot be merged. \<open>ABCMeta\<close>
  collects the abstract names of the body and those of the bases that are still abstract.
\<close>

definition exec_class :: "classes \<Rightarrow> class_stmt \<Rightarrow> classes option" where
  "exec_class env cs =
    Option.bind (those (map (map_of env) (cs_bases cs))) (\<lambda>bases.
    map_option (\<lambda>rest. (cs_name cs,
        let abc = (cs_abc cs \<or> list_ex co_abc bases) in
        \<lparr>co_mro = cs_name cs # rest, co_abc = abc, co_body = cs_body cs,
         co_abstract =
           if abc
           then map fst (filter (\<lambda>(n, a). a = Abstract) (cs_body cs)) @
             filter (\<lambda>n. map_of (cs_body cs @ attributes env rest) n = Some Abstract) (concat (map co_abstract bases))
           else []\<rparr>) # env)
      (c3_merge (map co_mro bases @ [cs_bases cs])))"

fun exec_classes :: "classes \<Rightarrow> class_stmt list \<Rightarrow> classes option" where
  "exec_classes env [] = Some env"
| "exec_classes env (cs # css) = Option.bind (exec_class env cs) (\<lambda>env'. exec_classes env' css)"

text \<open>Calling a class: \<open>object.__new__\<close> refuses one that has abstract methods.\<close>

definition instantiate :: "classes \<Rightarrow> string \<Rightarrow> unit result" where
  "instantiate env c =
    (case map_of env c of
       None \<Rightarrow> Inl TypeError
     | Some C \<Rightarrow> require (co_abstract C = []) TypeError)"

section \<open>The classes\<close>

text \<open>
  The built-in classes that the package's derive from, and the built-in exceptions of
  \<open>py_error\<close>; \<open>asyncio.TimeoutError\<close> is the built-in one.
\<close>

definition builtin_class :: "string \<Rightarrow> string \<Rightarrow> class_stmt" where
  "builtin_class name base = \<lparr>cs_name = name, cs_bases = [base], cs_abc = False, cs_body = []\<rparr>"

definition builtin_classes :: "class_stmt list" where
  "builtin_classes =
    \<lparr>cs_name = ''object'', cs_bases = [], cs_abc = False, cs_body = [(''__init__'', Concrete)]\<rparr> #
    map (\<lambda>(name, base). builtin_class name base)
    [(''Generic'', ''object''), (''BaseException'', ''object''), (''Exception'', ''BaseException''),
     (''ValueError'', ''Exception''), (''UnicodeError'', ''ValueError''),
     (''UnicodeEncodeError'', ''UnicodeError''), (''UnicodeDecodeError'', ''UnicodeError''),
     (''LookupError'', ''Exception''), (''KeyError'', ''LookupError''), (''IndexError'', ''LookupError''),
     (''TypeError'', ''Exception''), (''AttributeError'', ''Exception''), (''RuntimeError'', ''Exception''),
     (''NotImplementedError'', ''RuntimeError''), (''NameError'', ''Exception''),
     (''UnboundLocalError'', ''NameError''), (''OSError'', ''Exception''),
     (''FileNotFoundError'', ''OSError''), (''ConnectionError'', ''OSError''), (''TimeoutError'', ''OSError'')]"

definition Key_class :: class_stmt where
  "Key_class = \<lparr>cs_name = ''Key'', cs_bases = [''object''], cs_abc = True,
    cs_body = [(''is_symmetric'', Abstract), (''get_SKI'', Abstract)]\<rparr>"

definition AsymmetricKey_class :: class_stmt where
  "AsymmetricKey_class = \<lparr>cs_name = ''AsymmetricKey'', cs_bases = [''Key''], cs_abc = True,
    cs_body = [(''is_private'', Abstract), (''get_public_key'', Abstract)]\<rparr>"

definition Crypto_class :: class_stmt where
  "Crypto_class = \<lparr>cs_name = ''Crypto'', cs_bases = [''object''], cs_abc = True,
    cs_body = [(''generate_private_key'', Abstract), (''encrypt'', Abstract), (''decrypt'', Abstract),
      (''sign'', Abstract), (''verify'', Abstract), (''generate_nonce'', Concrete)]\<rparr>"

definition Ecies_class :: class_stmt where
  "Ecies_class = \<lparr>cs_name = ''Ecies'', cs_bases = [''Crypto''], cs_abc = False,
    cs_body = [(''__init__'', Concrete), (''hash'', Concrete), (''sign'', Concrete), (''verify'', Concrete),
      (''_prevent_malleability'', Concrete), (''_check_malleability'', Concrete),
      (''generate_private_key'', Concrete), (''decrypt'', Concrete), (''encrypt'', Concrete),
      (''generate_csr'', Concrete)]\<rparr>"

definition BlockchainError_class :: class_stmt where
  "BlockchainError_class = \<lparr>cs_name = ''BlockchainError'', cs_bases = [''Exception''], cs_abc = False, cs_body = []\<rparr>"

definition TransactionError_class :: class_stmt where
  "TransactionError_class = \<lparr>cs_name = ''TransactionError'', cs_bases = [''BlockchainError''], cs_abc = False,
    cs_body = [(''__init__'', Concrete), (''response_message'', Unimplemented), (''status'', Unimplemented)]\<rparr>"

definition TrasactionCommitError_class :: class_stmt where
  "TrasactionCommitError_class = \<lparr>cs_name = ''TrasactionCommitError'', cs_bases = [''TransactionError''],
    cs_abc = False,
    cs_body = [(''__init__'', Concrete), (''response_message'', Concrete), (''status'', Concrete)]\<rparr>"

definition TransactionProposalError_class :: class_stmt where
  "TransactionProposalError_class = \<lparr>cs_name = ''TransactionProposalError'', cs_bases = [''TransactionError''],
    cs_abc = False,
    cs_body = [(''__init__'', Concrete), (''response_message'', Concrete), (''status'', Concrete)]\<rparr>"

definition BlockRetrievalError_class :: class_stmt where
  "BlockRetrievalError_class = \<lparr>cs_name = ''BlockRetrievalError'', cs_bases = [''BlockchainError''],
    cs_abc = False, cs_body = [(''__init__'', Concrete)]\<rparr>"

definition BlockchainConnectionError_class :: class_stmt where
  "BlockchainConnectionError_class = \<lparr>cs_name = ''BlockchainConnectionError'',
    cs_bases = [''BlockchainError'', ''ConnectionError''], cs_abc = False, cs_body = [(''__init__'', Concrete)]\<rparr>"

definition TransactionValidationError_class :: class_stmt where
  "TransactionValidationError_class = \<lparr>cs_name = ''TransactionValidationError'',
    cs_bases = [''BlockchainError''], cs_abc = False, cs_body = [(''__init__'', Concrete), (''code_name'', Concrete)]\<rparr>"

definition EventHub_class :: class_stmt where
  "EventHub_class = \<lparr>cs_name = ''_EventHub'', cs_bases = [''Generic''], cs_abc = False,
    cs_body = [(''__init__'', Concrete), (''get_transaction'', Concrete), (''stream_blocks'', Concrete),
      (''_get_connection_envelope'', Concrete), (''_build_stream'', Unimplemented),
      (''_pull_block_from_response'', Unimplemented), (''_client_cert'', Unimplemented)]\<rparr>"

definition PeerEvents_class :: class_stmt where
  "PeerEvents_class = \<lparr>cs_name = ''PeerEvents'', cs_bases = [''_EventHub''], cs_abc = False,
    cs_body = [(''__init__'', Concrete), (''_client_cert'', Concrete), (''_build_stream'', Concrete),
      (''_pull_block_from_response'', Concrete)]\<rparr>"

definition PeerFilteredEvents_class :: class_stmt where
  "PeerFilteredEvents_class = \<lparr>cs_name = ''PeerFilteredEvents'', cs_bases = [''_EventHub''], cs_abc = False,
    cs_body = [(''__init__'', Concrete), (''check_transaction'', Concrete), (''_client_cert'', Concrete),
      (''_build_stream'', Concrete), (''_pull_block_from_response'', Concrete)]\<rparr>"

definition OrdererEvents_class :: class_stmt where
  "OrdererEvents_class = \<lparr>cs_name = ''OrdererEvents'', cs_bases = [''_EventHub''], cs_abc = False,
    cs_body = [(''__init__'', Concrete), (''_build_stream'', Concrete), (''_client_cert'', Concrete),
      (''_pull_block_from_response'', Concrete)]\<rparr>"

definition package_classes :: "class_stmt list" where
  "package_classes =
    [Key_class, AsymmetricKey_class, Crypto_class, Ecies_class,
     BlockchainError_class, TransactionError_class, TrasactionCommitError_class,
     TransactionProposalError_class, BlockRetrievalError_class, BlockchainConnectionError_class,
     TransactionValidationError_class,
     EventHub_class, PeerEvents_class, PeerFilteredEvents_class, OrdererEvents_class]"

text \<open>The global names once the package is imported; no statement raises (\<open>package_imports\<close>).\<close>

definition package_env :: classes where
  "package_env = (case exec_classes [] (builtin_classes @ package_classes) of Some env \<Rightarrow> env | None \<Rightarrow> [])"

lemma package_imports: "exec_classes [] (builtin_classes @ package_classes) \<noteq> None"
  by code_simp

section \<open>Which exceptions a clause catches\<close>

fun py_class :: "py_error \<Rightarrow> string" where
  "py_class (ValueError m) = ''ValueError''"
| "py_class (KeyError k) = ''KeyError''"
| "py_class IndexError = ''IndexError''"
| "py_class TypeError = ''TypeError''"
| "py_class (AttributeError m) = ''AttributeError''"
| "py_class (RuntimeError m) = ''RuntimeError''"
| "py_class NotImplementedError = ''NotImplementedError''"
| "py_class (UnboundLocalError m) = ''UnboundLocalError''"
| "py_class UnicodeEncodeError = ''UnicodeEncodeError''"
| "py_class UnicodeDecodeError = ''UnicodeDecodeError''"
| "py_class DecodeError = ''DecodeError''"
| "py_class (FileNotFoundError m) = ''FileNotFoundError''"
| "py_class (OSError m) = ''OSError''"
| "py_class (ConnectionError m) = ''ConnectionError''"
| "py_class TimeoutError = ''TimeoutError''"

fun exn_class :: "exn \<Rightarrow> string" where
  "exn_class (Py e) = py_class e"
| "exn_class (RpcError c d) = ''RpcError''"
| "exn_class (BlockchainError m) = ''BlockchainError''"
| "exn_class (TrasactionCommitError m i r) = ''TrasactionCommitError''"
| "exn_class (TransactionProposalError m t) = ''TransactionProposalError''"
| "exn_class (BlockRetrievalError m s) = ''BlockRetrievalError''"
| "exn_class (BlockchainConnectionError c d) = ''BlockchainConnectionError''"
| "exn_class (TransactionValidationError c) = ''TransactionValidationError''"

text \<open>
  \<open>isinstance\<close> for the exceptions. The resolution orders of the two exceptions of other
  packages, \<open>grpc.RpcError\<close> and \<open>protobuf\<close>'s \<open>DecodeError\<close>, are a parameter; they
  are classes of their packages that derive from built-in ones, neither from connection nor
  from file errors.
\<close>

definition resolution :: "(string \<Rightarrow> string list) \<Rightarrow> string \<Rightarrow> string list" where
  "resolution foreign c = (case map_of package_env c of None \<Rightarrow> foreign c | Some C \<Rightarrow> co_mro C)"

definition caught :: "(string \<Rightarrow> string list) \<Rightarrow> string list \<Rightarrow> exn \<Rightarrow> bool" where
  "caught foreign names e \<longleftrightarrow> list_ex (\<lambda>n. n \<in> set (resolution foreign (exn_class e))) names"

definition foreign_ok :: "(string \<Rightarrow> string list) \<Rightarrow> bool" where
  "foreign_ok foreign \<longleftrightarrow>
    hd (foreign ''RpcError'') = ''RpcError'' \<and> hd (foreign ''DecodeError'') = ''DecodeError'' \<and>
    foreign ''RpcError'' \<noteq> [] \<and> ''RpcError'' \<notin> set (foreign ''DecodeError'') \<and>
    list_all (\<lambda>c. c \<notin> set (foreign ''RpcError'') \<and> c \<notin> set (foreign ''DecodeError''))
      (''ConnectionError'' # ''FileNotFoundError'' # map cs_name package_classes)"

text \<open>Of the classes that some handler names, those in a class's resolution order.\<close>

definition handled :: "string list" where
  "handled = [''BlockchainConnectionError'', ''ConnectionError'', ''BlockRetrievalError'', 
    ''BlockchainError'', ''RpcError'', ''FileNotFoundError'']"

definition handled_classes :: "(string \<times> string list) list" where
  "handled_classes = map (\<lambda>(c, C). (c, filter (\<lambda>n. n \<in> set (co_mro C)) handled)) package_env"

lemma handled_classes_eq:
  "handled_classes =
    [(''OrdererEvents'', []), (''PeerFilteredEvents'', []), (''PeerEvents'', []), (''_EventHub'', []),
     (''TransactionValidationError'', [''BlockchainError'']),
     (''BlockchainConnectionError'', [''BlockchainConnectionError'', ''ConnectionError'', ''BlockchainError'']),
     (''BlockRetrievalError'', [''BlockRetrievalError'', ''BlockchainError'']),
     (''TransactionProposalError'', [''BlockchainError'']),
     (''TrasactionCommitError'', [''BlockchainError'']), (''TransactionError'', [''BlockchainError'']),
     (''BlockchainError'', [''BlockchainError'']), (''Ecies'', []), (''Crypto'', []),
     (''AsymmetricKey'', []), (''Key'', []), (''TimeoutError'', []),
     (''ConnectionError'', [''ConnectionError'']), (''FileNotFoundError'', [''FileNotFoundError'']),
     (''OSError'', []), (''UnboundLocalError'', []), (''NameError'', []),
     (''NotImplementedError'', []), (''RuntimeError'', []), (''AttributeError'', []),
     (''TypeError'', []), (''IndexError'', []), (''KeyError'', []), (''LookupError'', []),
     (''UnicodeDecodeError'', []), (''UnicodeEncodeError'', []), (''UnicodeError'', []),
     (''ValueError'', []), (''Exception'', []), (''BaseException'', []), (''Generic'', []),
     (''object'', [])]"
  by code_simp

lemma caught_handled:
  assumes "map_of handled_classes (exn_class e) = Some hs" "n \<in> set handled"
  shows "caught foreign [n] e \<longleftrightarrow> n \<in> set hs"
proof -
  from assms(1) obtain C where "map_of package_env (exn_class e) = Some C" "hs = filter (\<lambda>n. n \<in> set (co_mro C)) handled"
    by (auto simp: handled_classes_def map_of_map)
  with assms(2) show ?thesis by (auto simp: caught_def resolution_def)
qed

lemma foreign_names: "map_of package_env ''RpcError'' = None" "map_of package_env ''DecodeError'' = None"
proof -
  have "map fst package_env = map fst handled_classes" by (auto simp: handled_classes_def)
  then have "set (map fst package_env) = set (map fst handled_classes)" by metis
  then show "map_of package_env ''RpcError'' = None" "map_of package_env ''DecodeError'' = None"
    by (simp_all add: map_of_eq_None_iff handled_classes_eq)
qed

lemma caught_foreign:
  assumes "foreign_ok foreign" "n \<in> set handled" "exn_class e = ''RpcError'' \<or> exn_class e = ''DecodeError''"
  shows "caught foreign [n] e \<longleftrightarrow> n = ''RpcError'' \<and> exn_class e = ''RpcError''"
proof -
  have r: "caught foreign [n] e \<longleftrightarrow> n \<in> set (foreign (exn_class e))"
    using assms(3) foreign_names by (auto simp: caught_def resolution_def)
  have f: "hd (foreign ''RpcError'') = ''RpcError''" "foreign ''RpcError'' \<noteq> []"
    "''RpcError'' \<notin> set (foreign ''DecodeError'')"
    using assms(1) unfolding foreign_ok_def by blast+
  show ?thesis
  proof (cases "n = ''RpcError''")
    case True
    from hd_in_set [OF f(2)] have "n \<in> set (foreign ''RpcError'')" unfolding f(1) True .
    moreover have "n \<notin> set (foreign ''DecodeError'')" using f(3) True by blast
    moreover have "''DecodeError'' \<noteq> ''RpcError''" by simp
    ultimately show ?thesis using assms(3) True unfolding r by metis
  next
    case False
    have "n \<in> set (''ConnectionError'' # ''FileNotFoundError'' # map cs_name package_classes)"
      using assms(2) False unfolding handled_def package_classes_def
      by (auto simp: BlockchainConnectionError_class_def BlockRetrievalError_class_def BlockchainError_class_def)
    with assms(1) have "n \<notin> set (foreign ''RpcError'') \<and> n \<notin> set (foreign ''DecodeError'')"
      unfolding foreign_ok_def list_all_iff by blast
    with False assms(3) show ?thesis unfolding r by metis
  qed
qed

lemma handled_exn:
  assumes "\<not> (exn_class e = ''RpcError'' \<or> exn_class e = ''DecodeError'')"
  shows "map_of handled_classes (exn_class e) = Some
    ((if is_BlockchainConnectionError e then [''BlockchainConnectionError''] else []) @
     (if is_ConnectionError e then [''ConnectionError''] else []) @
     (if is_BlockRetrievalError e then [''BlockRetrievalError''] else []) @
     (if is_BlockchainError e then [''BlockchainError''] else []) @
     (if \<exists>p. e = Py p \<and> is_FileNotFoundError p then [''FileNotFoundError''] else []))"
proof (cases e)
  case (Py p)
  with assms show ?thesis by (cases p) (simp_all add: handled_classes_eq)
qed (use assms in \<open>simp_all add: handled_classes_eq\<close>)

text \<open>
  C37. The exceptions that the handlers of the code catch are those that the class statements make
  them catch: of every exception the predicates used throughout decide \<open>isinstance\<close> of its
  class in the table of the package, among them that a \<open>BlockchainConnectionError\<close> is a
  \<open>ConnectionError\<close> by its second base, while no other error of the package, a timeout or an
  error of another package is one.
\<close>

theorem handlers_follow_classes:
  assumes "foreign_ok foreign"
  shows "(caught foreign [''BlockchainConnectionError''] e \<longleftrightarrow> is_BlockchainConnectionError e) \<and>
    (caught foreign [''ConnectionError''] e \<longleftrightarrow> is_ConnectionError e) \<and>
    (caught foreign [''ConnectionError'', ''BlockRetrievalError''] e \<longleftrightarrow>
       is_ConnectionError e \<or> is_BlockRetrievalError e) \<and>
    (caught foreign [''BlockchainError''] e \<longleftrightarrow> is_BlockchainError e) \<and>
    (caught foreign [''RpcError''] e \<longleftrightarrow> conn_error e \<noteq> e) \<and>
    (caught foreign [''FileNotFoundError''] e \<longleftrightarrow> (\<exists>p. e = Py p \<and> is_FileNotFoundError p))"
proof -
  have two: "caught foreign [n, m] e \<longleftrightarrow> caught foreign [n] e \<or> caught foreign [m] e" for n m
    by (simp add: caught_def)
  have h: "''BlockchainConnectionError'' \<in> set handled" "''ConnectionError'' \<in> set handled"
    "''BlockRetrievalError'' \<in> set handled" "''BlockchainError'' \<in> set handled" "''RpcError'' \<in> set handled"
    "''FileNotFoundError'' \<in> set handled" by (simp_all add: handled_def)
  show ?thesis
  proof (cases "exn_class e = ''RpcError'' \<or> exn_class e = ''DecodeError''")
    case True
    note c = caught_foreign [OF assms _ True]
    from True have "(\<exists>c d. e = RpcError c d) \<or> e = Py DecodeError"
      by (cases e rule: exn_class.cases; cases "(case e of Py p \<Rightarrow> p | _ \<Rightarrow> TypeError)" rule: py_class.cases) auto
    then show ?thesis unfolding two c [OF h(1)] c [OF h(2)] c [OF h(3)] c [OF h(4)] c [OF h(5)] c [OF h(6)] by auto
  next
    case False
    note c = caught_handled [OF handled_exn [OF False]]
    have "conn_error e = e" using False by (cases e) simp_all
    then show ?thesis unfolding two c [OF h(1)] c [OF h(2)] c [OF h(3)] c [OF h(4)] c [OF h(5)] c [OF h(6)]
      by simp
  qed
qed

theorem handlers_follow_classes_witness:
  "caught (\<lambda>c. [c, ''Exception'', ''BaseException'', ''object'']) [''ConnectionError'', ''BlockRetrievalError'']
      (BlockchainConnectionError (lit ''UNAVAILABLE'') []) \<and>
    \<not> caught (\<lambda>c. [c, ''Exception'', ''BaseException'', ''object'']) [''ConnectionError'', ''BlockRetrievalError'']
      (Py TimeoutError)"
proof -
  have "foreign_ok (\<lambda>c. [c, ''Exception'', ''BaseException'', ''object''])" by code_simp
  note h = handlers_follow_classes [OF this]
  from h [of "BlockchainConnectionError (lit ''UNAVAILABLE'') []"] h [of "Py TimeoutError"] show ?thesis
    by simp
qed

section \<open>Which classes are finished\<close>

text \<open>
  A class is finished when every name it has resolves to a method with a body. Those that the
  code makes objects of are: the suite, the transaction errors (the datatype \<open>exn\<close> has no bare
  \<open>TransactionError\<close>) and the three event hubs.
\<close>

definition finished :: "classes \<Rightarrow> string \<Rightarrow> bool" where
  "finished env c =
    (case map_of env c of
       None \<Rightarrow> False
     | Some C \<Rightarrow> list_all (\<lambda>(name, a). resolve env (co_mro C) name = Some Concrete) (attributes env (co_mro C)))"

lemma finished_errors: "finished package_env ''TrasactionCommitError'' \<and> finished package_env ''TransactionProposalError''"
  by code_simp

lemma finished_hubs:
  "finished package_env ''PeerEvents''" "finished package_env ''PeerFilteredEvents''" "finished package_env ''OrdererEvents''"
  by code_simp+

lemma finished_suite: "finished package_env ''Ecies''"
  by code_simp

text \<open>The classes that \<open>ABCMeta\<close> knows to be unfinished cannot be instantiated; every other class can.\<close>

lemma abstract_classes:
  "map fst (filter (\<lambda>(c, C). co_abstract C \<noteq> []) package_env) = [''Crypto'', ''AsymmetricKey'', ''Key'']"
  by code_simp

lemma package_names_distinct: "distinct (map fst package_env)"
  by code_simp

lemma instantiate_iff:
  "instantiate package_env c = Inr () \<longleftrightarrow>
    c \<in> fst ` set package_env \<and> c \<notin> {''Crypto'', ''AsymmetricKey'', ''Key''}"
proof -
  have a: "c \<in> {''Crypto'', ''AsymmetricKey'', ''Key''} \<longleftrightarrow> (\<exists>C. (c, C) \<in> set package_env \<and> co_abstract C \<noteq> [])"
    using arg_cong [OF abstract_classes, of set] by (auto simp: image_def)
  show ?thesis
  proof (cases "map_of package_env c")
    case None
    then have "c \<notin> fst ` set package_env" by (simp add: map_of_eq_None_iff)
    with None show ?thesis by (simp add: instantiate_def)
  next
    case (Some C)
    then have i: "(c, D) \<in> set package_env \<longleftrightarrow> D = C" for D
      using map_of_eq_Some_iff [OF package_names_distinct, of c D] by auto
    then have "c \<in> fst ` set package_env" by force
    with Some i show ?thesis unfolding a by (simp add: instantiate_def require_def)
  qed
qed

end
