(* ===== verification/Trace_Logic.thy ===== *)
theory Trace_Logic
  imports Effects "HOL-Library.Sublist"
begin

text \<open>
  A small logic for what holds of every event of a trace at the time it happens. \<open>safe J tr\<close>
  says that each event \<open>e\<close> of the trace satisfies \<open>J us e\<close>, where \<open>us\<close> is what happened before
  it; \<open>keeps J m tr\<close> that running \<open>m\<close> after \<open>tr\<close> only appends to the trace and keeps it safe. The
  rules follow the sequencing of the code, each later step knowing what the earlier ones
  returned.
\<close>

definition safe :: "(trace \<Rightarrow> event \<Rightarrow> bool) \<Rightarrow> trace \<Rightarrow> bool" where
  "safe J tr \<longleftrightarrow> (\<forall>us e vs. tr = us @ e # vs \<longrightarrow> J us e)"

lemma safe_Nil [simp]: "safe J []"
  by (simp add: safe_def)

lemma safe_snoc: "safe J (tr @ [e]) \<longleftrightarrow> safe J tr \<and> J tr e"
proof
  assume s: "safe J (tr @ [e])"
  have "J us x" if "tr = us @ x # vs" for us x vs
    using s that unfolding safe_def by simp
  with s show "safe J tr \<and> J tr e" unfolding safe_def by blast
next
  assume s: "safe J tr \<and> J tr e"
  show "safe J (tr @ [e])" unfolding safe_def
  proof (intro allI impI)
    fix us x vs
    assume "tr @ [e] = us @ x # vs"
    then show "J us x"
      using s by (cases vs rule: rev_cases) (auto simp: safe_def)
  qed
qed

lemma safeD: "safe J (us @ e # vs) \<Longrightarrow> J us e"
  by (auto simp: safe_def)

lemma safe_append:
  assumes "safe J tr" "list_all E evs" "\<And>us e. prefix tr us \<Longrightarrow> E e \<Longrightarrow> J us e"
  shows "safe J (tr @ evs)"
  using assms(2)
proof (induction evs rule: rev_induct)
  case (snoc e evs)
  then have "safe J (tr @ evs)" "E e" by simp_all
  with assms(3) [of "tr @ evs" e] show ?case by (simp add: safe_snoc flip: append_assoc)
qed (simp add: assms(1))

definition keeps :: "(trace \<Rightarrow> event \<Rightarrow> bool) \<Rightarrow> 'a io \<Rightarrow> trace \<Rightarrow> bool" where
  "keeps J m tr \<longleftrightarrow> (safe J tr \<longrightarrow> safe J (snd (m tr)) \<and> prefix tr (snd (m tr)))"

named_theorems keeps_intros \<open>the rules of the logic\<close>

lemma keepsI:
  assumes "\<And>oc tr'. m tr = (oc, tr') \<Longrightarrow> safe J tr \<Longrightarrow> safe J tr' \<and> prefix tr tr'"
  shows "keeps J m tr"
  using assms [of "fst (m tr)" "snd (m tr)"] unfolding keeps_def by simp

lemma keepsD: "keeps J m tr \<Longrightarrow> m tr = (oc, tr') \<Longrightarrow> safe J tr \<Longrightarrow> safe J tr' \<and> prefix tr tr'"
  by (simp add: keeps_def)

lemma keeps_emits:
  assumes "emits E m" "\<And>us e. prefix tr us \<Longrightarrow> E e \<Longrightarrow> J us e"
  shows "keeps J m tr"
proof (rule keepsI)
  fix oc tr'
  assume "m tr = (oc, tr')" "safe J tr"
  with assms(1) obtain evs where "tr' = tr @ evs" "list_all E evs" by (rule_tac emitsD)
  with safe_append [OF \<open>safe J tr\<close> _ assms(2)] show "safe J tr' \<and> prefix tr tr'" by simp
qed

lemma keeps_bind [keeps_intros]:
  assumes m: "keeps J m tr" and f: "\<And>x tr1. m tr = (Returned x, tr1) \<Longrightarrow> prefix tr tr1 \<Longrightarrow> keeps J (f x) tr1"
  shows "keeps J (bind_io m f) tr"
proof (rule keepsI)
  fix oc tr'
  assume r: "bind_io m f tr = (oc, tr')" and s: "safe J tr"
  obtain oc1 tr1 where m1: "m tr = (oc1, tr1)" by fastforce
  note k = keepsD [OF m m1 s]
  show "safe J tr' \<and> prefix tr tr'"
  proof (cases oc1)
    case (Returned x)
    with r m1 have "f x tr1 = (oc, tr')" by (simp add: bind_io_def)
    with keepsD [OF f [of x tr1]] m1 Returned k show ?thesis by (auto intro: prefix_order.trans)
  qed (use r m1 k in \<open>auto simp: bind_io_def\<close>)
qed

lemma keeps_try [keeps_intros]:
  assumes m: "keeps J m tr" and h: "\<And>e tr1. m tr = (Raised e, tr1) \<Longrightarrow> prefix tr tr1 \<Longrightarrow> keeps J (h e) tr1"
  shows "keeps J (try_io m h) tr"
proof (rule keepsI)
  fix oc tr'
  assume r: "try_io m h tr = (oc, tr')" and s: "safe J tr"
  obtain oc1 tr1 where m1: "m tr = (oc1, tr1)" by fastforce
  note k = keepsD [OF m m1 s]
  show "safe J tr' \<and> prefix tr tr'"
  proof (cases oc1)
    case (Raised e)
    with r m1 have "h e tr1 = (oc, tr')" by (simp add: try_io_def)
    with keepsD [OF h [of e tr1]] m1 Raised k show ?thesis by (auto intro: prefix_order.trans)
  qed (use r m1 k in \<open>auto simp: try_io_def\<close>)
qed

lemma keeps_pure [keeps_intros]:
  "keeps J (return_io x) tr" "keeps J (raise_io e) tr" "keeps J block_io tr"
  "keeps J (lift_res r) tr" "keeps J (lift_exn r') tr" "keeps J (guard_io c e') tr"
  by (rule keeps_emits [where E = "\<lambda>_. False"], intro emits_intros, simp)+

lemma keeps_emit [keeps_intros]: "J tr e \<Longrightarrow> keeps J (emit e) tr"
  by (simp add: keeps_def emit_def safe_snoc)

lemma keeps_with_seed [keeps_intros]: "keeps J (f (length tr)) tr \<Longrightarrow> keeps J (with_seed f) tr"
  by (simp add: keeps_def with_seed_def)

lemma keeps_if [keeps_intros]: "(c \<Longrightarrow> keeps J m tr) \<Longrightarrow> (\<not> c \<Longrightarrow> keeps J n tr) \<Longrightarrow> keeps J (if c then m else n) tr"
  by simp

end
