(* ===== verification/Discipline.thy ===== *)
theory Discipline
  imports Gateways Trace_Logic
begin

text \<open>
  What every operation of the package obeys when it sends something. The interface
  \<open>trace_discipline\<close> says what an event predicate must allow: proposals of generated
  transactions, envelopes of endorsed transactions after the proposals went out, configuration
  updates after a file was read, and seek requests, all made for users out of a given set. Any
  such predicate then holds of every event that any operation causes.
\<close>

definition generated :: "sys \<Rightarrow> (User \<Rightarrow> bool) \<Rightarrow> GeneratedTX \<Rightarrow> bool" where
  "generated S A g \<longleftrightarrow>
    (\<exists>u ccname args channel tm tr tr'. A u \<and> build_generated_tx S u ccname args channel tm tr = (Returned g, tr'))"

definition gateway_users :: "(User \<Rightarrow> bool) \<Rightarrow> Gateway \<Rightarrow> bool" where
  "gateway_users A gw \<longleftrightarrow> (\<forall>u. gw_requestor gw = Some u \<longrightarrow> A u)"

lemma generatedI: "build_generated_tx S u ccname args channel tm tr = (Returned g, tr') \<Longrightarrow> A u \<Longrightarrow> generated S A g"
  unfolding generated_def by blast

text \<open>A builder of such a client.\<close>

definition sound_builder :: "sys \<Rightarrow> (User \<Rightarrow> bool) \<Rightarrow> GatewayTXBuilder \<Rightarrow> trace \<Rightarrow> bool" where
  "sound_builder S A b tr \<longleftrightarrow>
    builder_inv b tr \<and> generated S A (bld_transaction b) \<and> gateway_users A (bld_gateway b)"

lemma sound_builder_mono: "sound_builder S A b tr \<Longrightarrow> prefix tr tr' \<Longrightarrow> sound_builder S A b tr'"
  unfolding sound_builder_def by (blast intro: builder_inv_mono dest: set_mono_prefix)

text \<open>What the operations generate their transactions with.\<close>

definition generates :: "sys \<Rightarrow> (User \<Rightarrow> bool) \<Rightarrow> GeneratedTX io \<Rightarrow> bool" where
  "generates S A gen \<longleftrightarrow> (\<forall>tr g tr'. gen tr = (Returned g, tr') \<longrightarrow> generated S A g)"

lemma generatesD: "generates S A gen \<Longrightarrow> gen tr = (Returned g, tr') \<Longrightarrow> generated S A g"
  by (auto simp: generates_def)

lemma generates_built:
  assumes "A u"
  shows "generates S A (generate_cc_tx S u ccname channel fcn args tm)"
    "generates S A (generate_instantiate_cc_tx S u cc_spec channel policy upgrade)"
    "generates S A (build_generated_tx S u ccname bargs ochannel tm)"
  using assms unfolding generates_def generate_cc_tx_def generate_instantiate_cc_tx_def Let_def
  by (auto simp: bind_Returned_iff simp del: map_res.simps intro: generatedI)

lemma endorse_tx_endorsement:
  assumes "endorse_tx S peers msg gen tr = (Returned etx, tr')" "generates S A gen"
  shows "\<exists>g. generated S A g \<and> endorsement_of peers g tr' etx"
proof -
  from assms(1) obtain g tr1 where "gen tr = (Returned g, tr1)" "propose_tx S peers g tr1 = (Returned etx, tr')"
    by (auto simp: endorse_tx_def bind_Returned_iff)
  with generatesD [OF assms(2)] propose_endorsement show ?thesis by blast
qed

locale trace_discipline =
  fixes S :: sys and A :: "User \<Rightarrow> bool" and J :: "trace \<Rightarrow> event \<Rightarrow> bool"
  assumes local: "local_event e \<Longrightarrow> J us e"
    and file_read: "J us (FileRead path)"
    and proposal: "generated S A g \<Longrightarrow> J us (ProposalSent p (gtx_signed_proposal g))"
    and delivery: "A u \<Longrightarrow> build_envelope S u ctx bs ochannel tlsc ext ty tr = (Returned envelope, tr') \<Longrightarrow>
      J us (DeliverRequested m envelope)"
    and endorsed: "A u \<Longrightarrow> generated S A g \<Longrightarrow> endorsement_of peers g us etx \<Longrightarrow>
      build_endorsed_tx_envelope S etx u tr = (Returned envelope, tr') \<Longrightarrow>
      J us (EnvelopeBroadcast ord envelope)"
    and config: "A u \<Longrightarrow> FileRead path \<in> set us \<Longrightarrow>
      build_config_update_envelope S channel ctx u bs tr = (Returned envelope, tr') \<Longrightarrow>
      J us (EnvelopeBroadcast ord envelope)"
begin

lemma keeps_local: "emits local_event m \<Longrightarrow> keeps J m tr"
  by (erule keeps_emits) (rule local)

lemma keeps_generate:
  "keeps J (generate_cc_tx S u ccname channel fcn args tm) tr"
  "keeps J (generate_instantiate_cc_tx S u cc_spec channel policy upgrade) tr"
  "keeps J (build_generated_tx S u ccname bargs ochannel tm) tr"
  "keeps J (build_endorsed_tx_envelope S etx u) tr"
  "keeps J (build_config_update_envelope S channel ctx u bs) tr"
  "keeps J (tx_context_from_user (sys_pb S) u) tr"
  by (rule keeps_local, intro emits_intros, assumption)+

lemma keeps_propose: "generated S A g \<Longrightarrow> keeps J (propose_tx S peers g) tr"
  by (rule keeps_emits [OF emits_propose [where P = "\<lambda>e. \<exists>p. e = ProposalSent p (gtx_signed_proposal g)"]])
    (auto intro: proposal)

lemma keeps_broadcast:
  assumes "\<And>us ord. prefix tr us \<Longrightarrow> J us (EnvelopeBroadcast ord envelope)"
  shows "keeps J (broadcast_to_orderers S envelope ords tx_id) tr"
  by (rule keeps_emits [OF emits_broadcast_to_orderers [where P = "\<lambda>e. \<exists>ord. e = EnvelopeBroadcast ord envelope"]])
    (auto intro: assms)

lemma endorsement_of_prefix: "endorsement_of peers g tr etx \<Longrightarrow> prefix tr us \<Longrightarrow> endorsement_of peers g us etx"
  unfolding endorsement_of_def by (auto dest: set_mono_prefix)

lemma keeps_commit:
  assumes "A u" "generated S A g" "endorsement_of peers g tr etx"
  shows "keeps J (commit_tx S u ords etx) tr"
  unfolding commit_tx_def
proof (intro keeps_bind keeps_generate keeps_broadcast)
  fix envelope tr1 us ord
  assume "build_endorsed_tx_envelope S etx u tr = (Returned envelope, tr1)" "prefix tr tr1" "prefix tr1 us"
  with assms show "J us (EnvelopeBroadcast ord envelope)"
    by (blast intro: endorsed endorsement_of_prefix prefix_order.trans)
qed

lemma keeps_stream:
  assumes "A (hub_requestor hub)"
  shows "keeps J (stream_blocks S hub start stop behavior) tr"
    "keeps J (timed_get_transaction S hub tx_id start behavior) tr"
proof -
  have build: "keeps J (build_stream S hub envelope) tr1"
    if "get_connection_envelope S hub behavior start stop tr0 = (Returned envelope, tr1)" for stop envelope tr0 tr1
  proof -
    from that obtain ctx bs tr2 where
      "build_envelope S (hub_requestor hub) ctx bs (Some (hub_channel hub)) (hub_client_cert hub) None
         TT_EndorserTransaction tr2 = (Returned envelope, tr1)"
      by (auto simp: get_connection_envelope_def bind_Returned_iff)
    from delivery [OF assms this] show ?thesis
      by (auto simp: keeps_def build_stream_def safe_snoc)
  qed
  have env: "emits local_event (get_connection_envelope S hub behavior start stop)" for stop
    unfolding get_connection_envelope_def by (intro emits_intros)
  show stream: "keeps J (stream_blocks S hub start stop behavior) tr" for stop
    unfolding stream_blocks_def by (intro keeps_intros keeps_local env build)
  show "keeps J (timed_get_transaction S hub tx_id start behavior) tr"
    unfolding timed_get_transaction_def by (intro keeps_intros stream)
qed

lemma keeps_outcome: "keeps J (outcome_io oc) tr"
  by (simp add: keeps_def outcome_io_def)

lemma keeps_wait_for:
  "A (hub_requestor hub) \<Longrightarrow> keeps J (wait_for timeout (timed_get_transaction S hub tx_id start behavior)) tr"
  unfolding wait_for_def by (intro keeps_intros keeps_stream keeps_outcome)

lemma keeps_check:
  "A (hub_requestor hub) \<Longrightarrow> keeps J (check_transaction S hub tx_id timeout start behavior) tr"
  unfolding check_transaction_def by (intro keeps_intros keeps_wait_for)

text \<open>Operations that propose, and those that also commit.\<close>

lemma keeps_endorse_tx:
  assumes "\<And>tr. keeps J gen tr" "generates S A gen"
  shows "keeps J (endorse_tx S peers msg gen) tr"
  unfolding endorse_tx_def by (intro keeps_intros keeps_propose assms(1)) (rule generatesD [OF assms(2)])

lemma keeps_endorse_and_commit:
  assumes "A u" "\<And>tr. keeps J gen tr" "generates S A gen"
  shows "keeps J (endorse_and_commit S u peers ords channel timeout msg gen) tr"
proof -
  have "keeps J (commit_tx_and_wait S u channel peers ords etx timeout) tr1"
    if "endorse_tx S peers msg gen tr = (Returned etx, tr1)" for etx tr1
  proof -
    from endorse_tx_endorsement [OF that assms(3)] obtain g where
      "generated S A g" "endorsement_of peers g tr1 etx" by blast
    with assms(1) show ?thesis
      unfolding commit_tx_and_wait_def by (intro keeps_intros keeps_commit keeps_check) auto
  qed
  then show ?thesis
    unfolding endorse_and_commit_def by (intro keeps_intros keeps_endorse_tx assms) simp_all
qed

lemma keeps_await_loop:
  "(\<And>p tr. keeps J (on_peer p) tr) \<Longrightarrow> keeps J (await_loop on_peer err peers) tr"
  by (induction peers arbitrary: err tr) (auto intro!: keeps_intros)

lemma keeps_await_commit:
  assumes "A u"
  shows "keeps J (await_commit S u c r timeout etx peers) tr"
proof -
  have "A (hub_requestor (PeerFilteredEvents u c p))" for p using assms by simp
  then have "keeps J (await_on_peer S u c r timeout etx p) tr" for p tr
    unfolding await_on_peer_def Let_def need_def by (intro keeps_intros keeps_check keeps_wait_for)
  then show ?thesis unfolding await_commit_def by (rule keeps_await_loop)
qed

text \<open>The operations of \<open>operations.py\<close>.\<close>

lemma keeps_transactions:
  assumes "A u"
  shows "keeps J (query S u peers channel ccname fcn args tm) tr"
    "keeps J (invoke S u peers ords channel ccname fcn args timeout tm) tr"
    "keeps J (instantiate_chaincode S u peers ords channel cc_spec policy upgrade timeout) tr"
  unfolding query_endorse invoke_endorse instantiate_endorse
  by (intro keeps_endorse_tx keeps_endorse_and_commit keeps_generate generates_built assms)+

lemma keeps_proposals:
  assumes "A u"
  shows "keeps J (query_instantiated_chaincodes S u peers channel) tr"
    "keeps J (query_installed_chaincodes S u p) tr"
    "keeps J (install_chaincode S H u peers cc_spec) tr"
  unfolding query_instantiated_chaincodes_def query_installed_chaincodes_def install_chaincode_def
  by (intro keeps_intros keeps_generate keeps_propose; erule generatedI; rule assms)+

lemma keeps_create_channel:
  assumes "A u"
  shows "keeps J (create_channel S u ords channel path) tr"
proof -
  have read: "keeps J (read_file S path) tr" for tr
    unfolding read_file_def by (intro keeps_intros file_read)
  have broadcast: "keeps J (broadcast_to_orderers S envelope ords tx_id) tr3"
    if "build_config_update_envelope S channel ctx u bs tr2 = (Returned envelope, tr3)"
      "read_file S path tr = (Returned content, tr1)" "prefix tr1 tr3"
    for content tr1 tr2 ctx bs envelope tr3 tx_id
  proof (rule keeps_broadcast)
    fix us ord
    assume "prefix tr3 us"
    from that(2) have "FileRead path \<in> set tr1" by (auto simp: read_file_def bind_Returned_iff)
    with that(3) \<open>prefix tr3 us\<close> have "FileRead path \<in> set us" by (meson set_mono_prefix subsetD)
    with assms show "J us (EnvelopeBroadcast ord envelope)" using that(1) by (rule config)
  qed
  show ?thesis
    unfolding create_channel_def
    by (intro keeps_intros read keeps_generate, rule broadcast, assumption, assumption) (meson prefix_order.trans)
qed

lemma keeps_origin_loop:
  assumes "A u"
  shows "keeps J (origin_loop S u channel ords blk err) tr"
proof (induction ords arbitrary: blk err tr)
  case (Cons ord ords)
  have "A (hub_requestor (OrdererEvents u channel ord))" using assms by (simp add: OrdererEvents_def)
  moreover have "emits local_event (first_block s)" for s :: "RawBlock stream"
    by (cases s rule: first_block.cases) (simp_all add: emits_intros)
  ultimately have "keeps J (origin_block S u channel ord) tr" for tr
    unfolding origin_block_def by (intro keeps_intros keeps_stream keeps_local)
  then show ?case unfolding origin_loop.simps by (intro keeps_intros Cons.IH)
qed (simp add: keeps_intros)

lemma keeps_join_channel:
  assumes "A u"
  shows "keeps J (join_channel S u ords channel p) tr"
proof -
  have err: "keeps J (case e of None \<Rightarrow> return_io () | Some x \<Rightarrow> raise_io x) tr" for e tr
    by (cases e) (simp_all add: keeps_intros)
  show ?thesis
    unfolding join_channel_def
    by (intro keeps_intros err keeps_origin_loop keeps_generate keeps_propose assms; erule generatedI; rule assms)
qed

text \<open>The builder.\<close>

lemma operate_safe:
  assumes s: "safe J tr" and b: "sound_builder S A b tr"
  shows "safe J (snd (snd (operate S op b tr)))"
proof (cases op)
  case (Propose r)
  from b have "keeps J (propose_tx S (gw_endorsing_peers (bld_gateway b)) (bld_transaction b)) tr"
    by (intro keeps_propose) (simp add: sound_builder_def)
  note D = keepsD [OF this _ s]
  from Propose show ?thesis by (cases rule: propose_cases [of S b tr r]) (auto dest: D)
next
  case Submit
  have "keeps J (commit_tx S u ords etx) tr" if "bld_endorsed_tx b = Some etx" "gw_requestor (bld_gateway b) = Some u"
    for u ords etx
    using b that by (auto simp: sound_builder_def builder_inv_def gateway_users_def intro!: keeps_commit)
  note D = keepsD [OF this _ s]
  from Submit s show ?thesis
    by (cases "gw_requestor (bld_gateway b)"; cases rule: submit_cases [of b S tr]) (auto dest: D)
next
  case (WaitForCommit r timeout)
  have "keeps J (await_commit S u c r timeout etx ps) tr" if "gw_requestor (bld_gateway b) = Some u" for u c etx ps
    using b that by (intro keeps_await_commit) (simp add: sound_builder_def gateway_users_def)
  note D = keepsD [OF this _ s]
  from WaitForCommit s show ?thesis
    by (cases "gw_requestor (bld_gateway b)"; cases "gw_channel (bld_gateway b)";
        cases rule: wait_cases [of b S r timeout tr]) (auto dest: D)
qed

lemma operate_sound:
  assumes "sound_builder S A b tr" "operate S op b tr = (oc, b', tr')"
  shows "sound_builder S A b' tr'"
  using assms operate_keeps [OF assms(2)] operate_builder_inv [OF _ assms(2)]
  by (simp add: sound_builder_def)

end

sublocale trace_discipline \<subseteq> disciplined: invariant_operations "operate S"
  "\<lambda>b tr. safe J tr \<and> sound_builder S A b tr"
proof unfold_locales
  show "safe J tr \<and> sound_builder S A b tr \<Longrightarrow> operate S op b tr = (oc, b', tr') \<Longrightarrow>
      safe J tr' \<and> sound_builder S A b' tr'" for op b tr oc b' tr'
    using operate_safe [of tr b op] operate_sound by auto
  show "(safe J tr \<and> sound_builder S A (b\<lparr>bld_operations := q\<rparr>) tr) = (safe J tr \<and> sound_builder S A b tr)" for b q tr
    by (simp add: sound_builder_def builder.queue_irrelevant)
qed

context trace_discipline begin

lemma run_operations_safe:
  assumes "safe J tr" "sound_builder S A b tr" "run_operations S b tr = (oc, b', tr')"
  shows "safe J tr' \<and> sound_builder S A b' tr' \<and> prefix tr tr'"
proof -
  note keep = disciplined.run_preserves [OF conjI [OF assms(1,2)]]
  note ext = builder_queue.run_extends [of S _ b tr]
  have q: "sound_builder S A (b1\<lparr>bld_operations := ops\<rparr>) tr1 = sound_builder S A b1 tr1" for b1 ops tr1
    by (simp add: sound_builder_def builder.queue_irrelevant)
  from assms show ?thesis
  proof (cases rule: run_operations_cases [of b S tr])
    case (finished ops b1 tr1)
    with assms(3) keep [OF finished(3)] ext [OF finished(3)] show ?thesis by (auto simp: q)
  next
    case (raised ops e b1 tr1)
    with assms(3) keep [OF raised(3)] ext [OF raised(3)] show ?thesis by auto
  next
    case (blocked ops b1 tr1)
    with assms(3) keep [OF blocked(3)] ext [OF blocked(3)] show ?thesis by auto
  qed auto
qed

lemma keeps_await_builder:
  assumes "sound_builder S A b tr"
  shows "keeps J (await_builder S b) tr"
proof (rule keepsI)
  fix oc tr'
  assume "await_builder S b tr = (oc, tr')" "safe J tr"
  then obtain b' where "run_operations S b tr = (oc, b', tr')"
    by (auto simp: await_builder_def split: prod.splits)
  from run_operations_safe [OF \<open>safe J tr\<close> assms this] show "safe J tr' \<and> prefix tr tr'" by blast
qed

end

end
