(* ===== verification/Sessions.thy ===== *)
theory Sessions
  imports Discipline
begin

text \<open>
  Sessions of a client: any sequence of calls of the package, in any order and with any
  arguments, interleaved with any number of transaction builders that are opened, filled and
  awaited. The properties of this theory hold of every session, whatever peers and orderers
  answer.
\<close>

section \<open>Calls and sessions\<close>

datatype call =
    Create_Channel User "Orderer list" Channel pystr
  | Join_Channel User "Orderer list" Channel Peer
  | Query_Instantiated User "Peer list" Channel
  | Query_Installed User Peer
  | Install_Chaincode User "Peer list" ChaincodeSpec
  | Instantiate_Chaincode User "Peer list" "Orderer list" Channel ChaincodeSpec "EndorsementPolicy option" bool int
  | Invoke_Chaincode User "Peer list" "Orderer list" Channel pystr pystr "pystr list option" int
      "(pystr \<times> bytes) list option"
  | Query_Chaincode User "Peer list" Channel pystr pystr "pystr list option" "(pystr \<times> bytes) list option"
  | Gateway_Create Gateway pystr
  | Gateway_Join Gateway "Peer list option"
  | Gateway_Instantiated Gateway
  | Gateway_Install Gateway "Peer list option"
  | Gateway_Instantiate Gateway "EndorsementPolicy option" bool int
  | Gateway_Invoke_Call Gateway pystr "pystr list option" "(pystr \<times> bytes) list option" int
  | Gateway_Query_Call Gateway pystr "pystr list option" "(pystr \<times> bytes) list option"

definition ignore :: "'a io \<Rightarrow> unit io" where
  "ignore m = bind_io m (\<lambda>_. return_io ())"

fun perform :: "sys \<Rightarrow> host \<Rightarrow> call \<Rightarrow> unit io" where
  "perform S H (Create_Channel u ords c path) = create_channel S u ords c path"
| "perform S H (Join_Channel u ords c p) = join_channel S u ords c p"
| "perform S H (Query_Instantiated u peers c) = ignore (query_instantiated_chaincodes S u peers c)"
| "perform S H (Query_Installed u p) = ignore (query_installed_chaincodes S u p)"
| "perform S H (Install_Chaincode u peers cc) = ignore (install_chaincode S H u peers cc)"
| "perform S H (Instantiate_Chaincode u peers ords c cc policy upgrade timeout) =
    ignore (instantiate_chaincode S u peers ords c cc policy upgrade timeout)"
| "perform S H (Invoke_Chaincode u peers ords c ccname fcn args timeout tm) =
    ignore (invoke S u peers ords c ccname fcn args timeout tm)"
| "perform S H (Query_Chaincode u peers c ccname fcn args tm) = ignore (query S u peers c ccname fcn args tm)"
| "perform S H (Gateway_Create gw path) = Gateway_create_channel S gw path"
| "perform S H (Gateway_Join gw peers) = Gateway_join_channel S gw peers"
| "perform S H (Gateway_Instantiated gw) = ignore (Gateway_query_instantiated_chaincodes S gw)"
| "perform S H (Gateway_Install gw peers) = ignore (Gateway_install_chaincode S H gw peers)"
| "perform S H (Gateway_Instantiate gw policy upgrade timeout) =
    ignore (Gateway_instantiate_chaincode S gw policy upgrade timeout)"
| "perform S H (Gateway_Invoke_Call gw fcn args tm timeout) = ignore (Gateway_invoke S gw fcn args tm timeout)"
| "perform S H (Gateway_Query_Call gw fcn args tm) = ignore (Gateway_query S gw fcn args tm)"

text \<open>The user on whose behalf a call is made, if there is one.\<close>

fun caller :: "call \<Rightarrow> User option" where
  "caller (Create_Channel u ords c path) = Some u"
| "caller (Join_Channel u ords c p) = Some u"
| "caller (Query_Instantiated u peers c) = Some u"
| "caller (Query_Installed u p) = Some u"
| "caller (Install_Chaincode u peers cc) = Some u"
| "caller (Instantiate_Chaincode u peers ords c cc policy upgrade timeout) = Some u"
| "caller (Invoke_Chaincode u peers ords c ccname fcn args timeout tm) = Some u"
| "caller (Query_Chaincode u peers c ccname fcn args tm) = Some u"
| "caller (Gateway_Create gw path) = gw_requestor gw"
| "caller (Gateway_Join gw peers) = gw_requestor gw"
| "caller (Gateway_Instantiated gw) = gw_requestor gw"
| "caller (Gateway_Install gw peers) = gw_requestor gw"
| "caller (Gateway_Instantiate gw policy upgrade timeout) = gw_requestor gw"
| "caller (Gateway_Invoke_Call gw fcn args tm timeout) = gw_requestor gw"
| "caller (Gateway_Query_Call gw fcn args tm) = gw_requestor gw"

type_synonym session = "GatewayTXBuilder list \<times> trace"

text \<open>
  A step of a session of a client whose users satisfy \<open>A\<close>: a call, whatever its outcome, a
  new builder, or a method of one of the builders.
\<close>

inductive session_step :: "sys \<Rightarrow> host \<Rightarrow> (User \<Rightarrow> bool) \<Rightarrow> session \<Rightarrow> session \<Rightarrow> bool" for S H A where
  ss_call: "session_step S H A (bs, tr) (bs, tr')"
    if "pred_option A (caller c)" "perform S H c tr = (oc, tr')"
| ss_transact: "session_step S H A (bs, tr) (bs @ [b], tr')"
    if "pred_option A (gw_requestor gw)" "transact S gw fcn args tm tr = (Returned b, tr')"
| ss_transact_raises: "session_step S H A (bs, tr) (bs, tr')"
    if "pred_option A (gw_requestor gw)" "transact S gw fcn args tm tr = (Raised e, tr')"
| ss_propose: "session_step S H A (bs, tr) (bs[i := propose r (bs ! i)], tr)" if "i < length bs"
| ss_submit: "session_step S H A (bs, tr) (bs[i := submit (bs ! i)], tr)" if "i < length bs"
| ss_wait: "session_step S H A (bs, tr) (bs[i := wait_for_commit r timeout (bs ! i)], tr)" if "i < length bs"
| ss_await: "session_step S H A (bs, tr) (bs[i := b], tr')"
    if "i < length bs" "run_operations S (bs ! i) tr = (oc, b, tr')"

inductive_cases session_stepE: "session_step S H A (bs, tr) s"

text \<open>The sessions that start with nothing.\<close>

definition session :: "sys \<Rightarrow> host \<Rightarrow> (User \<Rightarrow> bool) \<Rightarrow> session \<Rightarrow> bool" where
  "session S H A s \<longleftrightarrow> (session_step S H A)\<^sup>*\<^sup>* ([], []) s"

lemma session_induct [consumes 1, case_names empty step]:
  assumes "session S H A (bs, tr)" "P [] []"
    and "\<And>bs tr bs' tr'. P bs tr \<Longrightarrow> session_step S H A (bs, tr) (bs', tr') \<Longrightarrow> P bs' tr'"
  shows "P bs tr"
  using assms(1) unfolding session_def
proof (induction "(bs, tr)" arbitrary: bs tr rule: rtranclp_induct)
  case base
  with assms(2) show ?case by simp
next
  case (step s)
  with assms(3) show ?case by (cases s) auto
qed

section \<open>The discipline holds of every session\<close>

context trace_discipline begin

lemma keeps_ignore: "keeps J m tr \<Longrightarrow> keeps J (ignore m) tr"
  unfolding ignore_def by (intro keeps_intros)

lemma transact_sound:
  assumes "transact S gw fcn args tm tr = (Returned b, tr')" "pred_option A (gw_requestor gw)"
  shows "sound_builder S A b tr1"
proof -
  from assms obtain u ccname c tr2 g where u: "gw_requestor gw = Some u" "A u"
    and g: "generate_cc_tx S u ccname c fcn args tm tr2 = (Returned g, tr')" and b: "b = new_GatewayTXBuilder gw g"
    by (auto simp: transact_def bind_Returned_iff)
  from generatesD [OF generates_built(1) g] u b show ?thesis
    by (simp add: sound_builder_def gateway_users_def)
qed

lemma keeps_transact: "keeps J (transact S gw fcn args tm) tr"
  unfolding transact_def by (intro keeps_intros keeps_generate)

lemma sound_builder_queued:
  assumes "sound_builder S A b tr"
  shows "sound_builder S A (propose r b) tr" "sound_builder S A (submit b) tr"
    "sound_builder S A (wait_for_commit r timeout b) tr"
  using assms
  by (simp_all add: propose_def submit_def wait_for_commit_def sound_builder_def builder.add_operation_preserves)

lemma keeps_await:
  assumes "sound_builder S A b tr"
  shows "keeps J (await_builder S (propose r b)) tr"
    "keeps J (await_builder S (wait_for_commit r timeout (submit (propose r' b)))) tr"
  by (intro keeps_await_builder sound_builder_queued assms)+

lemma keeps_gateway:
  assumes "pred_option A (gw_requestor gw)"
  shows "keeps J (Gateway_create_channel S gw path) tr" "keeps J (Gateway_join_channel S gw peers) tr"
    "keeps J (Gateway_query_instantiated_chaincodes S gw) tr" "keeps J (Gateway_install_chaincode S H gw peers) tr"
    "keeps J (Gateway_instantiate_chaincode S gw policy upgrade timeout) tr"
    "keeps J (Gateway_query S gw fcn args tm) tr" "keeps J (Gateway_invoke S gw fcn args tm timeout) tr"
proof -
  have u: "A u" if "lift_res (of_option e (gw_requestor gw)) tr1 = (Returned u, tr2)" for e tr1 u tr2
    using assms that by (cases "gw_requestor gw") auto
  have join: "(\<And>p tr. keeps J (join p) tr) \<Longrightarrow> keeps J (join_peers join ps) tr" for join :: "Peer \<Rightarrow> unit io" and ps tr
    by (induction ps arbitrary: tr) (auto intro!: keeps_intros)
  show "keeps J (Gateway_create_channel S gw path) tr"
    unfolding Gateway_create_channel_def by (intro keeps_intros keeps_create_channel) (rule u)
  show "keeps J (Gateway_join_channel S gw peers) tr"
    unfolding Gateway_join_channel_def Let_def by (intro keeps_intros join keeps_join_channel) (rule u)
  show "keeps J (Gateway_query_instantiated_chaincodes S gw) tr"
    unfolding Gateway_query_instantiated_chaincodes_def by (intro keeps_intros keeps_proposals) (rule u)
  show "keeps J (Gateway_install_chaincode S H gw peers) tr"
    unfolding Gateway_install_chaincode_def Let_def by (intro keeps_intros keeps_proposals) (rule u)
  show "keeps J (Gateway_instantiate_chaincode S gw policy upgrade timeout) tr"
    unfolding Gateway_instantiate_chaincode_def by (intro keeps_intros keeps_transactions) (rule u)
  show "keeps J (Gateway_query S gw fcn args tm) tr"
    unfolding Gateway_query_def by (intro keeps_intros keeps_transact keeps_await) (rule transact_sound [OF _ assms])
  show "keeps J (Gateway_invoke S gw fcn args tm timeout) tr"
    unfolding Gateway_invoke_def by (intro keeps_intros keeps_transact keeps_await) (rule transact_sound [OF _ assms])
qed

lemma keeps_perform: "pred_option A (caller c) \<Longrightarrow> keeps J (perform S H c) tr"
  by (cases c) (auto intro!: keeps_ignore keeps_create_channel keeps_join_channel keeps_proposals keeps_transactions
      keeps_gateway)

lemma session_step_safe:
  assumes "session_step S H A (bs, tr) (bs', tr')" "safe J tr" "\<forall>b \<in> set bs. sound_builder S A b tr"
  shows "safe J tr' \<and> prefix tr tr' \<and> (\<forall>b \<in> set bs'. sound_builder S A b tr')"
proof -
  have ext: "safe J tr' \<and> prefix tr tr' \<and> (\<forall>b \<in> set bs. sound_builder S A b tr')"
    if "keeps J m tr" "m tr = (oc, tr')" for m :: "'x io" and oc tr'
    using keepsD [OF that assms(2)] assms(3) sound_builder_mono by blast
  have upd: "\<forall>b \<in> set (bs[i := b']). sound_builder S A b tr1"
    if "\<forall>b \<in> set bs. sound_builder S A b tr1" "sound_builder S A b' tr1" for i b' tr1
    using that set_update_subset_insert [of bs i b'] by auto
  have nth: "i < length bs \<Longrightarrow> sound_builder S A (bs ! i) tr" for i using assms(3) by simp
  from assms(1) show ?thesis
  proof (rule session_stepE)
    fix c oc tr1
    assume "(bs', tr') = (bs, tr1)" "pred_option A (caller c)" "perform S H c tr = (oc, tr1)"
    with ext [OF keeps_perform] show ?thesis by blast
  next
    fix gw fcn args tm b tr1
    assume *: "(bs', tr') = (bs @ [b], tr1)" "pred_option A (gw_requestor gw)"
      "transact S gw fcn args tm tr = (Returned b, tr1)"
    with ext [OF keeps_transact *(3)] transact_sound [OF *(3,2)] show ?thesis by simp
  next
    fix gw fcn args tm e tr1
    assume *: "(bs', tr') = (bs, tr1)" "transact S gw fcn args tm tr = (Raised e, tr1)"
    with ext [OF keeps_transact *(2)] show ?thesis by simp
  next
    fix i oc b tr1
    assume *: "(bs', tr') = (bs[i := b], tr1)" "i < length bs" "run_operations S (bs ! i) tr = (oc, b, tr1)"
    with run_operations_safe [OF assms(2) nth] have r: "safe J tr1" "sound_builder S A b tr1" "prefix tr tr1" by blast+
    with assms(3) sound_builder_mono have "\<forall>b \<in> set bs. sound_builder S A b tr1" by blast
    with upd r * show ?thesis by blast
  qed (use assms(2,3) upd [OF assms(3) sound_builder_queued(1) [OF nth]]
      upd [OF assms(3) sound_builder_queued(2) [OF nth]] upd [OF assms(3) sound_builder_queued(3) [OF nth]] in simp_all)
qed

lemma session_safe:
  assumes "session S H A (bs, tr)"
  shows "safe J tr \<and> (\<forall>b \<in> set bs. sound_builder S A b tr)"
  using assms by (induction rule: session_induct) (auto dest: session_step_safe)

end

end
