(* ===== verification/Session_Safety.thy ===== *)
theory Session_Safety
  imports Sessions
begin

text \<open>
  Three properties of every session of a client: what reaches an orderer was proposed before,
  what is sent is signed by one of the client's users, and transactions share an identifier
  only if a digest collides on two of the inputs it is given.
\<close>

section \<open>Proposed before broadcast\<close>

definition proposed_header :: "runtime \<Rightarrow> SignedProposal \<Rightarrow> Header option" where
  "proposed_header pb sp =
    Option.bind (des (pb_Proposal pb) (sp_proposal_bytes sp)) (\<lambda>p. des (pb_Header pb) (prop_header p))"

text \<open>An endorsed transaction with this header and as many endorsements as there are peers
  that were sent a proposal with the same header.\<close>

definition endorsed_by_proposed :: "runtime \<Rightarrow> trace \<Rightarrow> Payload \<Rightarrow> bool" where
  "endorsed_by_proposed pb us pl \<longleftrightarrow>
    (\<exists>peers act cap. peers \<noteq> [] \<and>
      des (pb_Transaction pb) (pl_data pl) = Some \<lparr>tx_actions = [act]\<rparr> \<and>
      des (pb_ChaincodeActionPayload pb) (ta_payload act) = Some cap \<and>
      length (cea_endorsements (cap_action cap)) = length peers \<and>
      list_all (\<lambda>p. \<exists>sp. ProposalSent p sp \<in> set us \<and> proposed_header pb sp = Some (pl_header pl)) peers)"

definition broadcast_justified :: "runtime \<Rightarrow> trace \<Rightarrow> Envelope \<Rightarrow> bool" where
  "broadcast_justified pb us envelope \<longleftrightarrow>
    (\<exists>pl chdr. des (pb_Payload pb) (env_payload envelope) = Some pl \<and>
      des (pb_ChannelHeader pb) (hdr_channel_header (pl_header pl)) = Some chdr \<and>
      (TransactionType_of (ch_type chdr) = Inr TT_ConfigUpdate \<and> (\<exists>path. FileRead path \<in> set us) \<or>
       TransactionType_of (ch_type chdr) = Inr TT_EndorserTransaction \<and> endorsed_by_proposed pb us pl))"

definition proposed_before :: "sys \<Rightarrow> trace \<Rightarrow> event \<Rightarrow> bool" where
  "proposed_before S us e \<longleftrightarrow>
    (case e of
       EnvelopeBroadcast ord envelope \<Rightarrow> runtime_ok (sys_pb S) \<longrightarrow> broadcast_justified (sys_pb S) us envelope
     | _ \<Rightarrow> True)"

lemma des_ser: "coder_ok c \<Longrightarrow> des c (ser c m) = Some m"
  by (simp add: coder_ok_def)

lemma proposed_header_generated:
  assumes "runtime_ok (sys_pb S)" "build_generated_tx S u ccname args channel tm tr = (Returned g, tr')"
  shows "proposed_header (sys_pb S) (gtx_signed_proposal g) = Some (gtx_header g)"
  using assms(1) build_generated_tx_Returned_D [OF assms(2)]
  by (auto simp: proposed_header_def des_ser)

lemma endorsed_envelope_justified:
  assumes ok: "runtime_ok (sys_pb S)" and g: "generated S A g" and e: "endorsement_of peers g us etx"
    and env: "build_endorsed_tx_envelope S etx u tr = (Returned envelope, tr')"
  shows "broadcast_justified (sys_pb S) us envelope"
proof -
  let ?pb = "sys_pb S"
  from g obtain u' ccname args channel tm tr0 tr1 where
    gen: "build_generated_tx S u' ccname args channel tm tr0 = (Returned g, tr1)"
    by (auto simp: generated_def)
  from build_generated_tx_Returned_D [OF gen] obtain ext tr2 tr3 where
    "build_header S (gtx_tx_context g) channel ext TT_EndorserTransaction None tr2 = (Returned (gtx_header g), tr3)"
    by blast
  from build_header_Returned_D [OF this] obtain chdr where
    ch: "hdr_channel_header (gtx_header g) = ser (pb_ChannelHeader ?pb) chdr"
    "ch_type chdr = TransactionType_value TT_EndorserTransaction" by force
  note D = build_endorsed_tx_envelope_Returned_D [OF env]
  let ?pl = "\<lparr>pl_header = gtx_header g,
    pl_data = ser (pb_Transaction ?pb) \<lparr>tx_actions = [endorsed_action ?pb etx]\<rparr>\<rparr>"
  let ?cap = "\<lparr>cap_chaincode_proposal_payload = prop_payload (etx_proposal etx),
    cap_action = \<lparr>cea_proposal_response_payload = pr_payload (hd (etx_peer_responses etx)),
      cea_endorsements = map pr_endorsement (etx_peer_responses etx)\<rparr>\<rparr>"
  from D e have pl: "des (pb_Payload ?pb) (env_payload envelope) = Some ?pl"
    using ok by (auto simp: des_ser endorsement_of_def)
  have "endorsed_by_proposed ?pb us ?pl"
    unfolding endorsed_by_proposed_def
  proof (intro exI conjI)
    show "peers \<noteq> []" using e by (auto simp: endorsement_of_def)
    show "list_all (\<lambda>p. \<exists>sp. ProposalSent p sp \<in> set us \<and>
        proposed_header ?pb sp = Some (pl_header ?pl)) peers"
      using e proposed_header_generated [OF ok gen] by (auto simp: endorsement_of_def list_all_iff)
    show "length (cea_endorsements (cap_action ?cap)) = length peers"
      using e by (simp add: endorsement_of_def)
    show "des (pb_Transaction ?pb) (pl_data ?pl) = Some \<lparr>tx_actions = [endorsed_action ?pb etx]\<rparr>"
      using ok by (simp add: des_ser)
    show "des (pb_ChaincodeActionPayload ?pb) (ta_payload (endorsed_action ?pb etx)) = Some ?cap"
      using ok by (simp add: des_ser endorsed_action_def)
  qed
  with pl ch show ?thesis
    unfolding broadcast_justified_def using ok by (intro exI [of _ ?pl] exI [of _ chdr]) (simp add: des_ser del: TransactionType_value.simps)
qed

lemma config_envelope_justified:
  assumes ok: "runtime_ok (sys_pb S)" and f: "FileRead path \<in> set us"
    and env: "build_config_update_envelope S channel ctx u bs tr = (Returned envelope, tr')"
  shows "broadcast_justified (sys_pb S) us envelope"
proof -
  let ?pb = "sys_pb S"
  from env obtain data tr1 where
    e: "build_envelope S u ctx data (Some channel) None None TT_ConfigUpdate tr1 = (Returned envelope, tr')"
    by (auto simp: build_config_update_envelope_def Let_def bind_Returned_iff)
  from build_envelope_Returned_D [OF e] obtain h where
    h: "build_header S ctx (Some channel) None TT_ConfigUpdate None tr1 = (Returned h, tr1 @ [ClockRead])" and
    pl: "env_payload envelope = ser (pb_Payload ?pb) \<lparr>pl_header = h, pl_data = data\<rparr>" by blast
  from build_header_Returned_D [OF h] obtain chdr where
    ch: "hdr_channel_header h = ser (pb_ChannelHeader ?pb) chdr" "ch_type chdr = TransactionType_value TT_ConfigUpdate"
    by force
  show ?thesis
    unfolding broadcast_justified_def using ok pl ch f
    by (intro exI [of _ "\<lparr>pl_header = h, pl_data = data\<rparr>"] exI [of _ chdr]) (auto simp: des_ser simp del: TransactionType_value.simps)
qed

interpretation proposed: trace_discipline S A "proposed_before S"
  by unfold_locales
    (auto simp: proposed_before_def local_event_def intro: endorsed_envelope_justified config_envelope_justified
      split: event.splits)

text \<open>
  C3. In every session, whatever reaches an orderer was prepared before: the envelope
  carries either a configuration update, after a file was read, or a transaction with one
  endorsement per peer, each of which had been sent a signed proposal with the very header of
  the transaction, and so with its id, creator, nonce, channel and chaincode.
\<close>

theorem session_broadcasts_proposed:
  assumes "runtime_ok (sys_pb S)" "session S H A (bs, us @ EnvelopeBroadcast ord envelope # vs)"
  shows "broadcast_justified (sys_pb S) us envelope"
  using safeD [of "proposed_before S" us "EnvelopeBroadcast ord envelope" vs] assms(1)
    proposed.session_safe [OF assms(2)]
  by (simp add: proposed_before_def)

section \<open>Signed by a user of the client\<close>

definition verifies_for :: "crypto_lib \<Rightarrow> Ecies \<Rightarrow> (User \<Rightarrow> bool) \<Rightarrow> bytes \<Rightarrow> bytes \<Rightarrow> bool" where
  "verifies_for L E A message sig \<longleftrightarrow>
    (\<exists>u k. A u \<and> private_key u = Some k \<and> ecies_verify L E (public_key L k) message sig = Inr True)"

text \<open>The users of the client sign with a suite whose primitives obey their laws.\<close>

definition ecies_users :: "crypto_lib \<Rightarrow> Ecies \<Rightarrow> (User \<Rightarrow> bool) \<Rightarrow> bool" where
  "ecies_users L E A \<longleftrightarrow> signature_laws L (order E) \<and> low_s (order E) (half_order E) \<and>
    (\<forall>u. A u \<longrightarrow> user_suite u = ecies_suite L E)"

definition authentic :: "crypto_lib \<Rightarrow> Ecies \<Rightarrow> (User \<Rightarrow> bool) \<Rightarrow> trace \<Rightarrow> event \<Rightarrow> bool" where
  "authentic L E A us e \<longleftrightarrow> (ecies_users L E A \<longrightarrow>
    (case e of
       ProposalSent p sp \<Rightarrow> verifies_for L E A (sp_proposal_bytes sp) (sp_signature sp)
     | EnvelopeBroadcast ord envelope \<Rightarrow> verifies_for L E A (env_payload envelope) (env_signature envelope)
     | DeliverRequested m envelope \<Rightarrow> verifies_for L E A (env_payload envelope) (env_signature envelope)
     | _ \<Rightarrow> True))"

lemma sign_verifies:
  assumes "sign u message tr = (Returned sig, tr')" "A u" "ecies_users L E A"
  shows "verifies_for L E A message sig"
proof -
  from assms obtain k where k: "private_key u = Some k" "ecies_sign L E (length tr) k message = Inr sig"
    by (auto simp: sign_Returned_iff ecies_users_def ecies_suite_def)
  with assms(2,3) ecies_sign_accepted [OF _ _ k(2)] show ?thesis
    unfolding verifies_for_def ecies_users_def by blast
qed

lemma envelope_verifies:
  "build_envelope S u ctx bs channel tlsc ext ty tr = (Returned envelope, tr') \<Longrightarrow> A u \<Longrightarrow> ecies_users L E A \<Longrightarrow>
    verifies_for L E A (env_payload envelope) (env_signature envelope)"
  by (auto dest!: build_envelope_Returned_D intro: sign_verifies)

lemma config_verifies:
  "build_config_update_envelope S channel ctx u bs tr = (Returned envelope, tr') \<Longrightarrow> A u \<Longrightarrow> ecies_users L E A \<Longrightarrow>
    verifies_for L E A (env_payload envelope) (env_signature envelope)"
  by (auto simp: build_config_update_envelope_def Let_def bind_Returned_iff intro: envelope_verifies)

lemma endorsed_verifies:
  "build_endorsed_tx_envelope S etx u tr = (Returned envelope, tr') \<Longrightarrow> A u \<Longrightarrow> ecies_users L E A \<Longrightarrow>
    verifies_for L E A (env_payload envelope) (env_signature envelope)"
  by (auto dest!: build_endorsed_tx_envelope_Returned_D intro: sign_verifies)

lemma proposal_verifies:
  "generated S A g \<Longrightarrow> ecies_users L E A \<Longrightarrow>
    verifies_for L E A (sp_proposal_bytes (gtx_signed_proposal g)) (sp_signature (gtx_signed_proposal g))"
  unfolding generated_def by (blast dest: build_generated_tx_Returned_D intro: sign_verifies)

interpretation signing: trace_discipline S A "authentic L E A"
  by unfold_locales
    (auto simp: authentic_def local_event_def
      intro: proposal_verifies envelope_verifies endorsed_verifies config_verifies split: event.splits)

text \<open>
  C4. Everything a client sends is signed: if its users sign with an elliptic curve suite,
  every proposal, every envelope for an orderer and every request for blocks of a session
  carries a signature of exactly the bytes sent that verifies under the public key of one of
  its users.
\<close>

theorem session_messages_signed:
  assumes "E = Ecies_init level hash_name" "signature_laws L (order E)"
    and "\<And>u. A u \<Longrightarrow> user_suite u = ecies_suite L E" and "session S H A (bs, tr)"
  shows "(ProposalSent p sp \<in> set tr \<longrightarrow> verifies_for L E A (sp_proposal_bytes sp) (sp_signature sp)) \<and>
    (EnvelopeBroadcast ord envelope \<in> set tr \<or> DeliverRequested m envelope \<in> set tr \<longrightarrow>
      verifies_for L E A (env_payload envelope) (env_signature envelope))"
proof -
  have users: "ecies_users L E A"
    using assms(2,3) Ecies_init_low_s [of level hash_name] by (simp add: ecies_users_def assms(1))
  have "authentic L E A us e" if "tr = us @ e # vs" for us e vs
    using signing.session_safe [OF assms(4), of L E] that by (auto dest: safeD)
  then have "e \<in> set tr \<Longrightarrow> \<exists>us. authentic L E A us e" for e by (meson split_list)
  with users show ?thesis unfolding authentic_def by fastforce
qed

section \<open>Identifiers\<close>

text \<open>The nonces drawn in a trace, in order, and the one of a builder's transaction.\<close>

definition nonces :: "trace \<Rightarrow> bytes list" where
  "nonces tr = concat (map (\<lambda>e. case e of NonceDrawn n \<Rightarrow> [n] | _ \<Rightarrow> []) tr)"

definition builder_nonce :: "GatewayTXBuilder \<Rightarrow> bytes" where
  "builder_nonce b = txc_nonce (gtx_tx_context (bld_transaction b))"

lemma nonces_simps [simp]:
  "nonces [] = []" "nonces (as @ bs) = nonces as @ nonces bs"
  "nonces (NonceDrawn n # bs) = n # nonces bs" "nonces (ClockRead # bs) = nonces bs"
  "nonces (SignDrawn p # bs) = nonces bs"
  by (simp_all add: nonces_def)

lemma nonces_prefix: "prefix tr tr' \<Longrightarrow> prefix (nonces tr) (nonces tr')"
  by (auto simp: prefix_def)

lemma generated_trace:
  assumes "build_generated_tx S u ccname args channel tm tr = (Returned g, tr')"
  shows "\<exists>p. tr' = tr @ [NonceDrawn (txc_nonce (gtx_tx_context g)), ClockRead, SignDrawn p]"
proof -
  from build_generated_tx_Returned_D [OF assms] obtain tr1 tr2 ext where
    ctx: "tx_context_from_user (sys_pb S) u tr = (Returned (gtx_tx_context g), tr1)" and
    hdr: "build_header S (gtx_tx_context g) channel ext TT_EndorserTransaction None tr1 = (Returned (gtx_header g), tr2)" and
    sg: "sign u (sp_proposal_bytes (gtx_signed_proposal g)) tr2 = (Returned (sp_signature (gtx_signed_proposal g)), tr')"
    by blast
  from ctx have "tr1 = tr @ [NonceDrawn (txc_nonce (gtx_tx_context g))]" by (auto simp: tx_context_Returned_iff)
  moreover from build_header_Returned_D [OF hdr] have "tr2 = tr1 @ [ClockRead]" by blast
  ultimately show ?thesis using sg by (simp add: sign_Returned_iff)
qed

lemma transact_trace:
  assumes "transact S gw fcn args tm tr = (Returned b, tr')"
  shows "\<exists>p. tr' = tr @ [NonceDrawn (builder_nonce b), ClockRead, SignDrawn p]"
proof -
  from assms obtain u ccname c g where g: "generate_cc_tx S u ccname c fcn args tm tr = (Returned g, tr')"
    and b: "b = new_GatewayTXBuilder gw g"
    by (auto simp: transact_def bind_Returned_iff)
  from generate_cc_tx_Returned_D [OF g] generated_trace b show ?thesis by (auto simp: builder_nonce_def)
qed

lemma transact_nonce:
  assumes "transact S gw fcn args tm tr = (Returned b, tr')" "gw_requestor gw = Some u"
  shows "builder_nonce b = generate_nonce (user_suite u) (length tr) 24"
proof -
  from assms obtain ccname c g where g: "generate_cc_tx S u ccname c fcn args tm tr = (Returned g, tr')"
    and b: "b = new_GatewayTXBuilder gw g"
    by (auto simp: transact_def bind_Returned_iff)
  from generate_cc_tx_Returned_D [OF g] b show ?thesis
    by (auto simp: builder_nonce_def tx_context_Returned_iff dest!: build_generated_tx_Returned_D)
qed

interpretation growing: trace_discipline S A "\<lambda>us e. True"
  by unfold_locales simp_all

lemma builder_nonce_kept:
  "builder_nonce (propose r b) = builder_nonce b" "builder_nonce (submit b) = builder_nonce b"
  "builder_nonce (wait_for_commit r timeout b) = builder_nonce b"
  "run_operations S b tr = (oc, b', tr') \<Longrightarrow> builder_nonce b' = builder_nonce b"
  using run_operations_keeps by (auto simp: builder_nonce_def propose_def submit_def wait_for_commit_def)

lemma session_step_nonces:
  assumes step: "session_step S H A (bs, tr) (bs', tr')" and bs: "\<forall>b \<in> set bs. sound_builder S A b tr"
    and sub: "subseq (map builder_nonce bs) (nonces tr)"
  shows "subseq (map builder_nonce bs') (nonces tr')"
proof -
  have "prefix tr tr'" using growing.session_step_safe [OF step _ bs] by (simp add: safe_def)
  then have "subseq (nonces tr) (nonces tr')" by (intro prefix_imp_subseq nonces_prefix)
  with sub have same: "map builder_nonce bs' = map builder_nonce bs \<Longrightarrow> ?thesis"
    by (metis subseq_order.trans)
  have upd: "map builder_nonce (bs[i := b]) = map builder_nonce bs"
    if "i < length bs" "builder_nonce b = builder_nonce (bs ! i)" for i b
    using that by (simp add: map_update list_update_same_conv)
  from step show ?thesis
  proof (rule session_stepE)
    fix gw fcn args tm b tr1
    assume *: "(bs', tr') = (bs @ [b], tr1)" "transact S gw fcn args tm tr = (Returned b, tr1)"
    from transact_trace [OF *(2)] have "nonces tr1 = nonces tr @ [builder_nonce b]" by auto
    with * sub show ?thesis by (simp add: list_emb_append_mono)
  next
    fix i oc b tr1
    assume "(bs', tr') = (bs[i := b], tr1)" "i < length bs" "run_operations S (bs ! i) tr = (oc, b, tr1)"
    then have "map builder_nonce bs' = map builder_nonce bs"
      by (auto simp: builder_nonce_kept intro!: upd)
    then show ?thesis by (rule same)
  qed (rule same, (auto simp: builder_nonce_kept intro!: upd)[1])+
qed

lemma subseq_set: "subseq xs ys \<Longrightarrow> set xs \<subseteq> set ys"
  by (induction rule: list_emb.induct) auto

lemma subseq_distinct: "subseq xs ys \<Longrightarrow> distinct ys \<Longrightarrow> distinct xs"
  by (induction rule: list_emb.induct) (auto dest: subseq_set)

lemma session_nonces:
  assumes "session S H A (bs, tr)"
  shows "subseq (map builder_nonce bs) (nonces tr) \<and> (\<forall>b \<in> set bs. sound_builder S A b tr)"
  using assms
proof (induction rule: session_induct)
  case (step bs tr bs' tr')
  with session_step_nonces growing.session_step_safe show ?case by (auto simp: safe_def)
qed simp

text \<open>A builder whose transaction was generated by the requestor of its gateway.\<close>

definition requested :: "sys \<Rightarrow> (User \<Rightarrow> bool) \<Rightarrow> GatewayTXBuilder \<Rightarrow> bool" where
  "requested S A b \<longleftrightarrow> (\<exists>u ccname args channel tm tr tr'. gw_requestor (bld_gateway b) = Some u \<and> A u \<and>
    build_generated_tx S u ccname args channel tm tr = (Returned (bld_transaction b), tr'))"

lemma transact_requested:
  assumes "transact S gw fcn args tm tr = (Returned b, tr')" "pred_option A (gw_requestor gw)"
  shows "requested S A b"
proof -
  from assms obtain u ccname c tr2 g where u: "gw_requestor gw = Some u" "A u"
    and g: "generate_cc_tx S u ccname c fcn args tm tr2 = (Returned g, tr')" and b: "b = new_GatewayTXBuilder gw g"
    by (auto simp: transact_def bind_Returned_iff)
  from generate_cc_tx_Returned_D [OF g] u show ?thesis by (simp add: requested_def b) blast
qed

lemma requested_kept:
  "requested S A (propose r b) = requested S A b" "requested S A (submit b) = requested S A b"
  "requested S A (wait_for_commit r timeout b) = requested S A b"
  "run_operations S b tr = (oc, b', tr') \<Longrightarrow> requested S A b' = requested S A b"
  using run_operations_keeps by (auto simp: requested_def propose_def submit_def wait_for_commit_def)

lemma session_step_requested:
  assumes "session_step S H A (bs, tr) (bs', tr')" and bs: "\<forall>b \<in> set bs. requested S A b"
  shows "\<forall>b \<in> set bs'. requested S A b"
proof -
  have upd: "\<forall>b \<in> set (bs[i := b']). requested S A b"
    if "i < length bs" "requested S A (bs ! i) \<Longrightarrow> requested S A b'" for i b'
    using that bs set_update_subset_insert [of bs i b'] by auto
  from assms(1) show ?thesis
  proof (rule session_stepE)
    fix i oc b tr1
    assume *: "(bs', tr') = (bs[i := b], tr1)" "i < length bs" "run_operations S (bs ! i) tr = (oc, b, tr1)"
    have "\<forall>x \<in> set (bs[i := b]). requested S A x"
      by (rule upd [OF *(2)]) (simp add: requested_kept(4) [OF *(3)])
    with *(1) show ?thesis by simp
  qed (use bs in \<open>auto simp: requested_kept dest: transact_requested dest!: upd [THEN bspec, rotated 2]\<close>)
qed

lemma session_requested: "session S H A (bs, tr) \<Longrightarrow> \<forall>b \<in> set bs. requested S A b"
proof (induction rule: session_induct)
  case (step bs tr bs' tr')
  then show ?case by (rule session_step_requested [rotated])
qed simp

text \<open>What the id of a builder's transaction is the digest of: its nonce and its requestor's identity.\<close>

definition id_input :: "runtime \<Rightarrow> GatewayTXBuilder \<Rightarrow> bytes" where
  "id_input pb b = builder_nonce b @
    (case gw_requestor (bld_gateway b) of None \<Rightarrow> [] | Some u \<Rightarrow> ser (pb_SerializedIdentity pb) (user_identity u))"

definition digests_collide :: "runtime \<Rightarrow> GatewayTXBuilder \<Rightarrow> GatewayTXBuilder \<Rightarrow> bool" where
  "digests_collide pb b c \<longleftrightarrow> id_input pb b \<noteq> id_input pb c \<and>
    (\<exists>u v. gw_requestor (bld_gateway b) = Some u \<and> gw_requestor (bld_gateway c) = Some v \<and>
      hash_digest (user_suite u) (id_input pb b) = hash_digest (user_suite v) (id_input pb c))"

lemma requested_id:
  assumes "requested S A b"
  obtains u where "gw_requestor (bld_gateway b) = Some u" "A u"
    "GeneratedTX_tx_id (bld_transaction b) = hexlify (hash_digest (user_suite u) (id_input (sys_pb S) b))"
  using assms that unfolding requested_def
  by (fastforce simp: tx_context_Returned_iff GeneratedTX_tx_id_def builder_nonce_def id_input_def
      dest!: build_generated_tx_Returned_D)

text \<open>
  C23. What the ids of a session's transactions rest on. If the random generator gave no nonce
  twice and all of them 24 bytes, then, however calls and builders were interleaved: the id
  of every builder's transaction is the hexadecimal digest, by its requestor's suite, of the
  nonce followed by the requestor's serialized identity; no two builders have the same such
  input, be they of the same user or not; and all ids differ exactly if the digests of no two
  of these inputs collide. Nothing is assumed of the digests.
\<close>

theorem session_ids_distinct:
  assumes "session S H A (bs, tr)" "distinct (nonces tr)" "\<forall>n \<in> set (nonces tr). length n = 24"
  shows "(\<forall>b \<in> set bs. \<exists>u. gw_requestor (bld_gateway b) = Some u \<and> A u \<and>
      id_input (sys_pb S) b = builder_nonce b @ ser (pb_SerializedIdentity (sys_pb S)) (user_identity u) \<and>
      GeneratedTX_tx_id (bld_transaction b) = hexlify (hash_digest (user_suite u) (id_input (sys_pb S) b))) \<and>
    distinct (map (id_input (sys_pb S)) bs) \<and>
    (distinct (map (\<lambda>b. GeneratedTX_tx_id (bld_transaction b)) bs) \<longleftrightarrow>
      (\<forall>b \<in> set bs. \<forall>c \<in> set bs. \<not> digests_collide (sys_pb S) b c))"
proof -
  let ?in = "id_input (sys_pb S)" and ?id = "\<lambda>b. GeneratedTX_tx_id (bld_transaction b)"
  have id: "\<exists>u. gw_requestor (bld_gateway b) = Some u \<and> A u \<and>
      ?in b = builder_nonce b @ ser (pb_SerializedIdentity (sys_pb S)) (user_identity u) \<and>
      ?id b = hexlify (hash_digest (user_suite u) (?in b))" if "b \<in> set bs" for b
  proof -
    from session_requested [OF assms(1)] that have "requested S A b" by blast
    then obtain u where "gw_requestor (bld_gateway b) = Some u" "A u"
      "?id b = hexlify (hash_digest (user_suite u) (?in b))" by (rule requested_id)
    then show ?thesis by (simp add: id_input_def)
  qed
  have sub: "subseq (map builder_nonce bs) (nonces tr)" using session_nonces [OF assms(1)] by blast
  then have "distinct (map builder_nonce bs)" using assms(2) by (rule subseq_distinct)
  then have inj: "distinct bs" "inj_on builder_nonce (set bs)" by (simp_all add: distinct_map)
  have len: "length (builder_nonce b) = 24" if "b \<in> set bs" for b
    using subseq_set [OF sub] that assms(3) by auto
  have "inj_on ?in (set bs)"
  proof (rule inj_onI)
    fix b c assume b: "b \<in> set bs" and c: "c \<in> set bs" and "?in b = ?in c"
    with len [OF b] len [OF c] have "builder_nonce b = builder_nonce c" by (simp add: id_input_def)
    with inj(2) b c show "b = c" by (simp add: inj_on_def)
  qed
  then have inputs: "distinct (map ?in bs)" "\<And>b c. b \<in> set bs \<Longrightarrow> c \<in> set bs \<Longrightarrow> ?in b = ?in c \<longleftrightarrow> b = c"
    using inj(1) by (auto simp: distinct_map inj_on_def)
  have coll: "digests_collide (sys_pb S) b c \<longleftrightarrow> b \<noteq> c \<and> ?id b = ?id c" if "b \<in> set bs" "c \<in> set bs" for b c
    using id [OF that(1)] id [OF that(2)] inputs(2) [OF that] by (auto simp: digests_collide_def hexlify_inject)
  have "inj_on ?id (set bs) \<longleftrightarrow> (\<forall>b \<in> set bs. \<forall>c \<in> set bs. \<not> digests_collide (sys_pb S) b c)"
    by (auto simp: inj_on_def coll)
  with inj(1) have "distinct (map ?id bs) \<longleftrightarrow> (\<forall>b \<in> set bs. \<forall>c \<in> set bs. \<not> digests_collide (sys_pb S) b c)"
    by (simp add: distinct_map)
  with id inputs(1) show ?thesis by blast
qed

section \<open>Examples\<close>

lemma bind_continues:
  assumes "bind_io m f tr = (oc, tr')" "m tr = (oc1, tr1)" "\<And>x. emits any_event (f x)"
  shows "prefix tr1 tr'"
  using assms(1,2) emits_any_D [OF assms(3)] by (cases oc1) (auto simp: bind_io_def)

lemma session_snoc:
  "session S H A (bs, tr) \<Longrightarrow> session_step S H A (bs, tr) (bs', tr') \<Longrightarrow> session S H A (bs', tr')"
  unfolding session_def by (rule rtranclp.rtrancl_into_rtrancl)

lemma session_empty: "session S H A ([], [])"
  by (simp add: session_def)

theorem session_broadcasts_proposed_witness:
  "\<exists>us ord envelope vs. session example_sys example_host (\<lambda>u. u = example_user)
      ([], us @ EnvelopeBroadcast ord envelope # vs) \<and>
    broadcast_justified (sys_pb example_sys) us envelope"
proof -
  let ?c = "Invoke_Chaincode example_user [example_peer ''p1'', example_peer ''p2''] [example_orderer ''o1'']
    example_channel (lit ''cc'') (lit ''put'') (Some [lit ''k'', lit ''v'']) 30 None"
  obtain etx tr where i: "invoke example_sys example_user [example_peer ''p1'', example_peer ''p2'']
      [example_orderer ''o1''] example_channel (lit ''cc'') (lit ''put'') (Some [lit ''k'', lit ''v'']) 30 None [] =
        (Returned etx, tr)"
    using example_invoke by blast
  then have "perform example_sys example_host ?c [] = (Returned (), tr)"
    by (simp add: ignore_def bind_io_def return_io_def)
  then have s: "session example_sys example_host (\<lambda>u. u = example_user) ([], tr)"
    by (intro session_snoc [OF session_empty] ss_call [of _ ?c]) simp_all
  from invocation.commit_Returned_D [OF i [unfolded invoke_endorse]] obtain envelope tr3 r tr4 p t where
    b: "broadcast_to_orderers example_sys envelope [example_orderer ''o1''] (EndorsedTX_tx_id etx) tr3 = (Returned r, tr4)"
    and c: "check_transaction example_sys (PeerFilteredEvents example_user example_channel p) (EndorsedTX_tx_id etx) 30
      None BlockUntilReady tr4 = (Returned t, tr)" by blast
  from broadcast_Returned_D [OF b] have "EnvelopeBroadcast (example_orderer ''o1'') envelope \<in> set tr4" by auto
  moreover have "emits any_event (check_transaction example_sys (PeerFilteredEvents example_user example_channel p)
      (EndorsedTX_tx_id etx) 30 None BlockUntilReady)"
    by (rule emits_check_transaction) simp_all
  from emits_any_D [OF this c] have "prefix tr4 tr" .
  ultimately have "EnvelopeBroadcast (example_orderer ''o1'') envelope \<in> set tr" by (meson set_mono_prefix subsetD)
  then obtain us vs where tr: "tr = us @ EnvelopeBroadcast (example_orderer ''o1'') envelope # vs"
    by (meson split_list)
  from session_broadcasts_proposed [OF example_sys_pb s [unfolded tr]] s tr show ?thesis by blast
qed

text \<open>A user with a suite of low-s signatures.\<close>

definition example_ecies_user :: User where
  "example_ecies_user = example_user\<lparr>user_suite := ecies_suite example_crypto example_ecies\<rparr>"

lemma example_ecies_order: "1000 < order example_ecies"
  by (simp add: example_ecies_init Ecies_init_def CURVE_P_256_Size_def)

theorem session_messages_signed_witness:
  "\<exists>tr sp. session example_sys example_host (\<lambda>u. u = example_ecies_user) ([], tr) \<and>
    ProposalSent (example_peer ''p1'') sp \<in> set tr \<and>
    verifies_for example_crypto example_ecies (\<lambda>u. u = example_ecies_user) (sp_proposal_bytes sp) (sp_signature sp)"
proof -
  let ?c = "Query_Installed example_ecies_user (example_peer ''p1'')"
  have laws: "signature_laws example_crypto (order example_ecies)"
    by (rule example_signature_laws [OF example_ecies_order])
  have low: "low_s (order example_ecies) (half_order example_ecies)"
    unfolding example_ecies_init by (rule Ecies_init_low_s)
  have "user_ready example_ecies_user"
  proof -
    have "\<exists>s. ecies_sign example_crypto example_ecies seed k p = Inr s" for seed k p
      using ecies_sign_form [OF laws low] by metis
    then show ?thesis by (simp add: user_ready_def example_ecies_user_def ecies_suite_def example_user_def)
  qed
  moreover have "encode_proto_str (channel_text None) = Inr []"
    using encode_proto_str_ascii [of "[]"] by (simp add: channel_text_def ascii_def)
  ultimately obtain g tr1 where g: "build_generated_tx example_sys example_ecies_user (lit ''lscc'')
      [map of_nat (lit ''getinstalledchaincodes'')] None None [] = (Returned g, tr1)"
    using build_generated_tx_total [OF example_sys_pb] by blast
  obtain oc tr where q: "perform example_sys example_host ?c [] = (oc, tr)" by fastforce
  then have s: "session example_sys example_host (\<lambda>u. u = example_ecies_user) ([], tr)"
    by (intro session_snoc [OF session_empty] ss_call [of _ ?c]) simp_all
  obtain oc1 where p: "propose_tx example_sys [example_peer ''p1''] g tr1 =
      (oc1, tr1 @ [ProposalSent (example_peer ''p1'') (gtx_signed_proposal g)])"
    by (simp add: propose_tx_eq)
  from q obtain oc2 where "query_installed_chaincodes example_sys example_ecies_user (example_peer ''p1'') [] = (oc2, tr)"
    by (auto simp: ignore_def bind_io_def return_io_def split: prod.splits outcome.splits)
  then have "bind_io (propose_tx example_sys [example_peer ''p1''] g) (\<lambda>etx.
      bind_io (lift_exn (raise_tx_proposal_error etx (lit ''Failed query installed chaincodes''))) (\<lambda>_.
      bind_io (lift_res (nth_res (etx_peer_responses etx) 0)) (\<lambda>resp.
      lift_res (FromString (pb_ChaincodeQueryResponse (sys_pb example_sys)) (rsp_payload (pr_response resp)))))) tr1 =
        (oc2, tr)"
    unfolding query_installed_endorse endorse_tx_def bind_io_assoc
    by (simp only: bind_io_eval(1) [where m = "build_generated_tx S u n as ch tm" for S u n as ch tm, OF g] bind_return)
  then have "prefix (tr1 @ [ProposalSent (example_peer ''p1'') (gtx_signed_proposal g)]) tr"
    using p by (rule bind_continues) (intro emits_intros)
  then have "ProposalSent (example_peer ''p1'') (gtx_signed_proposal g) \<in> set tr"
    by (auto simp: prefix_def)
  moreover have "user_suite u = ecies_suite example_crypto example_ecies" if "u = example_ecies_user" for u
    by (simp add: that example_ecies_user_def)
  note session_messages_signed [OF example_ecies_init laws this s, of "example_peer ''p1''" "gtx_signed_proposal g"]
  ultimately show ?thesis using s by blast
qed

text \<open>A user with digests of 32 bytes, which collide, but not on the inputs of the session below.\<close>

definition example_take_user :: User where
  "example_take_user = example_user\<lparr>user_suite := example_suite\<lparr>hash_digest := take 32\<rparr>\<rparr>"

definition example_take_gateway :: Gateway where
  "example_take_gateway = (example_gateway [example_peer ''p1''])\<lparr>gw_requestor := Some example_take_user\<rparr>"

theorem session_ids_distinct_witness:
  "\<exists>b c tr. session example_sys example_host (\<lambda>u. u = example_take_user) ([b, c], tr) \<and>
    GeneratedTX_tx_id (bld_transaction b) \<noteq> GeneratedTX_tx_id (bld_transaction c)"
proof -
  let ?A = "\<lambda>u. u = example_take_user"
  let ?gw = example_take_gateway
  have ready: "gateway_ready ?gw example_take_user example_channel (lit ''cc'')"
    using example_gateway_ready [of "example_peer ''p1''" "[]"]
    by (simp add: gateway_ready_def example_take_gateway_def)
  have user: "user_ready example_take_user" "encode_proto_str (channel_name example_channel) = Inr (lit ''mychannel'')"
    using example_user_ready example_channel_text
    by (simp_all add: user_ready_def example_take_user_def example_user_def channel_text_def)
  have fcn: "map_res encode_proto_bytes ([lit ''put''] @ or_else None []) = Inr [map of_nat (lit ''put'')]"
    by (simp add: encode_proto_bytes_def latin1_encode_def)
  have gen: "\<exists>b tr'. transact example_sys ?gw (lit ''put'') None None tr = (Returned b, tr')" for tr
    using generate_cc_tx_total [OF example_sys_pb user(2,1) fcn, of "lit ''cc''" None tr]
    by (auto simp: transact_ready [OF ready] bind_io_def return_io_def)
  obtain b tr1 where b: "transact example_sys ?gw (lit ''put'') None None [] = (Returned b, tr1)" using gen by blast
  obtain c tr2 where c: "transact example_sys ?gw (lit ''put'') None None tr1 = (Returned c, tr2)" using gen by blast
  have s: "session example_sys example_host ?A ([b, c], tr2)"
    using session_snoc [OF session_snoc [OF session_empty ss_transact [OF _ b]] ss_transact [OF _ c]]
    by (simp add: example_take_gateway_def)
  have nb: "builder_nonce b = replicate 24 0" "builder_nonce c = replicate 24 3" "nonces tr2 = [builder_nonce b, builder_nonce c]"
    using transact_nonce [OF b] transact_nonce [OF c] transact_trace [OF b] transact_trace [OF c]
    by (auto simp: example_take_gateway_def example_take_user_def example_suite_def)
  then have "distinct (nonces tr2)" "\<forall>n \<in> set (nonces tr2). length n = 24" by simp_all
  note ids = session_ids_distinct [OF s this]
  have "\<not> digests_collide (sys_pb example_sys) x y" if "x \<in> {b, c}" "y \<in> {b, c}" for x y
  proof -
    from ids that have "gw_requestor (bld_gateway x) = Some example_take_user"
      "gw_requestor (bld_gateway y) = Some example_take_user" by auto
    with that nb show ?thesis
      by (auto simp: digests_collide_def id_input_def example_take_user_def)
  qed
  with ids s show ?thesis by auto
qed

end
