(* ===== verification/Stubs.thy ===== *)
theory Stubs
  imports Events
begin

text \<open>
  The generated gRPC modules through which the client reaches its nodes
  (\<open>protos/peer/peer_pb2_grpc.py\<close>, \<open>protos/peer/events_pb2_grpc.py\<close> and
  \<open>protos/orderer/ab_pb2_grpc.py\<close>): the client's stubs, which give every method its path and
  its coders, and the server's side of the same methods. gRPC itself is a parameter, of which
  \<open>serves\<close> states the documented contract: a call on a path reaches the handler registered for
  it. A world of the other theories whose nodes are called through stubs is
  \<open>connected_sys\<close>.
\<close>

section \<open>Messages and calls\<close>

text \<open>What the orderers' \<open>Deliver\<close> answers with has no filtered blocks. The client reads
  the same attributes of it.\<close>

datatype orderer_DeliverResponse = OrdererStatus int | OrdererBlock Block

fun read_orderer_response :: "orderer_DeliverResponse \<Rightarrow> DeliverResponse" where
  "read_orderer_response (OrdererStatus s) = DeliverStatus s"
| "read_orderer_response (OrdererBlock b) = DeliverBlock b"

record messages =
  pb_SignedProposal :: "SignedProposal coder"
  pb_ProposalResponse :: "ProposalResponse coder"
  pb_BroadcastResponse :: "BroadcastResponse coder"
  pb_orderer_DeliverResponse :: "orderer_DeliverResponse coder"
  pb_peer_DeliverResponse :: "DeliverResponse coder"

definition messages_ok :: "messages \<Rightarrow> bool" where
  "messages_ok M \<longleftrightarrow> coder_ok (pb_SignedProposal M) \<and> coder_ok (pb_ProposalResponse M) \<and>
    coder_ok (pb_BroadcastResponse M) \<and> coder_ok (pb_orderer_DeliverResponse M) \<and>
    coder_ok (pb_peer_DeliverResponse M)"

text \<open>What \<open>channel.unary_unary\<close> and \<open>channel.stream_stream\<close> are given.\<close>

record ('q, 'r) multicallable =
  mc_channel :: grpc_channel
  mc_path :: pystr
  request_serializer :: "'q \<Rightarrow> bytes"
  response_deserializer :: "bytes \<Rightarrow> 'r option"

section \<open>Stubs\<close>

record EndorserStub =
  es_ProcessProposal :: "(SignedProposal, ProposalResponse) multicallable"

definition EndorserStub_init :: "messages \<Rightarrow> grpc_channel \<Rightarrow> EndorserStub" where
  "EndorserStub_init M channel =
    \<lparr>es_ProcessProposal =
       \<lparr>mc_channel = channel, mc_path = lit ''/protos.Endorser/ProcessProposal'',
        request_serializer = ser (pb_SignedProposal M),
        response_deserializer = des (pb_ProposalResponse M)\<rparr>\<rparr>"

record DeliverStub =
  ds_Deliver :: "(Envelope, DeliverResponse) multicallable"
  ds_DeliverFiltered :: "(Envelope, DeliverResponse) multicallable"

definition DeliverStub_init :: "runtime \<Rightarrow> messages \<Rightarrow> grpc_channel \<Rightarrow> DeliverStub" where
  "DeliverStub_init pb M channel =
    \<lparr>ds_Deliver =
       \<lparr>mc_channel = channel, mc_path = lit ''/protos.Deliver/Deliver'',
        request_serializer = ser (pb_Envelope pb),
        response_deserializer = des (pb_peer_DeliverResponse M)\<rparr>,
     ds_DeliverFiltered =
       \<lparr>mc_channel = channel, mc_path = lit ''/protos.Deliver/DeliverFiltered'',
        request_serializer = ser (pb_Envelope pb),
        response_deserializer = des (pb_peer_DeliverResponse M)\<rparr>\<rparr>"

record AtomicBroadcastStub =
  ab_Broadcast :: "(Envelope, BroadcastResponse) multicallable"
  ab_Deliver :: "(Envelope, orderer_DeliverResponse) multicallable"

definition AtomicBroadcastStub_init :: "runtime \<Rightarrow> messages \<Rightarrow> grpc_channel \<Rightarrow> AtomicBroadcastStub" where
  "AtomicBroadcastStub_init pb M channel =
    \<lparr>ab_Broadcast =
       \<lparr>mc_channel = channel, mc_path = lit ''/orderer.AtomicBroadcast/Broadcast'',
        request_serializer = ser (pb_Envelope pb),
        response_deserializer = des (pb_BroadcastResponse M)\<rparr>,
     ab_Deliver =
       \<lparr>mc_channel = channel, mc_path = lit ''/orderer.AtomicBroadcast/Deliver'',
        request_serializer = ser (pb_Envelope pb),
        response_deserializer = des (pb_orderer_DeliverResponse M)\<rparr>\<rparr>"

text \<open>
  The stubs that \<open>__post_init__\<close> of peers and orderers makes for the channel it opened. Nothing
  uses the two others, \<open>discovery\<close> of a peer and \<open>deliver\<close> of an orderer: blocks of an orderer
  are streamed through its \<open>broadcaster\<close>.
\<close>

definition node_channel :: "'a ConnectedModel_scheme \<Rightarrow> grpc_channel" where
  "node_channel m = the (grpc_channel m)"

definition peer_endorser :: "messages \<Rightarrow> Peer \<Rightarrow> EndorserStub" where
  "peer_endorser M p = EndorserStub_init M (node_channel p)"

definition peer_deliver :: "runtime \<Rightarrow> messages \<Rightarrow> Peer \<Rightarrow> DeliverStub" where
  "peer_deliver pb M p = DeliverStub_init pb M (node_channel p)"

definition orderer_broadcaster :: "runtime \<Rightarrow> messages \<Rightarrow> Orderer \<Rightarrow> AtomicBroadcastStub" where
  "orderer_broadcaster pb M ord = AtomicBroadcastStub_init pb M (node_channel ord)"

text \<open>
  gRPC: how a call of a multi-callable goes, for each type of method. A request stream is
  the list of its requests, a response stream has the times at which the client gets them;
  \<open>failure_delay\<close> is the time after which it learns that a stream failed at once.
\<close>

record grpc =
  call_ProcessProposal ::
    "trace \<Rightarrow> (SignedProposal, ProposalResponse) multicallable \<Rightarrow> SignedProposal \<Rightarrow> ProposalResponse outcome"
  call_Broadcast ::
    "trace \<Rightarrow> (Envelope, BroadcastResponse) multicallable \<Rightarrow> Envelope list \<Rightarrow> BroadcastResponse stream"
  call_orderer_Deliver ::
    "trace \<Rightarrow> (Envelope, orderer_DeliverResponse) multicallable \<Rightarrow> Envelope list \<Rightarrow> orderer_DeliverResponse stream"
  call_peer_Deliver ::
    "trace \<Rightarrow> (Envelope, DeliverResponse) multicallable \<Rightarrow> Envelope list \<Rightarrow> DeliverResponse stream"
  failure_delay :: "trace \<Rightarrow> nat"

text \<open>The request stream of one envelope (\<open>build_envelope_stream\<close>).\<close>

definition build_envelope_stream :: "Envelope \<Rightarrow> Envelope list" where
  "build_envelope_stream envelope = [envelope]"

definition map_stream :: "('a \<Rightarrow> 'b) \<Rightarrow> 'a stream \<Rightarrow> 'b stream" where
  "map_stream f s = (map (\<lambda>(d, x). (d, f x)) (fst s), snd s)"

text \<open>\<open>_build_stream\<close> of the three hubs, given the request stream.\<close>

definition PeerEvents_build_stream ::
  "runtime \<Rightarrow> messages \<Rightarrow> grpc \<Rightarrow> trace \<Rightarrow> Peer \<Rightarrow> Envelope list \<Rightarrow> DeliverResponse stream" where
  "PeerEvents_build_stream pb M G tr p envelopes =
    call_peer_Deliver G tr (ds_Deliver (peer_deliver pb M p)) envelopes"

definition PeerFilteredEvents_build_stream ::
  "runtime \<Rightarrow> messages \<Rightarrow> grpc \<Rightarrow> trace \<Rightarrow> Peer \<Rightarrow> Envelope list \<Rightarrow> DeliverResponse stream" where
  "PeerFilteredEvents_build_stream pb M G tr p envelopes =
    call_peer_Deliver G tr (ds_DeliverFiltered (peer_deliver pb M p)) envelopes"

definition OrdererEvents_build_stream ::
  "runtime \<Rightarrow> messages \<Rightarrow> grpc \<Rightarrow> trace \<Rightarrow> Orderer \<Rightarrow> Envelope list \<Rightarrow> DeliverResponse stream" where
  "OrdererEvents_build_stream pb M G tr ord envelopes =
    map_stream read_orderer_response
      (call_orderer_Deliver G tr (ab_Deliver (orderer_broadcaster pb M ord)) envelopes)"

text \<open>The hub a deliver method belongs to decides which of them runs.\<close>

fun deliver_call :: "messages \<Rightarrow> grpc \<Rightarrow> runtime \<Rightarrow> trace \<Rightarrow> deliver_method \<Rightarrow> Envelope \<Rightarrow> DeliverResponse stream" where
  "deliver_call M G pb tr (PeerDeliver p) envelope =
    PeerEvents_build_stream pb M G tr p (build_envelope_stream envelope)"
| "deliver_call M G pb tr (PeerDeliverFiltered p) envelope =
    PeerFilteredEvents_build_stream pb M G tr p (build_envelope_stream envelope)"
| "deliver_call M G pb tr (OrdererDeliver ord) envelope =
    OrdererEvents_build_stream pb M G tr ord (build_envelope_stream envelope)"

text \<open>The world whose nodes are called as \<open>connect.py\<close> and \<open>events.py\<close> call them.\<close>

definition connected_sys :: "messages \<Rightarrow> grpc \<Rightarrow> sys \<Rightarrow> sys" where
  "connected_sys M G S = S\<lparr>
    sys_ProcessProposal := (\<lambda>tr p. call_ProcessProposal G tr (es_ProcessProposal (peer_endorser M p))),
    sys_Broadcast := (\<lambda>tr ord envelope.
      call_Broadcast G tr (ab_Broadcast (orderer_broadcaster (sys_pb S) M ord)) (build_envelope_stream envelope)),
    sys_Deliver := deliver_call M G (sys_pb S)\<rparr>"

section \<open>Servers\<close>

text \<open>
  A method of a servicer gets the request (or the stream of requests) and a context and
  returns, or raises with what it told the context before.
\<close>

record rpc_context =
  rc_code :: "pystr option"
  rc_details :: "pystr option"

definition new_context :: rpc_context where
  "new_context = \<lparr>rc_code = None, rc_details = None\<rparr>"

type_synonym 'r served = "(py_error + 'r) \<times> rpc_context"
type_synonym ('q, 'r) unary_method = "trace \<Rightarrow> 'q \<Rightarrow> rpc_context \<Rightarrow> 'r served"
type_synonym ('q, 'r) stream_method = "trace \<Rightarrow> 'q list \<Rightarrow> rpc_context \<Rightarrow> 'r stream served"

text \<open>The body all generated servicer methods have until they are overridden.\<close>

definition not_implemented :: "rpc_context \<Rightarrow> 'r served" where
  "not_implemented context =
    (Inl NotImplementedError,
     context\<lparr>rc_code := Some (lit ''StatusCode.UNIMPLEMENTED''),
       rc_details := Some (lit ''Method not implemented!'')\<rparr>)"

record EndorserServicer =
  sv_ProcessProposal :: "(SignedProposal, ProposalResponse) unary_method"

record DeliverServicer =
  sv_Deliver :: "(Envelope, DeliverResponse) stream_method"
  sv_DeliverFiltered :: "(Envelope, DeliverResponse) stream_method"

record AtomicBroadcastServicer =
  sv_Broadcast :: "(Envelope, BroadcastResponse) stream_method"
  sv_orderer_Deliver :: "(Envelope, orderer_DeliverResponse) stream_method"

definition EndorserServicer_class :: EndorserServicer where
  "EndorserServicer_class = \<lparr>sv_ProcessProposal = (\<lambda>tr request. not_implemented)\<rparr>"

definition DeliverServicer_class :: DeliverServicer where
  "DeliverServicer_class =
    \<lparr>sv_Deliver = (\<lambda>tr requests. not_implemented), sv_DeliverFiltered = (\<lambda>tr requests. not_implemented)\<rparr>"

definition AtomicBroadcastServicer_class :: AtomicBroadcastServicer where
  "AtomicBroadcastServicer_class =
    \<lparr>sv_Broadcast = (\<lambda>tr requests. not_implemented), sv_orderer_Deliver = (\<lambda>tr requests. not_implemented)\<rparr>"

text \<open>
  A method handler is the method with the coders of its messages. A server holds the
  generic handlers added to it, each the name of a service and the handlers of its methods.
\<close>

record ('q, 'r, 'm) method_handler =
  mh_method :: 'm
  request_deserializer :: "bytes \<Rightarrow> 'q option"
  response_serializer :: "'r \<Rightarrow> bytes"

datatype rpc_handler =
    ProposalHandler "(SignedProposal, ProposalResponse, (SignedProposal, ProposalResponse) unary_method) method_handler"
  | BroadcastHandler "(Envelope, BroadcastResponse, (Envelope, BroadcastResponse) stream_method) method_handler"
  | OrdererDeliverHandler
      "(Envelope, orderer_DeliverResponse, (Envelope, orderer_DeliverResponse) stream_method) method_handler"
  | PeerDeliverHandler "(Envelope, DeliverResponse, (Envelope, DeliverResponse) stream_method) method_handler"

type_synonym grpc_server = "(pystr \<times> (pystr \<times> rpc_handler) list) list"

definition add_EndorserServicer_to_server :: "messages \<Rightarrow> EndorserServicer \<Rightarrow> grpc_server \<Rightarrow> grpc_server" where
  "add_EndorserServicer_to_server M servicer server = server @
    [(lit ''protos.Endorser'',
      [(lit ''ProcessProposal'', ProposalHandler
         \<lparr>mh_method = sv_ProcessProposal servicer, request_deserializer = des (pb_SignedProposal M),
          response_serializer = ser (pb_ProposalResponse M)\<rparr>)])]"

definition add_DeliverServicer_to_server ::
  "runtime \<Rightarrow> messages \<Rightarrow> DeliverServicer \<Rightarrow> grpc_server \<Rightarrow> grpc_server" where
  "add_DeliverServicer_to_server pb M servicer server = server @
    [(lit ''protos.Deliver'',
      [(lit ''Deliver'', PeerDeliverHandler
         \<lparr>mh_method = sv_Deliver servicer, request_deserializer = des (pb_Envelope pb),
          response_serializer = ser (pb_peer_DeliverResponse M)\<rparr>),
       (lit ''DeliverFiltered'', PeerDeliverHandler
         \<lparr>mh_method = sv_DeliverFiltered servicer, request_deserializer = des (pb_Envelope pb),
          response_serializer = ser (pb_peer_DeliverResponse M)\<rparr>)])]"

definition add_AtomicBroadcastServicer_to_server ::
  "runtime \<Rightarrow> messages \<Rightarrow> AtomicBroadcastServicer \<Rightarrow> grpc_server \<Rightarrow> grpc_server" where
  "add_AtomicBroadcastServicer_to_server pb M servicer server = server @
    [(lit ''orderer.AtomicBroadcast'',
      [(lit ''Broadcast'', BroadcastHandler
         \<lparr>mh_method = sv_Broadcast servicer, request_deserializer = des (pb_Envelope pb),
          response_serializer = ser (pb_BroadcastResponse M)\<rparr>),
       (lit ''Deliver'', OrdererDeliverHandler
         \<lparr>mh_method = sv_orderer_Deliver servicer, request_deserializer = des (pb_Envelope pb),
          response_serializer = ser (pb_orderer_DeliverResponse M)\<rparr>)])]"

section \<open>The contract of gRPC\<close>

text \<open>A method is called by the path \<open>/service/method\<close>; the first handler added for it serves it.\<close>

definition handler_of :: "(pystr \<times> (pystr \<times> 'h) list) list \<Rightarrow> pystr \<Rightarrow> 'h option" where
  "handler_of server path =
    map_of (concat (map (\<lambda>(service, methods).
      map (\<lambda>(name, h). (lit ''/'' @ service @ lit ''/'' @ name, h)) methods) server)) path"

fun proposal_handler where
  "proposal_handler (Some (ProposalHandler h)) = Some h"
| "proposal_handler _ = None"

fun broadcast_handler where
  "broadcast_handler (Some (BroadcastHandler h)) = Some h"
| "broadcast_handler _ = None"

fun orderer_deliver_handler where
  "orderer_deliver_handler (Some (OrdererDeliverHandler h)) = Some h"
| "orderer_deliver_handler _ = None"

fun peer_deliver_handler where
  "peer_deliver_handler (Some (PeerDeliverHandler h)) = Some h"
| "peer_deliver_handler _ = None"

text \<open>
  What is documented of a call whose path has a handler \<open>h\<close> on the server at the other end of
  the channel: the handler's method gets the request that was serialized by the client and
  parsed by the server, and the client gets the response that was serialized by the server
  and parsed by the client. A method that raises after it gave the context a status makes
  the call fail with that status. Nothing is assumed of messages that cannot be parsed.
\<close>

fun unary_result :: "'r served \<Rightarrow> 'r outcome" where
  "unary_result (Inr r, context) = Returned r"
| "unary_result (Inl e, context) = Raised (RpcError (the (rc_code context)) (the (rc_details context)))"

fun stream_result :: "nat \<Rightarrow> 'r stream served \<Rightarrow> 'r stream" where
  "stream_result delay (Inr rs, context) = rs"
| "stream_result delay (Inl e, context) =
    ([], delay, Failed (RpcError (the (rc_code context)) (the (rc_details context))))"

fun gives_status :: "'r served \<Rightarrow> bool" where
  "gives_status (Inr r, context) = True"
| "gives_status (Inl e, context) = (rc_code context \<noteq> None \<and> rc_details context \<noteq> None)"

definition unary_contract ::
  "('q, 'r) multicallable \<Rightarrow> ('q, 'r, ('q, 'r) unary_method) method_handler \<Rightarrow>
    trace \<Rightarrow> 'q \<Rightarrow> 'r outcome \<Rightarrow> bool" where
  "unary_contract mc h tr q oc \<longleftrightarrow>
    (let res = mh_method h tr q new_context in
     request_deserializer h (request_serializer mc q) = Some q \<and> gives_status res \<and>
     (\<forall>r. fst res = Inr r \<longrightarrow> response_deserializer mc (response_serializer h r) = Some r) \<longrightarrow>
     oc = unary_result res)"

definition stream_contract ::
  "('q, 'r) multicallable \<Rightarrow> ('q, 'r, ('q, 'r) stream_method) method_handler \<Rightarrow>
    nat \<Rightarrow> trace \<Rightarrow> 'q list \<Rightarrow> 'r stream \<Rightarrow> bool" where
  "stream_contract mc h delay tr qs s \<longleftrightarrow>
    (let res = mh_method h tr qs new_context in
     (\<forall>q \<in> set qs. request_deserializer h (request_serializer mc q) = Some q) \<and> gives_status res \<and>
     (\<forall>rs d r. fst res = Inr rs \<and> (d, r) \<in> set (fst rs) \<longrightarrow>
       response_deserializer mc (response_serializer h r) = Some r) \<longrightarrow>
     s = stream_result delay res)"

definition serves :: "grpc \<Rightarrow> (grpc_channel \<Rightarrow> grpc_server) \<Rightarrow> bool" where
  "serves G server_at \<longleftrightarrow>
    (\<forall>tr mc q h. proposal_handler (handler_of (server_at (mc_channel mc)) (mc_path mc)) = Some h \<longrightarrow>
      unary_contract mc h tr q (call_ProcessProposal G tr mc q)) \<and>
    (\<forall>tr mc qs h. broadcast_handler (handler_of (server_at (mc_channel mc)) (mc_path mc)) = Some h \<longrightarrow>
      stream_contract mc h (failure_delay G tr) tr qs (call_Broadcast G tr mc qs)) \<and>
    (\<forall>tr mc qs h. orderer_deliver_handler (handler_of (server_at (mc_channel mc)) (mc_path mc)) = Some h \<longrightarrow>
      stream_contract mc h (failure_delay G tr) tr qs (call_orderer_Deliver G tr mc qs)) \<and>
    (\<forall>tr mc qs h. peer_deliver_handler (handler_of (server_at (mc_channel mc)) (mc_path mc)) = Some h \<longrightarrow>
      stream_contract mc h (failure_delay G tr) tr qs (call_peer_Deliver G tr mc qs))"

text \<open>
  The services of a node, and the server that has them. What it is to call their methods
  directly, without a connection in between, is \<open>served_sys\<close>; a service that a node does not
  have is called through gRPC there too.
\<close>

record node =
  nd_endorser :: "EndorserServicer option"
  nd_deliver :: "DeliverServicer option"
  nd_broadcast :: "AtomicBroadcastServicer option"

definition add_service :: "('s \<Rightarrow> grpc_server \<Rightarrow> grpc_server) \<Rightarrow> 's option \<Rightarrow> grpc_server \<Rightarrow> grpc_server" where
  "add_service add servicer server = (case servicer of None \<Rightarrow> server | Some s \<Rightarrow> add s server)"

definition node_server :: "runtime \<Rightarrow> messages \<Rightarrow> node \<Rightarrow> grpc_server" where
  "node_server pb M nd =
    add_service (add_AtomicBroadcastServicer_to_server pb M) (nd_broadcast nd)
      (add_service (add_DeliverServicer_to_server pb M) (nd_deliver nd)
        (add_service (add_EndorserServicer_to_server M) (nd_endorser nd) []))"

definition node_ok :: "node \<Rightarrow> bool" where
  "node_ok nd \<longleftrightarrow>
    (\<forall>sv tr sp. nd_endorser nd = Some sv \<longrightarrow> gives_status (sv_ProcessProposal sv tr sp new_context)) \<and>
    (\<forall>sv tr es. nd_deliver nd = Some sv \<longrightarrow> gives_status (sv_Deliver sv tr es new_context) \<and>
      gives_status (sv_DeliverFiltered sv tr es new_context)) \<and>
    (\<forall>sv tr es. nd_broadcast nd = Some sv \<longrightarrow> gives_status (sv_Broadcast sv tr es new_context) \<and>
      gives_status (sv_orderer_Deliver sv tr es new_context))"

fun serve_deliver :: "(grpc_channel \<Rightarrow> node) \<Rightarrow> nat \<Rightarrow> trace \<Rightarrow> deliver_method \<Rightarrow> Envelope \<Rightarrow> DeliverResponse stream option" where
  "serve_deliver nodes delay tr (PeerDeliver p) envelope =
    map_option (\<lambda>sv. stream_result delay (sv_Deliver sv tr [envelope] new_context)) (nd_deliver (nodes (node_channel p)))"
| "serve_deliver nodes delay tr (PeerDeliverFiltered p) envelope =
    map_option (\<lambda>sv. stream_result delay (sv_DeliverFiltered sv tr [envelope] new_context))
      (nd_deliver (nodes (node_channel p)))"
| "serve_deliver nodes delay tr (OrdererDeliver ord) envelope =
    map_option (\<lambda>sv. map_stream read_orderer_response
        (stream_result delay (sv_orderer_Deliver sv tr [envelope] new_context)))
      (nd_broadcast (nodes (node_channel ord)))"

definition served_sys :: "messages \<Rightarrow> grpc \<Rightarrow> (grpc_channel \<Rightarrow> node) \<Rightarrow> sys \<Rightarrow> sys" where
  "served_sys M G nodes S = S\<lparr>
    sys_ProcessProposal := (\<lambda>tr p sp. case nd_endorser (nodes (node_channel p)) of
        Some sv \<Rightarrow> unary_result (sv_ProcessProposal sv tr sp new_context)
      | None \<Rightarrow> sys_ProcessProposal (connected_sys M G S) tr p sp),
    sys_Broadcast := (\<lambda>tr ord envelope. case nd_broadcast (nodes (node_channel ord)) of
        Some sv \<Rightarrow> stream_result (failure_delay G tr) (sv_Broadcast sv tr [envelope] new_context)
      | None \<Rightarrow> sys_Broadcast (connected_sys M G S) tr ord envelope),
    sys_Deliver := (\<lambda>tr m envelope. case serve_deliver nodes (failure_delay G tr) tr m envelope of
        Some s \<Rightarrow> s
      | None \<Rightarrow> sys_Deliver (connected_sys M G S) tr m envelope)\<rparr>"

section \<open>Stubs and servicers fit together\<close>

lemma handler_of_node:
  "proposal_handler (handler_of (node_server pb M nd) (lit ''/protos.Endorser/ProcessProposal'')) =
    map_option (\<lambda>sv. \<lparr>mh_method = sv_ProcessProposal sv, request_deserializer = des (pb_SignedProposal M),
      response_serializer = ser (pb_ProposalResponse M)\<rparr>) (nd_endorser nd)"
  "peer_deliver_handler (handler_of (node_server pb M nd) (lit ''/protos.Deliver/Deliver'')) =
    map_option (\<lambda>sv. \<lparr>mh_method = sv_Deliver sv, request_deserializer = des (pb_Envelope pb),
      response_serializer = ser (pb_peer_DeliverResponse M)\<rparr>) (nd_deliver nd)"
  "peer_deliver_handler (handler_of (node_server pb M nd) (lit ''/protos.Deliver/DeliverFiltered'')) =
    map_option (\<lambda>sv. \<lparr>mh_method = sv_DeliverFiltered sv, request_deserializer = des (pb_Envelope pb),
      response_serializer = ser (pb_peer_DeliverResponse M)\<rparr>) (nd_deliver nd)"
  "broadcast_handler (handler_of (node_server pb M nd) (lit ''/orderer.AtomicBroadcast/Broadcast'')) =
    map_option (\<lambda>sv. \<lparr>mh_method = sv_Broadcast sv, request_deserializer = des (pb_Envelope pb),
      response_serializer = ser (pb_BroadcastResponse M)\<rparr>) (nd_broadcast nd)"
  "orderer_deliver_handler (handler_of (node_server pb M nd) (lit ''/orderer.AtomicBroadcast/Deliver'')) =
    map_option (\<lambda>sv. \<lparr>mh_method = sv_orderer_Deliver sv, request_deserializer = des (pb_Envelope pb),
      response_serializer = ser (pb_orderer_DeliverResponse M)\<rparr>) (nd_broadcast nd)"
  by (cases "nd_endorser nd"; cases "nd_deliver nd"; cases "nd_broadcast nd";
      simp add: handler_of_def node_server_def add_service_def add_EndorserServicer_to_server_def
        add_DeliverServicer_to_server_def add_AtomicBroadcastServicer_to_server_def)+

lemmas stub_defs = peer_endorser_def peer_deliver_def orderer_broadcaster_def EndorserStub_init_def
  DeliverStub_init_def AtomicBroadcastStub_init_def build_envelope_stream_def

lemma coder_inverse: "coder_ok c \<Longrightarrow> des c (ser c m) = Some m"
  by (simp add: coder_ok_def)

lemmas node_handlers = handler_of_node [simplified]

lemma unary_contractD:
  assumes "unary_contract mc h tr q oc" "request_deserializer h (request_serializer mc q) = Some q"
    and "gives_status (mh_method h tr q new_context)"
    and "\<And>r. response_deserializer mc (response_serializer h r) = Some r"
  shows "oc = unary_result (mh_method h tr q new_context)"
  using assms by (simp add: unary_contract_def Let_def)

lemma stream_contractD:
  assumes "stream_contract mc h delay tr qs s" "\<And>q. request_deserializer h (request_serializer mc q) = Some q"
    and "gives_status (mh_method h tr qs new_context)"
    and "\<And>r. response_deserializer mc (response_serializer h r) = Some r"
  shows "s = stream_result delay (mh_method h tr qs new_context)"
  using assms by (simp add: stream_contract_def Let_def)

text \<open>What is assumed of a client and its nodes: the messages' coders, gRPC's contract and
  nodes whose methods give a status before they raise.\<close>

definition wired :: "messages \<Rightarrow> grpc \<Rightarrow> (grpc_channel \<Rightarrow> node) \<Rightarrow> runtime \<Rightarrow> bool" where
  "wired M G nodes pb \<longleftrightarrow> messages_ok M \<and> runtime_ok pb \<and>
    serves G (\<lambda>channel. node_server pb M (nodes channel)) \<and> (\<forall>channel. node_ok (nodes channel))"

lemma wired_coders [simp]:
  assumes "wired M G nodes pb"
  shows "des (pb_SignedProposal M) (ser (pb_SignedProposal M) m1) = Some m1"
    "des (pb_ProposalResponse M) (ser (pb_ProposalResponse M) m2) = Some m2"
    "des (pb_BroadcastResponse M) (ser (pb_BroadcastResponse M) m3) = Some m3"
    "des (pb_orderer_DeliverResponse M) (ser (pb_orderer_DeliverResponse M) m4) = Some m4"
    "des (pb_peer_DeliverResponse M) (ser (pb_peer_DeliverResponse M) m5) = Some m5"
    "des (pb_Envelope pb) (ser (pb_Envelope pb) m6) = Some m6"
  using assms by (simp_all add: wired_def messages_ok_def coder_inverse)

lemma wired_status:
  assumes "wired M G nodes pb"
  shows "nd_endorser (nodes c) = Some se \<Longrightarrow> gives_status (sv_ProcessProposal se tr sp new_context)"
    "nd_deliver (nodes c) = Some sd \<Longrightarrow> gives_status (sv_Deliver sd tr es new_context)"
    "nd_deliver (nodes c) = Some sd \<Longrightarrow> gives_status (sv_DeliverFiltered sd tr es new_context)"
    "nd_broadcast (nodes c) = Some sb \<Longrightarrow> gives_status (sv_Broadcast sb tr es new_context)"
    "nd_broadcast (nodes c) = Some sb \<Longrightarrow> gives_status (sv_orderer_Deliver sb tr es new_context)"
  using assms by (auto simp: wired_def node_ok_def)

text \<open>The five methods, called through their stubs.\<close>

lemma served_ProcessProposal:
  assumes "wired M G nodes pb" "nd_endorser (nodes (node_channel p)) = Some sv"
  shows "call_ProcessProposal G tr (es_ProcessProposal (peer_endorser M p)) sp =
    unary_result (sv_ProcessProposal sv tr sp new_context)"
proof -
  let ?mc = "es_ProcessProposal (peer_endorser M p)"
  let ?h = "\<lparr>mh_method = sv_ProcessProposal sv, request_deserializer = des (pb_SignedProposal M),
    response_serializer = ser (pb_ProposalResponse M)\<rparr>"
  have "proposal_handler (handler_of (node_server pb M (nodes (mc_channel ?mc))) (mc_path ?mc)) = Some ?h"
    using assms(2) by (simp add: stub_defs node_handlers)
  then have "unary_contract ?mc ?h tr sp (call_ProcessProposal G tr ?mc sp)"
    using assms(1) unfolding wired_def serves_def by blast
  from unary_contractD [OF this] show ?thesis
    using wired_status(1) [OF assms] wired_coders [OF assms(1)] by (simp add: stub_defs)
qed

lemma served_Broadcast:
  assumes "wired M G nodes pb" "nd_broadcast (nodes (node_channel ord)) = Some sv"
  shows "call_Broadcast G tr (ab_Broadcast (orderer_broadcaster pb M ord)) es =
    stream_result (failure_delay G tr) (sv_Broadcast sv tr es new_context)"
proof -
  let ?mc = "ab_Broadcast (orderer_broadcaster pb M ord)"
  let ?h = "\<lparr>mh_method = sv_Broadcast sv, request_deserializer = des (pb_Envelope pb),
    response_serializer = ser (pb_BroadcastResponse M)\<rparr>"
  have "broadcast_handler (handler_of (node_server pb M (nodes (mc_channel ?mc))) (mc_path ?mc)) = Some ?h"
    using assms(2) by (simp add: stub_defs node_handlers)
  then have "stream_contract ?mc ?h (failure_delay G tr) tr es (call_Broadcast G tr ?mc es)"
    using assms(1) unfolding wired_def serves_def by blast
  from stream_contractD [OF this] show ?thesis
    using wired_status(4) [OF assms] wired_coders [OF assms(1)] by (simp add: stub_defs)
qed

lemma served_orderer_Deliver:
  assumes "wired M G nodes pb" "nd_broadcast (nodes (node_channel ord)) = Some sv"
  shows "call_orderer_Deliver G tr (ab_Deliver (orderer_broadcaster pb M ord)) es =
    stream_result (failure_delay G tr) (sv_orderer_Deliver sv tr es new_context)"
proof -
  let ?mc = "ab_Deliver (orderer_broadcaster pb M ord)"
  let ?h = "\<lparr>mh_method = sv_orderer_Deliver sv, request_deserializer = des (pb_Envelope pb),
    response_serializer = ser (pb_orderer_DeliverResponse M)\<rparr>"
  have "orderer_deliver_handler (handler_of (node_server pb M (nodes (mc_channel ?mc))) (mc_path ?mc)) = Some ?h"
    using assms(2) by (simp add: stub_defs node_handlers)
  then have "stream_contract ?mc ?h (failure_delay G tr) tr es (call_orderer_Deliver G tr ?mc es)"
    using assms(1) unfolding wired_def serves_def by blast
  from stream_contractD [OF this] show ?thesis
    using wired_status(5) [OF assms] wired_coders [OF assms(1)] by (simp add: stub_defs)
qed

lemma served_peer_Deliver:
  assumes "wired M G nodes pb" "nd_deliver (nodes (node_channel p)) = Some sv"
  shows "call_peer_Deliver G tr (ds_Deliver (peer_deliver pb M p)) es =
      stream_result (failure_delay G tr) (sv_Deliver sv tr es new_context)"
    and "call_peer_Deliver G tr (ds_DeliverFiltered (peer_deliver pb M p)) es =
      stream_result (failure_delay G tr) (sv_DeliverFiltered sv tr es new_context)"
proof -
  let ?mc = "ds_Deliver (peer_deliver pb M p)" and ?mf = "ds_DeliverFiltered (peer_deliver pb M p)"
  let ?h = "\<lambda>m. \<lparr>mh_method = m, request_deserializer = des (pb_Envelope pb),
    response_serializer = ser (pb_peer_DeliverResponse M)\<rparr>"
  have "peer_deliver_handler (handler_of (node_server pb M (nodes (mc_channel ?mc))) (mc_path ?mc)) = Some (?h (sv_Deliver sv))"
    "peer_deliver_handler (handler_of (node_server pb M (nodes (mc_channel ?mf))) (mc_path ?mf)) =
      Some (?h (sv_DeliverFiltered sv))"
    using assms(2) by (simp_all add: stub_defs node_handlers)
  then have "stream_contract ?mc (?h (sv_Deliver sv)) (failure_delay G tr) tr es (call_peer_Deliver G tr ?mc es)"
    "stream_contract ?mf (?h (sv_DeliverFiltered sv)) (failure_delay G tr) tr es (call_peer_Deliver G tr ?mf es)"
    using assms(1) unfolding wired_def serves_def by blast+
  from this [THEN stream_contractD] show
    "call_peer_Deliver G tr ?mc es = stream_result (failure_delay G tr) (sv_Deliver sv tr es new_context)"
    "call_peer_Deliver G tr ?mf es = stream_result (failure_delay G tr) (sv_DeliverFiltered sv tr es new_context)"
    using wired_status(2,3) [OF assms] wired_coders [OF assms(1)] by (simp_all add: stub_defs)
qed

lemma serve_deliver_connected:
  assumes "wired M G nodes pb" "serve_deliver nodes (failure_delay G tr) tr m envelope = Some s"
  shows "deliver_call M G pb tr m envelope = s"
  using assms served_peer_Deliver [OF assms(1)] served_orderer_Deliver [OF assms(1)]
  by (cases m) (auto simp: build_envelope_stream_def PeerEvents_build_stream_def
      PeerFilteredEvents_build_stream_def OrdererEvents_build_stream_def)

lemma connected_served:
  assumes "wired M G nodes (sys_pb S)"
  shows "connected_sys M G S = served_sys M G nodes S"
  using served_ProcessProposal [OF assms] served_Broadcast [OF assms] serve_deliver_connected [OF assms]
  by (auto simp: connected_sys_def served_sys_def build_envelope_stream_def fun_eq_iff split: option.split intro!: arg_cong)

text \<open>
  C30. The client's stubs and the servers' handlers fit together. If the messages' coders invert
  each other and gRPC keeps its contract, a client behaves in every respect as if it called
  the methods of its nodes directly: each of the five methods reaches the servicer's method of
  the same name with exactly the message given to the stub, and its responses, or the status it
  set before it raised, arrive unchanged.
\<close>

theorem connected_sys_served:
  assumes "wired M G nodes (sys_pb S)"
  shows "connected_sys M G S = served_sys M G nodes S"
  by (rule connected_served [OF assms])

section \<open>Services that are not implemented\<close>

lemma base_class_result [simp]:
  "unary_result (not_implemented new_context) =
    Raised (RpcError (lit ''StatusCode.UNIMPLEMENTED'') (lit ''Method not implemented!''))"
  "stream_result delay (not_implemented new_context) =
    ([], delay, Failed (RpcError (lit ''StatusCode.UNIMPLEMENTED'') (lit ''Method not implemented!'')))"
  by (simp_all add: not_implemented_def)

lemma broadcast_loop_error:
  "ords \<noteq> [] \<Longrightarrow> broadcast_loop S envelope tx_id err ords = broadcast_loop S envelope tx_id err' ords"
  by (cases ords) simp_all

text \<open>
  A node that registers a servicer without overriding its methods answers every call with
  the status \<open>UNIMPLEMENTED\<close>, which the client takes for a failed connection: a proposal to it
  fails with that error, and an envelope goes on to the next orderer.
\<close>

theorem unimplemented_service:
  assumes "wired M G nodes (sys_pb S)"
    and "nd_endorser (nodes (node_channel p)) = Some EndorserServicer_class"
    and "nd_broadcast (nodes (node_channel ord)) = Some AtomicBroadcastServicer_class" "ords \<noteq> []"
  shows "process_proposal_on_peer (connected_sys M G S) sp p tr =
      (Raised (BlockchainConnectionError (lit ''StatusCode.UNIMPLEMENTED'') (lit ''Method not implemented!'')),
       tr @ [ProposalSent p sp])"
    and "broadcast_to_orderers (connected_sys M G S) envelope (ord # ords) tx_id tr =
      broadcast_to_orderers (connected_sys M G S) envelope ords tx_id (tr @ [EnvelopeBroadcast ord envelope])"
proof -
  let ?W = "connected_sys M G S"
  have "sys_ProcessProposal ?W tr p sp =
      Raised (RpcError (lit ''StatusCode.UNIMPLEMENTED'') (lit ''Method not implemented!''))"
    unfolding connected_served [OF assms(1)] by (simp add: served_sys_def assms(2) EndorserServicer_class_def)
  then show "process_proposal_on_peer ?W sp p tr =
      (Raised (BlockchainConnectionError (lit ''StatusCode.UNIMPLEMENTED'') (lit ''Method not implemented!'')),
       tr @ [ProposalSent p sp])"
    by (simp add: process_proposal_eq)
  have "sys_Broadcast ?W tr ord envelope = ([], failure_delay G tr,
      Failed (RpcError (lit ''StatusCode.UNIMPLEMENTED'') (lit ''Method not implemented!'')))"
    unfolding connected_served [OF assms(1)] by (simp add: served_sys_def assms(3) AtomicBroadcastServicer_class_def)
  then have "broadcast_to_orderers ?W envelope (ord # ords) tx_id tr =
      broadcast_loop ?W envelope tx_id (Some (BlockchainConnectionError
        (lit ''StatusCode.UNIMPLEMENTED'') (lit ''Method not implemented!''))) ords (tr @ [EnvelopeBroadcast ord envelope])"
    by (subst broadcast_to_orderers_Cons) (simp_all add: broadcast_to_orderer_eq try_io_def del: broadcast_loop.simps(1))
  also have "\<dots> = broadcast_loop ?W envelope tx_id None ords (tr @ [EnvelopeBroadcast ord envelope])"
    by (subst broadcast_loop_error [OF assms(4)]) (rule refl)
  finally show "broadcast_to_orderers ?W envelope (ord # ords) tx_id tr =
      broadcast_to_orderers ?W envelope ords tx_id (tr @ [EnvelopeBroadcast ord envelope])"
    unfolding broadcast_to_orderers_Cons [OF assms(4)] .
qed

end
