(* ===== verification/Reference_Connection.thy ===== *)
theory Reference_Connection
  imports Stubs
begin

text \<open>
  A concrete gRPC and concrete coders of the messages that go over connections, for which the
  contract assumed in Stubs holds, and the concrete world the theorems on stubs are applied
  to. As in \<open>Reference_Runtime\<close>, it is not the wire format or the library of that name, which
  are outside the repository.
\<close>

section \<open>Coders\<close>

definition wire_of_SignedProposal :: "SignedProposal \<Rightarrow> wire" where
  "wire_of_SignedProposal m =
    WSeq [WBytes (sp_proposal_bytes m),
      WBytes (sp_signature m)]"

definition SignedProposal_of_wire :: "wire \<Rightarrow> SignedProposal option" where
  "SignedProposal_of_wire w = (case w of WSeq [w0, w1] \<Rightarrow>
      Option.bind (un_bytes w0) (\<lambda>x0.
      Option.bind (un_bytes w1) (\<lambda>x1.
      Some \<lparr>sp_proposal_bytes = x0, sp_signature = x1\<rparr>))
    | _ \<Rightarrow> None)"

lemma SignedProposal_of_wire [wire_laws]: "SignedProposal_of_wire (wire_of_SignedProposal m) = Some m"
  by (simp add: SignedProposal_of_wire_def wire_of_SignedProposal_def wire_laws)

definition wire_of_Response :: "Response \<Rightarrow> wire" where
  "wire_of_Response m =
    WSeq [WInt (rsp_status m),
      WText (rsp_message m),
      WBytes (rsp_payload m)]"

definition Response_of_wire :: "wire \<Rightarrow> Response option" where
  "Response_of_wire w = (case w of WSeq [w0, w1, w2] \<Rightarrow>
      Option.bind (un_int w0) (\<lambda>x0.
      Option.bind (un_text w1) (\<lambda>x1.
      Option.bind (un_bytes w2) (\<lambda>x2.
      Some \<lparr>rsp_status = x0, rsp_message = x1, rsp_payload = x2\<rparr>)))
    | _ \<Rightarrow> None)"

lemma Response_of_wire [wire_laws]: "Response_of_wire (wire_of_Response m) = Some m"
  by (simp add: Response_of_wire_def wire_of_Response_def wire_laws)

definition wire_of_ProposalResponse :: "ProposalResponse \<Rightarrow> wire" where
  "wire_of_ProposalResponse m =
    WSeq [WInt (pr_version m),
      wire_of_Timestamp (pr_timestamp m),
      wire_of_Response (pr_response m),
      WBytes (pr_payload m),
      wire_of_Endorsement (pr_endorsement m)]"

definition ProposalResponse_of_wire :: "wire \<Rightarrow> ProposalResponse option" where
  "ProposalResponse_of_wire w = (case w of WSeq [w0, w1, w2, w3, w4] \<Rightarrow>
      Option.bind (un_int w0) (\<lambda>x0.
      Option.bind (Timestamp_of_wire w1) (\<lambda>x1.
      Option.bind (Response_of_wire w2) (\<lambda>x2.
      Option.bind (un_bytes w3) (\<lambda>x3.
      Option.bind (Endorsement_of_wire w4) (\<lambda>x4.
      Some \<lparr>pr_version = x0, pr_timestamp = x1, pr_response = x2, pr_payload = x3, pr_endorsement = x4\<rparr>)))))
    | _ \<Rightarrow> None)"

lemma ProposalResponse_of_wire [wire_laws]: "ProposalResponse_of_wire (wire_of_ProposalResponse m) = Some m"
  by (simp add: ProposalResponse_of_wire_def wire_of_ProposalResponse_def wire_laws)

definition wire_of_BroadcastResponse :: "BroadcastResponse \<Rightarrow> wire" where
  "wire_of_BroadcastResponse m =
    WSeq [WInt (br_status m),
      WText (br_info m)]"

definition BroadcastResponse_of_wire :: "wire \<Rightarrow> BroadcastResponse option" where
  "BroadcastResponse_of_wire w = (case w of WSeq [w0, w1] \<Rightarrow>
      Option.bind (un_int w0) (\<lambda>x0.
      Option.bind (un_text w1) (\<lambda>x1.
      Some \<lparr>br_status = x0, br_info = x1\<rparr>))
    | _ \<Rightarrow> None)"

lemma BroadcastResponse_of_wire [wire_laws]: "BroadcastResponse_of_wire (wire_of_BroadcastResponse m) = Some m"
  by (simp add: BroadcastResponse_of_wire_def wire_of_BroadcastResponse_def wire_laws)

definition wire_of_ChaincodeEvent :: "ChaincodeEvent \<Rightarrow> wire" where
  "wire_of_ChaincodeEvent m =
    WSeq [WText (ce_chaincode_id m),
      WText (ce_tx_id m),
      WText (ce_event_name m),
      WBytes (ce_payload m)]"

definition ChaincodeEvent_of_wire :: "wire \<Rightarrow> ChaincodeEvent option" where
  "ChaincodeEvent_of_wire w = (case w of WSeq [w0, w1, w2, w3] \<Rightarrow>
      Option.bind (un_text w0) (\<lambda>x0.
      Option.bind (un_text w1) (\<lambda>x1.
      Option.bind (un_text w2) (\<lambda>x2.
      Option.bind (un_bytes w3) (\<lambda>x3.
      Some \<lparr>ce_chaincode_id = x0, ce_tx_id = x1, ce_event_name = x2, ce_payload = x3\<rparr>))))
    | _ \<Rightarrow> None)"

lemma ChaincodeEvent_of_wire [wire_laws]: "ChaincodeEvent_of_wire (wire_of_ChaincodeEvent m) = Some m"
  by (simp add: ChaincodeEvent_of_wire_def wire_of_ChaincodeEvent_def wire_laws)

definition wire_of_FilteredChaincodeAction :: "FilteredChaincodeAction \<Rightarrow> wire" where
  "wire_of_FilteredChaincodeAction m =
    WSeq [wire_of_ChaincodeEvent (fca_chaincode_event m)]"

definition FilteredChaincodeAction_of_wire :: "wire \<Rightarrow> FilteredChaincodeAction option" where
  "FilteredChaincodeAction_of_wire w = (case w of WSeq [w0] \<Rightarrow>
      Option.bind (ChaincodeEvent_of_wire w0) (\<lambda>x0.
      Some \<lparr>fca_chaincode_event = x0\<rparr>)
    | _ \<Rightarrow> None)"

lemma FilteredChaincodeAction_of_wire [wire_laws]: "FilteredChaincodeAction_of_wire (wire_of_FilteredChaincodeAction m) = Some m"
  by (simp add: FilteredChaincodeAction_of_wire_def wire_of_FilteredChaincodeAction_def wire_laws)

definition wire_of_FilteredTransactionActions :: "FilteredTransactionActions \<Rightarrow> wire" where
  "wire_of_FilteredTransactionActions m =
    WSeq [WSeq (map wire_of_FilteredChaincodeAction (fta_chaincode_actions m))]"

definition FilteredTransactionActions_of_wire :: "wire \<Rightarrow> FilteredTransactionActions option" where
  "FilteredTransactionActions_of_wire w = (case w of WSeq [w0] \<Rightarrow>
      Option.bind (un_list FilteredChaincodeAction_of_wire w0) (\<lambda>x0.
      Some \<lparr>fta_chaincode_actions = x0\<rparr>)
    | _ \<Rightarrow> None)"

lemma FilteredTransactionActions_of_wire [wire_laws]: "FilteredTransactionActions_of_wire (wire_of_FilteredTransactionActions m) = Some m"
  by (simp add: FilteredTransactionActions_of_wire_def wire_of_FilteredTransactionActions_def wire_laws)

definition wire_of_FilteredTransaction :: "FilteredTransaction \<Rightarrow> wire" where
  "wire_of_FilteredTransaction m =
    WSeq [WText (ft_txid m),
      WInt (ft_type m),
      WInt (ft_tx_validation_code m),
      wire_of_FilteredTransactionActions (ft_transaction_actions m)]"

definition FilteredTransaction_of_wire :: "wire \<Rightarrow> FilteredTransaction option" where
  "FilteredTransaction_of_wire w = (case w of WSeq [w0, w1, w2, w3] \<Rightarrow>
      Option.bind (un_text w0) (\<lambda>x0.
      Option.bind (un_int w1) (\<lambda>x1.
      Option.bind (un_int w2) (\<lambda>x2.
      Option.bind (FilteredTransactionActions_of_wire w3) (\<lambda>x3.
      Some \<lparr>ft_txid = x0, ft_type = x1, ft_tx_validation_code = x2, ft_transaction_actions = x3\<rparr>))))
    | _ \<Rightarrow> None)"

lemma FilteredTransaction_of_wire [wire_laws]: "FilteredTransaction_of_wire (wire_of_FilteredTransaction m) = Some m"
  by (simp add: FilteredTransaction_of_wire_def wire_of_FilteredTransaction_def wire_laws)

definition wire_of_FilteredBlockProto :: "FilteredBlockProto \<Rightarrow> wire" where
  "wire_of_FilteredBlockProto m =
    WSeq [WText (fb_channel_id m),
      WInt (fb_number m),
      WSeq (map wire_of_FilteredTransaction (fb_filtered_transactions m))]"

definition FilteredBlockProto_of_wire :: "wire \<Rightarrow> FilteredBlockProto option" where
  "FilteredBlockProto_of_wire w = (case w of WSeq [w0, w1, w2] \<Rightarrow>
      Option.bind (un_text w0) (\<lambda>x0.
      Option.bind (un_int w1) (\<lambda>x1.
      Option.bind (un_list FilteredTransaction_of_wire w2) (\<lambda>x2.
      Some \<lparr>fb_channel_id = x0, fb_number = x1, fb_filtered_transactions = x2\<rparr>)))
    | _ \<Rightarrow> None)"

lemma FilteredBlockProto_of_wire [wire_laws]: "FilteredBlockProto_of_wire (wire_of_FilteredBlockProto m) = Some m"
  by (simp add: FilteredBlockProto_of_wire_def wire_of_FilteredBlockProto_def wire_laws)

fun wire_of_DeliverResponse :: "DeliverResponse \<Rightarrow> wire" where
  "wire_of_DeliverResponse (DeliverStatus s) = WInt s"
| "wire_of_DeliverResponse (DeliverBlock b) = WSeq [wire_of_Block b]"
| "wire_of_DeliverResponse (DeliverFilteredBlock b) = WSeq [WInt 0, wire_of_FilteredBlockProto b]"

fun DeliverResponse_of_wire :: "wire \<Rightarrow> DeliverResponse option" where
  "DeliverResponse_of_wire (WInt s) = Some (DeliverStatus s)"
| "DeliverResponse_of_wire (WSeq [w]) = map_option DeliverBlock (Block_of_wire w)"
| "DeliverResponse_of_wire (WSeq [v, w]) = map_option DeliverFilteredBlock (FilteredBlockProto_of_wire w)"
| "DeliverResponse_of_wire _ = None"

lemma DeliverResponse_of_wire [wire_laws]: "DeliverResponse_of_wire (wire_of_DeliverResponse m) = Some m"
  by (cases m) (simp_all add: wire_laws)

fun wire_of_orderer_DeliverResponse :: "orderer_DeliverResponse \<Rightarrow> wire" where
  "wire_of_orderer_DeliverResponse (OrdererStatus s) = WInt s"
| "wire_of_orderer_DeliverResponse (OrdererBlock b) = WSeq [wire_of_Block b]"

fun orderer_DeliverResponse_of_wire :: "wire \<Rightarrow> orderer_DeliverResponse option" where
  "orderer_DeliverResponse_of_wire (WInt s) = Some (OrdererStatus s)"
| "orderer_DeliverResponse_of_wire (WSeq [w]) = map_option OrdererBlock (Block_of_wire w)"
| "orderer_DeliverResponse_of_wire _ = None"

lemma orderer_DeliverResponse_of_wire [wire_laws]:
  "orderer_DeliverResponse_of_wire (wire_of_orderer_DeliverResponse m) = Some m"
  by (cases m) (simp_all add: wire_laws)

definition reference_messages :: messages where
  "reference_messages =
    \<lparr>pb_SignedProposal = wire_coder wire_of_SignedProposal SignedProposal_of_wire,
     pb_ProposalResponse = wire_coder wire_of_ProposalResponse ProposalResponse_of_wire,
     pb_BroadcastResponse = wire_coder wire_of_BroadcastResponse BroadcastResponse_of_wire,
     pb_orderer_DeliverResponse = wire_coder wire_of_orderer_DeliverResponse orderer_DeliverResponse_of_wire,
     pb_peer_DeliverResponse = wire_coder wire_of_DeliverResponse DeliverResponse_of_wire\<rparr>"

lemma reference_messages_ok: "messages_ok reference_messages"
  by (simp add: messages_ok_def reference_messages_def wire_coder_ok wire_laws)

section \<open>Calls that are delivered at once\<close>

definition rpc_failure :: "string \<Rightarrow> string \<Rightarrow> exn" where
  "rpc_failure code details = RpcError (lit code) (lit details)"

definition direct_unary ::
  "('q, 'r, ('q, 'r) unary_method) method_handler option \<Rightarrow> trace \<Rightarrow> ('q, 'r) multicallable \<Rightarrow> 'q \<Rightarrow> 'r outcome" where
  "direct_unary handler tr mc q = (case handler of
      None \<Rightarrow> Raised (rpc_failure ''StatusCode.UNIMPLEMENTED'' ''Method not found!'')
    | Some h \<Rightarrow> (case request_deserializer h (request_serializer mc q) of
        None \<Rightarrow> Raised (rpc_failure ''StatusCode.INTERNAL'' ''Exception deserializing request!'')
      | Some q' \<Rightarrow> (case unary_result (mh_method h tr q' new_context) of
          Returned r \<Rightarrow> (case response_deserializer mc (response_serializer h r) of
              None \<Rightarrow> Raised (rpc_failure ''StatusCode.INTERNAL'' ''Exception deserializing response!'')
            | Some r' \<Rightarrow> Returned r')
        | oc \<Rightarrow> oc)))"

fun direct_responses :: "('r \<Rightarrow> 's option) \<Rightarrow> (nat \<times> 'r) list \<Rightarrow> nat \<times> stream_end \<Rightarrow> 's stream" where
  "direct_responses f [] fin = ([], fin)"
| "direct_responses f ((d, r) # rs) fin = (case f r of
      None \<Rightarrow> ([], d, Failed (rpc_failure ''StatusCode.INTERNAL'' ''Exception deserializing response!''))
    | Some s \<Rightarrow> (case direct_responses f rs fin of (ss, fin') \<Rightarrow> ((d, s) # ss, fin')))"

definition direct_stream ::
  "('q, 'r, ('q, 'r) stream_method) method_handler option \<Rightarrow> trace \<Rightarrow> ('q, 'r) multicallable \<Rightarrow> 'q list \<Rightarrow> 'r stream" where
  "direct_stream handler tr mc qs = (case handler of
      None \<Rightarrow> ([], 0, Failed (rpc_failure ''StatusCode.UNIMPLEMENTED'' ''Method not found!''))
    | Some h \<Rightarrow> (case those (map (\<lambda>q. request_deserializer h (request_serializer mc q)) qs) of
        None \<Rightarrow> ([], 0, Failed (rpc_failure ''StatusCode.INTERNAL'' ''Exception deserializing request!''))
      | Some qs' \<Rightarrow> (case stream_result 0 (mh_method h tr qs' new_context) of
          (rs, fin) \<Rightarrow> direct_responses (\<lambda>r. response_deserializer mc (response_serializer h r)) rs fin)))"

definition direct_grpc :: "(grpc_channel \<Rightarrow> grpc_server) \<Rightarrow> grpc" where
  "direct_grpc server_at =
    (let handler = \<lambda>channel path. handler_of (server_at channel) path in
     \<lparr>call_ProcessProposal = (\<lambda>tr mc. direct_unary (proposal_handler (handler (mc_channel mc) (mc_path mc))) tr mc),
      call_Broadcast = (\<lambda>tr mc. direct_stream (broadcast_handler (handler (mc_channel mc) (mc_path mc))) tr mc),
      call_orderer_Deliver = (\<lambda>tr mc. direct_stream (orderer_deliver_handler (handler (mc_channel mc) (mc_path mc))) tr mc),
      call_peer_Deliver = (\<lambda>tr mc. direct_stream (peer_deliver_handler (handler (mc_channel mc) (mc_path mc))) tr mc),
      failure_delay = (\<lambda>tr. 0)\<rparr>)"

lemma direct_responses_all:
  "\<forall>(d, r) \<in> set rs. f r = Some r \<Longrightarrow> direct_responses f rs fin = (rs, fin)"
  by (induction rs) auto

lemma those_same: "(\<And>x. x \<in> set xs \<Longrightarrow> f x = Some x) \<Longrightarrow> those (map f xs) = Some xs"
  by (induction xs) auto

lemma direct_unary_contract: "unary_contract mc h tr q (direct_unary (Some h) tr mc q)"
  by (cases "mh_method h tr q new_context" rule: unary_result.cases)
    (auto simp: unary_contract_def direct_unary_def Let_def)

lemma direct_stream_contract: "stream_contract mc h 0 tr qs (direct_stream (Some h) tr mc qs)"
  by (cases "mh_method h tr qs new_context" rule: unary_result.cases)
    (auto simp: stream_contract_def direct_stream_def Let_def those_same intro!: direct_responses_all)

lemma direct_grpc_serves: "serves (direct_grpc server_at) server_at"
  by (auto simp: serves_def direct_grpc_def Let_def direct_unary_contract direct_stream_contract)

section \<open>A concrete network\<close>

text \<open>One peer that endorses everything, one orderer that accepts everything and one whose
  services are not implemented.\<close>

definition grpc_peer :: Peer where
  "grpc_peer = (example_peer ''p1'')\<lparr>grpc_channel := Some (InsecureChannel (lit ''p1'') [])\<rparr>"

definition grpc_orderer :: "string \<Rightarrow> Orderer" where
  "grpc_orderer n = (example_orderer n)\<lparr>grpc_channel := Some (InsecureChannel (lit n) [])\<rparr>"

definition example_nodes :: "grpc_channel \<Rightarrow> node" where
  "example_nodes channel =
    (if channel = InsecureChannel (lit ''p1'') [] then
       \<lparr>nd_endorser = Some \<lparr>sv_ProcessProposal = (\<lambda>tr sp context. (Inr ((example_response 200 [])\<lparr>pr_payload := sp_proposal_bytes sp\<rparr>), context))\<rparr>,
        nd_deliver = Some DeliverServicer_class, nd_broadcast = None\<rparr>
     else if channel = InsecureChannel (lit ''o1'') [] then
       \<lparr>nd_endorser = Some EndorserServicer_class, nd_deliver = None, nd_broadcast = Some AtomicBroadcastServicer_class\<rparr>
     else
       \<lparr>nd_endorser = None, nd_deliver = None,
        nd_broadcast = Some (AtomicBroadcastServicer_class
          \<lparr>sv_Broadcast := (\<lambda>tr es context. (Inr (map (\<lambda>e. (3, \<lparr>br_status = 200, br_info = []\<rparr>)) es, 4, Closed), context))\<rparr>)\<rparr>)"

lemma example_nodes_ok: "node_ok (example_nodes channel)"
  by (simp add: node_ok_def example_nodes_def EndorserServicer_class_def DeliverServicer_class_def
      AtomicBroadcastServicer_class_def not_implemented_def)

definition example_grpc :: grpc where
  "example_grpc = direct_grpc (\<lambda>channel. node_server (sys_pb example_sys) reference_messages (example_nodes channel))"

lemma example_wired: "wired reference_messages example_grpc example_nodes (sys_pb example_sys)"
  by (simp add: wired_def reference_messages_ok example_grpc_def direct_grpc_serves example_nodes_ok)

theorem connected_sys_served_witness:
  "sys_ProcessProposal (connected_sys reference_messages example_grpc example_sys) [] grpc_peer
      \<lparr>sp_proposal_bytes = [1], sp_signature = [2]\<rparr> = Returned ((example_response 200 [])\<lparr>pr_payload := [1]\<rparr>) \<and>
   sys_Broadcast (connected_sys reference_messages example_grpc example_sys) [] (grpc_orderer ''o2'')
      \<lparr>env_payload = [1], env_signature = [2]\<rparr> = ([(3, \<lparr>br_status = 200, br_info = []\<rparr>)], 4, Closed)"
  unfolding connected_sys_served [OF example_wired]
  by (simp add: served_sys_def node_channel_def grpc_peer_def grpc_orderer_def example_nodes_def)

theorem unimplemented_service_witness:
  "broadcast_to_orderers (connected_sys reference_messages example_grpc example_sys)
      \<lparr>env_payload = [1], env_signature = [2]\<rparr> [grpc_orderer ''o1'', grpc_orderer ''o2''] (lit ''07'') [] =
    broadcast_to_orderers (connected_sys reference_messages example_grpc example_sys)
      \<lparr>env_payload = [1], env_signature = [2]\<rparr> [grpc_orderer ''o2''] (lit ''07'')
      [EnvelopeBroadcast (grpc_orderer ''o1'') \<lparr>env_payload = [1], env_signature = [2]\<rparr>]"
proof -
  have "nd_endorser (example_nodes (node_channel (grpc_orderer ''o1''))) = Some EndorserServicer_class"
    "nd_broadcast (example_nodes (node_channel (grpc_orderer ''o1''))) = Some AtomicBroadcastServicer_class"
    by (simp_all add: example_nodes_def node_channel_def grpc_orderer_def)
  moreover have "node_channel (grpc_peer\<lparr>grpc_channel := grpc_channel (grpc_orderer ''o1'')\<rparr>) =
      node_channel (grpc_orderer ''o1'')"
    by (simp add: node_channel_def)
  ultimately show ?thesis
    using unimplemented_service(2) [OF example_wired, of "grpc_peer\<lparr>grpc_channel := grpc_channel (grpc_orderer ''o1'')\<rparr>"
      "grpc_orderer ''o1''" "[grpc_orderer ''o2'']"] by simp
qed

end
