(* ===== verification/Services.thy ===== *)
theory Services
  imports Stubs
begin

text \<open>
  The generated gRPC modules of the services the client does not call
  (\<open>protos/peer/admin_pb2_grpc.py\<close>, \<open>protos/gossip/message_pb2_grpc.py\<close>,
  \<open>protos/orderer/cluster_pb2_grpc.py\<close>, \<open>protos/token/prover_pb2_grpc.py\<close>,
  \<open>protos/peer/chaincode_shim_pb2_grpc.py\<close>, \<open>protos/discovery/protocol_pb2_grpc.py\<close>), against
  the service descriptors that the \<open>_pb2\<close> modules beside them hold. Their messages are named
  by type and not modelled field by field: a stub or a handler says which message class
  serializes and which one parses. A method takes the list of its requests and gives the
  list of its responses, a single one where it does not stream.
\<close>

section \<open>Descriptors\<close>

text \<open>The message classes, by their packages.\<close>

datatype message_type =
    common_Envelope
  | discovery_Response
  | discovery_SignedRequest
  | google_protobuf_Empty
  | gossip_Empty
  | gossip_Envelope
  | orderer_BroadcastResponse
  | orderer_DeliverResponse
  | orderer_StepRequest
  | orderer_StepResponse
  | orderer_SubmitRequest
  | orderer_SubmitResponse
  | protos_ChaincodeMessage
  | protos_DeliverResponse
  | protos_LogLevelResponse
  | protos_LogSpecResponse
  | protos_ProposalResponse
  | protos_ServerStatus
  | protos_SignedProposal
  | token_SignedCommand
  | token_SignedCommandResponse

record method_desc =
  md_name :: pystr
  md_full_name :: pystr
  md_index :: nat
  md_input :: message_type
  md_output :: message_type

abbreviation method_descriptor ::
  "pystr \<Rightarrow> pystr \<Rightarrow> nat \<Rightarrow> message_type \<Rightarrow> message_type \<Rightarrow> method_desc" where
  "method_descriptor n f i q r \<equiv>
    \<lparr>md_name = n, md_full_name = f, md_index = i, md_input = q, md_output = r\<rparr>"

record service_descriptor =
  sd_name :: pystr
  sd_full_name :: pystr
  sd_methods :: "method_desc list"

definition Admin_descriptor :: service_descriptor where
  "Admin_descriptor =
    \<lparr>sd_name = lit ''Admin'', sd_full_name = lit ''protos.Admin'',
     sd_methods =
       [method_descriptor (lit ''GetStatus'') (lit ''protos.Admin.GetStatus'') 0 common_Envelope protos_ServerStatus,
        method_descriptor (lit ''StartServer'') (lit ''protos.Admin.StartServer'') 1 common_Envelope protos_ServerStatus,
        method_descriptor (lit ''GetModuleLogLevel'') (lit ''protos.Admin.GetModuleLogLevel'') 2 common_Envelope protos_LogLevelResponse,
        method_descriptor (lit ''SetModuleLogLevel'') (lit ''protos.Admin.SetModuleLogLevel'') 3 common_Envelope protos_LogLevelResponse,
        method_descriptor (lit ''RevertLogLevels'') (lit ''protos.Admin.RevertLogLevels'') 4 common_Envelope google_protobuf_Empty,
        method_descriptor (lit ''GetLogSpec'') (lit ''protos.Admin.GetLogSpec'') 5 common_Envelope protos_LogSpecResponse,
        method_descriptor (lit ''SetLogSpec'') (lit ''protos.Admin.SetLogSpec'') 6 common_Envelope protos_LogSpecResponse]\<rparr>"

definition Gossip_descriptor :: service_descriptor where
  "Gossip_descriptor =
    \<lparr>sd_name = lit ''Gossip'', sd_full_name = lit ''gossip.Gossip'',
     sd_methods =
       [method_descriptor (lit ''GossipStream'') (lit ''gossip.Gossip.GossipStream'') 0 gossip_Envelope gossip_Envelope,
        method_descriptor (lit ''Ping'') (lit ''gossip.Gossip.Ping'') 1 gossip_Empty gossip_Empty]\<rparr>"

definition Cluster_descriptor :: service_descriptor where
  "Cluster_descriptor =
    \<lparr>sd_name = lit ''Cluster'', sd_full_name = lit ''orderer.Cluster'',
     sd_methods =
       [method_descriptor (lit ''Submit'') (lit ''orderer.Cluster.Submit'') 0 orderer_SubmitRequest orderer_SubmitResponse,
        method_descriptor (lit ''Step'') (lit ''orderer.Cluster.Step'') 1 orderer_StepRequest orderer_StepResponse]\<rparr>"

definition Prover_descriptor :: service_descriptor where
  "Prover_descriptor =
    \<lparr>sd_name = lit ''Prover'', sd_full_name = lit ''token.Prover'',
     sd_methods =
       [method_descriptor (lit ''ProcessCommand'') (lit ''token.Prover.ProcessCommand'') 0 token_SignedCommand token_SignedCommandResponse]\<rparr>"

definition ChaincodeSupport_descriptor :: service_descriptor where
  "ChaincodeSupport_descriptor =
    \<lparr>sd_name = lit ''ChaincodeSupport'', sd_full_name = lit ''protos.ChaincodeSupport'',
     sd_methods =
       [method_descriptor (lit ''Register'') (lit ''protos.ChaincodeSupport.Register'') 0 protos_ChaincodeMessage protos_ChaincodeMessage]\<rparr>"

definition Discovery_descriptor :: service_descriptor where
  "Discovery_descriptor =
    \<lparr>sd_name = lit ''Discovery'', sd_full_name = lit ''discovery.Discovery'',
     sd_methods =
       [method_descriptor (lit ''Discover'') (lit ''discovery.Discovery.Discover'') 0 discovery_SignedRequest discovery_Response]\<rparr>"

definition Endorser_descriptor :: service_descriptor where
  "Endorser_descriptor =
    \<lparr>sd_name = lit ''Endorser'', sd_full_name = lit ''protos.Endorser'',
     sd_methods =
       [method_descriptor (lit ''ProcessProposal'') (lit ''protos.Endorser.ProcessProposal'') 0 protos_SignedProposal protos_ProposalResponse]\<rparr>"

definition Deliver_descriptor :: service_descriptor where
  "Deliver_descriptor =
    \<lparr>sd_name = lit ''Deliver'', sd_full_name = lit ''protos.Deliver'',
     sd_methods =
       [method_descriptor (lit ''Deliver'') (lit ''protos.Deliver.Deliver'') 0 common_Envelope protos_DeliverResponse,
        method_descriptor (lit ''DeliverFiltered'') (lit ''protos.Deliver.DeliverFiltered'') 1 common_Envelope protos_DeliverResponse]\<rparr>"

definition AtomicBroadcast_descriptor :: service_descriptor where
  "AtomicBroadcast_descriptor =
    \<lparr>sd_name = lit ''AtomicBroadcast'', sd_full_name = lit ''orderer.AtomicBroadcast'',
     sd_methods =
       [method_descriptor (lit ''Broadcast'') (lit ''orderer.AtomicBroadcast.Broadcast'') 0 common_Envelope orderer_BroadcastResponse,
        method_descriptor (lit ''Deliver'') (lit ''orderer.AtomicBroadcast.Deliver'') 1 common_Envelope orderer_DeliverResponse]\<rparr>"

section \<open>Stubs, servicers and servers\<close>

datatype call_kind = UnaryUnary | StreamStream

text \<open>What a stub gets from \<open>channel.unary_unary\<close> and \<open>channel.stream_stream\<close>.\<close>

record callable =
  ca_kind :: call_kind
  ca_channel :: grpc_channel
  ca_path :: pystr
  ca_request :: message_type
  ca_response :: message_type

abbreviation channel_call ::
  "call_kind \<Rightarrow> grpc_channel \<Rightarrow> pystr \<Rightarrow> message_type \<Rightarrow> message_type \<Rightarrow> callable" where
  "channel_call k c p q r \<equiv>
    \<lparr>ca_kind = k, ca_channel = c, ca_path = p, ca_request = q, ca_response = r\<rparr>"

type_synonym stub = "(pystr \<times> callable) list"

text \<open>A servicer by the methods it has; the values of messages are a parameter.\<close>

type_synonym 'v servicer = "(pystr \<times> ('v list \<Rightarrow> rpc_context \<Rightarrow> 'v list served)) list"

definition attribute :: "(pystr \<times> 'a) list \<Rightarrow> pystr \<Rightarrow> 'a result" where
  "attribute obj name = of_option (AttributeError name) (map_of obj name)"

text \<open>A method handler: its kind, the servicer's method and the classes that parse its
  requests and serialize its responses.\<close>

record 'v service_handler =
  sh_kind :: call_kind
  sh_method :: "'v list \<Rightarrow> rpc_context \<Rightarrow> 'v list served"
  sh_request :: message_type
  sh_response :: message_type

type_synonym 'v rpc_server = "(pystr \<times> (pystr \<times> 'v service_handler) list) list"

text \<open>A dictionary of method handlers, each with the servicer's attribute it takes.\<close>

definition rpc_method_handlers ::
  "'v servicer \<Rightarrow> (pystr \<times> call_kind \<times> pystr \<times> message_type \<times> message_type) list \<Rightarrow>
    (pystr \<times> 'v service_handler) list result" where
  "rpc_method_handlers servicer = map_res (\<lambda>(name, k, attr, q, r).
    bind_res (attribute servicer attr) (\<lambda>f.
      Inr (name, \<lparr>sh_kind = k, sh_method = f, sh_request = q, sh_response = r\<rparr>)))"

definition AdminStub_init :: "grpc_channel \<Rightarrow> stub" where
  "AdminStub_init channel =
    [(lit ''GetStatus'', channel_call UnaryUnary channel (lit ''/protos.Admin/GetStatus'') common_Envelope protos_ServerStatus),
     (lit ''StartServer'', channel_call UnaryUnary channel (lit ''/protos.Admin/StartServer'') common_Envelope protos_ServerStatus),
     (lit ''GetModuleLogLevel'', channel_call UnaryUnary channel (lit ''/protos.Admin/GetModuleLogLevel'') common_Envelope protos_LogLevelResponse),
     (lit ''SetModuleLogLevel'', channel_call UnaryUnary channel (lit ''/protos.Admin/SetModuleLogLevel'') common_Envelope protos_LogLevelResponse),
     (lit ''RevertLogLevels'', channel_call UnaryUnary channel (lit ''/protos.Admin/RevertLogLevels'') common_Envelope google_protobuf_Empty),
     (lit ''GetLogSpec'', channel_call UnaryUnary channel (lit ''/protos.Admin/GetLogSpec'') common_Envelope protos_LogSpecResponse),
     (lit ''SetLogSpec'', channel_call UnaryUnary channel (lit ''/protos.Admin/SetLogSpec'') common_Envelope protos_LogSpecResponse)]"

definition AdminServicer_class :: "'v servicer" where
  "AdminServicer_class =
    [(lit ''GetStatus'', \<lambda>request. not_implemented),
     (lit ''StartServer'', \<lambda>request. not_implemented),
     (lit ''GetModuleLogLevel'', \<lambda>request. not_implemented),
     (lit ''SetModuleLogLevel'', \<lambda>request. not_implemented),
     (lit ''RevertLogLevels'', \<lambda>request. not_implemented),
     (lit ''GetLogSpec'', \<lambda>request. not_implemented),
     (lit ''SetLogSpec'', \<lambda>request. not_implemented)]"

definition add_AdminServicer_to_server :: "'v servicer \<Rightarrow> 'v rpc_server \<Rightarrow> 'v rpc_server result" where
  "add_AdminServicer_to_server servicer server =
    bind_res (rpc_method_handlers servicer
      [(lit ''GetStatus'', UnaryUnary, lit ''GetStatus'', common_Envelope, protos_ServerStatus),
       (lit ''StartServer'', UnaryUnary, lit ''StartServer'', common_Envelope, protos_ServerStatus),
       (lit ''GetModuleLogLevel'', UnaryUnary, lit ''GetModuleLogLevel'', common_Envelope, protos_LogLevelResponse),
       (lit ''SetModuleLogLevel'', UnaryUnary, lit ''SetModuleLogLevel'', common_Envelope, protos_LogLevelResponse),
       (lit ''RevertLogLevels'', UnaryUnary, lit ''RevertLogLevels'', common_Envelope, google_protobuf_Empty),
       (lit ''GetLogSpec'', UnaryUnary, lit ''GetLogSpec'', common_Envelope, protos_LogSpecResponse),
       (lit ''SetLogSpec'', UnaryUnary, lit ''SetLogSpec'', common_Envelope, protos_LogSpecResponse)])
    (\<lambda>handlers. Inr (server @ [(lit ''protos.Admin'', handlers)]))"

definition GossipStub_init :: "grpc_channel \<Rightarrow> stub" where
  "GossipStub_init channel =
    [(lit ''GossipStream'', channel_call StreamStream channel (lit ''/gossip.Gossip/GossipStream'') gossip_Envelope gossip_Envelope),
     (lit ''Ping'', channel_call UnaryUnary channel (lit ''/gossip.Gossip/Ping'') gossip_Empty gossip_Empty)]"

definition GossipServicer_class :: "'v servicer" where
  "GossipServicer_class =
    [(lit ''GossipStream'', \<lambda>request_iterator. not_implemented),
     (lit ''Ping'', \<lambda>request. not_implemented)]"

definition add_GossipServicer_to_server :: "'v servicer \<Rightarrow> 'v rpc_server \<Rightarrow> 'v rpc_server result" where
  "add_GossipServicer_to_server servicer server =
    bind_res (rpc_method_handlers servicer
      [(lit ''GossipStream'', StreamStream, lit ''GossipStream'', gossip_Envelope, gossip_Envelope),
       (lit ''Ping'', UnaryUnary, lit ''Ping'', gossip_Empty, gossip_Empty)])
    (\<lambda>handlers. Inr (server @ [(lit ''gossip.Gossip'', handlers)]))"

definition ClusterStub_init :: "grpc_channel \<Rightarrow> stub" where
  "ClusterStub_init channel =
    [(lit ''Submit'', channel_call StreamStream channel (lit ''/orderer.Cluster/Submit'') orderer_SubmitRequest orderer_SubmitResponse),
     (lit ''Step'', channel_call UnaryUnary channel (lit ''/orderer.Cluster/Step'') orderer_StepRequest orderer_StepResponse)]"

definition ClusterServicer_class :: "'v servicer" where
  "ClusterServicer_class =
    [(lit ''Submit'', \<lambda>request_iterator. not_implemented),
     (lit ''Step'', \<lambda>request. not_implemented)]"

definition add_ClusterServicer_to_server :: "'v servicer \<Rightarrow> 'v rpc_server \<Rightarrow> 'v rpc_server result" where
  "add_ClusterServicer_to_server servicer server =
    bind_res (rpc_method_handlers servicer
      [(lit ''Submit'', StreamStream, lit ''Submit'', orderer_SubmitRequest, orderer_SubmitResponse),
       (lit ''Step'', UnaryUnary, lit ''Step'', orderer_StepRequest, orderer_StepResponse)])
    (\<lambda>handlers. Inr (server @ [(lit ''orderer.Cluster'', handlers)]))"

definition ProverStub_init :: "grpc_channel \<Rightarrow> stub" where
  "ProverStub_init channel =
    [(lit ''ProcessCommand'', channel_call UnaryUnary channel (lit ''/token.Prover/ProcessCommand'') token_SignedCommand token_SignedCommandResponse)]"

definition ProverServicer_class :: "'v servicer" where
  "ProverServicer_class =
    [(lit ''ProcessCommand'', \<lambda>request. not_implemented)]"

definition add_ProverServicer_to_server :: "'v servicer \<Rightarrow> 'v rpc_server \<Rightarrow> 'v rpc_server result" where
  "add_ProverServicer_to_server servicer server =
    bind_res (rpc_method_handlers servicer
      [(lit ''ProcessCommand'', UnaryUnary, lit ''ProcessCommand'', token_SignedCommand, token_SignedCommandResponse)])
    (\<lambda>handlers. Inr (server @ [(lit ''token.Prover'', handlers)]))"

definition ChaincodeSupportStub_init :: "grpc_channel \<Rightarrow> stub" where
  "ChaincodeSupportStub_init channel =
    [(lit ''Register'', channel_call StreamStream channel (lit ''/protos.ChaincodeSupport/Register'') protos_ChaincodeMessage protos_ChaincodeMessage)]"

definition ChaincodeSupportServicer_class :: "'v servicer" where
  "ChaincodeSupportServicer_class =
    [(lit ''Register'', \<lambda>request_iterator. not_implemented)]"

definition add_ChaincodeSupportServicer_to_server :: "'v servicer \<Rightarrow> 'v rpc_server \<Rightarrow> 'v rpc_server result" where
  "add_ChaincodeSupportServicer_to_server servicer server =
    bind_res (rpc_method_handlers servicer
      [(lit ''Register'', StreamStream, lit ''Register'', protos_ChaincodeMessage, protos_ChaincodeMessage)])
    (\<lambda>handlers. Inr (server @ [(lit ''protos.ChaincodeSupport'', handlers)]))"

definition DiscoveryStub_init :: "grpc_channel \<Rightarrow> stub" where
  "DiscoveryStub_init channel =
    [(lit ''Discover'', channel_call UnaryUnary channel (lit ''/discovery.Discovery/Discover'') discovery_SignedRequest discovery_Response)]"

definition DiscoveryServicer_class :: "'v servicer" where
  "DiscoveryServicer_class =
    [(lit ''Discover'', \<lambda>request. not_implemented)]"

definition add_DiscoveryServicer_to_server :: "'v servicer \<Rightarrow> 'v rpc_server \<Rightarrow> 'v rpc_server result" where
  "add_DiscoveryServicer_to_server servicer server =
    bind_res (rpc_method_handlers servicer
      [(lit ''Discover'', UnaryUnary, lit ''Discover'', discovery_SignedRequest, discovery_Response)])
    (\<lambda>handlers. Inr (server @ [(lit ''discovery.Discovery'', handlers)]))"

text \<open>The stub that \<open>__post_init__\<close> of a peer makes besides those of Stubs.\<close>

definition peer_discovery :: "Peer \<Rightarrow> stub" where
  "peer_discovery p = DiscoveryStub_init (node_channel p)"

section \<open>Paths\<close>

definition rpc_path :: "pystr \<Rightarrow> pystr \<Rightarrow> pystr" where
  "rpc_path service name = lit ''/'' @ service @ lit ''/'' @ name"

text \<open>47 is the slash: a path has one service as long as service names have none.\<close>

lemma append_slash_inject:
  assumes "47 \<notin> set s" "47 \<notin> set s'" "s @ 47 # n = s' @ 47 # n'"
  shows "s = s' \<and> n = n'"
proof -
  from assms(3) have "takeWhile (\<lambda>c. c \<noteq> 47) (s @ 47 # n) = takeWhile (\<lambda>c. c \<noteq> 47) (s' @ 47 # n')" by simp
  moreover have "takeWhile (\<lambda>c. c \<noteq> 47) (s @ 47 # n) = s" "takeWhile (\<lambda>c. c \<noteq> 47) (s' @ 47 # n') = s'"
    using assms(1,2) by (auto simp: takeWhile_append2 takeWhile_tail)
  ultimately show ?thesis using assms(3) by simp
qed

lemma rpc_path_inject:
  "47 \<notin> set s \<Longrightarrow> 47 \<notin> set s' \<Longrightarrow> rpc_path s n = rpc_path s' n' \<longleftrightarrow> s = s' \<and> n = n'"
  using append_slash_inject [of s s' n n'] by (auto simp: rpc_path_def)

lemma handler_of_Nil [simp]: "handler_of [] path = None"
  by (simp add: handler_of_def)

lemma map_of_paths:
  "47 \<notin> set s \<Longrightarrow> 47 \<notin> set s' \<Longrightarrow>
    map_of (map (\<lambda>(name, h). (rpc_path s' name, h)) hs) (rpc_path s n) = (if s = s' then map_of hs n else None)"
  by (induction hs) (auto simp: rpc_path_inject)

lemma handler_of_Cons:
  assumes "47 \<notin> set s" "47 \<notin> set s'"
  shows "handler_of ((s', hs) # server) (rpc_path s n) =
    (case if s = s' then map_of hs n else None of None \<Rightarrow> handler_of server (rpc_path s n) | Some h \<Rightarrow> Some h)"
  using map_of_paths [OF assms, of hs n]
  by (auto simp: handler_of_def rpc_path_def map_add_def split: option.split)

lemma handler_of_other:
  "47 \<notin> set s \<Longrightarrow> \<forall>s' \<in> fst ` set server. 47 \<notin> set s' \<and> s' \<noteq> s \<Longrightarrow> handler_of server (rpc_path s n) = None"
  by (induction server) (auto simp: handler_of_Cons)

lemma handler_of_member:
  assumes "distinct (map fst server)" "\<forall>s' \<in> fst ` set server. 47 \<notin> set s'" "(s, hs) \<in> set server"
  shows "handler_of server (rpc_path s n) = map_of hs n"
  using assms
proof (induction server)
  case (Cons a server)
  show ?case
  proof (cases "a = (s, hs)")
    case True
    with Cons.prems have "\<forall>s' \<in> fst ` set server. 47 \<notin> set s' \<and> s' \<noteq> s" by force
    with True Cons.prems(2) show ?thesis
      by (simp add: handler_of_Cons handler_of_other split: option.split)
  next
    case False
    with Cons.prems have m: "(s, hs) \<in> set server" by simp
    then have "s \<in> fst ` set server" by force
    with Cons.prems(1) have "fst a \<noteq> s" by auto
    moreover have "47 \<notin> set s" "47 \<notin> set (fst a)" using m Cons.prems(2) by force+
    ultimately show ?thesis
      using Cons.IH Cons.prems m by (cases a) (simp add: handler_of_Cons)
  qed
qed simp

section \<open>What a generated service is\<close>

text \<open>
  A stub and a registration function that are generated from a service descriptor: one
  method each per method of the descriptor, on the path of its service and its name, with
  its message classes.
\<close>

locale generated_service =
  fixes desc :: service_descriptor
    and stub_init :: "grpc_channel \<Rightarrow> stub"
    and add :: "'v servicer \<Rightarrow> 'v rpc_server \<Rightarrow> 'v rpc_server result"
    and base :: "'v servicer"
    and kind :: "pystr \<Rightarrow> call_kind"
  assumes names: "distinct (map md_name (sd_methods desc))"
    and no_slash: "47 \<notin> set (sd_full_name desc)"
    and stub: "stub_init channel = map (\<lambda>m. (md_name m, channel_call (kind (md_name m)) channel
        (rpc_path (sd_full_name desc) (md_name m)) (md_input m) (md_output m))) (sd_methods desc)"
    and add: "add servicer server = bind_res (rpc_method_handlers servicer
        (map (\<lambda>m. (md_name m, kind (md_name m), md_name m, md_input m, md_output m)) (sd_methods desc)))
        (\<lambda>handlers. Inr (server @ [(sd_full_name desc, handlers)]))"
    and base: "base = map (\<lambda>m. (md_name m, \<lambda>requests. not_implemented)) (sd_methods desc)"
begin

lemma handlers_lookup:
  assumes "rpc_method_handlers servicer
      (map (\<lambda>m. (md_name m, kind (md_name m), md_name m, md_input m, md_output m)) ms) = Inr hs"
    and "m \<in> set ms" "distinct (map md_name ms)"
  shows "\<exists>f. attribute servicer (md_name m) = Inr f \<and> map_of hs (md_name m) =
    Some \<lparr>sh_kind = kind (md_name m), sh_method = f, sh_request = md_input m, sh_response = md_output m\<rparr>"
  using assms
proof (induction ms arbitrary: hs)
  case (Cons a ms)
  from Cons.prems(1) obtain f hs' where f: "attribute servicer (md_name a) = Inr f" and
    hs: "hs = (md_name a, \<lparr>sh_kind = kind (md_name a), sh_method = f, sh_request = md_input a,
      sh_response = md_output a\<rparr>) # hs'" and
    rest: "rpc_method_handlers servicer
      (map (\<lambda>m. (md_name m, kind (md_name m), md_name m, md_input m, md_output m)) ms) = Inr hs'"
    by (auto simp: rpc_method_handlers_def)
  show ?case
  proof (cases "m = a")
    case True
    with f hs show ?thesis by simp
  next
    case False
    with Cons.prems(2) have "m \<in> set ms" by simp
    moreover from this Cons.prems(3) have "md_name m \<noteq> md_name a" by (metis distinct.simps(2) image_eqI list.set_map list.simps(9))
    ultimately have "m \<in> set ms" "md_name m \<noteq> md_name a" by blast+
    with Cons.IH [OF rest] Cons.prems(3) hs show ?thesis by auto
  qed
qed simp

lemma registered:
  assumes "add servicer server = Inr server'"
  obtains hs where "server' = server @ [(sd_full_name desc, hs)]" "rpc_method_handlers servicer
    (map (\<lambda>m. (md_name m, kind (md_name m), md_name m, md_input m, md_output m)) (sd_methods desc)) = Inr hs"
  using assms by (auto simp: add)

lemma routed:
  assumes "add servicer server0 = Inr server1" "set server1 \<subseteq> set server"
    and "distinct (map fst server)" "\<forall>s \<in> fst ` set server. 47 \<notin> set s"
    and "(name, c) \<in> set (stub_init channel)"
  shows "\<exists>f h. attribute servicer name = Inr f \<and> handler_of server (ca_path c) = Some h \<and> sh_method h = f \<and>
    sh_kind h = ca_kind c \<and> sh_request h = ca_request c \<and> sh_response h = ca_response c \<and> ca_channel c = channel"
proof -
  from registered [OF assms(1)] obtain hs where "server1 = server0 @ [(sd_full_name desc, hs)]" and
    hs: "rpc_method_handlers servicer (map (\<lambda>m. (md_name m, kind (md_name m), md_name m, md_input m, md_output m))
      (sd_methods desc)) = Inr hs" .
  then have mem: "(sd_full_name desc, hs) \<in> set server" using assms(2) by auto
  from assms(5) obtain m where m: "m \<in> set (sd_methods desc)" "name = md_name m" and
    c: "c = channel_call (kind (md_name m)) channel (rpc_path (sd_full_name desc) (md_name m)) (md_input m) (md_output m)"
    by (auto simp: stub)
  from handlers_lookup [OF hs m(1) names] handler_of_member [OF assms(3,4) mem, of "md_name m"] show ?thesis
    by (auto simp: c m(2))
qed

lemma complete_servicer:
  "(\<exists>server'. add servicer server = Inr server') \<longleftrightarrow> (\<forall>(name, c) \<in> set (stub_init channel). name \<in> fst ` set servicer)"
proof -
  have "(\<exists>hs. rpc_method_handlers servicer
      (map (\<lambda>m. (md_name m, kind (md_name m), md_name m, md_input m, md_output m)) ms) = Inr hs) \<longleftrightarrow>
    (\<forall>m \<in> set ms. md_name m \<in> fst ` set servicer)" for ms
  proof (induction ms)
    case (Cons m ms)
    have "(\<exists>f. attribute servicer (md_name m) = Inr f) \<longleftrightarrow> md_name m \<in> fst ` set servicer"
      using map_of_eq_None_iff [of servicer "md_name m"] by (auto simp: attribute_def)
    with Cons.IH show ?case by (auto simp: rpc_method_handlers_def)
  qed (simp add: rpc_method_handlers_def)
  then show ?thesis by (auto simp: add stub)
qed

lemma map_of_const: "n \<in> f ` set ms \<Longrightarrow> map_of (map (\<lambda>m. (f m, x)) ms) n = Some x"
  by (induction ms) auto

lemma base_not_implemented:
  assumes "(name, c) \<in> set (stub_init channel)"
  shows "attribute base name = Inr (\<lambda>requests. not_implemented)"
proof -
  have "name \<in> md_name ` set (sd_methods desc)" using assms by (auto simp: stub)
  from map_of_const [OF this] show ?thesis by (simp add: attribute_def base)
qed

lemma as_described:
  assumes "(name, c) \<in> set (stub_init channel)"
  shows "\<exists>m \<in> set (sd_methods desc). name = md_name m \<and> ca_request c = md_input m \<and> ca_response c = md_output m"
  using assms by (auto simp: stub)

end

text \<open>The six services are generated from their descriptors.\<close>

interpretation admin: generated_service Admin_descriptor AdminStub_init add_AdminServicer_to_server AdminServicer_class
  "\<lambda>n. UnaryUnary"
  by unfold_locales (simp_all add: Admin_descriptor_def AdminStub_init_def add_AdminServicer_to_server_def
    AdminServicer_class_def rpc_path_def)

interpretation gossip: generated_service Gossip_descriptor GossipStub_init add_GossipServicer_to_server GossipServicer_class
  "\<lambda>n. if n = lit ''GossipStream'' then StreamStream else UnaryUnary"
  by unfold_locales (simp_all add: Gossip_descriptor_def GossipStub_init_def add_GossipServicer_to_server_def
    GossipServicer_class_def rpc_path_def)

interpretation cluster: generated_service Cluster_descriptor ClusterStub_init add_ClusterServicer_to_server ClusterServicer_class
  "\<lambda>n. if n = lit ''Submit'' then StreamStream else UnaryUnary"
  by unfold_locales (simp_all add: Cluster_descriptor_def ClusterStub_init_def add_ClusterServicer_to_server_def
    ClusterServicer_class_def rpc_path_def)

interpretation prover: generated_service Prover_descriptor ProverStub_init add_ProverServicer_to_server ProverServicer_class
  "\<lambda>n. UnaryUnary"
  by unfold_locales (simp_all add: Prover_descriptor_def ProverStub_init_def add_ProverServicer_to_server_def
    ProverServicer_class_def rpc_path_def)

interpretation shim: generated_service ChaincodeSupport_descriptor ChaincodeSupportStub_init add_ChaincodeSupportServicer_to_server ChaincodeSupportServicer_class
  "\<lambda>n. StreamStream"
  by unfold_locales (simp_all add: ChaincodeSupport_descriptor_def ChaincodeSupportStub_init_def add_ChaincodeSupportServicer_to_server_def
    ChaincodeSupportServicer_class_def rpc_path_def)

interpretation discovery: generated_service Discovery_descriptor DiscoveryStub_init add_DiscoveryServicer_to_server DiscoveryServicer_class
  "\<lambda>n. UnaryUnary"
  by unfold_locales (simp_all add: Discovery_descriptor_def DiscoveryStub_init_def add_DiscoveryServicer_to_server_def
    DiscoveryServicer_class_def rpc_path_def)

text \<open>
  A service of the package: its descriptor, the class of its stub, the registration function
  and the servicer's base class.
\<close>

definition services ::
  "(service_descriptor \<times> (grpc_channel \<Rightarrow> stub) \<times> ('v servicer \<Rightarrow> 'v rpc_server \<Rightarrow> 'v rpc_server result) \<times> 'v servicer) list"
  where
  "services =
    [(Admin_descriptor, AdminStub_init, add_AdminServicer_to_server, AdminServicer_class),
     (Gossip_descriptor, GossipStub_init, add_GossipServicer_to_server, GossipServicer_class),
     (Cluster_descriptor, ClusterStub_init, add_ClusterServicer_to_server, ClusterServicer_class),
     (Prover_descriptor, ProverStub_init, add_ProverServicer_to_server, ProverServicer_class),
     (ChaincodeSupport_descriptor, ChaincodeSupportStub_init, add_ChaincodeSupportServicer_to_server,
       ChaincodeSupportServicer_class),
     (Discovery_descriptor, DiscoveryStub_init, add_DiscoveryServicer_to_server, DiscoveryServicer_class)]"

lemma services_generated:
  "(desc, stub_init, add, base) \<in> set services \<Longrightarrow> \<exists>kind. generated_service desc stub_init add base kind"
  unfolding services_def
  using admin.generated_service_axioms gossip.generated_service_axioms cluster.generated_service_axioms
    prover.generated_service_axioms shim.generated_service_axioms discovery.generated_service_axioms by auto

text \<open>
  C40. Each of the six services is what its descriptor says, on both sides of a connection.
  However many services a server has and in whatever order they were added, as long as their
  names differ and have no slash, a call through a stub reaches the method of that name of
  the service's own servicer, with the descriptor's message classes for request and response
  at both ends and the same kind of streaming. Registering a servicer works exactly if it has
  all methods; one that overrides nothing answers every call as not implemented.
\<close>

theorem services_routed:
  assumes "(desc, stub_init, add, base) \<in> set services"
    and "add servicer server0 = Inr server1" "set server1 \<subseteq> set server"
    and "distinct (map fst server)" "\<forall>s \<in> fst ` set server. 47 \<notin> set s"
    and "(name, c) \<in> set (stub_init channel)"
  shows "(\<exists>f h. attribute servicer name = Inr f \<and> handler_of server (ca_path c) = Some h \<and> sh_method h = f \<and>
      sh_kind h = ca_kind c \<and> sh_request h = ca_request c \<and> sh_response h = ca_response c) \<and>
    (\<exists>m \<in> set (sd_methods desc). name = md_name m \<and> ca_request c = md_input m \<and> ca_response c = md_output m) \<and>
    attribute base name = Inr (\<lambda>requests. not_implemented) \<and>
    ((\<exists>server'. add other server = Inr server') \<longleftrightarrow>
      (\<forall>(name, c) \<in> set (stub_init channel). name \<in> fst ` set other))"
proof -
  from services_generated [OF assms(1)] obtain kind where g: "generated_service desc stub_init add base kind" by blast
  show ?thesis
    using generated_service.routed [OF g assms(2-6)] generated_service.as_described [OF g assms(6)]
      generated_service.base_not_implemented [OF g assms(6)] generated_service.complete_servicer [OF g] by blast
qed

text \<open>The three services the client calls are on the paths of their descriptors, too.\<close>

lemma client_paths:
  "[mc_path (es_ProcessProposal (EndorserStub_init M channel))] =
    map (rpc_path (sd_full_name Endorser_descriptor) \<circ> md_name) (sd_methods Endorser_descriptor)"
  "[mc_path (ds_Deliver (DeliverStub_init pb M channel)), mc_path (ds_DeliverFiltered (DeliverStub_init pb M channel))] =
    map (rpc_path (sd_full_name Deliver_descriptor) \<circ> md_name) (sd_methods Deliver_descriptor)"
  "[mc_path (ab_Broadcast (AtomicBroadcastStub_init pb M channel)),
    mc_path (ab_Deliver (AtomicBroadcastStub_init pb M channel))] =
    map (rpc_path (sd_full_name AtomicBroadcast_descriptor) \<circ> md_name) (sd_methods AtomicBroadcast_descriptor)"
  by (simp_all add: Endorser_descriptor_def Deliver_descriptor_def AtomicBroadcast_descriptor_def
      EndorserStub_init_def DeliverStub_init_def AtomicBroadcastStub_init_def rpc_path_def)

text \<open>A peer with an administration service and the gossip service, whose ping answers.\<close>

definition example_gossip :: "nat servicer" where
  "example_gossip = [(lit ''Ping'', \<lambda>requests context. (Inr requests, context)),
    (lit ''GossipStream'', \<lambda>requests. not_implemented)]"

theorem services_routed_witness:
  "\<exists>server h f. bind_res (add_AdminServicer_to_server AdminServicer_class []) (add_GossipServicer_to_server example_gossip) =
      Inr server \<and> handler_of server (lit ''/gossip.Gossip/Ping'') = Some h \<and> sh_method h = f \<and>
    attribute example_gossip (lit ''Ping'') = Inr f \<and> f [3] new_context = (Inr [3], new_context)"
proof -
  have svc: "(Gossip_descriptor, GossipStub_init, add_GossipServicer_to_server, GossipServicer_class) \<in>
      set (services :: (_ \<times> _ \<times> (nat servicer \<Rightarrow> _) \<times> _) list)" by (simp add: services_def)
  obtain s0 :: "nat rpc_server" where s0: "add_AdminServicer_to_server AdminServicer_class [] = Inr s0" "map fst s0 = [lit ''protos.Admin'']"
    by (simp add: add_AdminServicer_to_server_def AdminServicer_class_def rpc_method_handlers_def attribute_def)
  obtain hs where s1: "add_GossipServicer_to_server example_gossip s0 = Inr (s0 @ [(lit ''gossip.Gossip'', hs)])"
    by (simp add: add_GossipServicer_to_server_def example_gossip_def rpc_method_handlers_def attribute_def)
  have names: "map fst (s0 @ [(lit ''gossip.Gossip'', hs)]) = [lit ''protos.Admin'', lit ''gossip.Gossip'']"
    using s0(2) by simp
  then have d: "distinct (map fst (s0 @ [(lit ''gossip.Gossip'', hs)]))" by simp
  have "set (map fst (s0 @ [(lit ''gossip.Gossip'', hs)])) = {lit ''protos.Admin'', lit ''gossip.Gossip''}"
    unfolding names by simp
  then have sl: "\<forall>s \<in> fst ` set (s0 @ [(lit ''gossip.Gossip'', hs)]). 47 \<notin> set s" by auto
  have c: "(lit ''Ping'', channel_call UnaryUnary (InsecureChannel [] []) (lit ''/gossip.Gossip/Ping'') gossip_Empty gossip_Empty) \<in>
      set (GossipStub_init (InsecureChannel [] []))" by (simp add: GossipStub_init_def)
  from services_routed [THEN conjunct1, OF svc s1 subset_refl d sl c] obtain f h where
    "attribute example_gossip (lit ''Ping'') = Inr f"
    "handler_of (s0 @ [(lit ''gossip.Gossip'', hs)]) (lit ''/gossip.Gossip/Ping'') = Some h" "sh_method h = f" by auto
  moreover from this(1) have "f [3] new_context = (Inr [3], new_context)"
    by (auto simp: attribute_def example_gossip_def)
  ultimately show ?thesis using s0(1) s1 by auto
qed

end
