(* ===== verification/Spec2Isabelle.thy ===== *)
theory Spec2Isabelle
  imports Gateway_Traffic Gateway_Progress Builder_Tasks Class_Table Session_Safety Reference_Runtime Reference_Connection
    Crypto_Suite Packaging Services
begin

text \<open>
  A verification development for snakeskin, a client of Hyperledger Fabric
  (\<open>src/snakeskin\<close>): it generates transactions, has peers endorse them, sends the endorsed
  ones to orderers and waits until a peer reports them in a block.

  \<^bold>\<open>The program and its parts.\<close> A call runs through the layers of the package in this order.
  The configuration (\<open>config.py\<close>) names peers, orderers, users and chaincodes and assembles a
  \<open>Gateway\<close> of them (\<open>models/gateway.py\<close>). The gateway generates a transaction and hands out a
  \<open>GatewayTXBuilder\<close>, which queues \<open>propose\<close>, \<open>submit\<close> and \<open>wait_for_commit\<close> and runs the
  queue when it is awaited; the operations of \<open>operations.py\<close> do the same in one call, with
  creating and joining channels and installing and instantiating chaincode. Both use the
  transaction flow of \<open>transact.py\<close>, which builds messages with \<open>factories.py\<close>, talks to nodes
  through \<open>connect.py\<close> and listens to block streams through \<open>events.py\<close>, whose blocks are
  decoded by \<open>models/block.py\<close> and \<open>models/_decoded.py\<close>. Signatures come from the suite of
  \<open>_hfc/crypto.py\<close>. Failures are the exceptions of \<open>errors.py\<close>.

  \<^bold>\<open>Conventions.\<close> Texts are lists of code points (\<open>pystr\<close>), bytes are 8-bit words, Python
  integers are \<open>int\<close>. A dataclass is a record, an \<open>Enum\<close> a datatype. A function that may raise a
  built-in exception is a function into \<open>py_error + 'a\<close> (\<open>result\<close>). Code that talks to the world
  is a function from the trace of all earlier events to an outcome and the longer trace (\<open>io\<close> in
  Effects); an outcome is a returned value, an exception or \<open>Blocked\<close>, which is waiting forever,
  so that not returning is a value and termination is a theorem. A method of the builder also
  takes and gives back the builder, so that what it stored before it raised is kept.
  Randomness is a function of the number of earlier events.

  \<^bold>\<open>Theories.\<close>

    \<^item> Prelude, Py_Text: results, truthiness, \<open>or\<close>; Latin-1, UTF-8, Base64, decimal and
      hexadecimal text, upper and lower case.
    \<^item> Proto_Enums, Proto_Messages, Proto_Runtime: the messages of \<open>protos/\<close> that the code uses,
      field by field, and the laws \<open>runtime_ok\<close> of the serialization, which is a parameter.
      Wire_Codec and Reference_Runtime give one serialization that satisfies the laws.
    \<^item> Constants (\<open>constants.py\<close>); Crypto_Suite (\<open>_hfc/crypto.py\<close>, \<open>crypto.py\<close>); Models
      (\<open>models/__init__.py\<close>); Policies (endorsement policies of \<open>models/__init__.py\<close> and their
      compilation in \<open>factories.py\<close>); Transactions (\<open>models/transaction.py\<close>); Errors
      (\<open>errors.py\<close>).
    \<^item> Effects: events, outcomes, the world \<open>sys\<close>, sequencing, handlers, \<open>asyncio.gather\<close> and
      the context manager of \<open>errors.py\<close>. Example_World: a concrete world for the witnesses.
    \<^item> Factories (\<open>factories.py\<close>); Decoded (\<open>models/_decoded.py\<close>); Blocks (\<open>models/block.py\<close>);
      Connect (\<open>connect.py\<close>); Events (\<open>events.py\<close>); Transact (\<open>transact.py\<close>).
    \<^item> Class_Table: the \<open>class\<close> statements of \<open>errors.py\<close>, \<open>events.py\<close> and \<open>_hfc/crypto.py\<close>,
      executed as Python executes them (resolution orders, abstract methods): which exception is
      caught by which handler, and which classes can be instantiated.
    \<^item> Stubs (\<open>protos/peer/peer_pb2_grpc.py\<close>, \<open>protos/peer/events_pb2_grpc.py\<close>,
      \<open>protos/orderer/ab_pb2_grpc.py\<close>): the stubs the client calls and the servicers and handlers
      on the other side. \<open>connected_sys\<close> is a world whose peers and orderers are called through
      stubs, \<open>served_sys\<close> one where their methods are called directly; Reference_Connection gives
      concrete coders and a concrete gRPC. Services: the six services the client does not call
      (\<open>admin\<close>, \<open>gossip\<close>, \<open>cluster\<close>, \<open>prover\<close>, \<open>chaincode_shim\<close> and \<open>discovery\<close>), against the
      descriptors of the \<open>_pb2\<close> modules.
    \<^item> Packaging, Channel_Operations and Operations (\<open>operations.py\<close>: \<open>package_chaincode\<close>;
      \<open>create_channel\<close> and \<open>join_channel\<close>; the six others).
    \<^item> Gateway_Builder, Gateways (\<open>models/gateway.py\<close>: \<open>GatewayTXBuilder\<close>; \<open>Gateway\<close>); Config
      (\<open>config.py\<close>). Builder_Tasks: a builder that several tasks await at once, with the queue as
      a list object that they share and steps, one request each, that interleave in any order.
    \<^item> Progress: which operations return at all. Gateway_Progress: when an invocation of a
      gateway succeeds although nodes fail. Gateway_Traffic: all it sends, whatever its outcome.
    \<^item> Trace_Logic, Discipline, Sessions, Session_Safety: a small logic for what holds of every
      event when it happens; the contract all operations obey when they send something;
      sessions, which are any sequences of calls interleaved with any number of builders; and
      three properties of every session.

  \<^bold>\<open>Interfaces.\<close> Where several operations share a contract it is a locale with an
  interpretation on the code's model: a codec whose decoding inverts its encoding, the low-s
  arithmetic of a signature group (both curves), a queue of operations and an invariant that
  every operation keeps (the builder), a service that is generated from its descriptor (six
  interpretations), the discipline of sending (which carries over to every
  session and to the builder's queue by a sublocale), and naming by dictionary key (the four
  dictionaries of the configuration).

  \<^bold>\<open>What the theorems show.\<close> For the operations: what a return means (all peers endorsed, the
  orderers were tried in order and one took the envelope, the first peer reported the
  transaction valid), that nothing is broadcast unless all peers endorsed, what is raised when
  a peer refuses, that a query only proposes, and conditions under which an invocation does
  return, even when some orderers are down. For the gateway: that it refines \<open>invoke\<close> and
  equals \<open>query\<close>, how it fails over from peer to peer, that it succeeds as long as all peers endorse, one orderer accepts and one event
  stream works, and that it never sends anything twice; for every sequence of calls of a client
  and every interleaving of tasks, the invariant of the builder; that one task alone behaves as
  the sequential builder, what a second and a failed await do, and how often concurrent awaits
  of one builder submit, which depends on their order. For whole sessions: that nothing reaches
  an orderer that was not proposed to peers or read from a file before, that all messages are
  signed by a user of the client, and that two transactions share an id only if the digests of
  their different nonces and identities collide. For messages: that what is sent decodes, for every runtime
  that satisfies \<open>runtime_ok\<close>, to what was asked for, that signatures are over the bytes sent,
  that a transaction id binds creator and nonce, and that no transient data reaches the
  orderers. For policies: that the compiled policy accepts the same sets of signers, and exactly
  which policies compile. For the suite: that signatures are low-s and accepted, that decryption
  inverts encryption, and the configuration in which it cannot. For the configuration: exactly
  when a gateway is built and of what. For the connections: that stubs and servers agree on
  paths and coders, so that the two worlds above are equal, and with them all that is proved of
  operations, and that every stub of the package reaches its servicer's method. For joining a
  channel: exactly when it returns. For the exceptions: that the predicates by which all these
  theories decide what a handler catches are what the class statements say. For all of it:
  termination whatever the event streams do.

  \<^bold>\<open>Bounds.\<close> Loops over lists are structural recursions. A stream is a finite list of messages
  with delays in milliseconds and an end, which may be that it stays open; an unbounded stream
  is seen up to the point where its consumer stops or its timeout strikes. The recursion of the
  reference decoder uses fuel equal to the length of its input, which suffices because every
  nested value is shorter (Wire_Codec). Protobuf's 32 and 64 bit fields are checked where the
  code assigns them (\<open>pb_int32\<close>, \<open>pb_uint64\<close>).

  \<^bold>\<open>Parameters.\<close> The protobuf runtime (\<open>runtime\<close>), the primitives of the packages
  \<open>cryptography\<close>, \<open>pycryptodomex\<close> and \<open>hkdf\<close> (\<open>crypto_lib\<close>, with \<open>signature_laws\<close> and
  \<open>encryption_laws\<close>), PEM loading, the file system, \<open>tarfile\<close> and \<open>gzip\<close> (\<open>host\<close>), the parsers
  of JSON and YAML and \<open>dacite\<close> (\<open>config_lib\<close>), the iteration order of sets (\<open>set_iter\<close>), case
  mappings outside ASCII, the bases of the exceptions of gRPC and protobuf (\<open>foreign_ok\<close>), the
  clock, and the answers of peers and orderers (\<open>sys\<close>), which may
  depend on everything that happened before, or else gRPC (\<open>grpc\<close>, with \<open>serves\<close>). Each law that
  is assumed is shown to hold for a concrete function by a witness.

  \<^bold>\<open>Not modelled.\<close> The generated serialization code of \<open>protos/\<close> and the messages there that
  the client does not use (of the administration, discovery, gossip, cluster, token and shim
  services, which are modelled by the names of their message classes), the re-exports of
  \<open>__init__.py\<close>, \<open>setup.py\<close>, the tests and their network. Concurrency is modelled where the code
  has it, in the simultaneous proposals of \<open>propose_tx\<close>: all are sent, and the first failure to
  complete is the one raised; and in tasks that share a builder, which interleave between any
  two requests of theirs. Tasks that share only the world interleave by calls in the sessions
  and in the traces of Builder_Tasks, where other tasks' events may come between any two steps.
\<close>

end
